(* ===== verification/Prelude.thy ===== *)
theory Prelude
  imports Main "HOL-Library.Word"
begin

text \<open>
  Shared vocabulary of the development: the outcome type of Go calls, byte and string
  conversions, positional notation (the arithmetic behind \<open>big.Int\<close>'s byte, hexadecimal and
  decimal representations), Go slices and Go map iteration, and the generic lemmas the component
  theories use.
\<close>

section \<open>Named collections\<close>

named_theorems go_defs \<open>unfolding rules of small helper definitions\<close>
named_theorems conv_simps \<open>conversions between bytes, characters and numbers\<close>

section \<open>Outcomes of Go calls\<close>

text \<open>
  A Go function with an error result returns a value, or an error; it may also panic (nil
  dereference, index out of range, explicit \<open>panic\<close>). The three outcomes are kept apart.
\<close>

datatype ('e, 'a) res = Ok 'a | Err 'e | Panic

fun res_bind :: "('e, 'a) res \<Rightarrow> ('a \<Rightarrow> ('e, 'b) res) \<Rightarrow> ('e, 'b) res" where
  "res_bind (Ok a) f = f a"
| "res_bind (Err e) f = Err e"
| "res_bind Panic f = Panic"

fun res_map_err :: "('e \<Rightarrow> 'f) \<Rightarrow> ('e, 'a) res \<Rightarrow> ('f, 'a) res" where
  "res_map_err g (Ok a) = Ok a"
| "res_map_err g (Err e) = Err (g e)"
| "res_map_err g Panic = Panic"

definition is_ok :: "('e, 'a) res \<Rightarrow> bool" where
  "is_ok r = (case r of Ok _ \<Rightarrow> True | _ \<Rightarrow> False)"

lemma is_ok_simps [simp]:
  "is_ok (Ok a)" "\<not> is_ok (Err e)" "\<not> is_ok Panic"
  by (simp_all add: is_ok_def)

lemma res_bind_Ok_iff:
  "res_bind r f = Ok b \<longleftrightarrow> (\<exists>a. r = Ok a \<and> f a = Ok b)"
  by (cases r) auto

lemma res_bind_Panic_iff:
  "res_bind r f = Panic \<longleftrightarrow> r = Panic \<or> (\<exists>a. r = Ok a \<and> f a = Panic)"
  by (cases r) auto

lemma res_map_err_iff [simp]:
  "res_map_err g r = Ok a \<longleftrightarrow> r = Ok a"
  "res_map_err g r = Panic \<longleftrightarrow> r = Panic"
  "res_map_err g r = Err e \<longleftrightarrow> (\<exists>e'. r = Err e' \<and> e = g e')"
  by (cases r; auto)+

section \<open>Bytes and strings\<close>

type_synonym byte = "8 word"
type_synonym bytes = "byte list"

text \<open>A Go string is a byte sequence; Isabelle characters are exactly the 256 byte values.\<close>

definition byte_of_char :: "char \<Rightarrow> byte" where
  "byte_of_char c = word_of_nat (of_char c)"

definition char_of_byte :: "byte \<Rightarrow> char" where
  "char_of_byte b = char_of (unat b)"

definition bytes_of_string :: "string \<Rightarrow> bytes" where
  "bytes_of_string s = map byte_of_char s"

lemma of_char_less_256 [simp]: "(of_char c :: nat) < 256"
  by simp

lemma unat_byte_of_char [conv_simps, simp]: "unat (byte_of_char c) = of_char c"
  by (simp add: byte_of_char_def unat_of_nat)

lemma char_of_byte_of_char [conv_simps, simp]: "char_of_byte (byte_of_char c) = c"
  by (simp add: char_of_byte_def)

lemma unat_byte_less [simp]: "unat (b :: byte) < 256"
  using unsigned_less [of b] by simp

lemma byte_of_char_of_byte [conv_simps, simp]: "byte_of_char (char_of_byte b) = b"
proof -
  have "(of_char (char_of_byte b) :: nat) = unat b"
    by (simp add: char_of_byte_def)
  then show ?thesis by (simp add: byte_of_char_def)
qed

lemma inj_byte_of_char: "inj byte_of_char"
  by (rule inj_on_inverseI [where g = char_of_byte]) simp

lemma length_bytes_of_string [simp]: "length (bytes_of_string s) = length s"
  by (simp add: bytes_of_string_def)

text \<open>\<open>strings.Join\<close> and \<open>strings.Fields\<close>, the latter for ASCII text.\<close>

fun strings_Join :: "string \<Rightarrow> string list \<Rightarrow> string" where
  "strings_Join sep [] = []"
| "strings_Join sep [s] = s"
| "strings_Join sep (s # t # ss) = s @ sep @ strings_Join sep (t # ss)"

text \<open>\<open>strings.Split\<close> at one character.\<close>

fun split_on :: "char \<Rightarrow> string \<Rightarrow> string list" where
  "split_on c [] = [[]]"
| "split_on c (x # xs) =
     (if x = c then [] # split_on c xs
      else case split_on c xs of
             [] \<Rightarrow> [[x]]
           | p # ps \<Rightarrow> (x # p) # ps)"

definition is_space :: "char \<Rightarrow> bool" where
  "is_space c \<longleftrightarrow> c = CHR '' '' \<or> 9 \<le> (of_char c :: nat) \<and> of_char c \<le> (13 :: nat)"

fun fields_loop :: "string \<Rightarrow> string \<Rightarrow> string list" where
  "fields_loop cur [] = (if cur = [] then [] else [cur])"
| "fields_loop cur (c # cs) =
     (if is_space c then (if cur = [] then fields_loop [] cs else cur # fields_loop [] cs)
      else fields_loop (cur @ [c]) cs)"

definition strings_Fields :: "string \<Rightarrow> string list" where
  "strings_Fields s = fields_loop [] s"

definition plain_word :: "string \<Rightarrow> bool" where
  "plain_word w \<longleftrightarrow> w \<noteq> [] \<and> list_all (\<lambda>c. \<not> is_space c) w"

lemma fields_loop_word: "list_all (\<lambda>c. \<not> is_space c) w \<Longrightarrow> fields_loop cur (w @ cs) = fields_loop (cur @ w) cs"
  by (induction w arbitrary: cur) auto

lemma Fields_Join: "list_all plain_word ws \<Longrightarrow> strings_Fields (strings_Join '' '' ws) = ws"
  unfolding strings_Fields_def
proof (induction "'' ''" ws rule: strings_Join.induct)
  case (2 s)
  then show ?case using fields_loop_word [of s "[]" "[]"] by (simp add: plain_word_def)
next
  case (3 s t ss)
  then show ?case using fields_loop_word [of s "[]" "'' '' @ strings_Join '' '' (t # ss)"]
    by (simp add: plain_word_def is_space_def)
qed simp

section \<open>Positional notation\<close>

text \<open>
  \<open>pos_digits b n\<close> is the digit list of \<open>n\<close> in base \<open>b\<close>, most significant first and without
  leading zeros (the empty list for zero); \<open>pos_value b ds\<close> reads a digit list.
\<close>

function pos_digits :: "nat \<Rightarrow> nat \<Rightarrow> nat list" where
  "pos_digits b n = (if n = 0 \<or> b < 2 then [] else pos_digits b (n div b) @ [n mod b])"
  by pat_completeness auto
termination
  by (relation "measure snd") auto

declare pos_digits.simps [simp del]

definition pos_value :: "nat \<Rightarrow> nat list \<Rightarrow> nat" where
  "pos_value b ds = foldl (\<lambda>a d. a * b + d) 0 ds"

lemma pos_value_Nil [simp]: "pos_value b [] = 0"
  by (simp add: pos_value_def)

lemma pos_value_snoc [simp]: "pos_value b (ds @ [d]) = pos_value b ds * b + d"
  by (simp add: pos_value_def)

lemma pos_value_append: "pos_value b (xs @ ys) = pos_value b xs * b ^ length ys + pos_value b ys"
  by (induction ys rule: rev_induct) (simp_all add: algebra_simps append_assoc [symmetric] del: append_assoc)

lemma pos_value_Cons: "pos_value b (d # ds) = d * b ^ length ds + pos_value b ds"
  using pos_value_append [of b "[d]" ds] pos_value_snoc [of b "[]" d] by simp

lemma pos_value_replicate_0 [simp]: "pos_value b (replicate n 0) = 0"
  by (induction n) (simp_all add: pos_value_Cons)

lemma pos_value_leading_zeros [simp]: "pos_value b (replicate n 0 @ ds) = pos_value b ds"
  by (simp add: pos_value_append)

fun pos_fixed :: "nat \<Rightarrow> nat \<Rightarrow> nat \<Rightarrow> nat list" where
  "pos_fixed b 0 n = []"
| "pos_fixed b (Suc k) n = pos_fixed b k (n div b) @ [n mod b]"

locale positional =
  fixes b :: nat
  assumes base_ge_2: "2 \<le> b"
begin

lemma digits_0 [simp]: "pos_digits b 0 = []"
  by (simp add: pos_digits.simps)

lemma digits_step: "0 < n \<Longrightarrow> pos_digits b n = pos_digits b (n div b) @ [n mod b]"
  using base_ge_2 by (subst pos_digits.simps) simp

lemma digits_eq_Nil_iff [simp]: "pos_digits b n = [] \<longleftrightarrow> n = 0"
  using digits_step [of n] by (cases "n = 0") auto

lemma value_digits [simp]: "pos_value b (pos_digits b n) = n"
proof (induction n rule: less_induct)
  case (less n)
  show ?case
  proof (cases "n = 0")
    case False
    moreover from False base_ge_2 have "n div b < n" by simp
    ultimately show ?thesis using less by (simp add: digits_step)
  qed simp
qed

lemma digits_less: "d \<in> set (pos_digits b n) \<Longrightarrow> d < b"
proof (induction n rule: less_induct)
  case (less n)
  have b: "0 < b" using base_ge_2 by simp
  show ?case
  proof (cases "n = 0")
    case True
    with less.prems show ?thesis by simp
  next
    case False
    moreover from False base_ge_2 have "n div b < n" by simp
    ultimately show ?thesis using less b by (auto simp: digits_step)
  qed
qed

lemma hd_digits_pos: "0 < n \<Longrightarrow> 0 < hd (pos_digits b n)"
proof (induction n rule: less_induct)
  case (less n)
  show ?case
  proof (cases "n < b")
    case True
    with less.prems show ?thesis by (simp add: digits_step)
  next
    case False
    with base_ge_2 less.prems have *: "n div b < n" "0 < n div b"
      by (simp_all add: div_greater_zero_iff)
    with less.IH have "0 < hd (pos_digits b (n div b))" by blast
    with * show ?thesis by (simp add: digits_step [OF less.prems] hd_append)
  qed
qed

lemma value_less: "(\<And>d. d \<in> set ds \<Longrightarrow> d < b) \<Longrightarrow> pos_value b ds < b ^ length ds"
proof (induction ds rule: rev_induct)
  case Nil
  show ?case by simp
next
  case (snoc d ds)
  from snoc have "pos_value b ds + 1 \<le> b ^ length ds" "d < b" by (auto simp: Suc_le_eq)
  then have "(pos_value b ds + 1) * b \<le> b ^ length ds * b" by (intro mult_right_mono) auto
  with \<open>d < b\<close> show ?case by (simp add: algebra_simps)
qed

lemma digits_value:
  "(\<And>d. d \<in> set ds \<Longrightarrow> d < b) \<Longrightarrow> pos_digits b (pos_value b ds) = dropWhile (\<lambda>d. d = 0) ds"
proof (induction ds rule: rev_induct)
  case Nil
  show ?case by simp
next
  case (snoc d ds)
  then have IH: "pos_digits b (pos_value b ds) = dropWhile (\<lambda>d. d = 0) ds" and d: "d < b"
    by auto
  show ?case
  proof (cases "pos_value b ds = 0")
    case True
    with IH have "dropWhile (\<lambda>d. d = 0) ds = []" by simp
    then have z: "\<forall>x \<in> set ds. x = 0" by (simp only: dropWhile_eq_Nil_conv)
    then have "dropWhile (\<lambda>d. d = 0) (ds @ [d]) = dropWhile (\<lambda>d. d = 0) [d]"
      by (simp add: dropWhile_append2)
    moreover have "pos_digits b d = (if d = 0 then [] else [d])"
      using d by (cases "d = 0") (simp_all add: digits_step)
    ultimately show ?thesis using True by simp
  next
    case False
    with IH have "dropWhile (\<lambda>d. d = 0) ds \<noteq> []" by (metis digits_eq_Nil_iff)
    then obtain x where x: "x \<in> set ds" "x \<noteq> 0" by (auto simp only: dropWhile_eq_Nil_conv)
    from False base_ge_2 have "0 < pos_value b ds * b + d" by simp
    then have "pos_digits b (pos_value b ds * b + d) = pos_digits b (pos_value b ds) @ [d]"
      using d by (simp add: digits_step)
    with IH x show ?thesis by (simp add: dropWhile_append1)
  qed
qed

lemma length_digits_le_iff: "length (pos_digits b n) \<le> k \<longleftrightarrow> n < b ^ k"
proof
  assume "length (pos_digits b n) \<le> k"
  then have "b ^ length (pos_digits b n) \<le> b ^ k" using base_ge_2 by (intro power_increasing) auto
  moreover have "n < b ^ length (pos_digits b n)"
    using value_less [of "pos_digits b n"] digits_less by simp
  ultimately show "n < b ^ k" by simp
next
  assume n: "n < b ^ k"
  show "length (pos_digits b n) \<le> k"
  proof (cases "n = 0")
    case False
    then obtain d ds where ds: "pos_digits b n = d # ds" by (cases "pos_digits b n") auto
    with False have "0 < d" using hd_digits_pos [of n] by simp
    then have "b ^ length ds \<le> d * b ^ length ds" by simp
    also have "\<dots> \<le> n" using value_digits [of n] by (simp add: ds pos_value_Cons)
    finally have "b ^ length ds < b ^ k" using n by simp
    then have "length ds < k" using base_ge_2 by (simp add: power_less_imp_less_exp)
    with ds show ?thesis by simp
  qed simp
qed

text \<open>A fixed number of digits, and the regrouping of digits into larger ones.\<close>

lemma fixed_value:
  assumes "\<And>d. d \<in> set ds \<Longrightarrow> d < b"
  shows "pos_fixed b (length ds) (pos_value b ds) = ds"
  using assms
proof (induction ds rule: rev_induct)
  case (snoc d ds)
  then have "d < b" by simp
  then have "(pos_value b ds * b + d) div b = pos_value b ds" by (simp add: div_mult_self3)
  with snoc show ?case by simp
qed simp

lemma length_fixed [simp]: "length (pos_fixed b k n) = k"
  by (induction k arbitrary: n) auto

lemma value_fixed: "pos_value b (pos_fixed b k n) = n mod b ^ k"
proof (induction k arbitrary: n)
  case (Suc k)
  have "n mod b ^ Suc k = n div b mod b ^ k * b + n mod b"
    by (simp add: mod_mult2_eq mult.commute)
  with Suc show ?case by simp
qed simp

lemma fixed_less: "d \<in> set (pos_fixed b k n) \<Longrightarrow> d < b"
  using base_ge_2 by (induction k arbitrary: n) auto

lemma fixed_unique: "length ds = k \<Longrightarrow> (\<And>d. d \<in> set ds \<Longrightarrow> d < b) \<Longrightarrow> pos_value b ds = n \<Longrightarrow> pos_fixed b k n = ds"
  using fixed_value by blast

lemma value_concat_fixed:
  assumes "\<And>d. d \<in> set ds \<Longrightarrow> d < b ^ k"
  shows "pos_value b (concat (map (pos_fixed b k) ds)) = pos_value (b ^ k) ds"
  using assms
proof (induction ds rule: rev_induct)
  case (snoc d ds)
  then show ?case by (simp add: pos_value_append [of b] value_fixed)
qed simp

lemma length_concat_fixed [simp]: "length (concat (map (pos_fixed b k) ds)) = length ds * k"
  by (induction ds) auto

text \<open>Writing each large digit with \<open>k\<close> small ones.\<close>

lemma concat_fixed:
  assumes "\<And>d. d \<in> set ds \<Longrightarrow> d < b ^ k"
  shows "pos_fixed b (length ds * k) (pos_value (b ^ k) ds) = concat (map (pos_fixed b k) ds)"
  using assms by (intro fixed_unique) (auto simp: value_concat_fixed dest: fixed_less)

lemma drop_fixed: "drop j (pos_fixed b (j + k) n) = pos_fixed b k n"
proof (induction k arbitrary: n)
  case (Suc k)
  have "drop j (pos_fixed b (j + Suc k) n) = drop j (pos_fixed b (j + k) (n div b)) @ [n mod b]" by simp
  with Suc show ?case by simp
qed simp

lemma take_fixed: "take k (pos_fixed b (k + j) n) = pos_fixed b k (n div b ^ j)"
proof (induction j arbitrary: n)
  case (Suc j)
  have "take k (pos_fixed b (k + Suc j) n) = take k (pos_fixed b (k + j) (n div b))" by simp
  with Suc show ?case by (simp add: div_mult2_eq)
qed simp

lemma fixed_map: "pos_fixed b k n = map (\<lambda>i. n div b ^ (k - 1 - i) mod b) [0..<k]"
proof (induction k arbitrary: n)
  case (Suc k)
  have "map (\<lambda>i. n div b div b ^ (k - 1 - i) mod b) [0..<k] = map (\<lambda>i. n div b ^ (Suc k - 1 - i) mod b) [0..<k]"
  proof (rule map_cong [OF refl])
    fix i assume "i \<in> set [0..<k]"
    then have "Suc k - 1 - i = Suc (k - 1 - i)" by auto
    then show "n div b div b ^ (k - 1 - i) mod b = n div b ^ (Suc k - 1 - i) mod b" by (simp add: div_mult2_eq)
  qed
  with Suc show ?case by simp
qed simp

lemma digits_inj: "pos_digits b m = pos_digits b n \<longleftrightarrow> m = n"
  by (metis value_digits)

end

interpretation bytes256: positional 256 by unfold_locales simp
interpretation hex16: positional 16 by unfold_locales simp
interpretation dec10: positional 10 by unfold_locales simp

section \<open>Big-endian byte strings\<close>

text \<open>\<open>big.Int.SetBytes\<close> and \<open>big.Int.Bytes\<close> on non-negative numbers.\<close>

definition be_value :: "bytes \<Rightarrow> nat" where
  "be_value bs = pos_value 256 (map unat bs)"

definition be_bytes :: "nat \<Rightarrow> bytes" where
  "be_bytes n = map word_of_nat (pos_digits 256 n)"

lemma map_unat_be_bytes [simp]: "map unat (be_bytes n) = pos_digits 256 n"
  unfolding be_bytes_def map_map
  by (rule map_idI) (auto simp: unat_of_nat dest: bytes256.digits_less)

lemma be_value_be_bytes [simp]: "be_value (be_bytes n) = n"
  by (simp add: be_value_def)

lemma map_word_of_nat_unat [simp]: "map (word_of_nat \<circ> unat) (bs :: bytes) = bs"
  by (rule map_idI) simp

lemma be_bytes_be_value: "be_bytes (be_value bs) = dropWhile (\<lambda>b. b = 0) bs"
proof -
  have "be_bytes (be_value bs) = map word_of_nat (dropWhile (\<lambda>d. d = 0) (map unat bs))"
    unfolding be_bytes_def be_value_def by (subst bytes256.digits_value) auto
  also have "\<dots> = dropWhile (\<lambda>b. b = 0) bs"
    by (simp add: dropWhile_map o_def unat_eq_zero)
  finally show ?thesis .
qed

lemma be_value_less: "be_value bs < 256 ^ length bs"
  using bytes256.value_less [of "map unat bs"] unat_byte_less by (force simp: be_value_def)

lemma length_be_bytes_le_iff: "length (be_bytes n) \<le> k \<longleftrightarrow> n < 256 ^ k"
  by (simp add: be_bytes_def bytes256.length_digits_le_iff)

lemma be_value_leading_zeros [simp]: "be_value (replicate n 0 @ bs) = be_value bs"
  by (simp add: be_value_def)

lemma be_bytes_0 [simp]: "be_bytes 0 = []"
  by (simp add: be_bytes_def)

lemma be_bytes_eq_Nil_iff [simp]: "be_bytes n = [] \<longleftrightarrow> n = 0"
  by (simp add: be_bytes_def)

lemma be_bytes_inj: "be_bytes m = be_bytes n \<longleftrightarrow> m = n"
  by (metis be_value_be_bytes)

lemma hd_be_bytes: "0 < n \<Longrightarrow> hd (be_bytes n) \<noteq> 0"
proof -
  assume "0 < n"
  then have "unat (hd (be_bytes n)) = hd (pos_digits 256 n)"
    by (metis bytes256.digits_eq_Nil_iff hd_map map_unat_be_bytes be_bytes_eq_Nil_iff less_numeral_extra(3))
  with bytes256.hd_digits_pos [OF \<open>0 < n\<close>] show ?thesis by auto
qed

section \<open>Go maps and their iteration\<close>

text \<open>
  \<open>range\<close> over a Go map visits the keys in an order that is not specified. A definition that
  ranges over a map takes the visiting order as an argument, and \<open>iter_order m ks\<close> says that
  \<open>ks\<close> is a possible one.
\<close>

definition iter_order :: "('k \<rightharpoonup> 'v) \<Rightarrow> 'k list \<Rightarrow> bool" where
  "iter_order m ks \<longleftrightarrow> distinct ks \<and> set ks = dom m"

lemma iter_order_the: "iter_order m ks \<Longrightarrow> k \<in> set ks \<Longrightarrow> m k = Some (the (m k))"
  by (auto simp: iter_order_def)

lemma iter_order_Nil_iff: "iter_order m [] \<longleftrightarrow> m = Map.empty"
  by (auto simp: iter_order_def)

section \<open>Association lists\<close>

text \<open>Insert or replace: the concrete databases of the witnesses are association lists.\<close>

fun al_upsert :: "('k \<times> 'r) list \<Rightarrow> 'k \<Rightarrow> 'r \<Rightarrow> ('k \<times> 'r) list" where
  "al_upsert [] k r = [(k, r)]"
| "al_upsert (x # xs) k r = (if fst x = k then (k, r) # xs else x # al_upsert xs k r)"

lemma map_of_al_upsert: "map_of (al_upsert db k r) k' = (if k' = k then Some r else map_of db k')"
  by (induction db) auto

end
