(* ===== verification/FastMap.thy ===== *)
theory FastMap
  imports Prelude "HOL-Library.Char_ord" "HOL-Library.List_Lexorder"
begin

text \<open>
  The read-only address index of \<open>address/fastmap.go\<close>: a byte trie packed into one array, built
  from the sorted keys block by block and then copied into one slice. The model keeps the blocks
  with their capacities, the pointers into them, the byte and uint32 arithmetic, and the panics
  of out-of-range indexing (\<^const>\<open>None\<close>).
\<close>

section \<open>Data\<close>

record 'a objectValue =
  nextLo :: "32 word"
  nextLen :: byte
  nextOffset :: byte
  valid :: bool
  ov_value :: "'a option"

definition zeroObjectValue :: "'a objectValue" where
  "zeroObjectValue = \<lparr>nextLo = 0, nextLen = 0, nextOffset = 0, valid = False, ov_value = None\<rparr>"

text \<open>The interface \<open>ObjectsSource\<close>: the keys, and the value of a key (nil is \<^const>\<open>None\<close>).\<close>

record 'a objectsSource =
  appendKeys :: "string list \<Rightarrow> string list"
  src_get :: "string \<Rightarrow> 'a option"

text \<open>
  A block is a slice with its capacity. A pointer to an \<open>objectValue\<close> is a block number and an
  offset in that block.
\<close>

type_synonym 'a block = "nat \<times> 'a objectValue list"
type_synonym ptr = "nat \<times> nat"

record 'a mapBuilder =
  all_blocks :: "'a block list"
  mb_len :: nat

definition write_ptr ::
  "'a mapBuilder \<Rightarrow> ptr \<Rightarrow> ('a objectValue \<Rightarrow> 'a objectValue) \<Rightarrow> 'a mapBuilder" where
  "write_ptr b p f =
     (let (i, j) = p; (c, xs) = all_blocks b ! i
      in b\<lparr>all_blocks := (all_blocks b)[i := (c, xs[j := f (xs ! j)])]\<rparr>)"

section \<open>Building\<close>

definition maxBuildBufSize :: nat where
  "maxBuildBufSize = 2 ^ 20"

text \<open>\<open>size\<close> starts at 16, so the guard \<open>0 < size\<close> of the model always holds.\<close>

function grow_size :: "nat \<Rightarrow> nat \<Rightarrow> nat" where
  "grow_size sz mapSize =
     (if 0 < sz \<and> sz < mapSize \<and> sz < maxBuildBufSize then grow_size (2 * sz) mapSize
      else sz)"
  by pat_completeness auto
termination
  by (relation "measure (\<lambda>(sz, mapSize). mapSize - sz)") auto

declare grow_size.simps [simp del]

definition firstBufSize :: "nat \<Rightarrow> nat" where
  "firstBufSize mapSize = grow_size 16 mapSize"

function grow_cap :: "nat \<Rightarrow> nat \<Rightarrow> nat" where
  "grow_cap newCap n = (if 0 < newCap \<and> newCap < n then grow_cap (2 * newCap) n else newCap)"
  by pat_completeness auto
termination
  by (relation "measure (\<lambda>(newCap, n). n - newCap)") auto

declare grow_cap.simps [simp del]

definition alloc :: "'a mapBuilder \<Rightarrow> byte \<Rightarrow> 'a mapBuilder \<times> ptr" where
  "alloc b nByteValues =
     (let n = unat nByteValues;
          k = length (all_blocks b) - 1;
          (curCap, cur) = all_blocks b ! k;
          curLen = length cur
      in if curCap - curLen \<ge> n
         then (b\<lparr>mb_len := mb_len b + n,
                 all_blocks := (all_blocks b)[k := (curCap, cur @ replicate n zeroObjectValue)]\<rparr>,
               (k, curLen))
         else let newCap = grow_cap (curCap * 2) n;
                  newCap = (if newCap > maxBuildBufSize then maxBuildBufSize else newCap)
              in (b\<lparr>mb_len := mb_len b + n,
                    all_blocks := all_blocks b @ [(newCap, replicate n zeroObjectValue)]\<rparr>,
                  (k + 1, 0)))"

text \<open>The byte at an index of a string; callers check the range first (Go panics outside it).\<close>

definition s_at :: "string \<Rightarrow> nat \<Rightarrow> byte" where
  "s_at s i = byte_of_char (s ! i)"

text \<open>The inner loop: how many strings of the rest start with the byte \<open>c\<close> at \<open>idx\<close>.\<close>

fun sameByte :: "string list \<Rightarrow> nat \<Rightarrow> byte \<Rightarrow> nat option" where
  "sameByte [] idx c = Some 0"
| "sameByte (t # ts) idx c =
     (if idx < length t
      then if s_at t idx = c then map_option Suc (sameByte ts idx c) else Some 0
      else None)"

definition key_measure :: "string list \<Rightarrow> nat \<Rightarrow> nat" where
  "key_measure a idx = sum_list (map (\<lambda>s. Suc (length s) - idx) a)"

lemma key_measure_simps [simp]:
  "key_measure [] idx = 0"
  "key_measure (s # a) idx = (Suc (length s) - idx) + key_measure a idx"
  by (simp_all add: key_measure_def)

lemma key_measure_append [simp]: "key_measure (xs @ ys) idx = key_measure xs idx + key_measure ys idx"
  by (simp add: key_measure_def)

lemma key_measure_tl: "key_measure (tl a) idx \<le> key_measure a idx"
  by (cases a) simp_all

lemma key_measure_Suc: "key_measure a (Suc idx) \<le> key_measure a idx"
  by (induction a) auto

lemma key_measure_take_drop: "key_measure (take n a) idx + key_measure (drop n a) idx = key_measure a idx"
  using key_measure_append [of "take n a" "drop n a" idx] by (simp del: key_measure_append)

text \<open>
  \<open>makeByteValue\<close> and its outer loop. \<^const>\<open>None\<close> is an index-out-of-range panic.
\<close>

function (sequential)
  makeByteValue :: "'a objectsSource \<Rightarrow> 'a mapBuilder \<Rightarrow> ptr \<Rightarrow> string list \<Rightarrow> nat \<Rightarrow> 'a mapBuilder option"
  and makeLoop :: "'a objectsSource \<Rightarrow> 'a mapBuilder \<Rightarrow> ptr \<Rightarrow> byte \<Rightarrow> byte \<Rightarrow> string list \<Rightarrow> nat \<Rightarrow> 'a mapBuilder option"
where
  "makeByteValue src b bv a byteIndex =
     (if a = [] then None
      else
        let fin = (length (hd a) = byteIndex);
            b1 = (if fin then write_ptr b bv (\<lambda>v. v\<lparr>valid := True, ov_value := src_get src (hd a)\<rparr>) else b);
            a1 = (if fin then tl a else a)
        in if a1 = [] then Some b1
           else if \<not> (byteIndex < length (hd a1) \<and> byteIndex < length (last a1)) then None
           else
             let off = s_at (hd a1) byteIndex;
                 len = s_at (last a1) byteIndex - off + 1;
                 b2 = write_ptr b1 bv
                        (\<lambda>v. v\<lparr>nextOffset := off, nextLen := len, nextLo := word_of_nat (mb_len b1)\<rparr>);
                 (b3, nxt) = alloc b2 len
             in makeLoop src b3 nxt len off a1 byteIndex)"
| "makeLoop src b nxt len off [] byteIndex = Some b"
| "makeLoop src b nxt len off (s # rest) byteIndex =
     (if \<not> byteIndex < length s then None
      else case sameByte rest byteIndex (s_at s byteIndex) of
             None \<Rightarrow> None
           | Some n \<Rightarrow>
               let i = s_at s byteIndex - off
               in if \<not> unat i < unat len then None
                  else case makeByteValue src b (fst nxt, snd nxt + unat i) (s # take n rest) (byteIndex + 1) of
                         None \<Rightarrow> None
                       | Some b1 \<Rightarrow> makeLoop src b1 nxt len off (drop n rest) byteIndex)"
  by pat_completeness auto
termination
proof (relation "measure (\<lambda>x. case x of Inl (src, b, bv, a, idx) \<Rightarrow> 2 * key_measure a idx + 1
        | Inr (src, b, nxt, len, off, a, idx) \<Rightarrow> 2 * key_measure a idx)", goal_cases)
  case 1
  show ?case by simp
next
  case (2 src b bv a idx fin b1 a1 off len b2 p b3 nxt)
  then show ?case using key_measure_tl [of a idx] by auto
next
  case (3 src b nxt len off s rest idx n i)
  have "key_measure (take n rest) (idx + 1) \<le> key_measure rest idx"
    using key_measure_Suc [of "take n rest" idx] key_measure_take_drop [of n rest idx] by simp
  with 3 show ?case by (simp add: Suc_diff_le)
next
  case (4 src b nxt len off s rest idx n i b1)
  then show ?case using key_measure_take_drop [of n rest idx] by (simp add: Suc_diff_le)
qed

declare makeByteValue.simps [simp del]
declare makeLoop.simps(2) [simp del]

definition objectBuild :: "string list \<Rightarrow> 'a objectsSource \<Rightarrow> 'a objectValue list option" where
  "objectBuild keys src =
     (let b = \<lparr>all_blocks = [(firstBufSize (length keys), [zeroObjectValue])], mb_len = 1\<rparr>
      in case makeByteValue src b (0, 0) keys 0 of
           None \<Rightarrow> None
         | Some b' \<Rightarrow> Some (concat (map snd (all_blocks b'))))"

definition newAddressMemStore :: "'a objectsSource \<Rightarrow> 'a objectValue list option" where
  "newAddressMemStore src =
     (let keys = appendKeys src []
      in if length keys > 0 then objectBuild (sort keys) src
         else Some [zeroObjectValue])"

section \<open>Lookup\<close>

text \<open>\<open>LookupBytes\<close> and \<open>LookupString\<close>; the outer option is an index-out-of-range panic.\<close>

fun walk :: "'a objectValue list \<Rightarrow> 'a objectValue \<Rightarrow> bytes \<Rightarrow> ('a option \<times> bool) option" where
  "walk store bv [] = Some (ov_value bv, valid bv)"
| "walk store bv (b # bs) =
     (if b < nextOffset bv then Some (None, False)
      else let ni = b - nextOffset bv
           in if ni \<ge> nextLen bv then Some (None, False)
              else let i = unat (nextLo bv + ucast ni)
                   in if i < length store then walk store (store ! i) bs else None)"

definition LookupBytes :: "'a objectValue list \<Rightarrow> bytes \<Rightarrow> ('a option \<times> bool) option" where
  "LookupBytes store s = (if store = [] then None else walk store (store ! 0) s)"

text \<open>The same loop over the bytes \<open>s[i]\<close> of a string.\<close>

fun walk_string :: "'a objectValue list \<Rightarrow> 'a objectValue \<Rightarrow> string \<Rightarrow> nat \<Rightarrow> nat \<Rightarrow> ('a option \<times> bool) option" where
  "walk_string store bv s i 0 = Some (ov_value bv, valid bv)"
| "walk_string store bv s i (Suc m) =
     (let b = s_at s i
      in if b < nextOffset bv then Some (None, False)
         else let ni = b - nextOffset bv
              in if ni \<ge> nextLen bv then Some (None, False)
                 else let k = unat (nextLo bv + ucast ni)
                      in if k < length store then walk_string store (store ! k) s (i + 1) m else None)"

definition LookupString :: "'a objectValue list \<Rightarrow> string \<Rightarrow> ('a option \<times> bool) option" where
  "LookupString store s =
     (if store = [] then None else walk_string store (store ! 0) s 0 (length s))"

end
