(* ===== verification/FastMapCorrect.thy ===== *)
theory FastMapCorrect
  imports FastMap
begin

text \<open>
  Correctness of the packed address index of \<^theory_text>\<open>FastMap\<close>: the blocks of a builder are seen as one
  flat slice (pointers keep their place in it while the builder grows), \<open>makeByteValue\<close> is proved
  against the answer every node must give, and the theorems at the end state what \<open>LookupString\<close>
  returns on a store built by \<open>newAddressMemStore\<close>.
\<close>


section \<open>The flat view of a builder\<close>

definition flat :: "'a mapBuilder \<Rightarrow> 'a objectValue list" where
  "flat b = concat (map snd (all_blocks b))"

definition block_len :: "'a mapBuilder \<Rightarrow> nat \<Rightarrow> nat" where
  "block_len b i = length (snd (all_blocks b ! i))"

definition fp :: "'a mapBuilder \<Rightarrow> ptr \<Rightarrow> nat" where
  "fp b p = sum_list (map (length \<circ> snd) (take (fst p) (all_blocks b))) + snd p"

definition valid_ptr :: "'a mapBuilder \<Rightarrow> ptr \<Rightarrow> bool" where
  "valid_ptr b p \<longleftrightarrow> fst p < length (all_blocks b) \<and> snd p < block_len b (fst p)"

definition builder_inv :: "'a mapBuilder \<Rightarrow> bool" where
  "builder_inv b \<longleftrightarrow> all_blocks b \<noteq> [] \<and> mb_len b = length (flat b)"

text \<open>The pointers of \<open>b\<close> stay valid in \<open>b'\<close> and keep their place in the final slice.\<close>

definition keeps_ptrs :: "'a mapBuilder \<Rightarrow> 'a mapBuilder \<Rightarrow> bool" where
  "keeps_ptrs b b' \<longleftrightarrow> (\<forall>q. valid_ptr b q \<longrightarrow> valid_ptr b' q \<and> fp b' q = fp b q)"

lemma keeps_ptrs_refl [simp]: "keeps_ptrs b b"
  by (simp add: keeps_ptrs_def)

lemma keeps_ptrs_trans: "keeps_ptrs a b \<Longrightarrow> keeps_ptrs b c \<Longrightarrow> keeps_ptrs a c"
  by (simp add: keeps_ptrs_def)

lemma concat_nth:
  "i < length xss \<Longrightarrow> j < length (xss ! i) \<Longrightarrow>
   sum_list (map length (take i xss)) + j < length (concat xss) \<and>
   concat xss ! (sum_list (map length (take i xss)) + j) = xss ! i ! j"
proof (induction xss arbitrary: i)
  case (Cons xs xss)
  then show ?case by (cases i) (auto simp: nth_append add.assoc)
qed simp

lemma concat_upd:
  "i < length xss \<Longrightarrow> j < length (xss ! i) \<Longrightarrow>
   concat (xss[i := (xss ! i)[j := x]]) = (concat xss)[sum_list (map length (take i xss)) + j := x]"
proof (induction xss arbitrary: i)
  case (Cons xs xss)
  then show ?case by (cases i) (auto simp: list_update_append add.assoc)
qed simp

lemma flat_nth:
  assumes "valid_ptr b p"
  shows "fp b p < length (flat b)" "flat b ! fp b p = snd (all_blocks b ! fst p) ! snd p"
  using assms concat_nth [of "fst p" "map snd (all_blocks b)" "snd p"]
  by (auto simp: valid_ptr_def flat_def fp_def block_len_def take_map)

lemma write_ptr_simps [simp]:
  "mb_len (write_ptr b p f) = mb_len b"
  "length (all_blocks (write_ptr b p f)) = length (all_blocks b)"
  by (simp_all add: write_ptr_def split: prod.split)

lemma block_len_write [simp]: "block_len (write_ptr b p f) i = block_len b i"
proof (cases "fst p < length (all_blocks b)")
  case True
  then show ?thesis by (auto simp: write_ptr_def block_len_def nth_list_update split: prod.split)
next
  case False
  then show ?thesis by (auto simp: write_ptr_def block_len_def list_update_beyond split: prod.split)
qed

lemma valid_ptr_write [simp]: "valid_ptr (write_ptr b p f) q = valid_ptr b q"
  by (simp add: valid_ptr_def)

lemma fp_block_len:
  assumes "fst q \<le> length (all_blocks b)"
  shows "fp b q = sum_list (map (block_len b) [0..<fst q]) + snd q"
proof -
  have "take (fst q) (all_blocks b) = map (nth (all_blocks b)) [0..<fst q]"
    using assms by (intro nth_equalityI) auto
  then have "map (length \<circ> snd) (take (fst q) (all_blocks b)) = map (block_len b) [0..<fst q]"
    by (simp add: block_len_def)
  then show ?thesis by (simp add: fp_def)
qed

lemma sum_block_len_write: "map (block_len (write_ptr b p f)) xs = map (block_len b) xs"
  by simp

lemma fp_write [simp]: "valid_ptr b q \<Longrightarrow> fp (write_ptr b p f) q = fp b q"
  by (simp add: fp_block_len valid_ptr_def sum_block_len_write del: map_eq_conv)

lemma flat_write:
  assumes "valid_ptr b p"
  shows "flat (write_ptr b p f) = (flat b)[fp b p := f (flat b ! fp b p)]"
proof -
  obtain i j where p: "p = (i, j)" by (cases p)
  obtain c xs where b: "all_blocks b ! i = (c, xs)" by (cases "all_blocks b ! i")
  have "concat ((map snd (all_blocks b))[i := xs[j := f (xs ! j)]]) =
        (flat b)[fp b p := f (xs ! j)]"
    using concat_upd [of i "map snd (all_blocks b)" j "f (xs ! j)"] assms p b
    by (auto simp: flat_def fp_def valid_ptr_def block_len_def take_map)
  with assms show ?thesis
    by (simp add: flat_nth) (simp add: flat_def write_ptr_def p b map_update)
qed

lemma builder_inv_write [simp]: "valid_ptr b p \<Longrightarrow> builder_inv (write_ptr b p f) = builder_inv b"
  by (simp add: builder_inv_def flat_write length_greater_0_conv [symmetric] del: length_greater_0_conv)

lemma keeps_ptrs_write: "keeps_ptrs b (write_ptr b p f)"
  by (simp add: keeps_ptrs_def)

lemma alloc_spec:
  assumes "builder_inv b" and "alloc b n = (b', p)"
  shows "builder_inv b'" "flat b' = flat b @ replicate (unat n) zeroObjectValue"
    "keeps_ptrs b b'" "fp b' p = length (flat b)"
    "j < unat n \<Longrightarrow> valid_ptr b' (fst p, snd p + j)"
    "j < unat n \<Longrightarrow> fp b' (fst p, snd p + j) = length (flat b) + j"
proof -
  obtain bs c cur where bs: "all_blocks b = bs @ [(c, cur)]"
    using assms(1) by (metis builder_inv_def prod.exhaust rev_exhaust)
  have fl: "flat b = concat (map snd bs) @ cur" by (simp add: flat_def bs)
  have sl: "sum_list (map (length \<circ> snd) bs) = length (concat (map snd bs))"
    by (simp add: length_concat comp_def)
  have "builder_inv b' \<and> flat b' = flat b @ replicate (unat n) zeroObjectValue \<and>
    keeps_ptrs b b' \<and> fp b' p = length (flat b) \<and>
    (j < unat n \<longrightarrow> valid_ptr b' (fst p, snd p + j) \<and> fp b' (fst p, snd p + j) = length (flat b) + j)"
  proof (cases "unat n \<le> c - length cur")
    case True
    then have b': "all_blocks b' = bs @ [(c, cur @ replicate (unat n) zeroObjectValue)]"
        "p = (length bs, length cur)" "mb_len b' = mb_len b + unat n"
      using assms(2) by (auto simp: alloc_def bs nth_append Let_def)
    have f': "flat b' = flat b @ replicate (unat n) zeroObjectValue"
      by (simp add: flat_def bs b')
    show ?thesis
      using assms(1) b' fl sl f'
      by (auto simp: builder_inv_def keeps_ptrs_def valid_ptr_def block_len_def fp_def bs nth_append
            less_Suc_eq)
  next
    case False
    then have b': "\<exists>d. all_blocks b' = bs @ [(c, cur), (d, replicate (unat n) zeroObjectValue)]"
        "p = (Suc (length bs), 0)" "mb_len b' = mb_len b + unat n"
      using assms(2) by (auto simp: alloc_def bs nth_append Let_def)
    have f': "flat b' = flat b @ replicate (unat n) zeroObjectValue"
      using b' by (auto simp: flat_def bs)
    show ?thesis
      using assms(1) b' fl sl f'
      by (auto simp: builder_inv_def keeps_ptrs_def valid_ptr_def block_len_def fp_def bs nth_append
            less_Suc_eq)
  qed
  then show "builder_inv b'" "flat b' = flat b @ replicate (unat n) zeroObjectValue"
    "keeps_ptrs b b'" "fp b' p = length (flat b)"
    "j < unat n \<Longrightarrow> valid_ptr b' (fst p, snd p + j)"
    "j < unat n \<Longrightarrow> fp b' (fst p, snd p + j) = length (flat b) + j"
    by auto
qed

section \<open>What a node answers\<close>

definition answer :: "'a objectsSource \<Rightarrow> string list \<Rightarrow> nat \<Rightarrow> string \<Rightarrow> 'a option \<times> bool" where
  "answer src a idx s =
     (case find (\<lambda>k. drop idx k = s) a of None \<Rightarrow> (None, False) | Some k \<Rightarrow> (src_get src k, True))"

definition with_byte :: "nat \<Rightarrow> char \<Rightarrow> string list \<Rightarrow> string list" where
  "with_byte idx c a = filter (\<lambda>k. idx < length k \<and> k ! idx = c) a"

lemma drop_eq_Cons_iff: "drop idx k = c # s \<longleftrightarrow> idx < length k \<and> k ! idx = c \<and> drop (Suc idx) k = s"
proof (cases "idx < length k")
  case True
  then show ?thesis by (auto simp flip: Cons_nth_drop_Suc)
qed auto

lemma answer_Cons: "answer src a idx (c # s) = answer src (with_byte idx c a) (Suc idx) s"
  by (induction a) (auto simp: answer_def with_byte_def drop_eq_Cons_iff)

lemma answer_Nil_list [simp]: "answer src [] idx s = (None, False)"
  by (simp add: answer_def)

lemma answer_fin: "answer src (k # a) (length k) [] = (src_get src k, True)"
  by (simp add: answer_def)

lemma answer_not_fin: "(\<And>k. k \<in> set a \<Longrightarrow> idx < length k) \<Longrightarrow> answer src a idx [] = (None, False)"
  by (auto simp: answer_def find_None_iff find_Some_iff split: option.split) (metis nth_mem not_less)

lemma with_byte_empty_iff:
  "with_byte idx c a = [] \<longleftrightarrow> (\<forall>k \<in> set a. idx < length k \<longrightarrow> k ! idx \<noteq> c)"
  by (auto simp: with_byte_def filter_empty_conv)

lemma bytes_of_string_Cons: "bytes_of_string (c # s) = byte_of_char c # bytes_of_string s"
  by (simp add: bytes_of_string_def)

lemma walk_zero [simp]: "walk st zeroObjectValue bs = Some (None, False)"
  by (cases bs) (simp_all add: zeroObjectValue_def)

lemma unat_ucast_byte [simp]: "unat (ucast (x :: byte) :: 32 word) = unat x"
  by (simp add: unsigned_ucast_eq take_bit_nat_eq_self order_less_trans [OF unat_byte_less])

lemma walk_node:
  assumes "nextLo bv = word_of_nat base" and "base + unat (nextLen bv) \<le> length st"
    and "base + unat (nextLen bv) \<le> 2 ^ 32"
  shows "walk st bv (x # bs) =
    (if x < nextOffset bv \<or> unat (nextLen bv) \<le> unat (x - nextOffset bv) then Some (None, False)
     else walk st (st ! (base + unat (x - nextOffset bv))) bs)"
proof -
  have "unat (nextLo bv + ucast (x - nextOffset bv)) = base + unat (x - nextOffset bv)"
    if "unat (x - nextOffset bv) < unat (nextLen bv)"
  proof -
    from that assms(3) have "base + unat (x - nextOffset bv) < 2 ^ 32" by linarith
    then show ?thesis
      by (simp add: assms(1) unat_word_ariths unat_of_nat mod_add_left_eq)
  qed
  with assms(2) show ?thesis
    by (auto simp: word_le_nat_alt)
qed

lemma byte_of_char_le_iff: "byte_of_char c \<le> byte_of_char d \<longleftrightarrow> c \<le> d"
  by (simp add: word_le_nat_alt less_eq_char_def)

lemma byte_of_char_less_iff: "byte_of_char c < byte_of_char d \<longleftrightarrow> c < d"
  by (simp add: word_less_nat_alt less_char_def)

lemma byte_diff_unat: "(x :: byte) \<le> y \<Longrightarrow> unat (y - x) = unat y - unat x"
  by (simp add: unat_sub)

section \<open>Sorted keys\<close>

definition keys_at :: "string list \<Rightarrow> nat \<Rightarrow> bool" where
  "keys_at a idx \<longleftrightarrow> sorted (map (drop idx) a) \<and> distinct (map (drop idx) a) \<and>
     (\<forall>k \<in> set a. idx \<le> length k \<and> CHR 0xFF \<notin> set k)"

lemma keys_at_tl: "keys_at (k # a) idx \<Longrightarrow> keys_at a idx"
  by (auto simp: keys_at_def)

lemma keys_at_not_fin:
  assumes "keys_at (k # a) idx" and "k' \<in> set a"
  shows "idx < length k'"
proof -
  from assms have "drop idx k \<noteq> drop idx k'" "drop idx k \<le> drop idx k'" by (auto simp: keys_at_def)
  then have "drop idx k' \<noteq> []" by (cases "drop idx k") auto
  then show ?thesis by simp
qed

lemma keys_at_sorted_char:
  assumes "keys_at a idx" and "\<forall>k \<in> set a. idx < length k"
  shows "sorted (map (\<lambda>k. k ! idx) a)"
  using assms
proof (induction a)
  case (Cons k a)
  have "k ! idx \<le> k' ! idx" if "k' \<in> set a" for k'
  proof -
    from Cons.prems that have "drop idx k \<le> drop idx k'" "idx < length k" "idx < length k'"
      by (auto simp: keys_at_def)
    then show ?thesis by (auto simp flip: Cons_nth_drop_Suc)
  qed
  with Cons show ?case by (auto dest: keys_at_tl)
qed simp


lemma s_at_eq_iff: "s_at k idx = s_at k' idx \<longleftrightarrow> k ! idx = k' ! idx"
  by (simp add: s_at_def inj_eq [OF inj_byte_of_char])

lemma sameByte_takeWhile:
  "\<forall>k \<in> set ts. idx < length k \<Longrightarrow>
   sameByte ts idx (s_at s idx) = Some (length (takeWhile (\<lambda>k. k ! idx = s ! idx) ts))"
  by (induction ts) (auto simp: s_at_eq_iff)

text \<open>The strings of \<open>rest\<close> with the same byte as \<open>s\<close>, and the others, in a sorted list.\<close>

definition grp :: "string \<Rightarrow> string list \<Rightarrow> nat \<Rightarrow> string list" where
  "grp s rest idx = takeWhile (\<lambda>k. k ! idx = s ! idx) rest"

definition oth :: "string \<Rightarrow> string list \<Rightarrow> nat \<Rightarrow> string list" where
  "oth s rest idx = dropWhile (\<lambda>k. k ! idx = s ! idx) rest"

lemma grp_oth: "grp s rest idx @ oth s rest idx = rest"
  by (simp add: grp_def oth_def)

lemma set_grp: "k \<in> set (grp s rest idx) \<Longrightarrow> k \<in> set rest \<and> k ! idx = s ! idx"
  by (auto simp: grp_def dest: set_takeWhileD)

lemma set_oth: "k \<in> set (oth s rest idx) \<Longrightarrow> k \<in> set rest"
  by (auto simp: oth_def dest: set_dropWhileD)

lemma sorted_oth_greater:
  "sorted (map (\<lambda>k. k ! idx) (s # rest)) \<Longrightarrow> x \<in> set (oth s rest idx) \<Longrightarrow> s ! idx < x ! idx"
  unfolding oth_def
proof (induction rest)
  case (Cons k ks)
  then show ?case by (cases "k ! idx = s ! idx") force+
qed simp

lemma keys_at_oth: "keys_at (s # rest) idx \<Longrightarrow> keys_at (oth s rest idx) idx"
proof -
  assume k: "keys_at (s # rest) idx"
  have "map (drop idx) rest = map (drop idx) (grp s rest idx) @ map (drop idx) (oth s rest idx)"
    by (metis grp_oth map_append)
  with k have "sorted (map (drop idx) (oth s rest idx))" "distinct (map (drop idx) (oth s rest idx))"
    by (auto simp: keys_at_def sorted_append simp del: map_append)
  with k set_oth show ?thesis by (auto simp: keys_at_def)
qed

lemma sorted_map_Cons: "sorted (map (\<lambda>k. c # f k) xs) \<longleftrightarrow> sorted (map f xs)" for f :: "string \<Rightarrow> string"
  by (induction xs) auto

lemma distinct_map_Cons: "distinct (map (\<lambda>k. c # f k) xs) \<longleftrightarrow> distinct (map f xs)"
  by (induction xs) auto

lemma keys_at_grp:
  assumes "keys_at (s # rest) idx" and "\<forall>k \<in> set (s # rest). idx < length k"
  shows "keys_at (s # grp s rest idx) (Suc idx)"
proof -
  let ?g = "s # grp s rest idx"
  have "map (drop idx) rest = map (drop idx) (grp s rest idx) @ map (drop idx) (oth s rest idx)"
    by (metis grp_oth map_append)
  with assms(1) have sd: "sorted (map (drop idx) ?g)" "distinct (map (drop idx) ?g)"
    by (auto simp: keys_at_def sorted_append simp del: map_append)
  have "map (drop idx) ?g = map (\<lambda>k. s ! idx # drop (Suc idx) k) ?g"
    using assms(2) set_grp [of _ s rest idx] by (auto simp: drop_eq_Cons_iff intro!: map_cong)
  with sd have "sorted (map (drop (Suc idx)) ?g)" "distinct (map (drop (Suc idx)) ?g)"
    by (simp_all only: sorted_map_Cons distinct_map_Cons)
  with assms set_grp [of _ s rest idx] show ?thesis by (auto simp: keys_at_def Suc_le_eq)
qed

lemma with_byte_same:
  assumes "keys_at (s # rest) idx" and "\<forall>k \<in> set (s # rest). idx < length k"
  shows "with_byte idx (s ! idx) (s # rest) = s # grp s rest idx"
proof -
  let ?P = "\<lambda>k. idx < length k \<and> k ! idx = s ! idx"
  have "filter ?P rest = filter ?P (grp s rest idx) @ filter ?P (oth s rest idx)"
    by (metis grp_oth filter_append)
  moreover have "filter ?P (grp s rest idx) = grp s rest idx"
    using set_grp assms(2) by (auto simp: filter_id_conv)
  moreover have "filter ?P (oth s rest idx) = []"
    using sorted_oth_greater [OF keys_at_sorted_char [OF assms]] by (force simp: filter_empty_conv)
  ultimately show ?thesis using assms(2) by (simp add: with_byte_def)
qed

lemma with_byte_other:
  assumes "c \<noteq> s ! idx"
  shows "with_byte idx c (s # rest) = with_byte idx c (oth s rest idx)"
proof -
  let ?P = "\<lambda>k. idx < length k \<and> k ! idx = c"
  have "filter ?P rest = filter ?P (grp s rest idx) @ filter ?P (oth s rest idx)"
    by (metis grp_oth filter_append)
  moreover have "filter ?P (grp s rest idx) = []"
    using set_grp [of _ s rest idx] assms by (auto simp: filter_empty_conv)
  ultimately show ?thesis using assms by (simp add: with_byte_def)
qed

section \<open>Correctness of the construction\<close>

definition len_sum :: "string list \<Rightarrow> nat \<Rightarrow> nat" where
  "len_sum a idx = sum_list (map (\<lambda>k. length k - idx) a)"

text \<open>\<open>st\<close> is a later state of the slice that agrees with \<open>b\<close> from position \<open>base\<close> on.\<close>

definition agrees :: "'a objectValue list \<Rightarrow> 'a mapBuilder \<Rightarrow> nat \<Rightarrow> bool" where
  "agrees st b base \<longleftrightarrow> length (flat b) \<le> length st \<and>
     (\<forall>p. base \<le> p \<and> p < length (flat b) \<longrightarrow> st ! p = flat b ! p)"

definition grown :: "'a mapBuilder \<Rightarrow> nat \<Rightarrow> 'a mapBuilder \<Rightarrow> bool" where
  "grown b n b' \<longleftrightarrow> builder_inv b' \<and> keeps_ptrs b b' \<and>
     length (flat b) \<le> length (flat b') \<and> length (flat b') \<le> length (flat b) + n"

lemma grown_trans: "grown a m b \<Longrightarrow> grown b n c \<Longrightarrow> grown a (m + n) c"
  by (auto simp: grown_def intro: keeps_ptrs_trans)

lemma grown_mono: "grown a m b \<Longrightarrow> m \<le> n \<Longrightarrow> grown a n b"
  by (auto simp: grown_def)

definition mk_pre :: "'a mapBuilder \<Rightarrow> ptr \<Rightarrow> string list \<Rightarrow> nat \<Rightarrow> bool" where
  "mk_pre b bv a idx \<longleftrightarrow> builder_inv b \<and> valid_ptr b bv \<and> flat b ! fp b bv = zeroObjectValue \<and>
     a \<noteq> [] \<and> keys_at a idx"

definition mk_post ::
  "'a objectsSource \<Rightarrow> 'a mapBuilder \<Rightarrow> ptr \<Rightarrow> string list \<Rightarrow> nat \<Rightarrow> 'a mapBuilder \<Rightarrow> bool" where
  "mk_post src b bv a idx b' \<longleftrightarrow> grown b (255 * len_sum a idx) b' \<and>
     (\<forall>p < length (flat b). p \<noteq> fp b bv \<longrightarrow> flat b' ! p = flat b ! p) \<and>
     (length (flat b') \<le> 2 ^ 32 \<longrightarrow>
       (\<forall>st s. agrees st b' (length (flat b)) \<longrightarrow> st ! fp b bv = flat b' ! fp b bv \<longrightarrow>
          walk st (st ! fp b bv) (bytes_of_string s) = Some (answer src a idx s)))"

definition slot :: "'a mapBuilder \<Rightarrow> ptr \<Rightarrow> byte \<Rightarrow> char \<Rightarrow> nat" where
  "slot b nxt off c = fp b nxt + unat (byte_of_char c - off)"

definition loop_pre :: "'a mapBuilder \<Rightarrow> ptr \<Rightarrow> byte \<Rightarrow> byte \<Rightarrow> string list \<Rightarrow> nat \<Rightarrow> bool" where
  "loop_pre b nxt len off a idx \<longleftrightarrow> builder_inv b \<and>
     (\<forall>j < unat len. valid_ptr b (fst nxt, snd nxt + j)) \<and>
     keys_at a idx \<and> (\<forall>k \<in> set a. idx < length k) \<and>
     (\<forall>k \<in> set a. off \<le> s_at k idx \<and> unat (s_at k idx - off) < unat len \<and>
        flat b ! slot b nxt off (k ! idx) = zeroObjectValue)"

definition loop_post ::
  "'a objectsSource \<Rightarrow> 'a mapBuilder \<Rightarrow> ptr \<Rightarrow> byte \<Rightarrow> string list \<Rightarrow> nat \<Rightarrow> 'a mapBuilder \<Rightarrow> bool" where
  "loop_post src b nxt off a idx b' \<longleftrightarrow> grown b (255 * len_sum a (Suc idx)) b' \<and>
     (\<forall>p < length (flat b). (\<forall>k \<in> set a. p \<noteq> slot b nxt off (k ! idx)) \<longrightarrow> flat b' ! p = flat b ! p) \<and>
     (length (flat b') \<le> 2 ^ 32 \<longrightarrow>
       (\<forall>st. agrees st b' (length (flat b)) \<longrightarrow>
          (\<forall>k \<in> set a. st ! slot b nxt off (k ! idx) = flat b' ! slot b nxt off (k ! idx)) \<longrightarrow>
          (\<forall>k s. k \<in> set a \<longrightarrow> walk st (st ! slot b nxt off (k ! idx)) (bytes_of_string s) =
             Some (answer src (with_byte idx (k ! idx) a) (Suc idx) s))))"

lemma slot_fp: "fp b (fst nxt, snd nxt + unat (s_at k idx - off)) = slot b nxt off (k ! idx)"
  by (simp add: slot_def fp_def s_at_def)

lemma slot_keeps:
  assumes "keeps_ptrs b b'" and "valid_ptr b nxt"
  shows "slot b' nxt off c = slot b nxt off c"
  using assms unfolding slot_def keeps_ptrs_def by metis

lemma slot_inj:
  assumes "off \<le> byte_of_char c" "off \<le> byte_of_char d" "slot b nxt off c = slot b nxt off d"
  shows "c = d"
proof -
  have "unat off \<le> unat (byte_of_char c)" "unat off \<le> unat (byte_of_char d)"
    using assms by (simp_all only: word_le_nat_alt)
  with assms have "unat (byte_of_char c) = unat (byte_of_char d)"
    unfolding slot_def byte_diff_unat [OF assms(1)] byte_diff_unat [OF assms(2)] by linarith
  then have "byte_of_char c = byte_of_char d" by (simp only: unsigned_word_eqI)
  then show ?thesis by (simp only: inj_eq [OF inj_byte_of_char])
qed

lemma loop_step:
  assumes pre: "loop_pre b nxt len off (s # rest) idx"
    and mk: "mk_post src b (fst nxt, snd nxt + unat (s_at s idx - off)) (s # grp s rest idx) (Suc idx) b1"
    and lp: "loop_post src b1 nxt off (oth s rest idx) idx b'"
  shows "loop_post src b nxt off (s # rest) idx b'"
proof -
  let ?sl = "\<lambda>k. slot b nxt off (k ! idx)"
  have keys: "keys_at (s # rest) idx" and long: "\<forall>k \<in> set (s # rest). idx < length k"
    and off: "\<And>k. k \<in> set (s # rest) \<Longrightarrow> off \<le> byte_of_char (k ! idx)"
    and inv: "builder_inv b"
    using pre by (auto simp: loop_pre_def s_at_def)
  have "0 < unat len" using pre by (force simp: loop_pre_def)
  then have vn: "valid_ptr b nxt" using pre by (auto simp: loop_pre_def dest!: spec [of _ 0])
  have vs: "\<And>k. k \<in> set (s # rest) \<Longrightarrow> valid_ptr b (fst nxt, snd nxt + unat (s_at k idx - off))"
    using pre unfolding loop_pre_def by blast
  then have sl_less: "\<And>k. k \<in> set (s # rest) \<Longrightarrow> ?sl k < length (flat b)"
    using flat_nth(1) slot_fp by metis
  note mk' = mk [unfolded mk_post_def slot_fp] and lp' = lp [unfolded loop_post_def]
  have g1: "grown b (255 * len_sum (s # grp s rest idx) (Suc idx)) b1"
    and g2: "grown b1 (255 * len_sum (oth s rest idx) (Suc idx)) b'"
    using mk' lp' by auto
  have sl1: "slot b1 nxt off c = slot b nxt off c" for c
    using g1 vn by (auto simp: grown_def intro: slot_keeps)
  have ls: "len_sum (s # grp s rest idx) (Suc idx) + len_sum (oth s rest idx) (Suc idx) = len_sum (s # rest) (Suc idx)"
    by (simp add: len_sum_def) (metis grp_oth map_append sum_list_append)
  have gr: "grown b (255 * len_sum (s # rest) (Suc idx)) b'"
    using grown_trans [OF g1 g2] ls by (simp flip: distrib_left)
  have gt: "k \<in> set (oth s rest idx) \<Longrightarrow> s ! idx < k ! idx" for k
    using sorted_oth_greater [OF keys_at_sorted_char [OF keys long]] .
  have oth_sl: "?sl k \<noteq> ?sl s" if "k \<in> set (oth s rest idx)" for k
    using slot_inj [of off "k ! idx" "s ! idx" b nxt] off that gt [OF that] set_oth by force
  have len1: "length (flat b) \<le> length (flat b1)" "length (flat b1) \<le> length (flat b')"
    using g1 g2 by (auto simp: grown_def)
  have frame1: "flat b1 ! p = flat b ! p" if "p < length (flat b)" "p \<noteq> ?sl s" for p
    using mk' that by blast
  have frame2: "flat b' ! p = flat b1 ! p"
    if "p < length (flat b1)" "\<forall>k \<in> set (oth s rest idx). p \<noteq> ?sl k" for p
    using lp' that by (simp add: sl1)
  have fr: "flat b' ! p = flat b ! p"
    if "p < length (flat b)" "\<forall>k \<in> set (s # rest). p \<noteq> ?sl k" for p
  proof -
    have "\<forall>k \<in> set (oth s rest idx). p \<noteq> ?sl k" using that(2) set_oth by auto
    moreover have "p < length (flat b1)" "p \<noteq> ?sl s" using that len1 by auto
    ultimately show ?thesis using frame1 frame2 that(1) by metis
  qed
  have look: "walk st (st ! ?sl k) (bytes_of_string t) = Some (answer src (with_byte idx (k ! idx) (s # rest)) (Suc idx) t)"
    if small: "length (flat b') \<le> 2 ^ 32" and ag: "agrees st b' (length (flat b))"
      and eq: "\<forall>k \<in> set (s # rest). st ! ?sl k = flat b' ! ?sl k" and k: "k \<in> set (s # rest)"
    for st k t
  proof (cases "k ! idx = s ! idx")
    case True
    have "agrees st b1 (length (flat b))"
      unfolding agrees_def
    proof (intro conjI allI impI)
      show "length (flat b1) \<le> length st" using ag len1 by (auto simp: agrees_def)
      fix p assume p: "length (flat b) \<le> p \<and> p < length (flat b1)"
      have "\<forall>k \<in> set (oth s rest idx). ?sl k < length (flat b)" using sl_less set_oth by simp
      then have "\<forall>k \<in> set (oth s rest idx). p \<noteq> ?sl k" using p by auto
      then have "flat b' ! p = flat b1 ! p" using frame2 p by blast
      moreover have "st ! p = flat b' ! p" using ag p len1 by (auto simp: agrees_def)
      ultimately show "st ! p = flat b1 ! p" by simp
    qed
    moreover have "st ! ?sl s = flat b1 ! ?sl s"
    proof -
      have "\<forall>k \<in> set (oth s rest idx). ?sl s \<noteq> ?sl k" using oth_sl by metis
      moreover have "?sl s < length (flat b1)" using sl_less [of s] len1 by simp
      ultimately show ?thesis using eq frame2 by simp
    qed
    moreover have "length (flat b1) \<le> 2 ^ 32" using small len1 by simp
    ultimately have "walk st (st ! ?sl s) (bytes_of_string t) = Some (answer src (s # grp s rest idx) (Suc idx) t)"
      using mk' by blast
    then show ?thesis using True with_byte_same [OF keys long] by simp
  next
    case False
    then have ko: "k \<in> set (oth s rest idx)"
      using k by (metis Un_iff grp_oth set_ConsD set_append set_grp)
    have "agrees st b' (length (flat b1))" using ag len1 by (auto simp: agrees_def)
    moreover have "\<forall>k \<in> set (oth s rest idx). st ! slot b1 nxt off (k ! idx) = flat b' ! slot b1 nxt off (k ! idx)"
      using eq set_oth by (auto simp: sl1)
    ultimately have "walk st (st ! ?sl k) (bytes_of_string t) =
        Some (answer src (with_byte idx (k ! idx) (oth s rest idx)) (Suc idx) t)"
      using lp' small ko by (simp add: sl1)
    then show ?thesis using with_byte_other [OF False] by simp
  qed
  show ?thesis unfolding loop_post_def using gr fr look by blast
qed

lemma loop_pre_next:
  assumes pre: "loop_pre b nxt len off (s # rest) idx"
    and mk: "mk_post src b (fst nxt, snd nxt + unat (s_at s idx - off)) (s # grp s rest idx) (Suc idx) b1"
  shows "loop_pre b1 nxt len off (oth s rest idx) idx"
proof -
  have keys: "keys_at (s # rest) idx" and long: "\<forall>k \<in> set (s # rest). idx < length k"
    using pre by (auto simp: loop_pre_def)
  have g: "builder_inv b1" "keeps_ptrs b b1" using mk by (auto simp: mk_post_def grown_def)
  have lenpos: "0 < unat len" using pre by (force simp: loop_pre_def)
  have v: "valid_ptr b (fst nxt, snd nxt + j)" if "j < unat len" for j using pre that by (simp add: loop_pre_def)
  have vn: "valid_ptr b nxt" using v [OF lenpos] by simp
  have zero: "flat b1 ! slot b1 nxt off (k ! idx) = zeroObjectValue" if k: "k \<in> set (oth s rest idx)" for k
  proof -
    have kr: "k \<in> set (s # rest)" using k set_oth by simp
    have offs: "off \<le> byte_of_char (k ! idx)" "off \<le> byte_of_char (s ! idx)"
      and j: "unat (s_at k idx - off) < unat len"
      and z: "flat b ! slot b nxt off (k ! idx) = zeroObjectValue"
      using pre kr by (auto simp: loop_pre_def s_at_def)
    have "k ! idx \<noteq> s ! idx" using sorted_oth_greater [OF keys_at_sorted_char [OF keys long] k] by simp
    then have "slot b nxt off (k ! idx) \<noteq> slot b nxt off (s ! idx)" using slot_inj offs by blast
    moreover have "slot b nxt off (k ! idx) < length (flat b)"
      using flat_nth(1) [OF v [OF j]] by (simp add: slot_fp)
    ultimately have "flat b1 ! slot b nxt off (k ! idx) = flat b ! slot b nxt off (k ! idx)"
      using mk by (simp add: mk_post_def slot_fp)
    then show ?thesis using z slot_keeps [OF g(2) vn] by simp
  qed
  show ?thesis unfolding loop_pre_def
    using g zero v keys_at_oth [OF keys] pre set_oth by (auto simp: loop_pre_def keeps_ptrs_def)
qed

text \<open>The node that \<open>makeByteValue\<close> writes, and the state in which its loop starts.\<close>

definition fin_node :: "'a objectsSource \<Rightarrow> string list \<Rightarrow> nat \<Rightarrow> 'a objectValue \<Rightarrow> 'a objectValue" where
  "fin_node src a idx v =
     (if length (hd a) = idx then v\<lparr>valid := True, ov_value := src_get src (hd a)\<rparr> else v)"

definition more_keys :: "string list \<Rightarrow> nat \<Rightarrow> string list" where
  "more_keys a idx = (if length (hd a) = idx then tl a else a)"

definition node_len :: "string list \<Rightarrow> nat \<Rightarrow> byte" where
  "node_len a idx = s_at (last a) idx - s_at (hd a) idx + 1"

definition node_of :: "'a objectsSource \<Rightarrow> string list \<Rightarrow> nat \<Rightarrow> nat \<Rightarrow> 'a objectValue" where
  "node_of src a idx base =
     (fin_node src a idx zeroObjectValue)
       \<lparr>nextOffset := s_at (hd (more_keys a idx)) idx, nextLen := node_len (more_keys a idx) idx,
        nextLo := word_of_nat base\<rparr>"

lemma node_of_simps [simp]:
  "nextLo (node_of src a idx base) = word_of_nat base"
  "nextLen (node_of src a idx base) = node_len (more_keys a idx) idx"
  "nextOffset (node_of src a idx base) = s_at (hd (more_keys a idx)) idx"
  by (simp_all add: node_of_def)

definition loop_start :: "'a objectsSource \<Rightarrow> 'a mapBuilder \<Rightarrow> ptr \<Rightarrow> string list \<Rightarrow> nat \<Rightarrow> 'a mapBuilder \<times> ptr" where
  "loop_start src b bv a idx =
     alloc (write_ptr (if length (hd a) = idx then write_ptr b bv (fin_node src a idx) else b) bv
       (\<lambda>v. v\<lparr>nextOffset := s_at (hd (more_keys a idx)) idx, nextLen := node_len (more_keys a idx) idx,
            nextLo := word_of_nat (mb_len b)\<rparr>)) (node_len (more_keys a idx) idx)"

lemma mk_pre_more_keys:
  assumes "mk_pre b bv a idx"
  shows "keys_at (more_keys a idx) idx" "\<forall>k \<in> set (more_keys a idx). idx < length k"
proof -
  obtain k0 ks where a: "a = k0 # ks" and k: "keys_at (k0 # ks) idx"
    using assms by (cases a) (auto simp: mk_pre_def)
  show "keys_at (more_keys a idx) idx" using k by (auto simp: more_keys_def a dest: keys_at_tl)
  show "\<forall>k \<in> set (more_keys a idx). idx < length k"
    using k keys_at_not_fin [OF k] by (auto simp: more_keys_def a keys_at_def split: if_splits)
qed

lemma chars_between:
  assumes "keys_at a idx" "\<forall>k \<in> set a. idx < length k" "k \<in> set a"
  shows "s_at (hd a) idx \<le> s_at k idx" "s_at k idx \<le> s_at (last a) idx"
proof -
  have srt: "sorted (map (\<lambda>k. k ! idx) a)" using keys_at_sorted_char assms by blast
  obtain i where i: "i < length a" "a ! i = k" using assms(3) by (auto simp: in_set_conv_nth)
  have ne: "a \<noteq> []" using assms(3) by auto
  have "map (\<lambda>k. k ! idx) a ! 0 \<le> map (\<lambda>k. k ! idx) a ! i"
    using srt i by (intro sorted_nth_mono) auto
  moreover have "map (\<lambda>k. k ! idx) a ! i \<le> map (\<lambda>k. k ! idx) a ! (length a - 1)"
    using srt i by (intro sorted_nth_mono) auto
  ultimately show "s_at (hd a) idx \<le> s_at k idx" "s_at k idx \<le> s_at (last a) idx"
    using i ne by (auto simp: s_at_def byte_of_char_le_iff hd_conv_nth last_conv_nth)
qed

lemma node_len_bounds:
  assumes "keys_at a idx" "\<forall>k \<in> set a. idx < length k" "a \<noteq> []"
  shows "unat (node_len a idx) = unat (s_at (last a) idx) - unat (s_at (hd a) idx) + 1"
    "k \<in> set a \<Longrightarrow> unat (s_at k idx - s_at (hd a) idx) < unat (node_len a idx)"
proof -
  let ?l = "s_at (last a) idx" and ?h = "s_at (hd a) idx"
  have le: "?h \<le> ?l" using chars_between [OF assms(1,2), of "last a"] assms(3) by simp
  have "last a ! idx \<noteq> CHR 0xFF"
    using assms by (auto simp: keys_at_def) (metis last_in_set nth_mem)
  then have "?l \<noteq> byte_of_char (CHR 0xFF)" by (simp add: s_at_def inj_eq [OF inj_byte_of_char])
  then have "?l \<noteq> 255" by (simp add: byte_of_char_def)
  then have "unat ?l \<noteq> 255" by (simp add: word_unat_eq_iff)
  then have "unat ?l < 255" using unat_byte_less [of ?l] by linarith
  then have "unat (?l - ?h) + 1 < 256" using byte_diff_unat [OF le] by linarith
  then show len: "unat (node_len a idx) = unat ?l - unat ?h + 1"
    using byte_diff_unat [OF le] by (simp add: node_len_def unat_word_ariths)
  assume k: "k \<in> set a"
  from chars_between [OF assms(1,2) k]
  show "unat (s_at k idx - ?h) < unat (node_len a idx)"
    using le unfolding len by (simp add: byte_diff_unat word_le_nat_alt)
qed

lemma loop_start_spec:
  assumes pre: "mk_pre b bv a idx" and ls: "loop_start src b bv a idx = (b3, nxt)"
    and ne: "more_keys a idx \<noteq> []"
  defines "n \<equiv> unat (node_len (more_keys a idx) idx)"
  shows "flat b3 = (flat b)[fp b bv := node_of src a idx (length (flat b))] @ replicate n zeroObjectValue"
    "builder_inv b3" "keeps_ptrs b b3" "fp b3 nxt = length (flat b)"
    "j < n \<Longrightarrow> valid_ptr b3 (fst nxt, snd nxt + j)"
proof -
  let ?b1 = "if length (hd a) = idx then write_ptr b bv (fin_node src a idx) else b"
  let ?f = "\<lambda>v. v\<lparr>nextOffset := s_at (hd (more_keys a idx)) idx, nextLen := node_len (more_keys a idx) idx,
            nextLo := word_of_nat (mb_len b)\<rparr>"
  let ?b2 = "write_ptr ?b1 bv ?f"
  have inv: "builder_inv b" and v: "valid_ptr b bv" and z: "flat b ! fp b bv = zeroObjectValue"
    using pre by (auto simp: mk_pre_def)
  have v1: "valid_ptr ?b1 bv" and fp1: "fp ?b1 bv = fp b bv" using v by auto
  have lt: "fp b bv < length (flat b)" using flat_nth v by blast
  have f1: "flat ?b1 = (flat b)[fp b bv := fin_node src a idx zeroObjectValue]"
    using v z list_update_id [of "flat b" "fp b bv"] by (auto simp: flat_write fin_node_def)
  have f2: "flat ?b2 = (flat b)[fp b bv := node_of src a idx (length (flat b))]"
    unfolding flat_write [OF v1] fp1 f1 using lt inv by (simp add: node_of_def builder_inv_def)
  have inv2: "builder_inv ?b2" using inv v by simp
  have k2: "keeps_ptrs b ?b2" by (auto simp: keeps_ptrs_def)
  have al: "alloc ?b2 (node_len (more_keys a idx) idx) = (b3, nxt)"
    using ls by (simp add: loop_start_def)
  note sp = alloc_spec [OF inv2 al]
  show "flat b3 = (flat b)[fp b bv := node_of src a idx (length (flat b))] @ replicate n zeroObjectValue"
    using sp(2) f2 by (simp add: n_def)
  show "builder_inv b3" by (rule sp(1))
  show "keeps_ptrs b b3" using k2 sp(3) by (rule keeps_ptrs_trans)
  show "fp b3 nxt = length (flat b)" using sp(4) f2 by simp
  show "j < n \<Longrightarrow> valid_ptr b3 (fst nxt, snd nxt + j)" using sp(5) by (simp add: n_def)
qed

lemma loop_start_pre:
  assumes pre: "mk_pre b bv a idx" and ls: "loop_start src b bv a idx = (b3, nxt)"
    and ne: "more_keys a idx \<noteq> []"
  shows "loop_pre b3 nxt (node_len (more_keys a idx) idx) (s_at (hd (more_keys a idx)) idx) (more_keys a idx) idx"
proof -
  note sp = loop_start_spec [OF pre ls ne]
  note keys = mk_pre_more_keys [OF pre]
  let ?a = "more_keys a idx"
  have "flat b3 ! slot b3 nxt (s_at (hd ?a) idx) (k ! idx) = zeroObjectValue" if "k \<in> set ?a" for k
    using node_len_bounds(2) [OF keys ne that] unfolding slot_def sp(1,4)
    by (simp add: nth_append s_at_def)
  then show ?thesis unfolding loop_pre_def
    using sp(2,5) keys chars_between(1) [OF keys] node_len_bounds(2) [OF keys ne] by blast
qed

lemma len_sum_Suc:
  "\<forall>k \<in> set a. idx < length k \<Longrightarrow> a \<noteq> [] \<Longrightarrow> len_sum a (Suc idx) + 1 \<le> len_sum a idx"
proof (induction a)
  case (Cons k a)
  then show ?case by (cases "a = []") (auto simp: len_sum_def)
qed simp

lemma len_sum_more_keys: "len_sum (more_keys a idx) idx \<le> len_sum a idx"
  by (cases a) (auto simp: len_sum_def more_keys_def)

lemma with_byte_more_keys: "a \<noteq> [] \<Longrightarrow> with_byte idx c (more_keys a idx) = with_byte idx c a"
  by (cases a) (auto simp: with_byte_def more_keys_def)

lemma mk_step:
  assumes pre: "mk_pre b bv a idx" and ls: "loop_start src b bv a idx = (b3, nxt)"
    and ne: "more_keys a idx \<noteq> []"
    and lp: "loop_post src b3 nxt (s_at (hd (more_keys a idx)) idx) (more_keys a idx) idx b'"
  shows "mk_post src b bv a idx b'"
proof -
  let ?a = "more_keys a idx"
  let ?off = "s_at (hd ?a) idx"
  let ?n = "unat (node_len ?a idx)"
  let ?L = "length (flat b)"
  note sp = loop_start_spec [OF pre ls ne]
  note keys = mk_pre_more_keys [OF pre]
  have pres: "builder_inv b" "valid_ptr b bv" "a \<noteq> []" using pre by (auto simp: mk_pre_def)
  have lt: "fp b bv < ?L" using flat_nth pres by blast
  have l3: "length (flat b3) = ?L + ?n" by (simp add: sp(1))
  have g3: "grown b3 (255 * len_sum ?a (Suc idx)) b'" using lp by (simp add: loop_post_def)
  have "?n \<le> 255" using unat_byte_less [of "node_len ?a idx"] by linarith
  moreover have "255 * len_sum ?a (Suc idx) + 255 \<le> 255 * len_sum a idx"
    using len_sum_Suc [OF keys(2) ne] len_sum_more_keys [of a idx] by linarith
  ultimately have gr: "grown b (255 * len_sum a idx) b'"
    using g3 l3 sp(3) unfolding grown_def by (auto intro: keeps_ptrs_trans)
  have sl: "slot b3 nxt ?off c = ?L + unat (byte_of_char c - ?off)" for c
    by (simp add: slot_def sp(4))
  have fr3: "flat b' ! p = flat b3 ! p"
    if "p < length (flat b3)" "\<forall>k \<in> set ?a. p \<noteq> slot b3 nxt ?off (k ! idx)" for p
    using lp that by (simp add: loop_post_def)
  have low: "flat b' ! p = (flat b)[fp b bv := node_of src a idx ?L] ! p" if "p < ?L" for p
    using fr3 [of p] that l3 by (auto simp: sl sp(1) nth_append)
  have look: "walk st (st ! fp b bv) (bytes_of_string s) = Some (answer src a idx s)"
    if small: "length (flat b') \<le> 2 ^ 32" and ag: "agrees st b' ?L"
      and eq: "st ! fp b bv = flat b' ! fp b bv" for st s
  proof -
    have node: "st ! fp b bv = node_of src a idx ?L" using eq low [OF lt] lt by simp
    have l': "?L + ?n \<le> length (flat b')" using g3 l3 by (simp add: grown_def)
    have lst: "length (flat b') \<le> length st" using ag by (simp add: agrees_def)
    show ?thesis
    proof (cases s)
      case Nil
      have "answer src a idx [] = (ov_value (node_of src a idx ?L), valid (node_of src a idx ?L))"
      proof (cases "length (hd a) = idx")
        case True
        then show ?thesis using pres(3) answer_fin [of src "hd a" "tl a"]
          by (simp add: node_of_def fin_node_def)
      next
        case False
        then have "more_keys a idx = a" by (simp add: more_keys_def)
        with keys(2) answer_not_fin [of a idx src] False show ?thesis
          by (simp add: node_of_def fin_node_def zeroObjectValue_def)
      qed
      with node Nil show ?thesis by (simp add: bytes_of_string_def)
    next
      case (Cons c t)
      have ans: "answer src a idx (c # t) = answer src (with_byte idx c ?a) (Suc idx) t"
        by (simp add: answer_Cons with_byte_more_keys pres(3))
      have wn: "walk st (st ! fp b bv) (bytes_of_string (c # t)) =
        (if byte_of_char c < ?off \<or> ?n \<le> unat (byte_of_char c - ?off) then Some (None, False)
         else walk st (st ! slot b3 nxt ?off c) (bytes_of_string t))"
        unfolding node bytes_of_string_Cons sl using l' lst small
        by (subst walk_node [where base = ?L]) (simp_all del: walk.simps)
      show ?thesis
      proof (cases "\<exists>k \<in> set ?a. k ! idx = c")
        case True
        then obtain k where k: "k \<in> set ?a" "k ! idx = c" by blast
        have "\<not> byte_of_char c < ?off" "unat (byte_of_char c - ?off) < ?n"
          using chars_between(1) [OF keys k(1)] node_len_bounds(2) [OF keys ne k(1)] k(2)
          by (auto simp: s_at_def)
        moreover have "agrees st b' (length (flat b3))" using ag l3 by (auto simp: agrees_def)
        moreover have "\<forall>k \<in> set ?a. st ! slot b3 nxt ?off (k ! idx) = flat b' ! slot b3 nxt ?off (k ! idx)"
        proof
          fix k assume "k \<in> set ?a"
          then have "?L + unat (s_at k idx - ?off) < length (flat b')"
            using node_len_bounds(2) [OF keys ne, of k] l' by linarith
          with ag show "st ! slot b3 nxt ?off (k ! idx) = flat b' ! slot b3 nxt ?off (k ! idx)"
            by (simp add: agrees_def sl s_at_def [of k])
        qed
        ultimately show ?thesis using lp small k wn Cons ans unfolding loop_post_def by auto
      next
        case False
        then have "with_byte idx c ?a = []" by (auto simp: with_byte_empty_iff)
        moreover have "walk st (st ! slot b3 nxt ?off c) (bytes_of_string t) = Some (None, False)"
          if c: "?off \<le> byte_of_char c" "unat (byte_of_char c - ?off) < ?n"
        proof -
          have "slot b3 nxt ?off c \<noteq> slot b3 nxt ?off (k ! idx)" if "k \<in> set ?a" for k
            using slot_inj [OF c(1), of "k ! idx" b3 nxt] chars_between(1) [OF keys that] False that
            by (auto simp: s_at_def)
          then have "flat b' ! slot b3 nxt ?off c = zeroObjectValue"
            using fr3 [of "slot b3 nxt ?off c"] c(2) l3 by (simp add: sl sp(1) nth_append)
          moreover have "st ! slot b3 nxt ?off c = flat b' ! slot b3 nxt ?off c"
            using ag c(2) l' by (auto simp: agrees_def sl)
          ultimately show ?thesis by simp
        qed
        ultimately show ?thesis using wn Cons ans by auto
      qed
    qed
  qed
  show ?thesis unfolding mk_post_def using gr low look by (auto simp: nth_list_update)
qed

text \<open>\<open>makeByteValue\<close> in terms of \<^const>\<open>loop_start\<close>.\<close>

lemma makeByteValue_unfold:
  "makeByteValue src b bv a idx =
     (if a = [] then None
      else if more_keys a idx = [] then Some (write_ptr b bv (fin_node src a idx))
      else if \<not> (idx < length (hd (more_keys a idx)) \<and> idx < length (last (more_keys a idx))) then None
      else let (b3, nxt) = loop_start src b bv a idx
           in makeLoop src b3 nxt (node_len (more_keys a idx) idx) (s_at (hd (more_keys a idx)) idx)
                (more_keys a idx) idx)"
proof (cases "length (hd a) = idx")
  case True
  have "fin_node src a idx = (\<lambda>v. v\<lparr>valid := True, ov_value := src_get src (hd a)\<rparr>)"
    using True by (auto simp: fin_node_def)
  with True show ?thesis
    by (simp add: makeByteValue.simps [of src b bv a] more_keys_def loop_start_def node_len_def Let_def)
next
  case False
  then show ?thesis
    by (simp add: makeByteValue.simps [of src b bv a] more_keys_def loop_start_def node_len_def Let_def)
qed

lemma mk_leaf:
  assumes pre: "mk_pre b bv a idx" and "more_keys a idx = []"
  shows "mk_post src b bv a idx (write_ptr b bv (fin_node src a idx))"
proof -
  obtain k where a: "a = [k]" "length k = idx"
    using assms by (cases a) (auto simp: mk_pre_def more_keys_def split: if_splits)
  have v: "valid_ptr b bv" and z: "flat b ! fp b bv = zeroObjectValue" and inv: "builder_inv b"
    using pre by (auto simp: mk_pre_def)
  have lt: "fp b bv < length (flat b)" using flat_nth v by blast
  have fl: "flat (write_ptr b bv (fin_node src a idx)) = (flat b)[fp b bv := fin_node src a idx zeroObjectValue]"
    using v z by (simp add: flat_write)
  have "walk st (fin_node src a idx zeroObjectValue) (bytes_of_string s) = Some (answer src a idx s)" for st s
    using a by (cases s) (simp_all add: fin_node_def zeroObjectValue_def bytes_of_string_def answer_def)
  then show ?thesis
    using v inv fl lt by (simp add: mk_post_def grown_def keeps_ptrs_write)
qed

lemma build_correct:
  fixes src :: "'a objectsSource" and src2 :: "'a objectsSource"
  shows "mk_pre b bv a idx \<Longrightarrow> \<exists>b'. makeByteValue src b bv a idx = Some b' \<and> mk_post src b bv a idx b'"
  "loop_pre b2 nxt len off a2 idx2 \<Longrightarrow>
   \<exists>b'. makeLoop src2 b2 nxt len off a2 idx2 = Some b' \<and> loop_post src2 b2 nxt off a2 idx2 b'"
proof (induction src b bv a idx and src2 b2 nxt len off a2 idx2 rule: makeByteValue_makeLoop.induct)
  case (1 src b bv a idx)
  have ane: "a \<noteq> []" using 1(2) by (simp add: mk_pre_def)
  show ?case
  proof (cases "more_keys a idx = []")
    case True
    with mk_leaf [OF 1(2) True] ane show ?thesis by (simp add: makeByteValue_unfold)
  next
    case False
    obtain b3 nxt where ls: "loop_start src b bv a idx = (b3, nxt)"
      by (cases "loop_start src b bv a idx")
    note keys = mk_pre_more_keys [OF 1(2)]
    have lens: "idx < length (hd (more_keys a idx))" "idx < length (last (more_keys a idx))"
      using keys(2) False by auto
    have "\<exists>b'. makeLoop src b3 nxt (node_len (more_keys a idx) idx) (s_at (hd (more_keys a idx)) idx)
        (more_keys a idx) idx = Some b' \<and> loop_post src b3 nxt (s_at (hd (more_keys a idx)) idx) (more_keys a idx) idx b'"
    proof -
      have "loop_pre b3 nxt (node_len (more_keys a idx) idx) (s_at (hd (more_keys a idx)) idx) (more_keys a idx) idx"
        by (rule loop_start_pre [OF 1(2) ls False])
      moreover have "(b3, nxt) = alloc (write_ptr
          (if length (hd a) = idx
           then write_ptr b bv (\<lambda>v. v\<lparr>valid := True, ov_value := src_get src (hd a)\<rparr>) else b) bv
          (\<lambda>v. v\<lparr>nextOffset := s_at (hd (more_keys a idx)) idx, nextLen := node_len (more_keys a idx) idx,
            nextLo := word_of_nat (mb_len (if length (hd a) = idx
           then write_ptr b bv (\<lambda>v. v\<lparr>valid := True, ov_value := src_get src (hd a)\<rparr>) else b))\<rparr>))
          (node_len (more_keys a idx) idx)"
        using ls by (cases "length (hd a) = idx") (auto simp: loop_start_def fin_node_def [abs_def])
      ultimately show ?thesis
        using False lens unfolding node_len_def more_keys_def
        by (intro 1(1) [OF ane refl refl refl _ _ refl refl refl refl]) auto
    qed
    then show ?thesis
      using mk_step [OF 1(2) ls False] ls False lens ane by (auto simp: makeByteValue_unfold)
  qed
next
  case (2 src b nxt len off idx)
  then show ?case by (auto simp: loop_post_def grown_def loop_pre_def len_sum_def)
next
  case (3 src b nxt len off s rest idx)
  let ?n = "length (grp s rest idx)"
  let ?i = "s_at s idx - off"
  have keys: "keys_at (s # rest) idx" and long: "\<forall>k \<in> set (s # rest). idx < length k"
    using 3(3) by (auto simp: loop_pre_def)
  have sb: "sameByte rest idx (s_at s idx) = Some ?n"
    using long by (simp add: sameByte_takeWhile grp_def)
  have tk: "take ?n rest = grp s rest idx" and dr: "drop ?n rest = oth s rest idx"
    by (simp_all add: grp_def oth_def takeWhile_eq_take [symmetric] dropWhile_eq_drop [symmetric])
  have i: "unat ?i < unat len" using 3(3) by (auto simp: loop_pre_def)
  have pre1: "mk_pre b (fst nxt, snd nxt + unat ?i) (s # grp s rest idx) (idx + 1)"
    using 3(3) keys_at_grp [OF keys long] i by (simp add: mk_pre_def loop_pre_def slot_fp)
  obtain b1 where b1: "makeByteValue src b (fst nxt, snd nxt + unat ?i) (s # grp s rest idx) (idx + 1) = Some b1"
    and p1: "mk_post src b (fst nxt, snd nxt + unat ?i) (s # grp s rest idx) (idx + 1) b1"
    using 3(1) [OF _ sb refl] long i pre1 by (auto simp: tk)
  have pre2: "loop_pre b1 nxt len off (oth s rest idx) idx"
    using loop_pre_next [OF 3(3)] p1 by simp
  obtain b' where b': "makeLoop src b1 nxt len off (oth s rest idx) idx = Some b'"
    and p2: "loop_post src b1 nxt off (oth s rest idx) idx b'"
    using 3(2) [OF _ sb refl] long i b1 pre2 by (auto simp: tk dr)
  have "makeLoop src b nxt len off (s # rest) idx = Some b'"
    using long i sb b1 b' by (simp add: makeLoop.simps(2) tk dr)
  moreover have "loop_post src b nxt off (s # rest) idx b'"
    using loop_step [OF 3(3)] p1 p2 by simp
  ultimately show ?case by blast
qed

section \<open>The index answers exactly the keys it was built from\<close>

lemma walk_string_walk:
  "i + m \<le> length s \<Longrightarrow> walk_string store bv s i m = walk store bv (bytes_of_string (take m (drop i s)))"
proof (induction m arbitrary: bv i)
  case (Suc m)
  then have i: "i < length s" by simp
  have "take (Suc m) (drop i s) = s ! i # take m (drop (Suc i) s)"
    using i by (simp flip: Cons_nth_drop_Suc)
  with Suc show ?case by (simp add: bytes_of_string_Cons s_at_def Let_def)
qed (simp add: bytes_of_string_def)

lemma lookup_string_bytes: "LookupString store s = LookupBytes store (bytes_of_string s)"
  by (simp add: LookupString_def LookupBytes_def walk_string_walk)

text \<open>
  \<open>LookupString\<close> and \<open>LookupBytes\<close> are the same search: looking a string up equals looking
  its bytes up, in every store, panics included.
\<close>
lemma LookupString_LookupBytes: "LookupString store s = LookupBytes store (bytes_of_string s)"
  by (rule lookup_string_bytes)

definition index_keys_ok :: "string list \<Rightarrow> bool" where
  "index_keys_ok keys \<longleftrightarrow> distinct keys \<and> (\<forall>k \<in> set keys. CHR 0xFF \<notin> set k) \<and>
     1 + 255 * sum_list (map length keys) \<le> 2 ^ 32"

lemma firstBufSize_builder:
  "mk_pre \<lparr>all_blocks = [(c, [zeroObjectValue])], mb_len = 1\<rparr> (0, 0) keys 0 \<longleftrightarrow> keys \<noteq> [] \<and> keys_at keys 0"
  by (auto simp: mk_pre_def builder_inv_def flat_def valid_ptr_def block_len_def fp_def)

lemma answer_0: "answer src keys 0 s = (if s \<in> set keys then (src_get src s, True) else (None, False))"
  by (induction keys) (auto simp: answer_def)

lemma objectBuild_lookup:
  assumes "keys \<noteq> []" "sorted keys" "index_keys_ok keys"
  shows "\<exists>store. objectBuild keys src = Some store \<and> (\<forall>s. LookupString store s =
     Some (if s \<in> set keys then (src_get src s, True) else (None, False)))"
proof -
  define b0 :: "'a mapBuilder" where
    "b0 = \<lparr>all_blocks = [(firstBufSize (length keys), [zeroObjectValue])], mb_len = 1\<rparr>"
  have "mk_pre b0 (0, 0) keys 0"
    unfolding b0_def firstBufSize_builder using assms by (simp add: keys_at_def index_keys_ok_def)
  then obtain b' where b': "makeByteValue src b0 (0, 0) keys 0 = Some b'" "mk_post src b0 (0, 0) keys 0 b'"
    using build_correct(1) by blast
  have fl: "flat b0 = [zeroObjectValue]" "fp b0 (0, 0) = 0" by (simp_all add: flat_def fp_def b0_def)
  have "length (flat b') \<le> 1 + 255 * len_sum keys 0"
    using b'(2) by (simp add: mk_post_def grown_def fl)
  then have small: "length (flat b') \<le> 2 ^ 32" using assms(3) by (simp add: index_keys_ok_def len_sum_def)
  have ne: "flat b' \<noteq> []" using b'(2) by (auto simp: mk_post_def grown_def fl)
  have "walk (flat b') (flat b' ! 0) (bytes_of_string s) = Some (answer src keys 0 s)" for s
    using b'(2) small by (simp add: mk_post_def fl agrees_def)
  moreover have "objectBuild keys src = Some (flat b')"
    using b'(1) by (simp add: objectBuild_def flat_def b0_def)
  ultimately show ?thesis using ne by (simp add: lookup_string_bytes LookupBytes_def answer_0)
qed

lemma sum_list_map_insort: "sum_list (map f (insort x xs)) = f x + sum_list (map f xs)" for f :: "'b::linorder \<Rightarrow> nat"
  by (induction xs) auto

lemma sum_list_map_sort: "sum_list (map f (sort xs)) = sum_list (map f xs)" for f :: "'b::linorder \<Rightarrow> nat"
  by (induction xs) (auto simp: sum_list_map_insort)

lemma newAddressMemStore_spec:
  assumes "index_keys_ok (appendKeys src [])"
  shows "\<exists>store. newAddressMemStore src = Some store \<and> (\<forall>s. LookupString store s =
     Some (if s \<in> set (appendKeys src []) then (src_get src s, True) else (None, False)))"
proof (cases "appendKeys src [] = []")
  case True
  have "LookupString [zeroObjectValue :: 'a objectValue] s = Some (None, False)" for s
    by (simp add: lookup_string_bytes LookupBytes_def)
  with True show ?thesis by (simp add: newAddressMemStore_def)
next
  case False
  have "index_keys_ok (sort (appendKeys src []))"
    using assms by (simp add: index_keys_ok_def sum_list_map_sort)
  moreover have "sort (appendKeys src []) \<noteq> []" using False by (metis set_empty set_sort)
  ultimately show ?thesis using False objectBuild_lookup [of "sort (appendKeys src [])" src]
    by (simp add: newAddressMemStore_def)
qed

text \<open>
  C11. The packed index is correct: built from any source with pairwise distinct keys that contain
  no byte 0xFF and fit a uint32 index, \<open>newAddressMemStore\<close> returns a store (no panic), and
  \<open>LookupString\<close> on it returns the source's value for exactly the keys of the source, and
  \<open>(nil, false)\<close> for every other string.
\<close>
theorem newAddressMemStore_lookup:
  assumes "index_keys_ok (appendKeys src [])"
  shows "\<exists>store. newAddressMemStore src = Some store \<and> (\<forall>s. LookupString store s =
     Some (if s \<in> set (appendKeys src []) then (src_get src s, True) else (None, False)))"
  using newAddressMemStore_spec [OF assms] .

definition demo_source :: "nat objectsSource" where
  "demo_source = \<lparr>appendKeys = (\<lambda>_. [''0xb'', ''0xa'', ''0x'']), src_get = (\<lambda>k. Some (length k))\<rparr>"

theorem newAddressMemStore_lookup_witness:
  "index_keys_ok (appendKeys demo_source []) \<and>
   (\<exists>store. newAddressMemStore demo_source = Some store \<and>
      LookupString store ''0xa'' = Some (Some 3, True) \<and> LookupString store ''0xc'' = Some (None, False))"
proof -
  have ok: "index_keys_ok (appendKeys demo_source [])"
    by (simp add: index_keys_ok_def demo_source_def)
  from newAddressMemStore_lookup [OF ok] ok show ?thesis
    by (auto simp: demo_source_def)
qed

text \<open>
  Without the restriction on the byte 0xFF the construction fails: two keys that start with the
  bytes 0x00 and 0xFF make the one-byte child count wrap to 0, and building the index panics with
  an index out of range.
\<close>
lemma objectBuild_full_range_panics: "objectBuild [[CHR 0x00], [CHR 0xFF]] src = None"
  by (simp add: objectBuild_def makeByteValue_unfold more_keys_def node_len_def s_at_def byte_of_char_def
      loop_start_def alloc_def makeLoop.simps(2) split: prod.split)

end
