(* ===== verification/Hexnum.thy ===== *)
theory Hexnum
  imports Prelude
begin

text \<open>
  The hexadecimal conversions of \<open>common/hexnum\<close>, with the parts of \<open>fmt\<close> (verb \<open>%x\<close>),
  \<open>strconv\<close> (\<open>ParseInt\<close>, \<open>ParseUint\<close> in base 16), \<open>encoding/hex\<close> and \<open>strings\<close> they use.
\<close>

section \<open>Library functions the package uses\<close>

definition hex_char :: "nat \<Rightarrow> char" where
  "hex_char d = ''0123456789abcdef'' ! d"

text \<open>A hexadecimal digit in either case (\<open>strconv\<close> and \<open>encoding/hex\<close> accept both).\<close>

definition hex_val :: "char \<Rightarrow> nat option" where
  "hex_val c =
     (let n = of_char c
      in if 48 \<le> n \<and> n \<le> 57 then Some (n - 48)
         else if 97 \<le> n \<and> n \<le> 102 then Some (n - 87)
         else if 65 \<le> n \<and> n \<le> 70 then Some (n - 55)
         else None)"

text \<open>\<open>fmt.Sprintf("%x", n)\<close> for unsigned, signed and byte-slice arguments.\<close>

definition fmt_x_nat :: "nat \<Rightarrow> string" where
  "fmt_x_nat n = (if n = 0 then ''0'' else map hex_char (pos_digits 16 n))"

definition fmt_x_int :: "int \<Rightarrow> string" where
  "fmt_x_int i = (if i < 0 then ''-'' @ fmt_x_nat (nat (- i)) else fmt_x_nat (nat i))"

fun fmt_x_bytes :: "bytes \<Rightarrow> string" where
  "fmt_x_bytes [] = []"
| "fmt_x_bytes (b # bs) = hex_char (unat b div 16) # hex_char (unat b mod 16) # fmt_x_bytes bs"

text \<open>\<open>strings.TrimPrefix\<close>.\<close>

definition trim_prefix :: "string \<Rightarrow> string \<Rightarrow> string" where
  "trim_prefix p s = (if take (length p) s = p then drop (length p) s else s)"

datatype hex_error = ErrSyntax | ErrRange | InvalidByteError | ErrLength

text \<open>
  \<open>strconv.ParseUint(s, 16, 64)\<close>: the digit loop, with the overflow test \<open>n >= cutoff\<close>
  (\<open>cutoff = maxUint64/16 + 1 = 2 ^ 60\<close>) before each multiplication.
\<close>

fun parse_uint_loop :: "nat \<Rightarrow> string \<Rightarrow> (hex_error, nat) res" where
  "parse_uint_loop n [] = Ok n"
| "parse_uint_loop n (c # cs) =
     (case hex_val c of
        None \<Rightarrow> Err ErrSyntax
      | Some d \<Rightarrow> if n \<ge> 2 ^ 60 then Err ErrRange else parse_uint_loop (n * 16 + d) cs)"

definition parse_uint16 :: "string \<Rightarrow> (hex_error, nat) res" where
  "parse_uint16 s = (if s = [] then Err ErrSyntax else parse_uint_loop 0 s)"

text \<open>\<open>strconv.ParseInt(s, 16, 64)\<close>: optional sign, then the unsigned value and its range.\<close>

definition parse_int16 :: "string \<Rightarrow> (hex_error, int) res" where
  "parse_int16 s =
     (if s = [] then Err ErrSyntax
      else
        let neg = (hd s = CHR ''-'');
            digits = (if hd s = CHR ''+'' \<or> hd s = CHR ''-'' then tl s else s)
        in case parse_uint16 digits of
             Err e \<Rightarrow> Err e
           | Panic \<Rightarrow> Panic
           | Ok un \<Rightarrow>
               if \<not> neg \<and> un \<ge> 2 ^ 63 then Err ErrRange
               else if neg \<and> un > 2 ^ 63 then Err ErrRange
               else Ok (if neg then - int un else int un))"

text \<open>\<open>hex.DecodeString\<close>: pairs of digits; an odd last digit is an error.\<close>

fun hex_decode :: "string \<Rightarrow> (hex_error, bytes) res" where
  "hex_decode [] = Ok []"
| "hex_decode [c] = (case hex_val c of None \<Rightarrow> Err InvalidByteError | Some _ \<Rightarrow> Err ErrLength)"
| "hex_decode (c # d # cs) =
     (case hex_val c of
        None \<Rightarrow> Err InvalidByteError
      | Some h \<Rightarrow>
          (case hex_val d of
             None \<Rightarrow> Err InvalidByteError
           | Some l \<Rightarrow>
               (case hex_decode cs of
                  Ok bs \<Rightarrow> Ok (word_of_nat (16 * h + l) # bs)
                | Err e \<Rightarrow> Err e
                | Panic \<Rightarrow> Panic)))"

section \<open>Encoding\<close>

definition Int64ToHex :: "int \<Rightarrow> string" where
  "Int64ToHex num = ''0x'' @ fmt_x_int num"

definition IntToHex :: "int \<Rightarrow> string" where
  "IntToHex num = ''0x'' @ fmt_x_int num"

definition Uint64ToHex :: "nat \<Rightarrow> string" where
  "Uint64ToHex num = ''0x'' @ fmt_x_nat num"

definition UintToHex :: "nat \<Rightarrow> string" where
  "UintToHex num = ''0x'' @ fmt_x_nat num"

text \<open>\<open>nil\<close> is \<^const>\<open>None\<close>; \<open>big.Int.Bytes\<close> is the absolute value.\<close>

definition BigIntToHex :: "int option \<Rightarrow> string" where
  "BigIntToHex num =
     (case num of
        None \<Rightarrow> ''0x0''
      | Some n \<Rightarrow> if n = 0 then ''0x0''
                  else ''0x'' @ trim_prefix ''0'' (fmt_x_bytes (be_bytes (nat \<bar>n\<bar>))))"

definition BytesToHex :: "bytes \<Rightarrow> string" where
  "BytesToHex b = ''0x'' @ fmt_x_bytes b"

section \<open>Parsing\<close>

definition ParseHexInt :: "string \<Rightarrow> (hex_error, int) res" where
  "ParseHexInt s = parse_int16 (trim_prefix ''0x'' s)"

definition ParseHexInt64 :: "string \<Rightarrow> (hex_error, int) res" where
  "ParseHexInt64 s = parse_int16 (trim_prefix ''0x'' s)"

definition ParseHexUint64 :: "string \<Rightarrow> (hex_error, nat) res" where
  "ParseHexUint64 s = parse_uint16 (trim_prefix ''0x'' s)"

definition ParseBigInt :: "string \<Rightarrow> (hex_error, int) res" where
  "ParseBigInt s =
     (let v = trim_prefix ''0x'' s;
          v = (if length v mod 2 \<noteq> 0 then ''0'' @ v else v)
      in case hex_decode v of
           Err e \<Rightarrow> Err e
         | Panic \<Rightarrow> Panic
         | Ok b \<Rightarrow> Ok (int (be_value b)))"

definition ParseHexBytes :: "string \<Rightarrow> (hex_error, bytes) res" where
  "ParseHexBytes s = hex_decode (trim_prefix ''0x'' s)"

section \<open>Digits\<close>

lemma hex_val_hex_char [simp]: "d < 16 \<Longrightarrow> hex_val (hex_char d) = Some d"
proof -
  assume "d < 16"
  then have "d \<in> set [0..<16]" by simp
  moreover have "\<forall>d \<in> set [0..<16]. hex_val (hex_char d) = Some d" by code_simp
  ultimately show ?thesis by blast
qed

lemma hex_val_less: "hex_val c = Some d \<Longrightarrow> d < 16"
  by (auto simp: hex_val_def Let_def split: if_splits)

lemma hex_val_zero [simp]: "hex_val (CHR ''0'') = Some 0"
  by (simp add: hex_val_def)

lemma trim_prefix_0x [simp]: "trim_prefix ''0x'' (CHR ''0'' # CHR ''x'' # s) = s"
  by (simp add: trim_prefix_def)

lemma trim_prefix_append [simp]: "trim_prefix p (p @ s) = s"
  by (simp add: trim_prefix_def)

lemma hex_decode_fmt_x [simp]: "hex_decode (fmt_x_bytes bs) = Ok bs"
proof (induction bs)
  case (Cons b bs)
  have "unat b div 16 < 16" using unat_byte_less [of b] by (simp add: div_less_iff_less_mult)
  moreover have "16 * (unat b div 16) + unat b mod 16 = unat b" by simp
  ultimately show ?case using Cons by (simp del: mult_div_mod_eq)
qed simp

lemma length_fmt_x_bytes [simp]: "length (fmt_x_bytes bs) = 2 * length bs"
  by (induction bs) auto

lemma hex_decode_no_panic: "hex_decode s \<noteq> Panic"
proof (induction s rule: hex_decode.induct)
  case (3 c d cs)
  then show ?case by (cases "hex_val c"; cases "hex_val d"; cases "hex_decode cs") auto
qed (auto split: option.splits)

text \<open>A decoded string gives back the digits' value.\<close>

lemma be_value_Cons: "be_value (b # bs) = unat b * 256 ^ length bs + be_value bs"
  by (simp add: be_value_def pos_value_Cons)

lemma hex_decode_value:
  "hex_decode s = Ok bs \<Longrightarrow>
   list_all (\<lambda>c. hex_val c \<noteq> None) s \<and> length s = 2 * length bs \<and>
   be_value bs = pos_value 16 (map (\<lambda>c. the (hex_val c)) s)"
proof (induction s arbitrary: bs rule: hex_decode.induct)
  case (3 c d cs)
  then obtain h l bs' where hl: "hex_val c = Some h" "hex_val d = Some l" "hex_decode cs = Ok bs'"
    and bs: "bs = word_of_nat (16 * h + l) # bs'"
    by (auto split: option.splits res.splits)
  have "16 * h + l < 256" using hex_val_less [OF hl(1)] hex_val_less [OF hl(2)] by simp
  then have "unat (word_of_nat (16 * h + l) :: byte) = 16 * h + l" by (simp add: unat_of_nat del: of_nat_add of_nat_mult)
  moreover have "(256 :: nat) ^ length bs' = 16 ^ (2 * length bs')"
    by (simp add: power_mult)
  ultimately show ?case using 3(1) [OF hl(1,2,3)] hl bs
    by (simp add: be_value_Cons pos_value_Cons algebra_simps)
qed (auto simp: be_value_def split: option.splits)

lemma hex_decode_ok:
  "list_all (\<lambda>c. hex_val c \<noteq> None) s \<Longrightarrow> even (length s) \<Longrightarrow> \<exists>bs. hex_decode s = Ok bs"
proof (induction s rule: hex_decode.induct)
  case (3 c d cs)
  then obtain h l where hl: "hex_val c = Some h" "hex_val d = Some l" by auto
  with 3 obtain bs where "hex_decode cs = Ok bs" by auto
  with hl show ?case by simp
qed auto

lemma parse_uint_loop_value:
  assumes "list_all (\<lambda>c. hex_val c \<noteq> None) s"
    and "pos_value 16 (map (\<lambda>c. the (hex_val c)) s) + n * 16 ^ length s < 2 ^ 64"
  shows "parse_uint_loop n s = Ok (n * 16 ^ length s + pos_value 16 (map (\<lambda>c. the (hex_val c)) s))"
  using assms
proof (induction s arbitrary: n)
  case (Cons c cs)
  then obtain d where d: "hex_val c = Some d" by auto
  have "n * 16 * 1 \<le> n * 16 * 16 ^ length cs" by (rule mult_left_mono) simp_all
  also have "\<dots> < 2 ^ 64" using Cons.prems(2) by (simp add: mult.assoc)
  finally have n: "n < 2 ^ 60" by simp
  have "parse_uint_loop (n * 16 + d) cs = Ok ((n * 16 + d) * 16 ^ length cs + pos_value 16 (map (\<lambda>c. the (hex_val c)) cs))"
    using Cons d by (intro Cons.IH) (auto simp: pos_value_Cons algebra_simps)
  with n d show ?case by (simp add: pos_value_Cons algebra_simps)
qed simp

lemma fmt_x_nat_digits:
  "list_all (\<lambda>c. hex_val c \<noteq> None) (fmt_x_nat n)"
  "pos_value 16 (map (\<lambda>c. the (hex_val c)) (fmt_x_nat n)) = n"
  "fmt_x_nat n \<noteq> []"
proof -
  show "list_all (\<lambda>c. hex_val c \<noteq> None) (fmt_x_nat n)"
    by (auto simp: fmt_x_nat_def list_all_iff hex16.digits_less)
  have "map (\<lambda>c. the (hex_val c)) (map hex_char (pos_digits 16 n)) = pos_digits 16 n"
    by (simp add: map_idI hex16.digits_less)
  then show "pos_value 16 (map (\<lambda>c. the (hex_val c)) (fmt_x_nat n)) = n"
    by (simp add: fmt_x_nat_def pos_value_Cons)
  show "fmt_x_nat n \<noteq> []" by (simp add: fmt_x_nat_def)
qed

lemma parse_uint16_fmt: "n < 2 ^ 64 \<Longrightarrow> parse_uint16 (fmt_x_nat n) = Ok n"
  using parse_uint_loop_value [of "fmt_x_nat n" 0] fmt_x_nat_digits [of n] by (simp add: parse_uint16_def)

lemma hd_fmt_x_nat: "hd (fmt_x_nat n) \<noteq> CHR ''+'' \<and> hd (fmt_x_nat n) \<noteq> CHR ''-''"
proof -
  have "hex_val (hd (fmt_x_nat n)) \<noteq> None"
    using fmt_x_nat_digits [of n] by (cases "fmt_x_nat n") auto
  then show ?thesis by (auto simp: hex_val_def)
qed

lemma parse_int16_fmt: "- (2 ^ 63) \<le> i \<Longrightarrow> i < 2 ^ 63 \<Longrightarrow> parse_int16 (fmt_x_int i) = Ok i"
  using hd_fmt_x_nat [of "nat i"] parse_uint16_fmt [of "nat i"] parse_uint16_fmt [of "nat (- i)"]
    fmt_x_nat_digits(3) [of "nat i"]
  by (auto simp: parse_int16_def fmt_x_int_def Let_def nat_less_iff)

section \<open>Round trips and totality\<close>

text \<open>
  Byte strings survive the wire format: \<open>ParseHexBytes\<close> of \<open>BytesToHex\<close> returns the same
  bytes, for every byte string.
\<close>
lemma ParseHexBytes_BytesToHex: "ParseHexBytes (BytesToHex b) = Ok b"
  by (simp add: ParseHexBytes_def BytesToHex_def)

text \<open>
  C37. Quantities survive the wire format at their width: every int64 read back with \<open>ParseHexInt64\<close>
  from \<open>Int64ToHex\<close> is the same number (negative ones included).
\<close>
theorem ParseHexInt64_Int64ToHex:
  assumes "- (2 ^ 63) \<le> i" "i < 2 ^ 63"
  shows "ParseHexInt64 (Int64ToHex i) = Ok i"
  using parse_int16_fmt [OF assms] by (simp add: ParseHexInt64_def Int64ToHex_def)

theorem ParseHexInt64_Int64ToHex_witness:
  "- (2 ^ 63) \<le> (- 255 :: int) \<and> ParseHexInt64 (Int64ToHex (- 255)) = Ok (- 255)"
  using ParseHexInt64_Int64ToHex [of "- 255"] by simp

lemma ParseHexUint64_Uint64ToHex: "n < 2 ^ 64 \<Longrightarrow> ParseHexUint64 (Uint64ToHex n) = Ok n"
  by (simp add: ParseHexUint64_def Uint64ToHex_def parse_uint16_fmt)

lemma ParseBigInt_value:
  assumes "list_all (\<lambda>c. hex_val c \<noteq> None) v" "take 2 v \<noteq> ''0x''"
  shows "ParseBigInt (''0x'' @ v) = Ok (int (pos_value 16 (map (\<lambda>c. the (hex_val c)) v)))"
proof -
  let ?v = "if length v mod 2 \<noteq> 0 then ''0'' @ v else v"
  have "list_all (\<lambda>c. hex_val c \<noteq> None) ?v" "even (length ?v)"
    using assms(1) by (simp_all, presburger?)
  then obtain bs where bs: "hex_decode ?v = Ok bs" using hex_decode_ok by blast
  have "pos_value 16 (map (\<lambda>c. the (hex_val c)) ?v) = pos_value 16 (map (\<lambda>c. the (hex_val c)) v)"
    by (simp add: pos_value_Cons)
  then have "be_value bs = pos_value 16 (map (\<lambda>c. the (hex_val c)) v)"
    using hex_decode_value [OF bs] by simp
  with bs show ?thesis by (simp add: ParseBigInt_def Let_def)
qed

lemma fmt_x_bytes_hex: "list_all (\<lambda>c. hex_val c \<noteq> None) (fmt_x_bytes bs)"
  using hex_decode_value [OF hex_decode_fmt_x [of bs]] by blast

lemma trim_one_zero:
  assumes "list_all (\<lambda>c. hex_val c \<noteq> None) v"
  shows "list_all (\<lambda>c. hex_val c \<noteq> None) (trim_prefix ''0'' v)"
    "pos_value 16 (map (\<lambda>c. the (hex_val c)) (trim_prefix ''0'' v)) = pos_value 16 (map (\<lambda>c. the (hex_val c)) v)"
proof -
  show "list_all (\<lambda>c. hex_val c \<noteq> None) (trim_prefix ''0'' v)"
    using assms by (cases v) (auto simp: trim_prefix_def)
  show "pos_value 16 (map (\<lambda>c. the (hex_val c)) (trim_prefix ''0'' v)) = pos_value 16 (map (\<lambda>c. the (hex_val c)) v)"
    by (cases v) (auto simp: trim_prefix_def pos_value_Cons)
qed

text \<open>
  Amounts survive the wire format: \<open>ParseBigInt\<close> reads back the number \<open>BigIntToHex\<close> wrote,
  for every number of any size, up to its sign (\<open>BigIntToHex\<close> writes the absolute value).
\<close>
lemma ParseBigInt_BigIntToHex: "ParseBigInt (BigIntToHex (Some n)) = Ok \<bar>n\<bar>"
proof (cases "n = 0")
  case True
  then show ?thesis by (simp add: BigIntToHex_def ParseBigInt_def trim_prefix_def hex_val_def be_value_def pos_value_Cons)
next
  case False
  let ?v = "trim_prefix ''0'' (fmt_x_bytes (be_bytes (nat \<bar>n\<bar>)))"
  have hv: "list_all (\<lambda>c. hex_val c \<noteq> None) ?v"
    by (rule trim_one_zero(1) [OF fmt_x_bytes_hex])
  then have "take 2 ?v \<noteq> ''0x''"
    by (cases ?v; cases "tl ?v") (auto simp: hex_val_def)
  then have "ParseBigInt (''0x'' @ ?v) = Ok (int (pos_value 16 (map (\<lambda>c. the (hex_val c)) ?v)))"
    by (rule ParseBigInt_value [OF hv])
  also have "\<dots> = Ok (int (be_value (be_bytes (nat \<bar>n\<bar>))))"
    using trim_one_zero(2) [OF fmt_x_bytes_hex] hex_decode_value [OF hex_decode_fmt_x [of "be_bytes (nat \<bar>n\<bar>)"]]
    by simp
  finally show ?thesis using False by (simp add: BigIntToHex_def)
qed

end
