(* ===== verification/BigBytes.thy ===== *)
theory BigBytes
  imports Prelude
begin

text \<open>
  Fixed-width byte forms of \<open>big.Int\<close> values: \<open>crypto/math.go\<close> (\<open>paddedBigBytes\<close>, \<open>readBits\<close>),
  \<open>padBytes\<close> and \<open>hashToInt\<close> of \<open>crypto/signecdsa.go\<close> and the conversions of RFC 6979
  (\<open>bits2int\<close>, \<open>int2octets\<close>, \<open>bits2octets\<close> of \<open>crypto/rfc6979.go\<close>), with the part of \<open>math/big\<close>
  they use (\<open>BitLen\<close>, \<open>Bits\<close>, \<open>FillBytes\<close>). Values are non-negative, as the callers' are.
\<close>

section \<open>Parts of \<open>math/big\<close>\<close>

definition BitLen :: "nat \<Rightarrow> nat" where
  "BitLen n = length (pos_digits 2 n)"

text \<open>\<open>Bits\<close>: the 64-bit words of the absolute value, least significant first.\<close>

definition Bits :: "nat \<Rightarrow> nat list" where
  "Bits n = rev (pos_digits (2 ^ 64) n)"

text \<open>\<open>FillBytes\<close> panics (\<^const>\<open>None\<close>) when the value does not fit.\<close>

definition FillBytes :: "nat \<Rightarrow> nat \<Rightarrow> bytes option" where
  "FillBytes n k =
     (let b = be_bytes n in if length b \<le> k then Some (replicate (k - length b) 0 @ b) else None)"

section \<open>Operations\<close>

text \<open>The inner loop of \<open>readBits\<close> (\<open>wordBytes = 8\<close> iterations at most), then the loop over the words.\<close>

fun put_word :: "nat \<Rightarrow> nat \<Rightarrow> bytes \<Rightarrow> nat \<Rightarrow> bytes \<times> nat" where
  "put_word 0 d buf i = (buf, i)"
| "put_word (Suc j) d buf i =
     (if i = 0 then (buf, i)
      else put_word j (d div 256) (buf[i - 1 := word_of_nat d]) (i - 1))"

fun put_words :: "nat list \<Rightarrow> bytes \<Rightarrow> nat \<Rightarrow> bytes" where
  "put_words [] buf i = buf"
| "put_words (d # ds) buf i = (let (buf, i) = put_word 8 d buf i in put_words ds buf i)"

definition readBits :: "nat \<Rightarrow> bytes \<Rightarrow> bytes" where
  "readBits n buf = put_words (Bits n) buf (length buf)"

definition paddedBigBytes :: "nat \<Rightarrow> nat \<Rightarrow> bytes" where
  "paddedBigBytes n k = (if BitLen n div 8 \<ge> k then be_bytes n else readBits n (replicate k 0))"

definition padBytes :: "bytes \<Rightarrow> nat \<Rightarrow> bytes" where
  "padBytes s k = (if length s < k then replicate (k - length s) 0 @ s else s)"

definition bits2int :: "bytes \<Rightarrow> nat \<Rightarrow> nat" where
  "bits2int inp qlen =
     (let vlen = length inp * 8; v = be_value inp
      in if vlen > qlen then v div 2 ^ (vlen - qlen) else v)"

definition int2octets :: "nat \<Rightarrow> nat \<Rightarrow> bytes" where
  "int2octets v rolen =
     (let out = be_bytes v
      in if length out < rolen then replicate (rolen - length out) 0 @ out
         else if length out > rolen then drop (length out - rolen) out
         else out)"

definition bits2octets :: "bytes \<Rightarrow> nat \<Rightarrow> nat \<Rightarrow> nat \<Rightarrow> bytes" where
  "bits2octets inp q qlen rolen =
     (let z1 = bits2int inp qlen
      in if z1 < q then int2octets z1 rolen else int2octets (z1 - q) rolen)"

definition hashToInt :: "bytes \<Rightarrow> nat \<Rightarrow> nat" where
  "hashToInt hash N =
     (let orderBits = BitLen N;
          orderBytes = (orderBits + 7) div 8;
          hash = (if length hash > orderBytes then take orderBytes hash else hash);
          ret = be_value hash
      in if length hash * 8 > orderBits then ret div 2 ^ (length hash * 8 - orderBits) else ret)"

section \<open>Fixed-width big-endian form\<close>

text \<open>\<open>be_fixed k n\<close> is \<open>n mod 256 ^ k\<close> in exactly \<open>k\<close> bytes.\<close>

fun be_fixed :: "nat \<Rightarrow> nat \<Rightarrow> bytes" where
  "be_fixed 0 n = []"
| "be_fixed (Suc k) n = be_fixed k (n div 256) @ [word_of_nat n]"

lemma length_be_fixed [simp]: "length (be_fixed k n) = k"
  by (induction k arbitrary: n) auto

lemma be_fixed_0 [simp]: "be_fixed k 0 = replicate k 0"
  by (induction k) (auto simp: replicate_append_same)

lemma word_of_nat_mod_256 [simp]: "(word_of_nat (n mod 256) :: byte) = word_of_nat n"
  by (simp add: word_of_nat_eq_iff take_bit_eq_mod)

lemma be_bytes_step: "0 < n \<Longrightarrow> be_bytes n = be_bytes (n div 256) @ [word_of_nat n]"
  by (simp add: be_bytes_def bytes256.digits_step)

lemma be_fixed_be_bytes:
  "n < 256 ^ k \<Longrightarrow> be_fixed k n = replicate (k - length (be_bytes n)) 0 @ be_bytes n"
proof (induction k arbitrary: n)
  case (Suc k)
  show ?case
  proof (cases "n = 0")
    case False
    from Suc.prems have "n div 256 < 256 ^ k" by (simp add: less_mult_imp_div_less mult.commute)
    with Suc.IH False show ?thesis by (simp add: be_bytes_step)
  qed simp
qed simp

lemma be_value_snoc: "be_value (bs @ [b]) = be_value bs * 256 + unat b"
  by (simp add: be_value_def)

lemma be_value_be_fixed: "be_value (be_fixed k n) = n mod 256 ^ k"
proof (induction k arbitrary: n)
  case (Suc k)
  have "be_value (be_fixed (Suc k) n) = (n div 256 mod 256 ^ k) * 256 + n mod 256"
    using Suc by (simp add: be_value_snoc unat_of_nat)
  also have "\<dots> = n mod (256 * 256 ^ k)" by (simp add: mod_mult2_eq)
  finally show ?case by simp
qed (simp add: be_value_def)

lemma be_fixed_append:
  "be_fixed (k + m) n = be_fixed k (n div 256 ^ m) @ be_fixed m n"
  by (induction m arbitrary: n) (simp_all add: div_mult2_eq)

lemma be_fixed_cong:
  "n mod 256 ^ k = m mod 256 ^ k \<Longrightarrow> be_fixed k n = be_fixed k m"
proof (induction k arbitrary: n m)
  case (Suc k)
  have "n mod 256 = m mod 256" using arg_cong [OF Suc.prems, of "\<lambda>x. x mod 256"] by (simp add: mod_mod_cancel)
  have "n div 256 mod 256 ^ k = m div 256 mod 256 ^ k"
    using arg_cong [OF Suc.prems, of "\<lambda>x. x div 256"] by (simp add: mod_mult2_eq)
  then have "be_fixed k (n div 256) = be_fixed k (m div 256)" by (rule Suc.IH)
  moreover have "(word_of_nat n :: byte) = word_of_nat m"
    using \<open>n mod 256 = m mod 256\<close> by (simp add: word_of_nat_eq_iff take_bit_eq_mod)
  ultimately show ?case by simp
qed simp

lemma put_word_spec:
  assumes "i \<le> length buf"
  shows "put_word j d buf i = (take (i - min j i) buf @ be_fixed (min j i) d @ drop i buf, i - min j i)"
  using assms
proof (induction j arbitrary: d buf i)
  case (Suc j)
  show ?case
  proof (cases i)
    case (Suc i')
    have "put_word (Suc j) d buf i = put_word j (d div 256) (buf[i' := word_of_nat d]) i'"
      using Suc by simp
    also have "\<dots> = (take (i' - min j i') buf @ be_fixed (min j i') (d div 256)
        @ drop i' (buf[i' := word_of_nat d]), i' - min j i')"
      using Suc.prems Suc by (subst Suc.IH) simp_all
    also have "drop i' (buf[i' := word_of_nat d]) = word_of_nat d # drop (Suc i') buf"
      using Suc.prems Suc by (simp add: drop_update_swap Cons_nth_drop_Suc [symmetric])
    finally show ?thesis using Suc by simp
  qed simp
qed simp

lemma be_fixed_word:
  assumes "d < 2 ^ 64" "m = min 8 i"
  shows "be_fixed (i - m) v @ be_fixed m d = be_fixed i (v * 2 ^ 64 + d)"
proof -
  have "be_fixed i (v * 2 ^ 64 + d) = be_fixed (i - m) ((v * 2 ^ 64 + d) div 256 ^ m) @ be_fixed m (v * 2 ^ 64 + d)"
    using be_fixed_append [of "i - m" m] assms(2) by simp
  also have "be_fixed (i - m) ((v * 2 ^ 64 + d) div 256 ^ m) = be_fixed (i - m) v"
    using assms by (cases "i < 8") (simp_all add: min_def)
  also have "be_fixed m (v * 2 ^ 64 + d) = be_fixed m d"
  proof (rule be_fixed_cong)
    have "(256 :: nat) ^ m dvd 256 ^ 8" using assms(2) by (intro le_imp_power_dvd) simp
    then have "(256 :: nat) ^ m dvd v * 2 ^ 64" by (intro dvd_mult) simp
    then show "(v * 2 ^ 64 + d) mod 256 ^ m = d mod 256 ^ m"
      by (metis add.commute dvd_imp_mod_0 mod_add_right_eq add_0_right)
  qed
  finally show ?thesis by simp
qed

lemma put_words_spec:
  assumes "i \<le> length buf" "take i buf = replicate i 0" "\<And>d. d \<in> set ds \<Longrightarrow> d < 2 ^ 64"
  shows "put_words ds buf i = be_fixed i (pos_value (2 ^ 64) (rev ds)) @ drop i buf"
  using assms
proof (induction ds arbitrary: buf i)
  case Nil
  then show ?case by (metis append_take_drop_id be_fixed_0 pos_value_Nil put_words.simps(1) rev.simps(1))
next
  case (Cons d ds)
  let ?m = "min 8 i"
  let ?buf = "take (i - ?m) buf @ be_fixed ?m d @ drop i buf"
  have "take (i - ?m) ?buf = replicate (i - ?m) 0"
    using Cons.prems(1,2) by (simp add: take_replicate [symmetric] min_def take_take [symmetric] del: take_replicate)
      (metis diff_le_self min.absorb1 take_replicate take_take)
  then have "put_words (d # ds) buf i = be_fixed (i - ?m) (pos_value (2 ^ 64) (rev ds)) @ drop (i - ?m) ?buf"
    using Cons.prems put_word_spec [OF Cons.prems(1), of 8 d] by (simp add: Cons.IH)
  also have "drop (i - ?m) ?buf = be_fixed ?m d @ drop i buf" using Cons.prems(1) by simp
  finally show ?case using Cons.prems(3) be_fixed_word [of d ?m i] by simp
qed

interpretation bits2: positional 2 by unfold_locales simp
interpretation limbs64: positional "2 ^ 64" by unfold_locales simp

lemma pow256: "(256 :: nat) ^ k = 2 ^ (8 * k)"
  by (simp add: power_mult)

lemma BitLen_le_iff: "BitLen n \<le> k \<longleftrightarrow> n < 2 ^ k"
  by (simp add: BitLen_def bits2.length_digits_le_iff)

lemma BitLen_ge_bytes: "BitLen n div 8 \<ge> k \<longleftrightarrow> k = 0 \<or> 2 ^ (8 * k - 1) \<le> n"
proof (cases "k = 0")
  case False
  have "BitLen n div 8 \<ge> k \<longleftrightarrow> \<not> BitLen n \<le> 8 * k - 1" using False by (simp add: less_eq_div_iff_mult_less_eq) linarith
  also have "\<dots> \<longleftrightarrow> 2 ^ (8 * k - 1) \<le> n" by (simp add: BitLen_le_iff not_less)
  finally show ?thesis using False by simp
qed simp

lemma readBits_zeros: "readBits n (replicate k 0) = be_fixed k n"
proof -
  have "readBits n (replicate k 0) = be_fixed k (pos_value (2 ^ 64) (rev (Bits n))) @ drop k (replicate k 0)"
    unfolding readBits_def length_replicate
    by (rule put_words_spec) (auto simp: Bits_def dest: limbs64.digits_less [simplified])
  then show ?thesis using limbs64.value_digits [of n] by (simp add: Bits_def)
qed

lemma padBytes_value [simp]: "be_value (padBytes b k) = be_value b"
  by (simp add: padBytes_def)

lemma length_padBytes: "length (padBytes b k) = max (length b) k"
  by (simp add: padBytes_def)

lemma FillBytes_padBytes: "n < 256 ^ k \<Longrightarrow> FillBytes n k = Some (padBytes (be_bytes n) k)"
  using length_be_bytes_le_iff [of n k] by (auto simp: FillBytes_def padBytes_def Let_def)

text \<open>
  Private keys and signature values are padded correctly: \<open>paddedBigBytes\<close>, which copies the
  machine words of the number byte by byte, returns the big-endian bytes of the number, left-padded
  with zeros to the requested width.
\<close>
lemma paddedBigBytes_correct: "paddedBigBytes n k = padBytes (be_bytes n) k"
proof (cases "BitLen n div 8 \<ge> k")
  case True
  have "\<not> length (be_bytes n) < k"
  proof (cases k)
    case (Suc j)
    have "(256 :: nat) ^ j \<le> 2 ^ (8 * k - 1)" unfolding pow256 using Suc by (intro power_increasing) simp_all
    also have "\<dots> \<le> n" using True Suc BitLen_ge_bytes [of k n] by simp
    finally show ?thesis using length_be_bytes_le_iff [of n j] Suc by simp
  qed simp
  with True show ?thesis by (simp add: paddedBigBytes_def padBytes_def)
next
  case False
  then have "n < 2 ^ (8 * k - 1)" using BitLen_ge_bytes [of k n] by auto
  also have "\<dots> \<le> 2 ^ (8 * k)" by (simp add: power_increasing)
  also have "\<dots> = 256 ^ k" by (simp add: power_mult)
  finally have n: "n < 256 ^ k" .
  have "paddedBigBytes n k = be_fixed k n" using False by (simp add: paddedBigBytes_def readBits_zeros)
  also have "\<dots> = padBytes (be_bytes n) k"
    using be_fixed_be_bytes [OF n] length_be_bytes_le_iff [of n k] n by (auto simp: padBytes_def)
  finally show ?thesis .
qed

lemma length_int2octets [simp]: "length (int2octets v rolen) = rolen"
  by (auto simp: int2octets_def Let_def)

lemma int2octets_value: "v < 256 ^ rolen \<Longrightarrow> be_value (int2octets v rolen) = v"
  using length_be_bytes_le_iff [of v rolen] by (auto simp: int2octets_def Let_def)

lemma bits2int_less: "0 < qlen \<Longrightarrow> bits2int inp qlen < 2 ^ qlen"
proof -
  have b: "be_value inp < 2 ^ (length inp * 8)"
    using be_value_less [of inp] by (simp add: pow256 mult.commute)
  show ?thesis
  proof (cases "length inp * 8 > qlen")
    case True
    then have "(2 :: nat) ^ (length inp * 8) = 2 ^ qlen * 2 ^ (length inp * 8 - qlen)"
      by (simp add: power_add [symmetric])
    with b True show ?thesis by (simp add: bits2int_def Let_def less_mult_imp_div_less)
  next
    case False
    then have "(2 :: nat) ^ (length inp * 8) \<le> 2 ^ qlen" by (intro power_increasing) simp_all
    with b have "be_value inp < 2 ^ qlen" by (rule less_le_trans)
    with False show ?thesis by (simp add: bits2int_def Let_def)
  qed
qed

end
