(* ===== verification/Hashes.thy ===== *)
theory Hashes
  imports Prelude
begin

text \<open>
  The hash functions of Go's standard library that the program calls: SHA-256 (\<open>crypto/sha256\<close>,
  FIPS 180-4) and HMAC (\<open>crypto/hmac\<close>, RFC 2104) over an arbitrary hash algorithm. The
  Keccak-256 hash of \<open>golang.org/x/crypto/sha3\<close> is third-party code: the definitions that use it
  take it as an argument \<open>keccak\<close>.
\<close>

unbundle bit_operations_syntax

section \<open>Hash algorithms and HMAC\<close>

record hash_alg =
  hash_size :: nat
  hash_block :: nat
  hash_sum :: "bytes \<Rightarrow> bytes"

definition hmac_key :: "hash_alg \<Rightarrow> bytes \<Rightarrow> bytes" where
  "hmac_key alg k =
     (let k = (if length k > hash_block alg then hash_sum alg k else k)
      in k @ replicate (hash_block alg - length k) 0)"

definition hmac :: "hash_alg \<Rightarrow> bytes \<Rightarrow> bytes \<Rightarrow> bytes" where
  "hmac alg k m =
     (let k = hmac_key alg k
      in hash_sum alg (map (\<lambda>b. b XOR 0x5c) k @ hash_sum alg (map (\<lambda>b. b XOR 0x36) k @ m)))"

section \<open>SHA-256\<close>

type_synonym word32 = "32 word"

definition rotr :: "nat \<Rightarrow> word32 \<Rightarrow> word32" where
  "rotr n x = drop_bit n x OR push_bit (32 - n) x"

definition sha_ch :: "word32 \<Rightarrow> word32 \<Rightarrow> word32 \<Rightarrow> word32" where
  "sha_ch x y z = (x AND y) XOR (NOT x AND z)"

definition sha_maj :: "word32 \<Rightarrow> word32 \<Rightarrow> word32 \<Rightarrow> word32" where
  "sha_maj x y z = (x AND y) XOR (x AND z) XOR (y AND z)"

definition sha_Sigma0 :: "word32 \<Rightarrow> word32" where
  "sha_Sigma0 x = rotr 2 x XOR rotr 13 x XOR rotr 22 x"

definition sha_Sigma1 :: "word32 \<Rightarrow> word32" where
  "sha_Sigma1 x = rotr 6 x XOR rotr 11 x XOR rotr 25 x"

definition sha_sigma0 :: "word32 \<Rightarrow> word32" where
  "sha_sigma0 x = rotr 7 x XOR rotr 18 x XOR drop_bit 3 x"

definition sha_sigma1 :: "word32 \<Rightarrow> word32" where
  "sha_sigma1 x = rotr 17 x XOR rotr 19 x XOR drop_bit 10 x"

text \<open>The constant tables are written eight words to a row, most significant word first.\<close>

definition row_words :: "256 word \<Rightarrow> word32 list" where
  "row_words r = map (\<lambda>i. ucast (drop_bit (32 * (7 - i)) r)) [0..<8]"

definition sha_K :: "word32 list" where
  "sha_K = concat (map row_words
    [0x428a2f9871374491b5c0fbcfe9b5dba53956c25b59f111f1923f82a4ab1c5ed5,
     0xd807aa9812835b01243185be550c7dc372be5d7480deb1fe9bdc06a7c19bf174,
     0xe49b69c1efbe47860fc19dc6240ca1cc2de92c6f4a7484aa5cb0a9dc76f988da,
     0x983e5152a831c66db00327c8bf597fc7c6e00bf3d5a7914706ca635114292967,
     0x27b70a852e1b21384d2c6dfc53380d13650a7354766a0abb81c2c92e92722c85,
     0xa2bfe8a1a81a664bc24b8b70c76c51a3d192e819d6990624f40e3585106aa070,
     0x19a4c1161e376c082748774c34b0bcb5391c0cb34ed8aa4a5b9cca4f682e6ff3,
     0x748f82ee78a5636f84c878148cc7020890befffaa4506cebbef9a3f7c67178f2])"

definition sha_H0 :: "word32 list" where
  "sha_H0 = row_words 0x6a09e667bb67ae853c6ef372a54ff53a510e527f9b05688c1f83d9ab5be0cd19"

lemma length_row_words [simp]: "length (row_words r) = 8"
  by (simp add: row_words_def)

text \<open>The message schedule, kept with the newest word first.\<close>

fun sha_schedule :: "nat \<Rightarrow> word32 list \<Rightarrow> word32 list" where
  "sha_schedule 0 w = w"
| "sha_schedule (Suc n) w =
     sha_schedule n ((sha_sigma1 (w ! 1) + w ! 6 + sha_sigma0 (w ! 14) + w ! 15) # w)"

definition sha_round :: "word32 list \<Rightarrow> word32 \<times> word32 \<Rightarrow> word32 list" where
  "sha_round st kw =
     (let t1 = st ! 7 + sha_Sigma1 (st ! 4) + sha_ch (st ! 4) (st ! 5) (st ! 6) + fst kw + snd kw;
          t2 = sha_Sigma0 (st ! 0) + sha_maj (st ! 0) (st ! 1) (st ! 2)
      in [t1 + t2, st ! 0, st ! 1, st ! 2, st ! 3 + t1, st ! 4, st ! 5, st ! 6])"

definition word32_of_bytes :: "bytes \<Rightarrow> word32" where
  "word32_of_bytes bs = word_of_nat (be_value bs)"

definition bytes_of_word32 :: "word32 \<Rightarrow> bytes" where
  "bytes_of_word32 w =
     [ucast (drop_bit 24 w), ucast (drop_bit 16 w), ucast (drop_bit 8 w), ucast w]"

fun chunks :: "nat \<Rightarrow> nat \<Rightarrow> 'a list \<Rightarrow> 'a list list" where
  "chunks 0 n xs = []"
| "chunks (Suc k) n xs = take n xs # chunks k n (drop n xs)"

definition sha_block :: "word32 list \<Rightarrow> bytes \<Rightarrow> word32 list" where
  "sha_block h blk =
     (let w = rev (sha_schedule 48 (rev (map word32_of_bytes (chunks 16 4 blk))))
      in map2 (+) h (foldl sha_round h (zip sha_K w)))"

definition sha_pad :: "bytes \<Rightarrow> bytes" where
  "sha_pad m =
     (let bits = be_bytes (8 * length m mod 2 ^ 64)
      in m @ [0x80] @ replicate ((119 - length m mod 64) mod 64) 0
         @ replicate (8 - length bits) 0 @ bits)"

definition sha256_sum :: "bytes \<Rightarrow> bytes" where
  "sha256_sum m =
     (let p = sha_pad m
      in concat (map bytes_of_word32 (foldl sha_block sha_H0 (chunks (length p div 64) 64 p))))"

definition sha256 :: hash_alg where
  "sha256 = \<lparr> hash_size = 32, hash_block = 64, hash_sum = sha256_sum \<rparr>"

section \<open>Output lengths\<close>

lemma length_sha_round [simp]: "length (sha_round st kw) = 8"
  by (simp add: sha_round_def Let_def)

lemma length_foldl_sha_round: "length st = 8 \<Longrightarrow> length (foldl sha_round st kws) = 8"
  by (induction kws arbitrary: st) simp_all

lemma length_sha_block: "length h = 8 \<Longrightarrow> length (sha_block h blk) = 8"
  by (simp add: sha_block_def Let_def length_foldl_sha_round)

lemma length_foldl_sha_block: "length h = 8 \<Longrightarrow> length (foldl sha_block h blks) = 8"
  by (induction blks arbitrary: h) (simp_all add: length_sha_block)

lemma length_sha256_sum [simp]: "length (sha256_sum m) = 32"
proof -
  have "length (foldl sha_block sha_H0 blks) = 8" for blks
    by (rule length_foldl_sha_block) (simp add: sha_H0_def)
  then show ?thesis
    by (simp add: sha256_sum_def Let_def length_concat bytes_of_word32_def comp_def
        sum_list_triv del: length_foldl_sha_block)
qed

definition hash_alg_ok :: "hash_alg \<Rightarrow> bool" where
  "hash_alg_ok alg \<longleftrightarrow> 0 < hash_size alg \<and> (\<forall>m. length (hash_sum alg m) = hash_size alg)"

lemma sha256_ok: "hash_alg_ok sha256"
  by (simp add: hash_alg_ok_def sha256_def)

lemma length_hmac: "hash_alg_ok alg \<Longrightarrow> length (hmac alg k m) = hash_size alg"
  by (simp add: hmac_def hash_alg_ok_def Let_def)

end
