(* ===== verification/Secp256k1.thy ===== *)
theory Secp256k1
  imports Prelude
begin

text \<open>
  The elliptic curve of \<open>crypto/secp256k1\<close> (\<open>elliptic.go\<close>, \<open>secp256k1.go\<close>): curve parameters,
  Jacobian addition and doubling, scalar multiplication, and the conversion back to affine
  coordinates. \<open>big.Int\<close> values are \<^typ>\<open>int\<close>; \<open>Mod\<close> by a positive modulus is \<open>mod\<close>.
  The theorems show that the arithmetic stays on the curve and that leading zero bytes of a key do
  not change the derived point.
\<close>

section \<open>Parameters and library arithmetic\<close>

record CurveParams =
  curve_P :: int
  curve_N :: int
  curve_A :: int
  curve_B :: int
  curve_Gx :: int
  curve_Gy :: int
  curve_BitSize :: nat

definition initP384 :: CurveParams where
  "initP384 =
     \<lparr> curve_P = 39402006196394479212279040100143613805079739270465446667948293404245721771496870329047266088258938001861606973112319,
       curve_N = 39402006196394479212279040100143613805079739270465446667946905279627659399113263569398956308152294913554433653942643,
       curve_A = - 3,
       curve_B = 0xb3312fa7e23ee7e4988e056be3f82d19181d9c6efe8141120314088f5013875ac656398d8a2ed19d2a85c8edd3ec2aef,
       curve_Gx = 0xaa87ca22be8b05378eb1c71ef320ad746e1d3b628ba79b9859f741e082542a385502f25dbf55296c3a545e3872760ab7,
       curve_Gy = 0x3617de4a96262c6f5d9e98bf9292dc29f8f41dbd289a147ce9da3113b5f0b8c00a60b1ce1d7e819d7a431d7c90ea0e5f,
       curve_BitSize = 384 \<rparr>"

definition initP521 :: CurveParams where
  "initP521 =
     \<lparr> curve_P = 6864797660130609714981900799081393217269435300143305409394463459185543183397656052122559640661454554977296311391480858037121987999716643812574028291115057151,
       curve_N = 6864797660130609714981900799081393217269435300143305409394463459185543183397655394245057746333217197532963996371363321113864768612440380340372808892707005449,
       curve_A = - 3,
       curve_B = 0x051953eb9618e1c9a1f929a21a0b68540eea2da725b99b315f3b8b489918ef109e156193951ec7e937b1652c0bd3bb1bf073573df883d2c34f1ef451fd46b503f00,
       curve_Gx = 0xc6858e06b70404e9cd9e3ecb662395b4429c648139053fb521f828af606b4d3dbaa14b5e77efe75928fe1dc127a2ffa8de3348b3c1856a429bf97e7e31c2e5bd66,
       curve_Gy = 0x11839296a789a3bc0045c8a5fb42c7d1bd998f54449579b446817afbd17273e662c97ee72995ef42640c550b9013fad0761353c7086a272c24088be94769fd16650,
       curve_BitSize = 521 \<rparr>"

definition initSecp256k1 :: CurveParams where
  "initSecp256k1 =
     \<lparr> curve_P = 0xFFFFFFFFFFFFFFFFFFFFFFFFFFFFFFFFFFFFFFFFFFFFFFFFFFFFFFFEFFFFFC2F,
       curve_N = 0xFFFFFFFFFFFFFFFFFFFFFFFFFFFFFFFEBAAEDCE6AF48A03BBFD25E8CD0364141,
       curve_A = 0,
       curve_B = 7,
       curve_Gx = 0x79BE667EF9DCBBAC55A06295CE870B07029BFCDB2DCE28D959F2815B16F81798,
       curve_Gy = 0x483ADA7726A3C4655DA4FBFC0E1108A8FD17B448A68554199C47D08FFB10D4B8,
       curve_BitSize = 256 \<rparr>"

text \<open>
  \<open>big.Int.ModInverse\<close>: the inverse in \<open>[0, n)\<close>, or \<open>nil\<close> when the numbers are not coprime. It is
  computed with the extended Euclidean algorithm.
\<close>

function egcd :: "nat \<Rightarrow> nat \<Rightarrow> nat \<times> int \<times> int" where
  "egcd a b =
     (if b = 0 then (a, 1, 0)
      else (let (g, x, y) = egcd b (a mod b) in (g, y, x - int (a div b) * y)))"
  by pat_completeness auto
termination by (relation "measure snd") auto

declare egcd.simps [simp del]

definition ModInverse :: "int \<Rightarrow> int \<Rightarrow> int option" where
  "ModInverse g n =
     (case egcd (nat (g mod n)) (nat n) of
        (d, x, y) \<Rightarrow> if d = 1 then Some (x mod n) else None)"

section \<open>Curve operations\<close>

definition polynomial :: "CurveParams \<Rightarrow> int \<Rightarrow> int" where
  "polynomial c x = ((x * x + curve_A c) * x + curve_B c) mod curve_P c"

definition IsOnCurve :: "CurveParams \<Rightarrow> int \<Rightarrow> int \<Rightarrow> bool" where
  "IsOnCurve c x y = (polynomial c x = (y * y) mod curve_P c)"

definition zForAffine :: "int \<Rightarrow> int \<Rightarrow> int" where
  "zForAffine x y = (if x \<noteq> 0 \<or> y \<noteq> 0 then 1 else 0)"

type_synonym jacobian = "int \<times> int \<times> int"

text \<open>
  \<open>affineFromJacobian\<close>; a \<open>nil\<close> inverse would be dereferenced by the next \<open>Mul\<close>, so it is
  \<^const>\<open>None\<close> (a panic).
\<close>

definition affineFromJacobian :: "CurveParams \<Rightarrow> jacobian \<Rightarrow> (int \<times> int) option" where
  "affineFromJacobian c pt = (case pt of (x, y, z) \<Rightarrow>
     if z = 0 then Some (0, 0)
      else case ModInverse z (curve_P c) of
             None \<Rightarrow> None
           | Some zinv \<Rightarrow>
               (let zinvsq = zinv * zinv
                in Some ((x * zinvsq) mod curve_P c, (y * (zinvsq * zinv)) mod curve_P c)))"

definition doubleJacobian :: "CurveParams \<Rightarrow> jacobian \<Rightarrow> jacobian" where
  "doubleJacobian c pt = (case pt of (x, y, z) \<Rightarrow>
      let p = curve_P c;
          delta = (z * z) mod p;
          gamma = (y * y) mod p;
          alpha = (if curve_A c = - 3 then
                     (let al = (x - delta) * (x + delta) in 2 * al + al)
                   else
                     (let x2 = x * x; al = 2 * x2 + x2
                      in if curve_A c \<noteq> 0 then al + curve_A c * (delta * delta) else al)) mod p;
          beta4 = (4 * (x * gamma)) mod p;
          x3 = (alpha * alpha - 2 * beta4) mod p;
          z3 = (2 * (y * z)) mod p;
          y3 = (alpha * (beta4 - x3) - 8 * (gamma * gamma)) mod p
      in (x3, y3, z3))"

definition addJacobian :: "CurveParams \<Rightarrow> jacobian \<Rightarrow> jacobian \<Rightarrow> jacobian" where
  "addJacobian c pt1 pt2 = (case pt1 of (x1, y1, z1) \<Rightarrow> case pt2 of (x2, y2, z2) \<Rightarrow>
      if z1 = 0 then (x2, y2, z2)
      else if z2 = 0 then (x1, y1, z1)
      else
        (let p = curve_P c;
             z1z1 = (z1 * z1) mod p;
             z2z2 = (z2 * z2) mod p;
             u1 = (x1 * z2z2) mod p;
             u2 = (x2 * z1z1) mod p;
             h = u2 - u1;
             xEqual = (h = 0);
             h = (if h < 0 then h + p else h);
             i = (2 * h) * (2 * h);
             j = h * i;
             s1 = (y1 * z2 * z2z2) mod p;
             s2 = (y2 * z1 * z1z1) mod p;
             r = s2 - s1;
             r = (if r < 0 then r + p else r);
             yEqual = (r = 0)
         in if xEqual \<and> yEqual then doubleJacobian c (x1, y1, z1)
            else
              (let r = 2 * r;
                   v = u1 * i;
                   x3 = (r * r - j - v - v) mod p;
                   y3 = (r * (v - x3) - 2 * (s1 * j)) mod p;
                   z3 = (((z1 + z2) * (z1 + z2) - z1z1 - z2z2) * h) mod p
               in (x3, y3, z3))))"

definition Add :: "CurveParams \<Rightarrow> int \<Rightarrow> int \<Rightarrow> int \<Rightarrow> int \<Rightarrow> (int \<times> int) option" where
  "Add c x1 y1 x2 y2 =
     affineFromJacobian c (addJacobian c (x1, y1, zForAffine x1 y1) (x2, y2, zForAffine x2 y2))"

definition Double :: "CurveParams \<Rightarrow> int \<Rightarrow> int \<Rightarrow> (int \<times> int) option" where
  "Double c x1 y1 = affineFromJacobian c (doubleJacobian c (x1, y1, zForAffine x1 y1))"

text \<open>The eight iterations of the inner loop of \<open>ScalarMult\<close>: test the top bit, shift left.\<close>

unbundle bit_operations_syntax

fun scalar_bits :: "CurveParams \<Rightarrow> jacobian \<Rightarrow> nat \<Rightarrow> byte \<Rightarrow> jacobian \<Rightarrow> jacobian" where
  "scalar_bits c B 0 b pt = pt"
| "scalar_bits c B (Suc n) b pt =
     (let pt = doubleJacobian c pt;
          pt = (if b AND 0x80 = 0x80 then addJacobian c B pt else pt)
      in scalar_bits c B n (push_bit 1 b) pt)"

fun scalar_bytes :: "CurveParams \<Rightarrow> jacobian \<Rightarrow> bytes \<Rightarrow> jacobian \<Rightarrow> jacobian" where
  "scalar_bytes c B [] pt = pt"
| "scalar_bytes c B (b # k) pt = scalar_bytes c B k (scalar_bits c B 8 b pt)"

definition ScalarMult :: "CurveParams \<Rightarrow> int \<Rightarrow> int \<Rightarrow> bytes \<Rightarrow> (int \<times> int) option" where
  "ScalarMult c Bx By k = affineFromJacobian c (scalar_bytes c (Bx, By, 1) k (0, 0, 0))"

definition ScalarBaseMult :: "CurveParams \<Rightarrow> bytes \<Rightarrow> (int \<times> int) option" where
  "ScalarBaseMult c k = ScalarMult c (curve_Gx c) (curve_Gy c) k"

section \<open>The modular inverse\<close>

lemma egcd_correct: "egcd a b = (g, x, y) \<Longrightarrow> g = gcd a b \<and> x * int a + y * int b = int g"
proof (induction a b arbitrary: g x y rule: egcd.induct)
  case (1 a b)
  show ?case
  proof (cases "b = 0")
    case True
    with 1(2) show ?thesis by (simp add: egcd.simps)
  next
    case False
    obtain g' x' y' where e: "egcd b (a mod b) = (g', x', y')" by (metis prod_cases3)
    with False 1(2) have gxy: "g = g'" "x = y'" "y = x' - int (a div b) * y'"
      by (auto simp: egcd.simps [of a b])
    from 1(1) [OF False e] have IH: "g' = gcd b (a mod b)" "x' * int b + y' * int (a mod b) = int g'"
      by auto
    have "int a = int (a div b) * int b + int (a mod b)"
      by (metis div_mult_mod_eq of_nat_add of_nat_mult)
    then have "x * int a + y * int b = int g"
      using IH(2) unfolding gxy by algebra
    moreover have "g = gcd a b" using IH(1) gxy False by (simp add: gcd_non_0_nat)
    ultimately show ?thesis by simp
  qed
qed

lemma ModInverse_Some:
  assumes "ModInverse g n = Some i" "0 < n"
  shows "(g * i) mod n = 1 mod n" "0 \<le> i" "i < n"
proof -
  obtain d x y where e: "egcd (nat (g mod n)) (nat n) = (d, x, y)" by (metis prod_cases3)
  with assms(1) have d: "d = 1" "i = x mod n"
    by (auto simp: ModInverse_def split: if_splits)
  from egcd_correct [OF e] assms(2) d(1) have "x * (g mod n) + y * n = 1" by simp
  then have "(x * (g mod n)) mod n = 1 mod n" by (metis mod_mult_self1)
  then show "(g * i) mod n = 1 mod n" using d(2) by (simp add: mod_simps mult.commute)
  show "0 \<le> i" "i < n" using d(2) assms(2) by simp_all
qed

lemma ModInverse_total:
  assumes "coprime g n" "0 < n"
  shows "\<exists>i. ModInverse g n = Some i"
proof -
  obtain d x y where e: "egcd (nat (g mod n)) (nat n) = (d, x, y)" by (metis prod_cases3)
  from egcd_correct [OF e] have "int d = gcd (g mod n) n" using assms(2) by (simp add: gcd_int_def)
  also have "\<dots> = 1" using assms by (simp add: gcd.commute gcd_red_int [symmetric])
  finally show ?thesis using e by (simp add: ModInverse_def)
qed

section \<open>The arithmetic stays on the curve\<close>

text \<open>
  The Jacobian form of the curve equation: \<open>defect\<close> is zero exactly on the curve, and
  \<open>jac_on c\<close> says so modulo the field prime. The point at infinity \<open>(0, 0, 0)\<close> satisfies it.
\<close>

definition defect :: "CurveParams \<Rightarrow> int \<Rightarrow> int \<Rightarrow> int \<Rightarrow> int" where
  "defect c x y z = y ^ 2 - (x ^ 3 + curve_A c * x * z ^ 4 + curve_B c * z ^ 6)"

definition jac_on :: "CurveParams \<Rightarrow> jacobian \<Rightarrow> bool" where
  "jac_on c pt = (case pt of (x, y, z) \<Rightarrow> defect c x y z mod curve_P c = 0)"

lemma mod_power_cong: "a mod p = a' mod p \<Longrightarrow> a ^ n mod p = a' ^ n mod (p :: int)"
  by (metis power_mod)

lemmas mod_congs = mod_add_cong mod_diff_cong mod_mult_cong mod_power_cong

lemma defect_cong:
  assumes "x mod curve_P c = x' mod curve_P c" "y mod curve_P c = y' mod curve_P c"
    "z mod curve_P c = z' mod curve_P c"
  shows "defect c x y z mod curve_P c = defect c x' y' z' mod curve_P c"
  unfolding defect_def by (intro mod_congs assms refl)

text \<open>The unreduced results of doubling and addition.\<close>

definition dbl_raw :: "int \<Rightarrow> jacobian \<Rightarrow> jacobian" where
  "dbl_raw A pt = (case pt of (x, y, z) \<Rightarrow>
     let m = 3 * x ^ 2 + A * z ^ 4; x3 = m ^ 2 - 8 * x * y ^ 2
     in (x3, m * (4 * x * y ^ 2 - x3) - 8 * y ^ 4, 2 * y * z))"

definition add_raw :: "jacobian \<Rightarrow> jacobian \<Rightarrow> jacobian" where
  "add_raw pt1 pt2 = (case pt1 of (x1, y1, z1) \<Rightarrow> case pt2 of (x2, y2, z2) \<Rightarrow>
     let u = x1 * z2 ^ 2; s = y1 * z2 ^ 3; h = x2 * z1 ^ 2 - u; r = y2 * z1 ^ 3 - s;
         x3 = 4 * (r ^ 2 - h ^ 3 - 2 * u * h ^ 2)
     in (x3, 2 * r * (4 * u * h ^ 2 - x3) - 8 * s * h ^ 3, 2 * z1 * z2 * h))"

lemma dbl_identity:
  fixes x y a m X :: int
  assumes "m = 3 * x ^ 2 + a" "X = m ^ 2 - 8 * x * y ^ 2"
  shows "(m * (4 * x * y ^ 2 - X) - 8 * y ^ 4) ^ 2 =
         X ^ 3 + a * X * (2 * y) ^ 4 + (y ^ 2 - x ^ 3 - a * x) * (2 * y) ^ 6"
  unfolding assms by algebra

lemma add_identity:
  fixes r h u s a X :: int
  assumes "X = r ^ 2 - h ^ 3 - 2 * u * h ^ 2"
  shows "(r * (u * h ^ 2 - X) - s * h ^ 3) ^ 2 - (X ^ 3 + a * X * h ^ 4 + b * h ^ 6) =
     (r ^ 2 * h ^ 3 - h ^ 6 - 3 * h ^ 5 * u)
       * (((s + r) ^ 2 - ((u + h) ^ 3 + a * (u + h) + b)) - (s ^ 2 - (u ^ 3 + a * u + b)))
     + h ^ 6 * (s ^ 2 - (u ^ 3 + a * u + b))"
  unfolding assms by algebra

lemma dbl_raw_defect:
  assumes "dbl_raw (curve_A c) (x, y, z) = (x3, y3, z3)"
  shows "defect c x3 y3 z3 = 64 * y ^ 6 * defect c x y z"
proof -
  let ?a = "curve_A c * z ^ 4"
  from assms have raw: "x3 = (3 * x ^ 2 + ?a) ^ 2 - 8 * x * y ^ 2"
    "y3 = (3 * x ^ 2 + ?a) * (4 * x * y ^ 2 - x3) - 8 * y ^ 4" "z3 = 2 * y * z"
    by (auto simp: dbl_raw_def Let_def)
  have "y3 ^ 2 = x3 ^ 3 + ?a * x3 * (2 * y) ^ 4 + (y ^ 2 - x ^ 3 - ?a * x) * (2 * y) ^ 6"
    unfolding raw(2) by (rule dbl_identity [OF refl raw(1)])
  then show ?thesis unfolding defect_def raw(3) by algebra
qed

lemma add_raw_defect:
  assumes "add_raw (x1, y1, z1) (x2, y2, z2) = (x3, y3, z3)"
  shows "\<exists>q1 q2. defect c x3 y3 z3 = q1 * defect c x1 y1 z1 + q2 * defect c x2 y2 z2"
proof -
  define u s where us: "u = x1 * z2 ^ 2" "s = y1 * z2 ^ 3"
  define h r where hr: "h = x2 * z1 ^ 2 - u" "r = y2 * z1 ^ 3 - s"
  define X where X: "X = r ^ 2 - h ^ 3 - 2 * u * h ^ 2"
  define a b where ab: "a = curve_A c * (z1 * z2) ^ 4" "b = curve_B c * (z1 * z2) ^ 6"
  define q where q: "q = r ^ 2 * h ^ 3 - h ^ 6 - 3 * h ^ 5 * u"
  from assms have raw: "x3 = 4 * X" "y3 = 8 * (r * (u * h ^ 2 - X) - s * h ^ 3)" "z3 = 2 * z1 * z2 * h"
    by (auto simp: add_raw_def Let_def us hr X algebra_simps)
  have f1: "s ^ 2 - (u ^ 3 + a * u + b) = z2 ^ 6 * defect c x1 y1 z1"
    unfolding us ab defect_def by algebra
  have "s + r = y2 * z1 ^ 3" "u + h = x2 * z1 ^ 2" by (simp_all add: hr)
  then have f2: "(s + r) ^ 2 - ((u + h) ^ 3 + a * (u + h) + b) = z1 ^ 6 * defect c x2 y2 z2"
    unfolding ab defect_def by algebra
  have "defect c x3 y3 z3 = 64 * ((r * (u * h ^ 2 - X) - s * h ^ 3) ^ 2 - (X ^ 3 + a * X * h ^ 4 + b * h ^ 6))"
    unfolding raw defect_def ab by algebra
  also have "\<dots> = 64 * (q * (z1 ^ 6 * defect c x2 y2 z2 - z2 ^ 6 * defect c x1 y1 z1)
                       + h ^ 6 * (z2 ^ 6 * defect c x1 y1 z1))"
    unfolding add_identity [OF X] f1 f2 q by (rule refl)
  also have "\<dots> = (64 * (h ^ 6 - q) * z2 ^ 6) * defect c x1 y1 z1 + (64 * q * z1 ^ 6) * defect c x2 y2 z2"
    by algebra
  finally show ?thesis by blast
qed

lemma doubleJacobian_raw:
  assumes "doubleJacobian c (x, y, z) = (x3, y3, z3)" "dbl_raw (curve_A c) (x, y, z) = (x3', y3', z3')"
  shows "x3 mod curve_P c = x3' mod curve_P c" "y3 mod curve_P c = y3' mod curve_P c"
    "z3 mod curve_P c = z3' mod curve_P c"
proof -
  let ?p = "curve_P c" and ?m = "3 * x ^ 2 + curve_A c * z ^ 4"
  define delta gamma where dg: "delta = (z * z) mod ?p" "gamma = (y * y) mod ?p"
  define al where al: "al = (if curve_A c = - 3 then 2 * ((x - delta) * (x + delta)) + (x - delta) * (x + delta)
      else if curve_A c \<noteq> 0 then 2 * (x * x) + x * x + curve_A c * (delta * delta) else 2 * (x * x) + x * x)"
  define alpha beta4 where ab: "alpha = al mod ?p" "beta4 = (4 * (x * gamma)) mod ?p"
  from assms(1) have eqs: "x3 = (alpha * alpha - 2 * beta4) mod ?p"
    "y3 = (alpha * (beta4 - x3) - 8 * (gamma * gamma)) mod ?p" "z3 = (2 * (y * z)) mod ?p"
    unfolding doubleJacobian_def Let_def prod.case dg [symmetric] al [symmetric] ab [symmetric] by auto
  from assms(2) have raw: "x3' = ?m ^ 2 - 8 * x * y ^ 2"
    "y3' = ?m * (4 * x * y ^ 2 - x3') - 8 * y ^ 4" "z3' = 2 * y * z"
    by (auto simp: dbl_raw_def Let_def)
  have d: "delta mod ?p = (z * z) mod ?p" "gamma mod ?p = (y * y) mod ?p" by (simp_all add: dg)
  have al2: "al = 3 * x ^ 2 + curve_A c * (delta * delta)" unfolding al by (simp add: algebra_simps power2_eq_square)
  have "(3 * x ^ 2 + curve_A c * (delta * delta)) mod ?p = (3 * x ^ 2 + curve_A c * ((z * z) * (z * z))) mod ?p"
    by (intro mod_congs d refl)
  then have a: "alpha mod ?p = ?m mod ?p"
    by (simp add: ab al2 power4_eq_xxxx mult.assoc)
  have b: "beta4 mod ?p = (4 * (x * (y * y))) mod ?p" unfolding ab mod_mod_trivial by (intro mod_congs d refl)
  have "(alpha * alpha - 2 * beta4) mod ?p = (?m * ?m - 2 * (4 * (x * (y * y)))) mod ?p"
    by (intro mod_congs a b refl)
  also have "?m * ?m - 2 * (4 * (x * (y * y))) = x3'" unfolding raw(1) by algebra
  finally show x: "x3 mod ?p = x3' mod ?p" unfolding eqs(1) mod_mod_trivial .
  have "(alpha * (beta4 - x3) - 8 * (gamma * gamma)) mod ?p
      = (?m * (4 * (x * (y * y)) - x3') - 8 * (y * y * (y * y))) mod ?p"
    by (intro mod_congs a b x d refl)
  also have "?m * (4 * (x * (y * y)) - x3') - 8 * (y * y * (y * y)) = y3'" unfolding raw(2) by algebra
  finally show "y3 mod ?p = y3' mod ?p" unfolding eqs(2) mod_mod_trivial .
  show "z3 mod ?p = z3' mod ?p" unfolding eqs(3) raw(3) by (simp add: mult.assoc)
qed

lemma addJacobian_raw:
  assumes "addJacobian c (x1, y1, z1) (x2, y2, z2) = (x3, y3, z3)" "z1 \<noteq> 0" "z2 \<noteq> 0"
    and "(x3, y3, z3) \<noteq> doubleJacobian c (x1, y1, z1)"
    and "add_raw (x1, y1, z1) (x2, y2, z2) = (x3', y3', z3')"
  shows "x3 mod curve_P c = x3' mod curve_P c" "y3 mod curve_P c = y3' mod curve_P c"
    "z3 mod curve_P c = z3' mod curve_P c"
proof -
  let ?p = "curve_P c"
  define z11 z22 where z: "z11 = (z1 * z1) mod ?p" "z22 = (z2 * z2) mod ?p"
  define u1 u2 where u: "u1 = (x1 * z22) mod ?p" "u2 = (x2 * z11) mod ?p"
  define s1 s2 where s: "s1 = (y1 * z2 * z22) mod ?p" "s2 = (y2 * z1 * z11) mod ?p"
  define h r where hr: "h = (if u2 - u1 < 0 then u2 - u1 + ?p else u2 - u1)"
    "r = (if s2 - s1 < 0 then s2 - s1 + ?p else s2 - s1)"
  let ?u = "x1 * (z2 * z2)" and ?s = "y1 * z2 * (z2 * z2)"
  let ?h = "x2 * (z1 * z1) - ?u" and ?r = "y2 * z1 * (z1 * z1) - ?s"
  from assms(1-4) have eqs: "x3 = (2 * r * (2 * r) - h * (2 * h * (2 * h)) - u1 * (2 * h * (2 * h)) - u1 * (2 * h * (2 * h))) mod ?p"
    "y3 = (2 * r * (u1 * (2 * h * (2 * h)) - x3) - 2 * (s1 * (h * (2 * h * (2 * h))))) mod ?p"
    "z3 = (((z1 + z2) * (z1 + z2) - z11 - z22) * h) mod ?p"
    unfolding addJacobian_def Let_def prod.case z [symmetric] u [symmetric] s [symmetric] hr [symmetric]
    by (auto split: if_splits)
  from assms(5) have raw: "x3' = 4 * (?r ^ 2 - ?h ^ 3 - 2 * ?u * ?h ^ 2)"
    "y3' = 2 * ?r * (4 * ?u * ?h ^ 2 - x3') - 8 * ?s * ?h ^ 3" "z3' = 2 * z1 * z2 * ?h"
    by (auto simp: add_raw_def Let_def power2_eq_square power3_eq_cube mult.assoc)
  have zc: "z11 mod ?p = (z1 * z1) mod ?p" "z22 mod ?p = (z2 * z2) mod ?p" by (simp_all add: z)
  have uc: "u1 mod ?p = ?u mod ?p" "u2 mod ?p = (x2 * (z1 * z1)) mod ?p"
    "s1 mod ?p = ?s mod ?p" "s2 mod ?p = (y2 * z1 * (z1 * z1)) mod ?p"
    unfolding u s mod_mod_trivial by (intro mod_congs zc refl)+
  have "h mod ?p = (u2 - u1) mod ?p" "r mod ?p = (s2 - s1) mod ?p" by (simp_all add: hr)
  then have hc: "h mod ?p = ?h mod ?p" "r mod ?p = ?r mod ?p"
    using mod_diff_cong [OF uc(2,1)] mod_diff_cong [OF uc(4,3)] by simp_all
  have "(2 * r * (2 * r) - h * (2 * h * (2 * h)) - u1 * (2 * h * (2 * h)) - u1 * (2 * h * (2 * h))) mod ?p
      = (2 * ?r * (2 * ?r) - ?h * (2 * ?h * (2 * ?h)) - ?u * (2 * ?h * (2 * ?h)) - ?u * (2 * ?h * (2 * ?h))) mod ?p"
    by (intro mod_congs hc uc refl)
  also have "2 * ?r * (2 * ?r) - ?h * (2 * ?h * (2 * ?h)) - ?u * (2 * ?h * (2 * ?h)) - ?u * (2 * ?h * (2 * ?h)) = x3'"
    unfolding raw(1) by algebra
  finally show x: "x3 mod ?p = x3' mod ?p" unfolding eqs(1) mod_mod_trivial .
  have "(2 * r * (u1 * (2 * h * (2 * h)) - x3) - 2 * (s1 * (h * (2 * h * (2 * h))))) mod ?p
      = (2 * ?r * (?u * (2 * ?h * (2 * ?h)) - x3') - 2 * (?s * (?h * (2 * ?h * (2 * ?h))))) mod ?p"
    by (intro mod_congs hc uc x refl)
  also have "2 * ?r * (?u * (2 * ?h * (2 * ?h)) - x3') - 2 * (?s * (?h * (2 * ?h * (2 * ?h)))) = y3'"
    unfolding raw(2) by algebra
  finally show "y3 mod ?p = y3' mod ?p" unfolding eqs(2) mod_mod_trivial .
  have "(((z1 + z2) * (z1 + z2) - z11 - z22) * h) mod ?p
      = (((z1 + z2) * (z1 + z2) - z1 * z1 - z2 * z2) * ?h) mod ?p"
    by (intro mod_congs hc zc refl)
  also have "((z1 + z2) * (z1 + z2) - z1 * z1 - z2 * z2) * ?h = z3'"
    unfolding raw(3) by algebra
  finally show "z3 mod ?p = z3' mod ?p" unfolding eqs(3) mod_mod_trivial .
qed

lemma doubleJacobian_on: "jac_on c pt \<Longrightarrow> jac_on c (doubleJacobian c pt)"
proof -
  assume on: "jac_on c pt"
  obtain x y z where pt: "pt = (x, y, z)" by (metis prod_cases3)
  obtain x3 y3 z3 where d: "doubleJacobian c (x, y, z) = (x3, y3, z3)" by (metis prod_cases3)
  obtain x3' y3' z3' where r: "dbl_raw (curve_A c) (x, y, z) = (x3', y3', z3')" by (metis prod_cases3)
  have "defect c x3 y3 z3 mod curve_P c = (64 * y ^ 6 * defect c x y z) mod curve_P c"
    using defect_cong [OF doubleJacobian_raw [OF d r]] dbl_raw_defect [OF r] by simp
  with on show ?thesis by (auto simp: jac_on_def pt d)
qed

lemma addJacobian_on: "jac_on c pt1 \<Longrightarrow> jac_on c pt2 \<Longrightarrow> jac_on c (addJacobian c pt1 pt2)"
proof -
  assume on: "jac_on c pt1" "jac_on c pt2"
  obtain x1 y1 z1 where pt1: "pt1 = (x1, y1, z1)" by (metis prod_cases3)
  obtain x2 y2 z2 where pt2: "pt2 = (x2, y2, z2)" by (metis prod_cases3)
  obtain x3 y3 z3 where a: "addJacobian c (x1, y1, z1) (x2, y2, z2) = (x3, y3, z3)" by (metis prod_cases3)
  obtain x3' y3' z3' where r: "add_raw (x1, y1, z1) (x2, y2, z2) = (x3', y3', z3')" by (metis prod_cases3)
  consider "z1 = 0 \<or> z2 = 0" | "(x3, y3, z3) = doubleJacobian c (x1, y1, z1)"
    | "z1 \<noteq> 0" "z2 \<noteq> 0" "(x3, y3, z3) \<noteq> doubleJacobian c (x1, y1, z1)" by blast
  then show ?thesis
  proof cases
    case 1
    then have "addJacobian c pt1 pt2 \<in> {pt1, pt2}"
      unfolding addJacobian_def pt1 pt2 prod.case by (cases "z1 = 0") simp_all
    then show ?thesis using on by auto
  next
    case 2
    then show ?thesis using doubleJacobian_on [OF on(1)] a by (simp add: pt1 pt2)
  next
    case 3
    obtain q1 q2 where q: "defect c x3' y3' z3' = q1 * defect c x1 y1 z1 + q2 * defect c x2 y2 z2"
      using add_raw_defect [OF r] by blast
    have "defect c x3 y3 z3 mod curve_P c = (q1 * defect c x1 y1 z1 + q2 * defect c x2 y2 z2) mod curve_P c"
      using defect_cong [OF addJacobian_raw [OF a 3 r]] q by simp
    with on show ?thesis by (auto simp: jac_on_def pt1 pt2 a)
  qed
qed

lemma scalar_bits_on: "jac_on c B \<Longrightarrow> jac_on c pt \<Longrightarrow> jac_on c (scalar_bits c B n b pt)"
  by (induction n arbitrary: b pt) (simp_all add: doubleJacobian_on addJacobian_on Let_def)

lemma scalar_bytes_on: "jac_on c B \<Longrightarrow> jac_on c pt \<Longrightarrow> jac_on c (scalar_bytes c B k pt)"
  by (induction k arbitrary: pt) (simp_all add: scalar_bits_on del: scalar_bits.simps)

lemma jac_on_affine: "jac_on c (x, y, 1) \<longleftrightarrow> IsOnCurve c x y"
proof -
  have "(x * x + curve_A c) * x + curve_B c = x ^ 3 + curve_A c * x * 1 ^ 4 + curve_B c * 1 ^ 6"
    by (simp add: algebra_simps power3_eq_cube)
  then show ?thesis
    by (auto simp: jac_on_def IsOnCurve_def polynomial_def defect_def power2_eq_square mod_eq_dvd_iff
        dvd_diff_commute)
qed

lemma jac_on_infinity [simp]: "jac_on c (0, 0, 0)"
  by (simp add: jac_on_def defect_def)

lemma affineFromJacobian_on:
  assumes "jac_on c pt" "affineFromJacobian c pt = Some (x, y)" "0 < curve_P c"
  shows "(x, y) = (0, 0) \<or> IsOnCurve c x y"
proof -
  let ?p = "curve_P c"
  obtain X Y Z where pt: "pt = (X, Y, Z)" by (metis prod_cases3)
  show ?thesis
  proof (cases "Z = 0")
    case True
    then show ?thesis using assms(2) by (simp add: affineFromJacobian_def pt)
  next
    case False
    then obtain i where i: "ModInverse Z ?p = Some i"
      and xy: "x = (X * (i * i)) mod ?p" "y = (Y * (i * i * i)) mod ?p"
      using assms(2) by (auto simp: affineFromJacobian_def pt Let_def split: option.splits)
    have inv: "(Z * i) mod ?p = 1 mod ?p" by (rule ModInverse_Some(1) [OF i assms(3)])
    have "defect c x y 1 mod ?p = defect c (X * (i * i)) (Y * (i * i * i)) (Z * i) mod ?p"
      by (rule defect_cong) (simp_all add: xy inv)
    also have "defect c (X * (i * i)) (Y * (i * i * i)) (Z * i) = i ^ 6 * defect c X Y Z"
      unfolding defect_def by algebra
    also have "\<dots> mod ?p = 0" using assms(1) by (auto simp: jac_on_def pt)
    finally show ?thesis using jac_on_affine by (simp add: jac_on_def)
  qed
qed

text \<open>The third coordinate stays reduced, so a non-zero one has an inverse in a prime field.\<close>

definition z_reduced :: "CurveParams \<Rightarrow> jacobian \<Rightarrow> bool" where
  "z_reduced c pt = (case pt of (x, y, z) \<Rightarrow> 0 \<le> z \<and> z < curve_P c)"

lemma z_reduced_mod: "0 < curve_P c \<Longrightarrow> z_reduced c (x, y, z mod curve_P c)"
  by (simp add: z_reduced_def)

lemma z_reduced_if: "z_reduced c p \<Longrightarrow> z_reduced c q \<Longrightarrow> z_reduced c (if b then p else q)"
  by simp

lemma doubleJacobian_z: "0 < curve_P c \<Longrightarrow> z_reduced c (doubleJacobian c pt)"
  unfolding doubleJacobian_def Let_def by (cases pt) (simp only: prod.case z_reduced_mod)

lemma addJacobian_z:
  assumes "0 < curve_P c" "z_reduced c pt1" "z_reduced c pt2"
  shows "z_reduced c (addJacobian c pt1 pt2)"
proof -
  obtain x1 y1 z1 where pt1: "pt1 = (x1, y1, z1)" by (metis prod_cases3)
  obtain x2 y2 z2 where pt2: "pt2 = (x2, y2, z2)" by (metis prod_cases3)
  have d: "z_reduced c (doubleJacobian c (x1, y1, z1))" using assms(1) by (rule doubleJacobian_z)
  consider "z1 = 0" | "z1 \<noteq> 0" "z2 = 0" | "z1 \<noteq> 0" "z2 \<noteq> 0" by blast
  then show ?thesis
  proof cases
    case 3
    show ?thesis
      unfolding addJacobian_def Let_def pt1 pt2 prod.case 
      by (simp only: 3 if_False) (intro z_reduced_if d z_reduced_mod assms(1))
  qed (use assms in \<open>simp_all add: addJacobian_def pt1 pt2\<close>)
qed

lemma scalar_bytes_z:
  assumes "0 < curve_P c" "z_reduced c B"
  shows "z_reduced c pt \<Longrightarrow> z_reduced c (scalar_bytes c B k pt)"
proof (induction k arbitrary: pt)
  case (Cons b k)
  have "z_reduced c (scalar_bits c B n b pt)" if "z_reduced c pt" for n b pt
    using that assms
    by (induction n arbitrary: b pt) (simp_all add: doubleJacobian_z addJacobian_z Let_def)
  with Cons show ?case by (simp del: scalar_bits.simps)
qed simp

lemma affineFromJacobian_total:
  assumes "0 < curve_P c" "\<forall>z \<in> {1..<curve_P c}. coprime z (curve_P c)" "z_reduced c pt"
  shows "\<exists>x y. affineFromJacobian c pt = Some (x, y)"
proof -
  obtain X Y Z where pt: "pt = (X, Y, Z)" by (metis prod_cases3)
  show ?thesis
  proof (cases "Z = 0")
    case False
    with assms(2,3) have "coprime Z (curve_P c)" by (auto simp: z_reduced_def pt)
    then obtain i where "ModInverse Z (curve_P c) = Some i" using ModInverse_total assms(1) by blast
    then show ?thesis by (simp add: affineFromJacobian_def pt Let_def)
  qed (simp add: affineFromJacobian_def pt)
qed

text \<open>
  C20. Scalar multiplication always returns a point of the curve: for a prime field (every non-zero
  residue is invertible) and a base point on the curve, \<open>ScalarMult\<close> never hits a missing inverse
  and its result is the point at infinity or satisfies the curve equation, for every scalar.
\<close>
theorem ScalarMult_on_curve:
  assumes "1 < curve_P c" "\<forall>z \<in> {1..<curve_P c}. coprime z (curve_P c)" "IsOnCurve c Bx By"
  shows "\<exists>x y. ScalarMult c Bx By k = Some (x, y) \<and> ((x, y) = (0, 0) \<or> IsOnCurve c x y)"
proof -
  let ?J = "scalar_bytes c (Bx, By, 1) k (0, 0, 0)"
  have p: "0 < curve_P c" using assms(1) by simp
  have on: "jac_on c ?J" using assms(3) by (intro scalar_bytes_on) (simp_all add: jac_on_affine)
  have "z_reduced c ?J" using assms(1) by (intro scalar_bytes_z) (simp_all add: z_reduced_def)
  then obtain x y where xy: "affineFromJacobian c ?J = Some (x, y)"
    using affineFromJacobian_total [OF p assms(2)] by blast
  then show ?thesis using affineFromJacobian_on [OF on xy p] by (auto simp: ScalarMult_def)
qed

definition tiny_curve :: CurveParams where
  "tiny_curve = \<lparr> curve_P = 5, curve_N = 6, curve_A = 0, curve_B = 7, curve_Gx = 3, curve_Gy = 2,
     curve_BitSize = 3 \<rparr>"

theorem ScalarMult_on_curve_witness:
  "\<exists>x y. ScalarMult tiny_curve 3 2 [5] = Some (x, y) \<and> ((x, y) = (0, 0) \<or> IsOnCurve tiny_curve x y)"
proof (rule ScalarMult_on_curve)
  show "1 < curve_P tiny_curve" by (simp add: tiny_curve_def)
  show "\<forall>z \<in> {1..<curve_P tiny_curve}. coprime z (curve_P tiny_curve)"
  proof
    fix z assume "z \<in> {1..<curve_P tiny_curve}"
    then have "z = 1 \<or> z = 2 \<or> z = 3 \<or> z = 4" by (auto simp: tiny_curve_def)
    then show "coprime z (curve_P tiny_curve)" by (auto simp: tiny_curve_def coprime_iff_gcd_eq_1 gcd_non_0_int)
  qed
  show "IsOnCurve tiny_curve 3 2" by code_simp
qed

text \<open>The generator of secp256k1 is on its curve, so the theorem applies to every derived key.\<close>

lemma secp256k1_generator_equation:
  "(curve_Gx initSecp256k1 * curve_Gx initSecp256k1 + curve_A initSecp256k1) * curve_Gx initSecp256k1
     + curve_B initSecp256k1 =
   curve_Gy initSecp256k1 * curve_Gy initSecp256k1 + curve_P initSecp256k1 *
     0x1b888e01a06e974017a28a5b4da436169761c9730b7aeedf75fc60f6a33cfc7792fe74711f025d590b10e57f1b3a7ce38ffc4c885c515894b45c19c9f413e5e9"
  by (simp add: initSecp256k1_def)

lemma secp256k1_generator_on_curve:
  "IsOnCurve initSecp256k1 (curve_Gx initSecp256k1) (curve_Gy initSecp256k1)"
  unfolding IsOnCurve_def polynomial_def secp256k1_generator_equation by (rule mod_mult_self2)

lemma ScalarBaseMult_secp256k1:
  assumes "ScalarBaseMult initSecp256k1 k = Some (x, y)"
  shows "(x, y) = (0, 0) \<or> IsOnCurve initSecp256k1 x y"
proof -
  let ?c = initSecp256k1
  have "jac_on ?c (scalar_bytes ?c (curve_Gx ?c, curve_Gy ?c, 1) k (0, 0, 0))"
    by (rule scalar_bytes_on) (simp_all only: jac_on_affine secp256k1_generator_on_curve jac_on_infinity)
  moreover have "0 < curve_P ?c" by (simp add: initSecp256k1_def)
  ultimately show ?thesis using assms affineFromJacobian_on unfolding ScalarBaseMult_def ScalarMult_def by blast
qed

section \<open>Leading zero bytes\<close>

lemma doubleJacobian_infinity: "doubleJacobian c (0, 0, 0) = (0, 0, 0)"
  unfolding doubleJacobian_def Let_def prod.case mult_zero_left mult_zero_right mod_0 by simp

lemma scalar_bits_zero: "scalar_bits c B n 0 (0, 0, 0) = (0, 0, 0)"
  by (induction n) (simp_all add: doubleJacobian_infinity)

text \<open>
  Leading zero bytes of a scalar are irrelevant: a private key gives the same point whether it
  is stored in its minimal form (\<open>big.Int.Bytes\<close>) or left-padded to 32 bytes.
\<close>
lemma ScalarMult_leading_zeros: "ScalarMult c Bx By (replicate n 0 @ k) = ScalarMult c Bx By k"
proof -
  have "scalar_bytes c B (replicate n 0 @ k) (0, 0, 0) = scalar_bytes c B k (0, 0, 0)" for B
    by (induction n) (simp_all add: scalar_bits_zero del: scalar_bits.simps)
  then show ?thesis by (simp add: ScalarMult_def)
qed

end
