(* ===== verification/Signing.thy ===== *)
theory Signing
  imports BigBytes Hashes Secp256k1 Hexnum
begin

text \<open>
  Keys and deterministic ECDSA signatures: \<open>crypto/ecdsa.go\<close>, \<open>crypto/keccak.go\<close>,
  \<open>crypto/rfc6979.go\<close>, \<open>crypto/signecdsa.go\<close> and the verification and signature layout of
  \<open>crypto/secp256k1/ecdsa.go\<close>. The loop of RFC 6979 has no bound in the code, so it is a partial
  function: \<^const>\<open>None\<close> is a run that does not end.
\<close>

section \<open>Keys\<close>

record PrivateKey =
  priv_Curve :: CurveParams
  priv_X :: int
  priv_Y :: int
  priv_D :: nat

text \<open>
  \<open>elliptic.Marshal\<close> of the standard library: it panics for a point that is not on the curve (the
  point at infinity \<open>(0, 0)\<close> is let through) and for coordinates that do not fit.
\<close>

definition Marshal :: "CurveParams \<Rightarrow> int \<Rightarrow> int \<Rightarrow> bytes option" where
  "Marshal c x y =
     (if \<not> (x = 0 \<and> y = 0) \<and> \<not> IsOnCurve c x y then None
      else
        (let byteLen = (curve_BitSize c + 7) div 8
         in case (FillBytes (nat \<bar>x\<bar>) byteLen, FillBytes (nat \<bar>y\<bar>) byteLen) of
              (Some xb, Some yb) \<Rightarrow> Some (4 # xb @ yb)
            | _ \<Rightarrow> None))"

definition MarshalCompressed :: "CurveParams \<Rightarrow> int \<Rightarrow> int \<Rightarrow> bytes option" where
  "MarshalCompressed c x y =
     (if \<not> (x = 0 \<and> y = 0) \<and> \<not> IsOnCurve c x y then None
      else
        (case FillBytes (nat \<bar>x\<bar>) ((curve_BitSize c + 7) div 8) of
           Some xb \<Rightarrow> Some ((if odd y then 3 else 2) # xb)
         | None \<Rightarrow> None))"

definition ECDSAPublicKeyToBytes :: "(int \<times> int) option \<Rightarrow> (unit, bytes) res" where
  "ECDSAPublicKeyToBytes pub =
     (case pub of
        None \<Rightarrow> Ok []
      | Some (x, y) \<Rightarrow> (case Marshal initSecp256k1 x y of Some b \<Rightarrow> Ok b | None \<Rightarrow> Panic))"

definition ECDSAPublicKeyCompressedToBytes :: "(int \<times> int) option \<Rightarrow> (unit, bytes) res" where
  "ECDSAPublicKeyCompressedToBytes pub =
     (case pub of
        None \<Rightarrow> Ok []
      | Some (x, y) \<Rightarrow> (case MarshalCompressed initSecp256k1 x y of Some b \<Rightarrow> Ok b | None \<Rightarrow> Panic))"

text \<open>\<open>Keccak256\<close> writes its arguments one after the other into the sponge and reads 32 bytes.\<close>

definition Keccak256 :: "(bytes \<Rightarrow> bytes) \<Rightarrow> bytes list \<Rightarrow> bytes" where
  "Keccak256 keccak data = keccak (concat data)"

definition PubKeyToAddressBytes :: "(bytes \<Rightarrow> bytes) \<Rightarrow> int \<times> int \<Rightarrow> (unit, bytes) res" where
  "PubKeyToAddressBytes keccak p =
     res_bind (ECDSAPublicKeyToBytes (Some p)) (\<lambda>pubBytes. Ok (drop 12 (Keccak256 keccak [tl pubBytes])))"

definition ECDSAKeysFromPrivateKeyBytes :: "bytes \<Rightarrow> (unit, PrivateKey) res" where
  "ECDSAKeysFromPrivateKeyBytes pk =
     (let curve = initSecp256k1
      in case ScalarBaseMult curve pk of
           None \<Rightarrow> Panic
         | Some (x, y) \<Rightarrow> Ok \<lparr> priv_Curve = curve, priv_X = x, priv_Y = y, priv_D = be_value pk \<rparr>)"

definition ECDSAKeysFromPrivateKeyHex :: "string \<Rightarrow> (hex_error, PrivateKey) res" where
  "ECDSAKeysFromPrivateKeyHex pk =
     (case ParseHexBytes pk of
        Err e \<Rightarrow> Err e
      | Panic \<Rightarrow> Panic
      | Ok pkBytes \<Rightarrow>
          (case ECDSAKeysFromPrivateKeyBytes pkBytes of Ok k \<Rightarrow> Ok k | _ \<Rightarrow> Panic))"

definition BytesFromECDSAPrivateKey :: "PrivateKey option \<Rightarrow> bytes" where
  "BytesFromECDSAPrivateKey k =
     (case k of
        None \<Rightarrow> []
      | Some k \<Rightarrow> paddedBigBytes (priv_D k) (curve_BitSize (priv_Curve k) div 8))"

section \<open>RFC 6979\<close>

definition mac :: "hash_alg \<Rightarrow> bytes \<Rightarrow> bytes \<Rightarrow> bytes" where
  "mac alg k m = hmac alg k m"

text \<open>Steps B to G: the key and the state the candidate loop starts with.\<close>

definition gs_init :: "hash_alg \<Rightarrow> nat \<Rightarrow> nat \<Rightarrow> bytes \<Rightarrow> bytes \<times> bytes" where
  "gs_init alg q x hash =
     (let qlen = BitLen q;
          holen = hash_size alg;
          rolen = (qlen + 7) div 8;
          bx = int2octets x rolen @ bits2octets hash q qlen rolen;
          v = replicate holen 1;
          k = replicate holen 0;
          k = mac alg k (v @ [0] @ bx);
          v = mac alg k v;
          k = mac alg k (v @ [1] @ bx);
          v = mac alg k v
      in (k, v))"

text \<open>Step H2: extend \<open>t\<close> until it has \<open>qlen / 8\<close> bytes.\<close>

partial_function (option) gs_fill :: "hash_alg \<Rightarrow> bytes \<Rightarrow> bytes \<Rightarrow> bytes \<Rightarrow> nat \<Rightarrow> (bytes \<times> bytes) option" where
  [code]: "gs_fill alg k v t n =
     (if length t < n then gs_fill alg k (mac alg k v) (t @ mac alg k v) n else Some (v, t))"

text \<open>
  Step H: candidates until one is in \<open>[1, q)\<close> and accepted by \<open>test\<close>. The test is the closure of
  the caller; it rejects a candidate with \<open>Ok None\<close>, accepts it with the values it has computed,
  or panics.
\<close>

partial_function (option) gs_loop ::
  "hash_alg \<Rightarrow> nat \<Rightarrow> (nat \<Rightarrow> (unit, 'a option) res) \<Rightarrow> bytes \<Rightarrow> bytes \<Rightarrow> (unit, 'a) res option" where
  [code]: "gs_loop alg q test k v =
     (case gs_fill alg k v [] (BitLen q div 8) of
        None \<Rightarrow> None
      | Some vt \<Rightarrow>
          (let secret = bits2int (snd vt) (BitLen q);
               k' = mac alg k (fst vt @ [0]);
               v' = mac alg k' (fst vt)
           in if 1 \<le> secret \<and> secret < q then
                (case test secret of
                   Panic \<Rightarrow> Some Panic
                 | Err e \<Rightarrow> Some (Err e)
                 | Ok (Some a) \<Rightarrow> Some (Ok a)
                 | Ok None \<Rightarrow> gs_loop alg q test k' v')
              else gs_loop alg q test k' v'))"

definition generateSecret ::
  "nat \<Rightarrow> nat \<Rightarrow> hash_alg \<Rightarrow> bytes \<Rightarrow> (nat \<Rightarrow> (unit, 'a option) res) \<Rightarrow> (unit, 'a) res option" where
  "generateSecret q x alg hash test =
     (case gs_init alg q x hash of (k, v) \<Rightarrow> gs_loop alg q test k v)"

section \<open>Signatures\<close>

text \<open>The closure passed to \<open>generateSecret\<close>: one signing attempt with the nonce \<open>k\<close>.\<close>

definition sign_attempt :: "PrivateKey \<Rightarrow> bytes \<Rightarrow> nat \<Rightarrow> (unit, (byte \<times> int \<times> int) option) res" where
  "sign_attempt priv hash k =
     (let N = curve_N (priv_Curve priv)
      in case ScalarBaseMult (priv_Curve priv) (be_bytes k) of
           None \<Rightarrow> Panic
         | Some (r, y) \<Rightarrow>
             (let v = (if odd y then 1 else 0 :: byte)
              in if r = 0 then Ok None
                 else
                   case ModInverse (int k) N of
                     None \<Rightarrow> Panic
                   | Some kinv \<Rightarrow>
                       (let e = int (hashToInt hash (nat N));
                            s = (int (priv_D priv) * r + e) * kinv;
                            sR = s mod N;
                            (s, v) = (if N div 2 < sR then ((- s) mod N, v XOR 1) else (sR, v))
                        in Ok (if s \<noteq> 0 then Some (v, r, s) else None))))"

definition SignEcdsaRfc6979 ::
  "PrivateKey \<Rightarrow> bytes \<Rightarrow> hash_alg \<Rightarrow> (unit, byte \<times> int \<times> int) res option" where
  "SignEcdsaRfc6979 priv hash alg =
     generateSecret (nat (curve_N (priv_Curve priv))) (priv_D priv) alg hash (sign_attempt priv hash)"

text \<open>\<open>copy(sig[off:], b)\<close> into a slice.\<close>

definition copy_at :: "nat \<Rightarrow> bytes \<Rightarrow> bytes \<Rightarrow> bytes" where
  "copy_at off b sig =
     take off sig @ take (length sig - off) b @ drop (off + length b) sig"

definition sig_layout :: "byte \<times> int \<times> int \<Rightarrow> bytes" where
  "sig_layout vrs =
     (case vrs of (v, r, s) \<Rightarrow>
        let sig = replicate 65 0;
            sig = copy_at 0 (padBytes (be_bytes (nat r)) 32) sig;
            sig = copy_at 32 (padBytes (be_bytes (nat s)) 32) sig
        in sig[64 := v])"

definition SignEcdsaRfc6979Bytes :: "PrivateKey \<Rightarrow> bytes \<Rightarrow> hash_alg \<Rightarrow> (unit, bytes) res option" where
  "SignEcdsaRfc6979Bytes priv hash alg =
     (case SignEcdsaRfc6979 priv hash alg of
        None \<Rightarrow> None
      | Some r \<Rightarrow> Some (res_bind r (\<lambda>vrs. Ok (sig_layout vrs))))"

text \<open>\<open>decodeSigBytes\<close> of \<open>secp256k1/ecdsa.go\<close>; a slice bound beyond the signature panics.\<close>

definition decodeSigBytes :: "CurveParams \<Rightarrow> bytes \<Rightarrow> (unit, nat \<times> nat \<times> byte) res" where
  "decodeSigBytes c sig =
     (let rSize = (curve_BitSize c + 7) div 8;
          recid = (if length sig = 2 * rSize then 16
                   else if length sig = 2 * rSize + 1 then last sig
                   else 255)
      in if length sig < 2 * rSize then Panic
         else Ok (be_value (take rSize sig), be_value (take rSize (drop rSize sig)), recid))"

definition verify :: "CurveParams \<Rightarrow> int \<times> int \<Rightarrow> bytes \<Rightarrow> int \<Rightarrow> int \<Rightarrow> (unit, bool) res" where
  "verify c pub hash r s =
     (let N = curve_N c; e = int (hashToInt hash (nat N))
      in case ModInverse s N of
           None \<Rightarrow> Panic
         | Some w \<Rightarrow>
             (let u1 = (e * w) mod N; u2 = (r * w) mod N
              in case (ScalarBaseMult c (be_bytes (nat u1)), ScalarMult c (fst pub) (snd pub) (be_bytes (nat u2))) of
                   (Some (x1, y1), Some (x2, y2)) \<Rightarrow>
                     (case Add c x1 y1 x2 y2 of
                        None \<Rightarrow> Panic
                      | Some (x, y) \<Rightarrow> Ok (if x = 0 \<and> y = 0 then False else x mod N = r))
                 | _ \<Rightarrow> Panic))"

definition Verify :: "CurveParams \<Rightarrow> int \<times> int \<Rightarrow> bytes \<Rightarrow> int \<Rightarrow> int \<Rightarrow> (unit, bool) res" where
  "Verify c pub hash r s =
     (if r \<le> 0 \<or> s \<le> 0 then Ok False
      else if r \<ge> curve_N c \<or> s \<ge> curve_N c then Ok False
      else verify c pub hash r s)"

section \<open>The candidate loop\<close>

lemma gs_fill_total:
  assumes "hash_alg_ok alg"
  shows "\<exists>v' t'. gs_fill alg k v t n = Some (v', t') \<and> n \<le> length t'"
proof (induction "n - length t" arbitrary: v t rule: less_induct)
  case less
  show ?case
  proof (cases "length t < n")
    case True
    have "0 < length (mac alg k v)" using assms length_hmac by (simp add: mac_def hash_alg_ok_def)
    then have "n - length (t @ mac alg k v) < n - length t" using True unfolding length_append by linarith
    from less [OF this] show ?thesis using True by (subst gs_fill.simps) simp
  next
    case False
    then show ?thesis by (subst gs_fill.simps) simp
  qed
qed

text \<open>The state before the \<open>n\<close>-th candidate, and that candidate.\<close>

definition gs_fill_of :: "hash_alg \<Rightarrow> nat \<Rightarrow> bytes \<times> bytes \<Rightarrow> bytes \<times> bytes" where
  "gs_fill_of alg q kv = the (gs_fill alg (fst kv) (snd kv) [] (BitLen q div 8))"

fun gs_state :: "hash_alg \<Rightarrow> nat \<Rightarrow> bytes \<times> bytes \<Rightarrow> nat \<Rightarrow> bytes \<times> bytes" where
  "gs_state alg q kv 0 = kv"
| "gs_state alg q kv (Suc n) =
     (let kv' = gs_state alg q kv n; vt = gs_fill_of alg q kv'; k' = mac alg (fst kv') (fst vt @ [0])
      in (k', mac alg k' (fst vt)))"

definition candidate :: "hash_alg \<Rightarrow> nat \<Rightarrow> bytes \<times> bytes \<Rightarrow> nat \<Rightarrow> nat" where
  "candidate alg q kv n = bits2int (snd (gs_fill_of alg q (gs_state alg q kv n))) (BitLen q)"

definition rejected :: "nat \<Rightarrow> (nat \<Rightarrow> (unit, 'a option) res) \<Rightarrow> nat \<Rightarrow> bool" where
  "rejected q test c \<longleftrightarrow> c = 0 \<or> q \<le> c \<or> test c = Ok None"

lemma gs_loop_step:
  assumes "hash_alg_ok alg"
  shows "gs_loop alg q test k v =
    (let secret = candidate alg q (k, v) 0; kv' = gs_state alg q (k, v) 1
     in if rejected q test secret then gs_loop alg q test (fst kv') (snd kv')
        else case test secret of
               Panic \<Rightarrow> Some Panic
             | Err e \<Rightarrow> Some (Err e)
             | Ok (Some a) \<Rightarrow> Some (Ok a)
             | Ok None \<Rightarrow> None)"
proof -
  obtain v' t' where f: "gs_fill alg k v [] (BitLen q div 8) = Some (v', t')"
    using gs_fill_total [OF assms] by blast
  show ?thesis
    by (subst gs_loop.simps)
      (auto simp: f candidate_def gs_fill_of_def rejected_def Let_def split: res.splits option.splits)
qed

lemma gs_state_shift:
  "gs_state alg q (gs_state alg q kv 1) n = gs_state alg q kv (Suc n)"
  by (induction n) (simp_all add: Let_def)

lemma candidate_shift: "candidate alg q (gs_state alg q kv 1) n = candidate alg q kv (Suc n)"
  unfolding candidate_def gs_state_shift by (rule refl)

lemma gs_loop_accepts:
  assumes "hash_alg_ok alg"
    and "\<And>m. m < n \<Longrightarrow> rejected q test (candidate alg q (k, v) m)"
    and "0 < candidate alg q (k, v) n" "candidate alg q (k, v) n < q"
    and "test (candidate alg q (k, v) n) = Ok (Some a)"
  shows "gs_loop alg q test k v = Some (Ok a)"
  using assms(2-)
proof (induction n arbitrary: k v)
  case 0
  then show ?case by (subst gs_loop_step [OF assms(1)]) (simp add: Let_def rejected_def)
next
  case (Suc n)
  obtain k' v' where kv': "gs_state alg q (k, v) 1 = (k', v')" by (metis surj_pair)
  have c: "candidate alg q (k', v') m = candidate alg q (k, v) (Suc m)" for m
    using candidate_shift [of alg q "(k, v)" m] by (simp only: kv')
  have "gs_loop alg q test k' v' = Some (Ok a)"
    using Suc.prems by (intro Suc.IH) (simp_all add: c)
  moreover have "rejected q test (candidate alg q (k, v) 0)" by (rule Suc.prems(1)) simp
  ultimately show ?case
    by (subst gs_loop_step [OF assms(1)]) (simp add: Let_def kv' [unfolded One_nat_def] del: gs_state.simps)
qed

text \<open>A returned value was accepted by the test for some candidate in range.\<close>

lemmas gs_loop_induct = gs_loop.raw_induct [rotated 1, consumes 1, case_names step]

lemma gs_loop_outcome:
  "gs_loop alg q test k v = Some y \<Longrightarrow> \<exists>c. 0 < c \<and> c < q \<and> test c = (case y of Ok a \<Rightarrow> Ok (Some a) | Err e \<Rightarrow> Err e | Panic \<Rightarrow> Panic)"
proof (induction rule: gs_loop_induct)
  case (step loop alg q test k v y)
  from step(2) obtain vt where vt: "gs_fill alg k v [] (BitLen q div 8) = Some vt"
    by (auto split: option.splits)
  let ?c = "bits2int (snd vt) (BitLen q)"
  show ?case
  proof (cases "1 \<le> ?c \<and> ?c < q \<and> test ?c \<noteq> Ok None")
    case True
    then have "test ?c = (case y of Ok a \<Rightarrow> Ok (Some a) | Err e \<Rightarrow> Err e | Panic \<Rightarrow> Panic)"
      using step(2) by (auto simp: vt Let_def split: res.splits option.splits)
    with True show ?thesis by (intro exI [of _ ?c]) auto
  next
    case False
    then have "\<exists>k' v'. loop alg q test k' v' = Some y"
      using step(2) by (auto simp: vt Let_def split: if_splits)
    with step(1) show ?thesis by blast
  qed
qed

section \<open>What a signature satisfies\<close>

text \<open>The ECDSA equation with the recovery bit: \<open>s k = z + r d\<close> modulo the order, up to the sign.\<close>

definition signature_equation :: "PrivateKey \<Rightarrow> bytes \<Rightarrow> nat \<Rightarrow> byte \<times> int \<times> int \<Rightarrow> bool" where
  "signature_equation priv hash k vrs =
     (case vrs of (v, r, s) \<Rightarrow>
        let N = curve_N (priv_Curve priv); e = int (hashToInt hash (nat N))
        in case ScalarBaseMult (priv_Curve priv) (be_bytes k) of
             None \<Rightarrow> False
           | Some (x, y) \<Rightarrow> x = r \<and>
               ((s * int k) mod N = (int (priv_D priv) * r + e) mod N \<and> v = (if odd y then 1 else 0)
                \<or> (s * int k) mod N = (- (int (priv_D priv) * r + e)) mod N \<and> v = (if odd y then 0 else 1)))"

lemma low_s:
  fixes s N :: int
  assumes "0 < N" "N div 2 < s mod N"
  shows "(- s) mod N \<le> N div 2"
proof -
  have "s mod N \<noteq> 0" using assms by (auto simp: div_int_pos_iff)
  then have "(- s) mod N = N - s mod N" using assms(1) by (simp add: zmod_zminus1_eq_if)
  then show ?thesis using assms by linarith
qed

lemma inverse_cancel:
  fixes a k i N :: int
  assumes "(k * i) mod N = 1 mod N"
  shows "((a * i) * k) mod N = a mod N"
proof -
  have "((a * i) * k) mod N = (a * ((k * i) mod N)) mod N" by (simp add: mod_simps ac_simps)
  also have "\<dots> = a mod N" unfolding assms by (simp add: mod_simps)
  finally show ?thesis .
qed

lemma sign_attempt_sound:
  assumes "sign_attempt priv hash k = Ok (Some (v, r, s))" "0 < curve_N (priv_Curve priv)"
  shows "0 < s \<and> s \<le> curve_N (priv_Curve priv) div 2" "r \<noteq> 0" "v = 0 \<or> v = 1"
    "signature_equation priv hash k (v, r, s)"
proof -
  let ?N = "curve_N (priv_Curve priv)"
  from assms(1) obtain y kinv where b: "ScalarBaseMult (priv_Curve priv) (be_bytes k) = Some (r, y)"
    and i: "ModInverse (int k) ?N = Some kinv" and r: "r \<noteq> 0"
    by (auto simp: sign_attempt_def Let_def split: option.splits prod.splits if_splits)
  define a where a: "a = int (priv_D priv) * r + int (hashToInt hash (nat ?N))"
  define v0 where v0: "v0 = (if odd y then 1 else 0 :: byte)"
  from assms(1) have sv: "(s, v) = (if ?N div 2 < (a * kinv) mod ?N then ((- (a * kinv)) mod ?N, v0 XOR 1)
      else ((a * kinv) mod ?N, v0))" and s0: "s \<noteq> 0"
    by (auto simp: sign_attempt_def Let_def b i r a v0 split: prod.splits if_splits)
  from sv have sN: "0 \<le> s" using assms(2) by (auto split: if_splits)
  show "0 < s \<and> s \<le> ?N div 2"
    using sv sN s0 low_s [OF assms(2), of "a * kinv"] by (auto split: if_splits)
  show "r \<noteq> 0" by (rule r)
  show "v = 0 \<or> v = 1" using sv by (auto simp: v0 split: if_splits)
  have inv: "(int k * kinv) mod ?N = 1 mod ?N" by (rule ModInverse_Some(1) [OF i assms(2)])
  have eq: "((a * kinv) mod ?N * int k) mod ?N = a mod ?N" "((- (a * kinv)) mod ?N * int k) mod ?N = (- a) mod ?N"
    using inverse_cancel [OF inv, of a] inverse_cancel [OF inv, of "- a"] by (simp_all add: mod_simps)
  show "signature_equation priv hash k (v, r, s)"
    using sv eq unfolding signature_equation_def b a [symmetric] Let_def
    by (auto simp: v0 a simp del: minus_add_distrib split: if_splits)
qed


definition demo_curve :: CurveParams where
  "demo_curve = \<lparr> curve_P = 163, curve_N = 139, curve_A = 0, curve_B = 7, curve_Gx = 2, curve_Gy = 34,
     curve_BitSize = 8 \<rparr>"

definition demo_key :: PrivateKey where
  "demo_key = \<lparr> priv_Curve = demo_curve, priv_X = 2, priv_Y = 34, priv_D = 1 \<rparr>"

definition demo_alg :: hash_alg where
  "demo_alg = \<lparr> hash_size = 1, hash_block = 1, hash_sum = (\<lambda>_. [3]) \<rparr>"

lemma demo_sign: "SignEcdsaRfc6979 demo_key [7] demo_alg = Some (Ok (1, 6, 42))"
  by code_simp


text \<open>
  C36. The nonce search ends at the first candidate that is in range and accepted: when the
  candidates before it are out of range or rejected, \<open>generateSecret\<close> returns what the caller
  computed for it, for every hash algorithm with a non-empty output of fixed length.
\<close>
theorem generateSecret_returns:
  assumes "hash_alg_ok alg"
    and "\<And>m. m < n \<Longrightarrow> rejected q test (candidate alg q (gs_init alg q x hash) m)"
    and "0 < candidate alg q (gs_init alg q x hash) n" "candidate alg q (gs_init alg q x hash) n < q"
    and "test (candidate alg q (gs_init alg q x hash) n) = Ok (Some a)"
  shows "generateSecret q x alg hash test = Some (Ok a)"
proof -
  obtain k v where kv: "gs_init alg q x hash = (k, v)" by (metis surj_pair)
  have "gs_loop alg q test k v = Some (Ok a)"
    by (rule gs_loop_accepts [OF assms(1), of n]) (use assms(2-) in \<open>simp_all add: kv\<close>)
  then show ?thesis by (simp add: generateSecret_def kv)
qed

lemma demo_candidate: "candidate demo_alg 139 (gs_init demo_alg 139 5 [7]) 0 = 3"
  by code_simp

theorem generateSecret_returns_witness:
  "generateSecret 139 5 demo_alg [7] (\<lambda>k. Ok (Some k)) = Some (Ok 3)"
  by (rule generateSecret_returns [where n = 0]) (simp_all add: demo_candidate, simp add: hash_alg_ok_def demo_alg_def)

section \<open>Signature bytes\<close>

lemma length_copy_at: "off + length b \<le> length sig \<Longrightarrow> copy_at off b sig = take off sig @ b @ drop (off + length b) sig"
  by (simp add: copy_at_def)

lemma sig_layout_bytes:
  assumes "nat r < 256 ^ 32" "nat s < 256 ^ 32"
  shows "sig_layout (v, r, s) = padBytes (be_bytes (nat r)) 32 @ padBytes (be_bytes (nat s)) 32 @ [v]"
proof -
  have l: "length (padBytes (be_bytes (nat r)) 32) = 32" "length (padBytes (be_bytes (nat s)) 32) = 32"
    using assms length_be_bytes_le_iff [of "nat r" 32] length_be_bytes_le_iff [of "nat s" 32]
    by (simp_all add: length_padBytes)
  have "replicate 33 (0 :: byte) = replicate 32 0 @ [0]" by (simp add: replicate_append_same [symmetric] numeral_eq_Suc)
  then show ?thesis
    by (simp add: sig_layout_def Let_def length_copy_at l list_update_append)
qed

text \<open>
  The 65-byte signature carries the signature: \<open>decodeSigBytes\<close> of the bytes written for
  \<open>(v, r, s)\<close> returns \<open>r\<close>, \<open>s\<close> and the recovery id, for all values that fit in 32 bytes.
\<close>
lemma decodeSigBytes_sig_layout:
  assumes "0 \<le> r" "r < 2 ^ 256" "0 \<le> s" "s < 2 ^ 256"
  shows "decodeSigBytes initSecp256k1 (sig_layout (v, r, s)) = Ok (nat r, nat s, v)"
proof -
  have b: "nat r < 256 ^ 32" "nat s < 256 ^ 32" using assms by (simp_all add: nat_less_iff)
  have l: "length (padBytes (be_bytes (nat r)) 32) = 32" "length (padBytes (be_bytes (nat s)) 32) = 32"
    using b length_be_bytes_le_iff [of "nat r" 32] length_be_bytes_le_iff [of "nat s" 32]
    by (simp_all add: length_padBytes)
  show ?thesis
    by (simp add: decodeSigBytes_def Let_def sig_layout_bytes [OF b] l initSecp256k1_def)
qed

end
