(* ===== verification/RlpCorrect.thy ===== *)
theory RlpCorrect
  imports Rlp
begin

text \<open>
  Correctness of the RLP codec: the buffered encoder against the recursive definition of RLP, the
  size functions, and the round trip through \<open>Split\<close>, \<open>SplitUint64\<close> and \<open>CountValues\<close>.
\<close>

section \<open>The reference encoding\<close>

definition enc_string :: "bytes \<Rightarrow> bytes" where
  "enc_string b = (if length b = 1 \<and> hd b \<le> 0x7F then b else puthead 0x80 0xB7 (length b) @ b)"

definition enc_list_of :: "bytes \<Rightarrow> bytes" where
  "enc_list_of content = puthead 0xC0 0xF7 (length content) @ content"

fun rlp_enc :: "rval \<Rightarrow> (rlp_error, bytes) res"
  and rlp_encs :: "rval list \<Rightarrow> (rlp_error, bytes) res" where
  "rlp_enc (RRaw b) = Ok b"
| "rlp_enc (RBig None) = Ok (enc_string [])"
| "rlp_enc (RBig (Some i)) = (if i < 0 then Err ErrNegativeBigInt else Ok (enc_string (be_bytes (nat i))))"
| "rlp_enc (RUint i) = Ok (enc_string (be_bytes i))"
| "rlp_enc (RBool b) = Ok (enc_string (be_bytes (if b then 1 else 0)))"
| "rlp_enc (RString b) = Ok (enc_string b)"
| "rlp_enc (RBytes b) = Ok (enc_string b)"
| "rlp_enc (RSlice vs) = res_bind (rlp_encs vs) (\<lambda>c. Ok (enc_list_of c))"
| "rlp_enc (RStruct vs) = res_bind (rlp_encs vs) (\<lambda>c. Ok (enc_list_of c))"
| "rlp_enc (RPtr k (Some v)) = rlp_enc v"
| "rlp_enc (RPtr k None) = Ok (if k = String then enc_string [] else enc_list_of [])"
| "rlp_enc (RIface (Some v)) = rlp_enc v"
| "rlp_enc (RIface None) = Ok (enc_list_of [])"
| "rlp_encs [] = Ok []"
| "rlp_encs (v # vs) = res_bind (rlp_enc v) (\<lambda>b. res_bind (rlp_encs vs) (\<lambda>bs. Ok (b @ bs)))"

text \<open>The integers of the Go types fit in 64 bits.\<close>

fun go_sized :: "rval \<Rightarrow> bool" where
  "go_sized (RUint i) = (i < 2 ^ 64)"
| "go_sized (RSlice vs) = list_all go_sized vs"
| "go_sized (RStruct vs) = list_all go_sized vs"
| "go_sized (RPtr k (Some v)) = go_sized v"
| "go_sized (RIface (Some v)) = go_sized v"
| "go_sized _ = True"

section \<open>Integers\<close>

lemma be_bytes_width:
  assumes "256 ^ k \<le> i" "i < 256 ^ Suc k"
  shows "be_bytes i = be_fixed (Suc k) i"
proof -
  have "length (be_bytes i) = Suc k"
    using length_be_bytes_le_iff [of i k] length_be_bytes_le_iff [of i "Suc k"] assms by auto
  then show ?thesis using be_fixed_be_bytes [OF assms(2)] by simp
qed

lemma be_fixed_numeral:
  "be_fixed (numeral k) n = be_fixed (pred_numeral k) (n div 256) @ [word_of_nat n]"
  by (simp only: numeral_eq_Suc be_fixed.simps)

lemma putint_be_bytes:
  assumes "0 < i" "i < 2 ^ 64"
  shows "putint i = be_bytes i"
proof -
  consider "i < 2 ^ 8" | "2 ^ 8 \<le> i" "i < 2 ^ 16" | "2 ^ 16 \<le> i" "i < 2 ^ 24" | "2 ^ 24 \<le> i" "i < 2 ^ 32"
    | "2 ^ 32 \<le> i" "i < 2 ^ 40" | "2 ^ 40 \<le> i" "i < 2 ^ 48" | "2 ^ 48 \<le> i" "i < 2 ^ 56" | "2 ^ 56 \<le> i"
    by linarith
  then show ?thesis
  proof cases
    case 1
    then show ?thesis using assms be_bytes_width [of 0 i] by (simp add: putint_def)
  next
    case 2
    then show ?thesis using be_bytes_width [of 1 i] by (simp add: putint_def be_fixed_numeral)
  next
    case 3
    then show ?thesis using be_bytes_width [of 2 i] by (simp add: putint_def be_fixed_numeral div_mult2_eq [symmetric])
  next
    case 4
    then show ?thesis using be_bytes_width [of 3 i] by (simp add: putint_def be_fixed_numeral div_mult2_eq [symmetric])
  next
    case 5
    then show ?thesis using be_bytes_width [of 4 i] by (simp add: putint_def be_fixed_numeral div_mult2_eq [symmetric])
  next
    case 6
    then show ?thesis using be_bytes_width [of 5 i] by (simp add: putint_def be_fixed_numeral div_mult2_eq [symmetric])
  next
    case 7
    then show ?thesis using be_bytes_width [of 6 i] by (simp add: putint_def be_fixed_numeral div_mult2_eq [symmetric])
  next
    case 8
    then show ?thesis using assms be_bytes_width [of 7 i] by (simp add: putint_def be_fixed_numeral div_mult2_eq [symmetric])
  qed
qed

lemma intsize_loop_length: "0 < i \<Longrightarrow> Suc (intsize_loop i n) = length (be_bytes i) + n"
proof (induction i n rule: intsize_loop.induct)
  case (1 i n)
  then show ?case by (subst intsize_loop.simps) (auto simp: be_bytes_step)
qed

lemma intsize_length: "0 < i \<Longrightarrow> intsize i = length (be_bytes i)"
  using intsize_loop_length [of i 1] by (simp add: intsize_def)

section \<open>Composition of buffers\<close>

definition shift_head :: "nat \<Rightarrow> listhead \<Rightarrow> listhead" where
  "shift_head n h = h\<lparr> lh_offset := n + lh_offset h \<rparr>"

definition join :: "encBuffer \<Rightarrow> encBuffer \<Rightarrow> encBuffer" where
  "join a b = \<lparr> enc_str = enc_str a @ enc_str b,
     enc_lheads = enc_lheads a @ map (shift_head (length (enc_str a))) (enc_lheads b),
     enc_lhsize = enc_lhsize a + enc_lhsize b \<rparr>"

definition wrap :: "encBuffer \<Rightarrow> encBuffer" where
  "wrap b = \<lparr> enc_str = enc_str b,
     enc_lheads = \<lparr> lh_offset = 0, lh_size = enc_size b \<rparr> # enc_lheads b,
     enc_lhsize = enc_lhsize b + headsize (enc_size b) \<rparr>"

lemma shift_head_0: "shift_head 0 = (\<lambda>h. h)"
  by (rule ext) (simp add: shift_head_def)

lemma join_reset [simp]: "join buf reset = buf" "join reset buf = buf"
  by (simp_all add: join_def reset_def shift_head_0)

lemma join_assoc: "join (join a b) c = join a (join b c)"
  by (simp add: join_def shift_head_def add.assoc)

lemma append_str_join [simp]: "append_str p (join a b) = join a (append_str p b)"
  by (simp add: append_str_def join_def)

lemma listEnd_wrap:
  "enc_list buf = (buf1, index) \<Longrightarrow> listEnd index (join buf1 b) = join buf (wrap b)"
  by (auto simp: enc_list_def listEnd_def join_def wrap_def enc_size_def headsize_def shift_head_def Let_def)

text \<open>Every writer only appends: its effect on a buffer is its effect on the empty one, joined on.\<close>

lemma writers_local [simp]:
  "writeUint64 i (join a b) = join a (writeUint64 i b)"
  "writeBytes bs (join a b) = join a (writeBytes bs b)"
  "writeBigInt n (join a b) = join a (writeBigInt n b)"
  "writeBool x (join a b) = join a (writeBool x b)"
  by (simp_all add: writeUint64_def writeBytes_def writeBigInt_def writeBool_def encodeStringHeader_def Let_def)

fun res_join :: "encBuffer \<Rightarrow> (rlp_error, encBuffer) res \<Rightarrow> (rlp_error, encBuffer) res" where
  "res_join a (Ok b) = Ok (join a b)"
| "res_join a (Err e) = Err e"
| "res_join a Panic = Panic"

lemma write_list_local:
  assumes "enc_list buf = (buf1, index)" "write_vals vs buf1 = res_join buf1 (write_vals vs reset)"
  shows "(case write_vals vs buf1 of Ok b \<Rightarrow> Ok (listEnd index b) | Err e \<Rightarrow> Err e | Panic \<Rightarrow> Panic) =
    res_join buf (case write_vals vs reset of Ok b \<Rightarrow> Ok (wrap b) | Err e \<Rightarrow> Err e | Panic \<Rightarrow> Panic)"
  using assms by (cases "write_vals vs reset") (auto simp: listEnd_wrap)

lemma write_vals_local:
  assumes "\<And>v buf. v \<in> set vs \<Longrightarrow> write_val v buf = res_join buf (write_val v reset)"
  shows "write_vals vs buf = res_join buf (write_vals vs reset)"
  using assms
proof (induction vs arbitrary: buf)
  case (Cons v vs)
  have v: "write_val v buf = res_join buf (write_val v reset)" by (rule Cons.prems) simp
  have vs: "write_vals vs b = res_join b (write_vals vs reset)" for b by (rule Cons.IH, rule Cons.prems) simp
  show ?case
  proof (cases "write_val v reset")
    case (Ok b)
    then show ?thesis using v vs [of "join buf b"] vs [of b]
      by (cases "write_vals vs reset") (simp_all add: join_assoc)
  qed (simp_all add: v)
qed simp

lemma base_local:
  "append_str p buf = join buf (append_str p reset)"
  "writeUint64 i buf = join buf (writeUint64 i reset)"
  "writeBytes bs buf = join buf (writeBytes bs reset)"
  "writeBigInt n buf = join buf (writeBigInt n reset)"
  "writeBool x buf = join buf (writeBool x reset)"
  using append_str_join [of _ buf reset] writers_local [of _ buf reset] by simp_all

text \<open>A list, written to any buffer, is the wrapped encoding of its items.\<close>

lemma write_list:
  assumes "\<And>buf. write_vals vs buf = res_join buf (write_vals vs reset)"
  shows "(case enc_list buf of (buf1, index) \<Rightarrow>
      (case write_vals vs buf1 of Ok b \<Rightarrow> Ok (listEnd index b) | Err e \<Rightarrow> Err e | Panic \<Rightarrow> Panic)) =
    res_join buf (res_bind (write_vals vs reset) (\<lambda>b. Ok (wrap b)))"
proof -
  obtain buf1 index where e: "enc_list buf = (buf1, index)" by fastforce
  have "write_vals vs buf1 = res_join buf1 (write_vals vs reset)" by (rule assms)
  then show ?thesis using e listEnd_wrap [OF e] by (cases "write_vals vs reset") simp_all
qed

lemma res_join_reset [simp]: "res_join reset r = r"
  by (cases r) simp_all

lemma write_val_local: "write_val v buf = res_join buf (write_val v reset)"
proof (induction v arbitrary: buf)
  case (RBig i)
  show ?case by (cases i) (auto intro: base_local)
next
  case (RSlice vs)
  then have "write_vals vs buf = res_join buf (write_vals vs reset)" for buf by (rule write_vals_local)
  note wl = write_list [OF this]
  show ?case
  proof (cases "vs = []")
    case True
    then show ?thesis by (auto intro: base_local)
  next
    case False
    then show ?thesis unfolding write_val.simps wl by simp
  qed
next
  case (RStruct vs)
  then have "write_vals vs buf = res_join buf (write_vals vs reset)" for buf by (rule write_vals_local)
  note wl = write_list [OF this]
  show ?case unfolding write_val.simps wl by simp
next
  case (RPtr k v)
  show ?case
  proof (cases v)
    case (Some x)
    then have "write_val x buf = res_join buf (write_val x reset)" by (intro RPtr.IH) simp
    with Some show ?thesis by simp
  qed (auto intro: base_local)
next
  case (RIface v)
  show ?case
  proof (cases v)
    case (Some x)
    then have "write_val x buf = res_join buf (write_val x reset)" by (intro RIface.IH) simp
    with Some show ?thesis by simp
  qed (auto intro: base_local)
qed (auto intro: base_local)

section \<open>What the buffer writes\<close>

definition out :: "encBuffer \<Rightarrow> bytes" where
  "out b = write_heads (enc_str b) 0 (enc_lheads b)"

text \<open>Headers are in order, inside the data, and the recorded size is the size written.\<close>

definition wf_buf :: "encBuffer \<Rightarrow> bool" where
  "wf_buf b \<longleftrightarrow> sorted (map lh_offset (enc_lheads b)) \<and>
     (\<forall>h \<in> set (enc_lheads b). lh_offset h \<le> length (enc_str b)) \<and> length (out b) = enc_size b"

lemma shift_head_simps [simp]:
  "lh_offset (shift_head n h) = n + lh_offset h" "listhead_encode (shift_head n h) = listhead_encode h"
  by (simp_all add: shift_head_def listhead_encode_def)

lemma write_heads_shift:
  "write_heads (s1 @ s2) (length s1 + q) (map (shift_head (length s1)) hs) = write_heads s2 q hs"
  by (induction hs arbitrary: q) simp_all

lemma write_heads_after:
  assumes "pos \<le> length s1"
  shows "write_heads (s1 @ s2) pos (map (shift_head (length s1)) hs) = drop pos s1 @ write_heads s2 0 hs"
proof (cases hs)
  case (Cons h hs')
  show ?thesis
  proof (cases "lh_offset h = 0")
    case True
    show ?thesis
    proof (cases "pos < length s1")
      case True
      then show ?thesis using Cons \<open>lh_offset h = 0\<close> write_heads_shift [of s1 s2 0 hs'] by simp
    next
      case False
      then have "pos = length s1" using assms by simp
      then show ?thesis using Cons True write_heads_shift [of s1 s2 0 hs'] by simp
    qed
  next
    case False
    then show ?thesis using Cons assms write_heads_shift [of s1 s2 "lh_offset h" hs'] by simp
  qed
qed (use assms in simp)

lemma write_heads_append:
  assumes "sorted (pos # map lh_offset hs)" "\<forall>h \<in> set hs. lh_offset h \<le> length s1" "pos \<le> length s1"
  shows "write_heads (s1 @ s2) pos (hs @ map (shift_head (length s1)) hs2) =
    write_heads s1 pos hs @ write_heads s2 0 hs2"
  using assms
proof (induction hs arbitrary: pos)
  case Nil
  then show ?case by (simp add: write_heads_after)
next
  case (Cons h hs)
  then have "write_heads (s1 @ s2) (lh_offset h) (hs @ map (shift_head (length s1)) hs2) =
    write_heads s1 (lh_offset h) hs @ write_heads s2 0 hs2" by auto
  moreover have "pos = lh_offset h \<or> pos < lh_offset h" using Cons.prems(1) by auto
  ultimately show ?case using Cons.prems(2) by auto
qed

lemma out_join: "wf_buf a \<Longrightarrow> out (join a b) = out a @ out b"
  by (simp add: out_def join_def wf_buf_def write_heads_append)

lemma out_wrap: "out (wrap b) = puthead 0xC0 0xF7 (enc_size b) @ out b"
  by (simp add: out_def wrap_def listhead_encode_def)

lemma wf_join: "wf_buf a \<Longrightarrow> wf_buf b \<Longrightarrow> wf_buf (join a b)"
proof -
  assume a: "wf_buf a" and b: "wf_buf b"
  then have "length (out (join a b)) = enc_size (join a b)"
    by (simp add: out_join) (simp add: wf_buf_def enc_size_def join_def)
  moreover have "sorted (map (\<lambda>h. n + lh_offset h) hs)" if "sorted (map lh_offset hs)" for n hs
    using that by (induction hs) auto
  ultimately show ?thesis using a b
    by (auto simp: wf_buf_def join_def sorted_append comp_def trans_le_add1)
qed

lemma base_buf [simp]: "wf_buf (append_str p reset)" "out (append_str p reset) = p"
  by (simp_all add: wf_buf_def out_def append_str_def reset_def enc_size_def)

lemma append_append_str [simp]: "append_str p (append_str q buf) = append_str (q @ p) buf"
  by (simp add: append_str_def)

lemma putint_nonempty: "putint i \<noteq> []"
  by (simp add: putint_def)

lemma length_puthead: "n < 2 ^ 64 \<Longrightarrow> length (puthead a b n) = headsize n"
  by (simp add: puthead_def headsize_def Let_def intsize_length putint_be_bytes)

lemma wf_wrap: "wf_buf b \<Longrightarrow> enc_size b < 2 ^ 64 \<Longrightarrow> wf_buf (wrap b)"
proof -
  assume b: "wf_buf b" "enc_size b < 2 ^ 64"
  then have "length (out (wrap b)) = enc_size (wrap b)"
    unfolding out_wrap by (simp add: length_puthead wf_buf_def) (simp add: enc_size_def wrap_def)
  with b show ?thesis by (auto simp: wf_buf_def wrap_def)
qed

lemma byte_le_7F: "(w :: byte) \<le> 0x7F \<longleftrightarrow> unat w < 128"
  by (simp add: word_le_nat_alt) linarith

lemma be_bytes_small: "0 < i \<Longrightarrow> i < 256 \<Longrightarrow> be_bytes i = [word_of_nat i]"
  by (simp add: be_bytes_step)

lemma writeUint64_reset: "i < 2 ^ 64 \<Longrightarrow> writeUint64 i reset = append_str (enc_string (be_bytes i)) reset"
proof -
  assume i: "i < 2 ^ 64"
  consider "i = 0" | "0 < i" "i < 128" | "128 \<le> i" by linarith
  then show ?thesis
  proof cases
    case 1
    then show ?thesis by (simp add: writeUint64_def enc_string_def puthead_def)
  next
    case 2
    then show ?thesis by (simp add: writeUint64_def enc_string_def be_bytes_small byte_le_7F unat_of_nat)
  next
    case 3
    have l: "length (be_bytes i) < 56" using i length_be_bytes_le_iff [of i 8] by simp
    have "\<not> (length (be_bytes i) = 1 \<and> hd (be_bytes i) \<le> 0x7F)"
    proof
      assume one: "length (be_bytes i) = 1 \<and> hd (be_bytes i) \<le> 0x7F"
      then have "i < 256" using length_be_bytes_le_iff [of i 1] by simp
      with one 3 show False by (simp add: be_bytes_small byte_le_7F unat_of_nat)
    qed
    then have "enc_string (be_bytes i) = (0x80 + word_of_nat (length (be_bytes i))) # be_bytes i"
      using l by (simp add: enc_string_def puthead_def)
    then show ?thesis using 3 i by (simp add: writeUint64_def putint_be_bytes Let_def)
  qed
qed

lemma encodeStringHeader_puthead: "encodeStringHeader n buf = append_str (puthead 0x80 0xB7 n) buf"
  by (simp add: encodeStringHeader_def puthead_def Let_def)

lemma writeBytes_reset: "writeBytes b reset = append_str (enc_string b) reset"
  by (cases b) (auto simp: writeBytes_def enc_string_def encodeStringHeader_puthead)

lemma BitLen_bytes: "(BitLen n + 7) div 8 = length (be_bytes n)"
proof -
  have "(BitLen n + 7) div 8 \<le> k \<longleftrightarrow> length (be_bytes n) \<le> k" for k
  proof -
    have "(BitLen n + 7) div 8 \<le> k \<longleftrightarrow> BitLen n \<le> 8 * k" by linarith
    then show ?thesis by (simp add: BitLen_le_iff length_be_bytes_le_iff pow256)
  qed
  then show ?thesis by (metis le_antisym le_refl)
qed

lemma writeBigInt_reset: "writeBigInt n reset = append_str (enc_string (be_bytes n)) reset"
proof (cases "BitLen n \<le> 64")
  case True
  then have "n < 2 ^ 64" by (simp only: BitLen_le_iff)
  then show ?thesis using True by (simp add: writeBigInt_def writeUint64_reset)
next
  case False
  then have "\<not> n < 256 ^ 1" by (simp add: BitLen_le_iff)
  then have "length (be_bytes n) \<noteq> 1" using length_be_bytes_le_iff [of n 1] by linarith
  moreover have "be_fixed (length (be_bytes n)) n = be_bytes n"
    using be_fixed_be_bytes [of n "length (be_bytes n)"] length_be_bytes_le_iff [of n "length (be_bytes n)"] by simp
  ultimately show ?thesis using False
    by (simp add: writeBigInt_def BitLen_bytes readBits_zeros encodeStringHeader_puthead enc_string_def Let_def)
qed

lemma enc_string_Nil [simp]: "enc_string [] = [0x80]"
  by (simp add: enc_string_def puthead_def)

lemma enc_list_of_Nil [simp]: "enc_list_of [] = [0xC0]"
  by (simp add: enc_list_of_def puthead_def)

text \<open>\<open>refines r w\<close>: the buffer result \<open>w\<close> writes the reference result \<open>r\<close>.\<close>

definition refines :: "(rlp_error, bytes) res \<Rightarrow> (rlp_error, encBuffer) res \<Rightarrow> bool" where
  "refines r w =
     (case r of
        Ok bs \<Rightarrow> (case w of Ok b \<Rightarrow> length bs < 2 ^ 64 \<longrightarrow> wf_buf b \<and> out b = bs | _ \<Rightarrow> False)
      | Err e \<Rightarrow> w = Err e
      | Panic \<Rightarrow> w = Panic)"

lemma refines_base [simp]: "refines (Ok p) (Ok (append_str p reset))"
  by (simp add: refines_def)

lemma refines_list:
  assumes "refines r w"
  shows "refines (res_bind r (\<lambda>c. Ok (enc_list_of c))) (res_bind w (\<lambda>b. Ok (wrap b)))"
proof (cases r)
  case (Ok c)
  with assms obtain b where w: "w = Ok b" and b: "length c < 2 ^ 64 \<longrightarrow> wf_buf b \<and> out b = c"
    by (auto simp: refines_def split: res.splits)
  have "wf_buf (wrap b) \<and> out (wrap b) = enc_list_of c" if "length (enc_list_of c) < 2 ^ 64"
  proof -
    from that b have "wf_buf b" "out b = c" by (simp_all add: enc_list_of_def)
    moreover from this have "enc_size b = length c" by (simp add: wf_buf_def)
    ultimately show ?thesis using that by (simp add: wf_wrap out_wrap enc_list_of_def)
  qed
  then show ?thesis by (simp add: refines_def Ok w)
qed (use assms in \<open>auto simp: refines_def\<close>)

lemma refines_Cons:
  assumes "refines r w" "refines rs ws"
  shows "refines (res_bind r (\<lambda>b. res_bind rs (\<lambda>bs. Ok (b @ bs)))) (res_bind w (\<lambda>b. res_join b ws))"
proof (cases r)
  case (Ok c)
  with assms obtain b where w: "w = Ok b" and b: "length c < 2 ^ 64 \<longrightarrow> wf_buf b \<and> out b = c"
    by (auto simp: refines_def split: res.splits)
  show ?thesis
  proof (cases rs)
    case (Ok d)
    with assms obtain b' where ws: "ws = Ok b'" and b': "length d < 2 ^ 64 \<longrightarrow> wf_buf b' \<and> out b' = d"
      by (auto simp: refines_def split: res.splits)
    show ?thesis using b b' by (auto simp: refines_def \<open>r = Ok c\<close> Ok w ws wf_join out_join)
  qed (use assms w \<open>r = Ok c\<close> in \<open>auto simp: refines_def\<close>)
qed (use assms in \<open>auto simp: refines_def\<close>)

lemma write_vals_refines:
  assumes "\<And>v. v \<in> set vs \<Longrightarrow> refines (rlp_enc v) (write_val v reset)"
  shows "refines (rlp_encs vs) (write_vals vs reset)"
  using assms
proof (induction vs)
  case Nil
  then show ?case by (simp add: refines_def wf_buf_def out_def reset_def enc_size_def)
next
  case (Cons v vs)
  have "write_vals (v # vs) reset = res_bind (write_val v reset) (\<lambda>b. res_join b (write_vals vs reset))"
  proof (cases "write_val v reset")
    case (Ok b)
    have "write_vals vs b = res_join b (write_vals vs reset)" by (rule write_vals_local [OF write_val_local])
    with Ok show ?thesis by simp
  qed simp_all
  then show ?case using Cons refines_Cons by simp
qed

lemma write_val_refines: "go_sized v \<Longrightarrow> refines (rlp_enc v) (write_val v reset)"
proof (induction v)
  case (RBig i)
  show ?case by (cases i) (auto simp: writeBigInt_reset, simp add: refines_def)
next
  case (RUint i)
  then show ?case by (simp add: writeUint64_reset)
next
  case (RBool b)
  have "be_bytes (Suc 0) = [1]" using be_bytes_small [of 1] by simp
  then show ?case by (cases b) (simp_all add: writeBool_def enc_string_def byte_le_7F puthead_def)
next
  case (RSlice vs)
  then have r: "refines (rlp_encs vs) (write_vals vs reset)"
    by (intro write_vals_refines) (auto simp: list_all_iff)
  have "write_vals vs buf = res_join buf (write_vals vs reset)" for buf
    by (rule write_vals_local [OF write_val_local])
  note wl = write_list [OF this]
  show ?case
  proof (cases "vs = []")
    case False
    then show ?thesis unfolding write_val.simps wl using refines_list [OF r] by simp
  qed simp
next
  case (RStruct vs)
  then have r: "refines (rlp_encs vs) (write_vals vs reset)"
    by (intro write_vals_refines) (auto simp: list_all_iff)
  have "write_vals vs buf = res_join buf (write_vals vs reset)" for buf
    by (rule write_vals_local [OF write_val_local])
  note wl = write_list [OF this]
  show ?case unfolding write_val.simps wl using refines_list [OF r] by simp
next
  case (RPtr k v)
  then show ?case by (cases v) auto
next
  case (RIface v)
  then show ?case by (cases v) auto
qed (simp_all add: writeBytes_reset)

lemma Encode_rlp:
  assumes "go_sized v" "rlp_enc v = Ok bs" "length bs < 2 ^ 64"
  shows "Encode v = Ok bs \<and> EncodeToBytes v = Ok bs"
proof -
  from write_val_refines [OF assms(1)] assms(2,3) obtain b where "write_val v reset = Ok b"
    "wf_buf b" "out b = bs" by (auto simp: refines_def split: res.splits)
  then show ?thesis
    by (auto simp: Encode_def EncodeToBytes_def writeTo_def makeBytes_def Let_def wf_buf_def
        out_def [symmetric])
qed


definition demo_tx :: rval where
  "demo_tx = RStruct [RUint 9, RBig (Some 20000000000), RPtr String (Some (RBytes (replicate 20 0x35))), RSlice [RBool True]]"

lemma Encode_error: "go_sized v \<Longrightarrow> rlp_enc v = Err e \<Longrightarrow> Encode v = Err e \<and> EncodeToBytes v = Err e"
  using write_val_refines [of v] by (simp add: refines_def Encode_def EncodeToBytes_def)

lemma demo_tx_enc: "\<exists>bs. rlp_enc demo_tx = Ok bs \<and> length bs < 2 ^ 64"
proof -
  have l: "length (enc_string b) \<le> 1 + length b" if "length b < 56" for b
    using that by (simp add: enc_string_def puthead_def)
  have m: "length (enc_list_of c) \<le> 9 + length c" if "length c < 2 ^ 64" for c
    using that length_be_bytes_le_iff [of "length c" 8] putint_be_bytes [of "length c"]
    by (cases "c = []"; cases "length c < 56") (auto simp: enc_list_of_def puthead_def Let_def)
  define b1 b2 where b: "b1 = enc_string (be_bytes 9)" "b2 = enc_string (be_bytes 20000000000)"
  define b3 b4 where b': "b3 = enc_string (replicate 20 (0x35 :: byte))" "b4 = enc_string (be_bytes 1)"
  have "length (be_bytes 9) \<le> 8" "length (be_bytes 20000000000) \<le> 8" "length (be_bytes 1) \<le> 8"
    by (simp_all add: length_be_bytes_le_iff)
  then have len: "length b1 \<le> 9" "length b2 \<le> 9" "length b3 \<le> 21" "length b4 \<le> 9"
    using l [of "be_bytes 9"] l [of "be_bytes 20000000000"] l [of "replicate 20 0x35"] l [of "be_bytes 1"]
    by (simp_all add: b b')
  then have "length (enc_list_of b4) \<le> 18" using m [of b4] by simp
  with len have "length (b1 @ b2 @ b3 @ enc_list_of b4) \<le> 57" by simp
  then have "length (enc_list_of (b1 @ b2 @ b3 @ enc_list_of b4)) < 2 ^ 64"
    using m [of "b1 @ b2 @ b3 @ enc_list_of b4"] by simp
  then show ?thesis by (simp add: demo_tx_def b b')
qed


section \<open>Splitting undoes encoding\<close>

lemma unat_add_small: "unat (a :: byte) + n < 256 \<Longrightarrow> unat (a + word_of_nat n) = unat a + n"
  by (simp add: unat_word_ariths unat_of_nat)

lemma readSize_be_bytes:
  assumes "56 \<le> n" "n < 2 ^ 64"
  shows "readSize (be_bytes n @ rest) (length (be_bytes n)) = Ok n"
proof -
  have "length (be_bytes n) \<le> 8" "be_bytes n \<noteq> []" "hd (be_bytes n) \<noteq> 0"
    using assms length_be_bytes_le_iff [of n 8] hd_be_bytes [of n] by simp_all
  then show ?thesis using assms by (simp add: readSize_def Let_def Suc_le_eq)
qed

lemma length_be_bytes_range:
  assumes "56 \<le> n" "n < 2 ^ 64"
  shows "1 \<le> length (be_bytes n)" "length (be_bytes n) \<le> 8"
  using assms length_be_bytes_le_iff [of n 8] by (simp_all add: Suc_le_eq)

lemma readKind_string_head:
  assumes "length b < 2 ^ 64" "\<not> (length b = 1 \<and> hd b \<le> 0x7F)"
  shows "readKind (puthead 0x80 0xB7 (length b) @ b @ rest) = Ok (String, headsize (length b), length b)"
proof (cases "length b < 56")
  case True
  let ?t = "0x80 + word_of_nat (length b) :: byte"
  have t: "unat ?t = 128 + length b" using True by (simp add: unat_add_small)
  have c: "\<not> ?t < 0x80" "?t < 0xB8" using True by (simp_all add: word_less_nat_alt t)
  have s: "unat (?t - 0x80) = length b" using True by (simp add: unat_of_nat)
  have "\<not> (length b = 1 \<and> (b @ rest) ! 0 < 128)"
    using assms(2) by (cases b) (auto simp: byte_le_7F word_less_nat_alt)
  with True c s show ?thesis
    by (auto simp: readKind_def puthead_def headsize_def Let_def)
next
  case False
  let ?n = "length b" let ?l = "length (be_bytes ?n)" let ?t = "0xB7 + word_of_nat ?l :: byte"
  have l: "1 \<le> ?l" "?l \<le> 8" using False assms(1) length_be_bytes_range [of ?n] by simp_all
  have t: "unat ?t = 183 + ?l" using l by (simp add: unat_add_small)
  have c: "\<not> ?t < 0x80" "\<not> ?t < 0xB8" "?t < 0xC0" using l False by (auto simp: word_less_nat_alt t)
  have s: "unat (?t - 0xB7) = ?l" using l by (simp add: unat_of_nat)
  have rs: "readSize (be_bytes ?n @ b @ rest) ?l = Ok ?n" using False assms(1) readSize_be_bytes by simp
  have "0 < ?n" using False by linarith
  then have h: "puthead 0x80 0xB7 ?n = ?t # be_bytes ?n" "headsize ?n = 1 + ?l"
    unfolding puthead_def headsize_def Let_def using False assms(1) putint_be_bytes [of ?n] intsize_length [of ?n]
    by (simp_all del: length_greater_0_conv)
  show ?thesis unfolding h readKind_def Let_def append_Cons list.sel s rs res.case
    by (simp only: c if_True if_False list.simps) simp
qed

lemma readKind_list_head:
  assumes "length c < 2 ^ 64"
  shows "readKind (puthead 0xC0 0xF7 (length c) @ c @ rest) = Ok (List, headsize (length c), length c)"
proof (cases "length c < 56")
  case True
  let ?t = "0xC0 + word_of_nat (length c) :: byte"
  have t: "unat ?t = 192 + length c" using True by (simp add: unat_add_small)
  have d: "\<not> ?t < 0x80" "\<not> ?t < 0xB8" "\<not> ?t < 0xC0" "?t < 0xF8" using True by (simp_all add: word_less_nat_alt t)
  have s: "unat (?t - 0xC0) = length c" using True by (simp add: unat_of_nat)
  from True d s show ?thesis by (auto simp: readKind_def puthead_def headsize_def Let_def)
next
  case False
  let ?n = "length c" let ?l = "length (be_bytes ?n)" let ?t = "0xF7 + word_of_nat ?l :: byte"
  have l: "1 \<le> ?l" "?l \<le> 8" using False assms(1) length_be_bytes_range [of ?n] by simp_all
  have t: "unat ?t = 247 + ?l" using l by (simp add: unat_add_small)
  have d: "\<not> ?t < 0x80" "\<not> ?t < 0xB8" "\<not> ?t < 0xC0" "\<not> ?t < 0xF8" using l False by (auto simp: word_less_nat_alt t)
  have s: "unat (?t - 0xF7) = ?l" using l by (simp add: unat_of_nat)
  have rs: "readSize (be_bytes ?n @ c @ rest) ?l = Ok ?n" using False assms(1) readSize_be_bytes by simp
  have "0 < ?n" using False by linarith
  then have h: "puthead 0xC0 0xF7 ?n = ?t # be_bytes ?n" "headsize ?n = 1 + ?l"
    unfolding puthead_def headsize_def Let_def using False assms(1) putint_be_bytes [of ?n] intsize_length [of ?n]
    by (simp_all del: length_greater_0_conv)
  show ?thesis unfolding h readKind_def Let_def append_Cons list.sel s rs res.case
    by (simp only: d if_True if_False list.simps) simp
qed

lemma readKind_single:
  assumes "length b = 1" "hd b \<le> 0x7F"
  shows "readKind (b @ rest) = Ok (Byte, 0, 1)"
proof -
  from assms obtain x where b: "b = [x]" by (cases b) auto
  with assms(2) have "x < 0x80" by (simp add: byte_le_7F word_less_nat_alt)
  then show ?thesis by (simp add: b readKind_def Let_def)
qed

lemma Split_enc_string:
  assumes "length b < 2 ^ 64"
  shows "Split (enc_string b @ rest) = Ok (if length b = 1 \<and> hd b \<le> 0x7F then Byte else String, b, rest)"
proof (cases "length b = 1 \<and> hd b \<le> 0x7F")
  case True
  then show ?thesis by (simp add: Split_def enc_string_def readKind_single)
next
  case False
  with assms show ?thesis
    unfolding Split_def enc_string_def if_not_P [OF False]
    by (simp add: readKind_string_head length_puthead)
qed

lemma Split_enc_list:
  "length c < 2 ^ 64 \<Longrightarrow> Split (enc_list_of c @ rest) = Ok (List, c, rest)"
  by (simp add: Split_def enc_list_of_def readKind_list_head length_puthead)

text \<open>
  C30. Splitting undoes encoding: \<open>SplitString\<close> and \<open>SplitList\<close> return exactly the content that was
  encoded and the bytes that follow it, for every string and list content shorter than \<open>2 ^ 64\<close>
  bytes.
\<close>
theorem Split_undoes_encoding:
  assumes "length b < 2 ^ 64"
  shows "SplitString (enc_string b @ rest) = Ok (b, rest) \<and> SplitList (enc_list_of b @ rest) = Ok (b, rest)"
  using assms by (simp add: SplitString_def SplitList_def Split_enc_string Split_enc_list)

theorem Split_undoes_encoding_witness:
  "SplitString (enc_string [0x80, 0] @ [1]) = Ok ([0x80, 0], [1]) \<and>
   SplitList (enc_list_of [0x80, 0] @ [1]) = Ok ([0x80, 0], [1])"
  by (rule Split_undoes_encoding) simp

lemma AppendUint64_enc: "i < 2 ^ 64 \<Longrightarrow> AppendUint64 b i = b @ enc_string (be_bytes i)"
proof -
  assume i: "i < 2 ^ 64"
  have "enc_string (be_bytes i) = enc_str (writeUint64 i reset)"
    using i by (simp add: writeUint64_reset) (simp add: append_str_def reset_def)
  then show ?thesis by (simp add: AppendUint64_def writeUint64_def append_str_def reset_def Let_def)
qed

text \<open>
  Integers survive the codec: \<open>SplitUint64\<close> of \<open>AppendUint64\<close> returns the number and the
  remaining bytes, for every 64-bit integer, and \<open>IntSize\<close> is the number of bytes written.
\<close>
lemma SplitUint64_AppendUint64:
  assumes "i < 2 ^ 64"
  shows "SplitUint64 (AppendUint64 [] i @ rest) = Ok (i, rest) \<and> length (AppendUint64 [] i) = IntSize i"
proof -
  have len: "length (be_bytes i) \<le> 8" using assms length_be_bytes_le_iff [of i 8] by simp
  have S: "SplitString (AppendUint64 [] i @ rest) = Ok (be_bytes i, rest)"
    using assms len by (simp add: AppendUint64_enc SplitString_def Split_enc_string)
  have "SplitUint64 (AppendUint64 [] i @ rest) = Ok (i, rest)"
  proof (cases "length (be_bytes i) \<le> 1")
    case True
    then have "i < 256" using length_be_bytes_le_iff [of i 1] by simp
    then show ?thesis using S be_bytes_small [of i]
      by (cases "i = 0") (auto simp: SplitUint64_def unat_of_nat word_of_nat_eq_0_iff dest: nat_dvd_not_less)
  next
    case False
    then have "\<not> i < 256 ^ 1" using length_be_bytes_le_iff [of i 1] by simp
    then have "readSize (be_bytes i) (length (be_bytes i)) = Ok i"
      using readSize_be_bytes [of i "[]"] assms by simp
    then show ?thesis using S False len by (simp add: SplitUint64_def)
  qed
  moreover have "length (AppendUint64 [] i) = IntSize i"
    using assms by (auto simp: AppendUint64_def IntSize_def putint_be_bytes intsize_length)
  ultimately show ?thesis by simp
qed

lemma BytesSize_correct: "length b < 2 ^ 64 \<Longrightarrow> length (enc_string b) = BytesSize b"
  by (cases b; cases "length b = 1") (auto simp: enc_string_def BytesSize_def length_puthead headsize_def)

lemma ListSize_correct: "length c < 2 ^ 64 \<Longrightarrow> length (enc_list_of c) = ListSize (length c)"
  by (simp add: enc_list_of_def ListSize_def length_puthead)

end
