(* ===== verification/TxSigner.thy ===== *)
theory TxSigner
  imports Signing RlpCorrect
begin

text \<open>
  Ethereum transactions and their signatures (\<open>crypto/eth_tx_signer.go\<close>). The digest is the Keccak
  hash of the RLP list of the transaction and chain id (EIP-155); \<open>keccak\<close> is the third-party hash.
\<close>

record EthTxSigner =
  tx_chainId :: "int option"
  tx_Nonce :: nat
  tx_GasPrice :: "int option"
  tx_Gas :: nat
  tx_To :: "bytes option"
  tx_Value :: "int option"
  tx_Data :: bytes
  tx_V :: "int option"
  tx_R :: "int option"
  tx_S :: "int option"

definition NewEthTxSigner ::
  "nat \<Rightarrow> int option \<Rightarrow> nat \<Rightarrow> bytes \<Rightarrow> int option \<Rightarrow> bytes \<Rightarrow> EthTxSigner" where
  "NewEthTxSigner nonce gasPrice gas To value data =
     \<lparr> tx_chainId = None, tx_Nonce = nonce, tx_GasPrice = gasPrice, tx_Gas = gas, tx_To = Some To,
       tx_Value = value, tx_Data = data, tx_V = None, tx_R = None, tx_S = None \<rparr>"

definition SetChainId :: "int option \<Rightarrow> EthTxSigner \<Rightarrow> EthTxSigner" where
  "SetChainId chain tx = tx\<lparr> tx_chainId := chain \<rparr>"

text \<open>
  The slice of interfaces \<open>Hash\<close> encodes. A nil pointer to a byte slice is encoded as the empty
  string; a nil \<open>*big.Int\<close> inside an interface is a non-nil interface, encoded as zero.
\<close>

definition tx_hash_items :: "EthTxSigner \<Rightarrow> rval list" where
  "tx_hash_items tx = map (\<lambda>v. RIface (Some v))
     [RUint (tx_Nonce tx), RBig (tx_GasPrice tx), RUint (tx_Gas tx),
      RPtr String (map_option RBytes (tx_To tx)), RBig (tx_Value tx), RBytes (tx_Data tx),
      RBig (tx_chainId tx), RUint 0, RUint 0]"

definition rlpHash :: "(bytes \<Rightarrow> bytes) \<Rightarrow> rval \<Rightarrow> (rlp_error, bytes) res" where
  "rlpHash keccak x =
     (case Encode x of
        Ok b \<Rightarrow> Ok (Keccak256 keccak [b])
      | _ \<Rightarrow> Panic)"

definition Hash :: "(bytes \<Rightarrow> bytes) \<Rightarrow> EthTxSigner \<Rightarrow> (rlp_error, bytes) res" where
  "Hash keccak tx = rlpHash keccak (RSlice (tx_hash_items tx))"

text \<open>
  \<open>Sign\<close>. The digest is computed first; the default chain id 1 is filled in after it. The last
  argument of \<open>SignEcdsaRfc6979\<close> is \<open>sha256.New\<close> in the code, see \<open>Sign\<close> below.
\<close>

definition Sign_alg ::
  "hash_alg \<Rightarrow> (bytes \<Rightarrow> bytes) \<Rightarrow> EthTxSigner \<Rightarrow> PrivateKey \<Rightarrow> (unit, EthTxSigner \<times> bytes) res option" where
  "Sign_alg alg keccak tx priv =
     (case Hash keccak tx of
        Ok digestHash \<Rightarrow>
          (case SignEcdsaRfc6979 priv digestHash alg of
             None \<Rightarrow> None
           | Some (Ok (refId, r, s)) \<Rightarrow>
               (let sig = sig_layout (refId, r, s);
                    chain = (case tx_chainId tx of None \<Rightarrow> 1 | Some c \<Rightarrow> c);
                    v = int (unat (refId + 35)) + chain * 2
                in Some (Ok (tx\<lparr> tx_chainId := Some chain, tx_V := Some v, tx_R := Some r, tx_S := Some s \<rparr>, sig)))
           | Some _ \<Rightarrow> Some Panic)
      | _ \<Rightarrow> Some Panic)"

definition Sign :: "(bytes \<Rightarrow> bytes) \<Rightarrow> EthTxSigner \<Rightarrow> PrivateKey \<Rightarrow> (unit, EthTxSigner \<times> bytes) res option" where
  "Sign = Sign_alg sha256"

text \<open>\<open>EncodeRPL\<close>: the exported fields of the struct; \<open>chainId\<close> is not exported.\<close>

definition tx_fields :: "EthTxSigner \<Rightarrow> rval list" where
  "tx_fields tx =
     [RUint (tx_Nonce tx), RBig (tx_GasPrice tx), RUint (tx_Gas tx),
      RPtr String (map_option RBytes (tx_To tx)), RBig (tx_Value tx), RBytes (tx_Data tx),
      RBig (tx_V tx), RBig (tx_R tx), RBig (tx_S tx)]"

definition EncodeRPL :: "EthTxSigner \<Rightarrow> (rlp_error, bytes) res" where
  "EncodeRPL tx = Encode (RPtr List (Some (RStruct (tx_fields tx))))"

section \<open>The replay-protected signature\<close>

text \<open>
  C27. The signed transaction carries chain id and recovery id as EIP-155 prescribes: \<open>V\<close> is
  \<open>35 + 2 * chainId + recid\<close>, from which both can be read back, and \<open>R\<close>, \<open>S\<close> and the returned
  65 bytes are the signature of the digest.
\<close>
theorem Sign_eip155:
  assumes "Hash keccak tx = Ok digest" "tx_chainId tx = Some chain"
    and "SignEcdsaRfc6979 priv digest alg = Some (Ok (v, r, s))" "0 < curve_N (priv_Curve priv)"
  shows "\<exists>tx' V. Sign_alg alg keccak tx priv = Some (Ok (tx', sig_layout (v, r, s))) \<and>
     tx_V tx' = Some V \<and> tx_R tx' = Some r \<and> tx_S tx' = Some s \<and> tx_chainId tx' = Some chain \<and>
     (V - 35) div 2 = chain \<and> (V - 35) mod 2 = int (unat v)"
proof -
  from assms(3) obtain k0 v0 where
    "gs_loop alg (nat (curve_N (priv_Curve priv))) (sign_attempt priv digest) k0 v0 = Some (Ok (v, r, s))"
    by (auto simp: SignEcdsaRfc6979_def generateSecret_def split: prod.splits)
  from gs_loop_outcome [OF this] obtain k where "sign_attempt priv digest k = Ok (Some (v, r, s))" by auto
  then have "v = 0 \<or> v = 1" by (rule sign_attempt_sound(3) [OF _ assms(4)])
  then show ?thesis using assms by (auto simp: Sign_alg_def Let_def)
qed

definition demo_eth_tx :: EthTxSigner where
  "demo_eth_tx = SetChainId (Some 1) (NewEthTxSigner 9 (Some 20) 21 [5] (Some 3) [])"

lemma enc_small: "0 < i \<Longrightarrow> i < 128 \<Longrightarrow> enc_string (be_bytes i) = [word_of_nat i]"
  by (simp add: enc_string_def be_bytes_small byte_le_7F unat_of_nat)

lemma enc_single: "b \<le> 0x7F \<Longrightarrow> enc_string [b] = [b]"
  by (simp add: enc_string_def)

lemma demo_eth_hash: "Hash (\<lambda>_. [7]) demo_eth_tx = Ok [7]"
proof -
  have "rlp_enc (RSlice (tx_hash_items demo_eth_tx)) = Ok (enc_list_of [9, 20, 21, 5, 3, 0x80, 1, 0x80, 0x80])"
    by (simp add: tx_hash_items_def demo_eth_tx_def SetChainId_def NewEthTxSigner_def enc_small enc_single)
  moreover have "length (enc_list_of [9, 20, 21, 5, 3, 0x80, 1, 0x80, 0x80]) < 2 ^ 64"
    by (simp add: enc_list_of_def puthead_def)
  moreover have "go_sized (RSlice (tx_hash_items demo_eth_tx))"
    by (simp add: tx_hash_items_def demo_eth_tx_def SetChainId_def NewEthTxSigner_def)
  ultimately have "Encode (RSlice (tx_hash_items demo_eth_tx)) = Ok (enc_list_of [9, 20, 21, 5, 3, 0x80, 1, 0x80, 0x80])"
    using Encode_rlp by blast
  then show ?thesis by (simp add: Hash_def rlpHash_def Keccak256_def)
qed

theorem Sign_eip155_witness:
  "\<exists>tx' V. Sign_alg demo_alg (\<lambda>_. [7]) demo_eth_tx demo_key = Some (Ok (tx', sig_layout (1, 6, 42))) \<and>
     tx_V tx' = Some V \<and> tx_R tx' = Some 6 \<and> tx_S tx' = Some 42 \<and> tx_chainId tx' = Some 1 \<and>
     (V - 35) div 2 = 1 \<and> (V - 35) mod 2 = int (unat (1 :: byte))"
  by (rule Sign_eip155 [OF demo_eth_hash _ demo_sign])
    (simp_all add: demo_eth_tx_def SetChainId_def demo_key_def demo_curve_def)

section \<open>What the digest commits to\<close>

text \<open>String encodings are uniquely readable from the left.\<close>

lemma enc_string_prefix_free:
  assumes "enc_string a @ r = enc_string b @ r'" "length a < 2 ^ 64" "length b < 2 ^ 64"
  shows "a = b \<and> r = r'"
proof -
  have "SplitString (enc_string a @ r) = Ok (a, r)" "SplitString (enc_string b @ r') = Ok (b, r')"
    using assms(2,3) by (simp_all add: SplitString_def Split_enc_string)
  with assms(1) have "(Ok (a, r) :: (rlp_error, _) res) = Ok (b, r')" by metis
  then show ?thesis by simp
qed

lemma enc_list_of_inj:
  assumes "enc_list_of a = enc_list_of b" "length a < 2 ^ 64" "length b < 2 ^ 64"
  shows "a = b"
proof -
  have "Split (enc_list_of a @ []) = Split (enc_list_of b @ [])" by (simp only: assms(1))
  then show ?thesis unfolding Split_enc_list [OF assms(2)] Split_enc_list [OF assms(3)] by simp
qed

fun enc_strings :: "bytes list \<Rightarrow> bytes" where
  "enc_strings [] = []"
| "enc_strings (b # bs) = enc_string b @ enc_strings bs"

lemma enc_strings_inj:
  assumes "enc_strings as = enc_strings bs" "length as = length bs"
    "\<forall>a \<in> set as \<union> set bs. length a < 2 ^ 64"
  shows "as = bs"
  using assms
proof (induction as arbitrary: bs)
  case (Cons a as)
  then obtain b bs' where bs: "bs = b # bs'" by (cases bs) auto
  have "a = b \<and> enc_strings as = enc_strings bs'"
    using Cons.prems by (intro enc_string_prefix_free) (auto simp: bs)
  with Cons bs show ?case by auto
qed simp

definition big_bytes :: "int option \<Rightarrow> bytes" where
  "big_bytes i = (case i of None \<Rightarrow> [] | Some i \<Rightarrow> be_bytes (nat i))"

text \<open>The strings of the signing payload.\<close>

definition payload :: "EthTxSigner \<Rightarrow> bytes list" where
  "payload tx = [be_bytes (tx_Nonce tx), big_bytes (tx_GasPrice tx), be_bytes (tx_Gas tx),
     (case tx_To tx of None \<Rightarrow> [] | Some a \<Rightarrow> a), big_bytes (tx_Value tx), tx_Data tx,
     big_bytes (tx_chainId tx), [], []]"

definition big_ok :: "int option \<Rightarrow> bool" where
  "big_ok i = (case i of None \<Rightarrow> True | Some i \<Rightarrow> 0 \<le> i)"

lemma rlp_enc_big: "big_ok i \<Longrightarrow> rlp_enc (RBig i) = Ok (enc_string (big_bytes i))"
  by (cases i) (auto simp: big_ok_def big_bytes_def)

lemma rlp_enc_to: "rlp_enc (RPtr String (map_option RBytes a)) = Ok (enc_string (case a of None \<Rightarrow> [] | Some a \<Rightarrow> a))"
  by (cases a) simp_all

lemma payload_enc:
  assumes "big_ok (tx_GasPrice tx)" "big_ok (tx_Value tx)" "big_ok (tx_chainId tx)"
  shows "rlp_enc (RSlice (tx_hash_items tx)) = Ok (enc_list_of (enc_strings (payload tx)))"
  using assms by (simp add: tx_hash_items_def payload_def rlp_enc_big rlp_enc_to del: enc_string_Nil)

lemma tx_go_sized: "tx_Nonce tx < 2 ^ 64 \<Longrightarrow> tx_Gas tx < 2 ^ 64 \<Longrightarrow> go_sized (RSlice (tx_hash_items tx))"
  by (cases "tx_To tx") (simp_all add: tx_hash_items_def)

lemma length_enc_string: "length b \<le> length (enc_string b)"
  by (simp add: enc_string_def)

lemma length_payload_item:
  "x \<in> set bs \<Longrightarrow> length x \<le> length (enc_strings bs)"
  by (induction bs) (use length_enc_string in \<open>auto intro: le_trans trans_le_add1 trans_le_add2\<close>)

definition tx_sized :: "EthTxSigner \<Rightarrow> bool" where
  "tx_sized tx \<longleftrightarrow> tx_Nonce tx < 2 ^ 64 \<and> tx_Gas tx < 2 ^ 64 \<and> big_ok (tx_GasPrice tx) \<and> big_ok (tx_Value tx) \<and>
     big_ok (tx_chainId tx) \<and> length (enc_list_of (enc_strings (payload tx))) < 2 ^ 64"

lemma Hash_payload:
  assumes "tx_sized tx"
  shows "Hash keccak tx = Ok (keccak (enc_list_of (enc_strings (payload tx))))"
proof -
  have "Encode (RSlice (tx_hash_items tx)) = Ok (enc_list_of (enc_strings (payload tx)))"
    using Encode_rlp [OF tx_go_sized payload_enc] assms by (simp add: tx_sized_def)
  then show ?thesis by (simp add: Hash_def rlpHash_def Keccak256_def)
qed

text \<open>
  C26. The signature commits to the whole transaction: if the hash function does not collide on the
  two payloads, transactions with the same digest have the same nonce, gas price, gas limit,
  recipient, value, data and chain id (an absent number counting as zero and an absent recipient as
  the empty one). In particular a signature cannot be replayed on another chain.
\<close>
theorem Hash_commits:
  assumes "tx_sized tx" "tx_sized tx'" "Hash keccak tx = Hash keccak tx'"
    and "\<And>a b. a \<in> {enc_list_of (enc_strings (payload tx)), enc_list_of (enc_strings (payload tx'))} \<Longrightarrow>
      b \<in> {enc_list_of (enc_strings (payload tx)), enc_list_of (enc_strings (payload tx'))} \<Longrightarrow>
      keccak a = keccak b \<Longrightarrow> a = b"
  shows "tx_Nonce tx = tx_Nonce tx' \<and> tx_Gas tx = tx_Gas tx' \<and> tx_Data tx = tx_Data tx' \<and>
    big_bytes (tx_GasPrice tx) = big_bytes (tx_GasPrice tx') \<and> big_bytes (tx_Value tx) = big_bytes (tx_Value tx') \<and>
    big_bytes (tx_chainId tx) = big_bytes (tx_chainId tx') \<and>
    case_option [] (\<lambda>a. a) (tx_To tx) = case_option [] (\<lambda>a. a) (tx_To tx')"
proof -
  let ?p = "enc_strings (payload tx)" and ?p' = "enc_strings (payload tx')"
  have l: "length ?p < 2 ^ 64" "length ?p' < 2 ^ 64"
    using assms(1,2) by (auto simp: tx_sized_def enc_list_of_def)
  have "keccak (enc_list_of ?p) = keccak (enc_list_of ?p')"
    using assms(3) unfolding Hash_payload [OF assms(1)] Hash_payload [OF assms(2)] by simp
  then have "enc_list_of ?p = enc_list_of ?p'" by (rule assms(4) [OF insertI1 insertI2 [OF singletonI]])
  then have "?p = ?p'" using l by (rule enc_list_of_inj)
  moreover have "\<forall>a \<in> set (payload tx) \<union> set (payload tx'). length a < 2 ^ 64"
    using l length_payload_item le_less_trans by blast
  ultimately have "payload tx = payload tx'" by (intro enc_strings_inj) (simp_all add: payload_def)
  then show ?thesis by (simp add: payload_def be_bytes_inj)
qed

lemma demo_eth_sized: "tx_sized demo_eth_tx"
  by (simp add: tx_sized_def demo_eth_tx_def SetChainId_def NewEthTxSigner_def big_ok_def payload_def
      big_bytes_def enc_small enc_single enc_list_of_def puthead_def)

lemma demo_eth_signed_sized: "tx_sized (demo_eth_tx\<lparr> tx_V := Some 37 \<rparr>)"
  using demo_eth_sized by (simp add: tx_sized_def payload_def)

theorem Hash_commits_witness:
  "tx_sized demo_eth_tx \<and> Hash (\<lambda>b. b) demo_eth_tx = Hash (\<lambda>b. b) (demo_eth_tx\<lparr> tx_V := Some 37 \<rparr>) \<and>
   tx_Nonce demo_eth_tx = tx_Nonce (demo_eth_tx\<lparr> tx_V := Some 37 \<rparr>)"
proof -
  have "Hash (\<lambda>b. b) demo_eth_tx = Hash (\<lambda>b. b) (demo_eth_tx\<lparr> tx_V := Some 37 \<rparr>)"
    by (simp add: Hash_def tx_hash_items_def)
  with Hash_commits [OF demo_eth_sized demo_eth_signed_sized this] show ?thesis
    using demo_eth_sized by blast
qed

end
