(* ===== verification/AddressCodec.thy ===== *)
theory AddressCodec
  imports Signing
begin

text \<open>
  The Ethereum address codec (\<open>clients/ethclient/address_encoder.go\<close>, \<open>types_address.go\<close>): EIP-55
  mixed-case addresses. The checksum loops range over ASCII strings (they are called on hexadecimal
  text), so a rune is a byte. \<open>keccak\<close> is the third-party hash.
\<close>

unbundle bit_operations_syntax

section \<open>Operations\<close>

datatype address_error = ErrInvalidAddressBytes | ErrInvalidAddress | ErrInvalidAddressCheckSum

text \<open>\<open>strings.ToLower\<close> on ASCII.\<close>

definition lower_char :: "char \<Rightarrow> char" where
  "lower_char c = (if 65 \<le> (of_char c :: nat) \<and> of_char c \<le> (90 :: nat) then char_of (of_char c + 32 :: nat) else c)"

definition to_lower :: "string \<Rightarrow> string" where
  "to_lower = map lower_char"

text \<open>
  One iteration of the checksum loop: a character that is not a digit is moved 32 down when bit 7
  (even positions) or bit 3 (odd positions) of \<open>hash[i/2]\<close> is set. An index beyond the hash panics.
\<close>

definition checksum_char :: "bytes \<Rightarrow> nat \<Rightarrow> char \<Rightarrow> char option" where
  "checksum_char hash i b =
     (let n = (of_char b :: nat)
      in if n < 48 \<or> n > 57 then
           (if i div 2 < length hash then
              (if hash ! (i div 2) AND word_of_nat (128 - i mod 2 * 120) \<noteq> 0 then Some (char_of (n - 32)) else Some b)
            else None)
         else Some b)"

fun checksum_loop :: "bytes \<Rightarrow> nat \<Rightarrow> string \<Rightarrow> string option" where
  "checksum_loop hash i [] = Some []"
| "checksum_loop hash i (b # hex) =
     (case checksum_char hash i b of
        None \<Rightarrow> None
      | Some c \<Rightarrow> (case checksum_loop hash (i + 1) hex of None \<Rightarrow> None | Some r \<Rightarrow> Some (c # r)))"

definition addressCheckSum :: "(bytes \<Rightarrow> bytes) \<Rightarrow> string \<Rightarrow> string option" where
  "addressCheckSum keccak address =
     (if length address < 2 then None
      else
        (let hex = drop 2 (to_lower address);
             hash = Keccak256 keccak [bytes_of_string hex]
         in case checksum_loop hash 0 hex of None \<Rightarrow> None | Some r \<Rightarrow> Some (''0x'' @ r)))"

text \<open>\<open>addressCheckSumCreate\<close> of \<open>types_address.go\<close> is the same loop.\<close>

definition addressCheckSumCreate :: "(bytes \<Rightarrow> bytes) \<Rightarrow> string \<Rightarrow> string option" where
  "addressCheckSumCreate = addressCheckSum"

definition addressCheckSumIsValid :: "(bytes \<Rightarrow> bytes) \<Rightarrow> string \<Rightarrow> (address_error, unit) res" where
  "addressCheckSumIsValid keccak address =
     (case addressCheckSumCreate keccak address of
        None \<Rightarrow> Panic
      | Some checksumed \<Rightarrow> if address \<noteq> checksumed then Err ErrInvalidAddressCheckSum else Ok ())"

text \<open>The regular expression \<open>^0x[0-9a-fA-F]{40}$\<close>.\<close>

definition addressIsValid :: "string \<Rightarrow> bool" where
  "addressIsValid address \<longleftrightarrow>
     take 2 address = ''0x'' \<and> length address = 42 \<and> list_all (\<lambda>c. hex_val c \<noteq> None) (drop 2 address)"

definition EncodeBytesToAddress :: "(bytes \<Rightarrow> bytes) \<Rightarrow> bytes \<Rightarrow> (address_error, string) res" where
  "EncodeBytesToAddress keccak addressBytes =
     (if length addressBytes \<noteq> 20 then Err ErrInvalidAddressBytes
      else (case addressCheckSum keccak (BytesToHex addressBytes) of None \<Rightarrow> Panic | Some a \<Rightarrow> Ok a))"

definition DecodeAddressToBytes :: "string \<Rightarrow> (address_error, bytes) res" where
  "DecodeAddressToBytes addressStr =
     (case ParseHexBytes addressStr of
        Ok b \<Rightarrow> Ok b
      | Err e \<Rightarrow> Err ErrInvalidAddress
      | Panic \<Rightarrow> Panic)"

definition IsValid :: "string \<Rightarrow> bool" where
  "IsValid address = is_ok (DecodeAddressToBytes address)"

text \<open>\<open>PrivateKeyToAddress\<close> drops the error of the encoder: the address is then the empty string.\<close>

definition PrivateKeyToAddress :: "(bytes \<Rightarrow> bytes) \<Rightarrow> bytes \<Rightarrow> (address_error, string \<times> bytes) res" where
  "PrivateKeyToAddress keccak privateKey =
     (case ECDSAKeysFromPrivateKeyBytes privateKey of
        Ok priv \<Rightarrow>
          (case ECDSAPublicKeyToBytes (Some (priv_X priv, priv_Y priv)) of
             Ok pubKeyBytes \<Rightarrow>
               (let addressBytes = drop 12 (Keccak256 keccak [tl pubKeyBytes])
                in case EncodeBytesToAddress keccak addressBytes of
                     Ok address \<Rightarrow> Ok (address, addressBytes)
                   | Err _ \<Rightarrow> Ok ([], addressBytes)
                   | Panic \<Rightarrow> Panic)
           | _ \<Rightarrow> Panic)
      | _ \<Rightarrow> Panic)"

section \<open>The checksum only changes the case\<close>

definition hex_lower :: "char \<Rightarrow> bool" where
  "hex_lower c \<longleftrightarrow> c \<in> set ''0123456789abcdef''"

lemma hex_lower_upper:
  "\<forall>b \<in> set ''0123456789abcdef''. lower_char b = b \<and>
     (48 \<le> (of_char b :: nat) \<and> of_char b \<le> (57 :: nat) \<or>
      hex_val (char_of (of_char b - 32 :: nat)) = hex_val b \<and> lower_char (char_of (of_char b - 32 :: nat)) = b)"
  by code_simp

lemma checksum_char_hex:
  assumes "hex_lower b" "checksum_char hash i b = Some c"
  shows "hex_val c = hex_val b \<and> lower_char c = b"
proof -
  have "c = b \<or> \<not> (48 \<le> (of_char b :: nat) \<and> of_char b \<le> (57 :: nat)) \<and> c = char_of (of_char b - 32 :: nat)"
    using assms(2) by (auto simp: checksum_char_def Let_def split: if_splits)
  with hex_lower_upper assms(1) show ?thesis unfolding hex_lower_def by blast
qed

lemma checksum_loop_hex:
  assumes "list_all hex_lower s" "checksum_loop hash i s = Some r"
  shows "map hex_val r = map hex_val s \<and> to_lower r = s \<and> length r = length s"
  using assms
proof (induction s arbitrary: i r)
  case (Cons b s)
  then obtain c r' where "checksum_char hash i b = Some c" "checksum_loop hash (i + 1) s = Some r'" "r = c # r'"
    by (auto split: option.splits)
  with Cons checksum_char_hex [of b hash i c] show ?case by (auto simp: to_lower_def)
qed (auto simp: to_lower_def)

lemma checksum_loop_total:
  assumes "length s + i \<le> 2 * length hash"
  shows "\<exists>r. checksum_loop hash i s = Some r"
  using assms
proof (induction s arbitrary: i)
  case (Cons b s)
  then have "\<exists>c. checksum_char hash i b = Some c" by (auto simp: checksum_char_def Let_def)
  moreover have "\<exists>r. checksum_loop hash (i + 1) s = Some r" using Cons by simp
  ultimately show ?case by (auto split: option.splits)
qed simp

lemma hex_char_lower: "d < 16 \<Longrightarrow> hex_lower (hex_char d)"
  unfolding hex_lower_def hex_char_def by (rule nth_mem) simp

lemma fmt_x_bytes_lower: "list_all hex_lower (fmt_x_bytes bs)"
proof (induction bs)
  case (Cons b bs)
  have "unat b div 16 < 16" using unat_byte_less [of b] by (simp add: div_less_iff_less_mult)
  with Cons show ?case by (simp add: hex_char_lower)
qed simp

lemma to_lower_hex: "list_all hex_lower s \<Longrightarrow> to_lower s = s"
  using hex_lower_upper by (induction s) (auto simp: to_lower_def hex_lower_def simp del: set_simps)

lemma hex_decode_cong: "map hex_val s = map hex_val s' \<Longrightarrow> hex_decode s = hex_decode s'"
proof (induction s arbitrary: s' rule: hex_decode.induct)
  case (2 c)
  then show ?case by (cases s') auto
next
  case (3 c d cs)
  then obtain c' d' cs' where s': "s' = c' # d' # cs'" by (cases s'; cases "tl s'") auto
  with 3(2) have e: "hex_val c = hex_val c'" "hex_val d = hex_val d'" "map hex_val cs = map hex_val cs'" by auto
  show ?case
  proof (cases "hex_val c'"; cases "hex_val d'")
    fix x y assume "hex_val c' = Some x" "hex_val d' = Some y"
    then show ?thesis using 3(1) [of x y] e s' by simp
  qed (simp_all add: e s')
qed simp

lemma to_lower_0x: "to_lower (''0x'' @ s) = ''0x'' @ to_lower s"
  by (simp add: to_lower_def lower_char_def)

lemma checksum_of_bytes:
  assumes "length b = 20" "\<And>x. length (keccak x) = 32"
  shows "\<exists>r. EncodeBytesToAddress keccak b = Ok (''0x'' @ r) \<and> length r = 40 \<and> to_lower r = fmt_x_bytes b \<and>
    map hex_val r = map hex_val (fmt_x_bytes b)"
proof -
  let ?s = "fmt_x_bytes b" let ?hash = "keccak (bytes_of_string ?s)"
  have low: "drop 2 (to_lower (BytesToHex b)) = ?s"
    unfolding BytesToHex_def to_lower_0x by (simp add: to_lower_hex [OF fmt_x_bytes_lower])
  obtain r where r: "checksum_loop ?hash 0 ?s = Some r"
    using checksum_loop_total [of ?s 0 ?hash] assms by auto
  have "addressCheckSum keccak (BytesToHex b) = Some (''0x'' @ r)"
    unfolding addressCheckSum_def low Let_def Keccak256_def using r by (simp add: BytesToHex_def)
  with assms(1) checksum_loop_hex [OF fmt_x_bytes_lower r] show ?thesis
    by (simp add: EncodeBytesToAddress_def)
qed

lemma address_roundtrip:
  assumes "length b = 20" "\<And>x. length (keccak x) = 32"
  shows "\<exists>a. EncodeBytesToAddress keccak b = Ok a \<and> DecodeAddressToBytes a = Ok b \<and> addressIsValid a"
proof -
  obtain r where r: "EncodeBytesToAddress keccak b = Ok (''0x'' @ r)" "length r = 40"
    "map hex_val r = map hex_val (fmt_x_bytes b)"
    using checksum_of_bytes [of b keccak] assms by blast
  have "hex_decode r = Ok b" using hex_decode_cong [OF r(3)] by simp
  moreover have "list_all (\<lambda>c. hex_val c \<noteq> None) r"
    using fmt_x_bytes_hex [of b] r(2,3) assms(1)
    by (metis (no_types, lifting) length_map list_all_length nth_map)
  ultimately show ?thesis using r by (simp add: DecodeAddressToBytes_def ParseHexBytes_def addressIsValid_def)
qed

text \<open>
  Addresses survive the codec: encoding 20 bytes as a checksummed address succeeds, and decoding
  the address returns the 20 bytes; the mixed-case checksum changes no digit.
\<close>
lemma Decode_Encode_address:
  assumes "length b = 20" "\<And>x. length (keccak x) = 32"
  shows "\<exists>a. EncodeBytesToAddress keccak b = Ok a \<and> DecodeAddressToBytes a = Ok b \<and> addressIsValid a"
  using assms by (rule address_roundtrip)

text \<open>
  The checksum test accepts what the codec produces: \<open>addressCheckSumIsValid\<close> succeeds on the
  encoded address of every 20-byte value.
\<close>
lemma Encoded_checksum_valid:
  assumes "length b = 20" "\<And>x. length (keccak x) = 32" "EncodeBytesToAddress keccak b = Ok a"
  shows "addressCheckSumIsValid keccak a = Ok ()"
proof -
  obtain r where r: "a = ''0x'' @ r" "to_lower r = fmt_x_bytes b"
    using checksum_of_bytes [of b keccak] assms by auto
  have "drop 2 (to_lower a) = fmt_x_bytes b" unfolding r(1) to_lower_0x using r(2) by simp
  moreover have "drop 2 (to_lower (BytesToHex b)) = fmt_x_bytes b"
    unfolding BytesToHex_def to_lower_0x by (simp add: to_lower_hex [OF fmt_x_bytes_lower])
  ultimately have "addressCheckSum keccak a = addressCheckSum keccak (BytesToHex b)"
    by (simp add: addressCheckSum_def r(1) BytesToHex_def)
  also have "\<dots> = Some a" using assms(1,3) by (auto simp: EncodeBytesToAddress_def split: option.splits)
  finally show ?thesis by (simp add: addressCheckSumIsValid_def addressCheckSumCreate_def)
qed

text \<open>
  What \<open>IsValid\<close> really checks: a string is accepted exactly when, after an optional \<open>0x\<close>, it is
  an even number of hexadecimal digits. The length of an address is not checked; in particular the
  empty string is valid.
\<close>
lemma IsValid_iff:
  "IsValid a \<longleftrightarrow> list_all (\<lambda>c. hex_val c \<noteq> None) (trim_prefix ''0x'' a) \<and> even (length (trim_prefix ''0x'' a))"
proof -
  let ?s = "trim_prefix ''0x'' a"
  have "IsValid a \<longleftrightarrow> (\<exists>b. hex_decode ?s = Ok b)"
    by (auto simp: IsValid_def DecodeAddressToBytes_def ParseHexBytes_def split: res.splits)
  then show ?thesis using hex_decode_ok [of ?s] hex_decode_value [of ?s] by auto
qed

end
