(* ===== verification/Amount.thy ===== *)
theory Amount
  imports Prelude
begin

text \<open>
  Decimal amounts of the RPC interface: \<open>_parseAmountToBigInt\<close> and \<open>_formatBigIntToString\<close> of
  \<open>endpoint/methods_transfers.go\<close>, with the parts of \<open>strings\<close> and \<open>math/big\<close> they use.
\<close>

section \<open>Library functions\<close>

definition dec_char :: "nat \<Rightarrow> char" where
  "dec_char d = ''0123456789'' ! d"

definition dec_val :: "char \<Rightarrow> nat option" where
  "dec_val c = (let n = of_char c in if 48 \<le> n \<and> n \<le> 57 then Some (n - 48) else None)"

text \<open>\<open>big.Int.String\<close>.\<close>

definition nat_string :: "nat \<Rightarrow> string" where
  "nat_string n = (if n = 0 then ''0'' else map dec_char (pos_digits 10 n))"

definition big_string :: "int \<Rightarrow> string" where
  "big_string i = (if i < 0 then ''-'' @ nat_string (nat (- i)) else nat_string (nat i))"

text \<open>\<open>big.Int.SetString(s, 10)\<close>: an optional sign and at least one digit, nothing else.\<close>

definition digits_value :: "string \<Rightarrow> nat option" where
  "digits_value s =
     (if s = [] \<or> list_ex (\<lambda>c. dec_val c = None) s then None
      else Some (pos_value 10 (map (\<lambda>c. the (dec_val c)) s)))"

definition SetString10 :: "string \<Rightarrow> int option" where
  "SetString10 s =
     (if s \<noteq> [] \<and> hd s = CHR ''-'' then map_option (\<lambda>n. - int n) (digits_value (tl s))
      else if s \<noteq> [] \<and> hd s = CHR ''+'' then map_option int (digits_value (tl s))
      else map_option int (digits_value s))"

text \<open>\<open>strings.Trim(s, "\"")\<close>, \<open>strings.ReplaceAll\<close> of one character, \<open>strings.Split\<close>.\<close>

definition trim_quotes :: "string \<Rightarrow> string" where
  "trim_quotes s = rev (dropWhile (\<lambda>c. c = CHR 0x22) (rev (dropWhile (\<lambda>c. c = CHR 0x22) s)))"

definition replace_char :: "char \<Rightarrow> string \<Rightarrow> string \<Rightarrow> string" where
  "replace_char c r s = concat (map (\<lambda>x. if x = c then r else [x]) s)"

section \<open>The two functions\<close>

datatype amount_error = ErrInvalidAmount

text \<open>\<open>strings.Repeat\<close> with a negative count panics; \<open>decimals\<close> is an \<open>int\<close> of the configuration.\<close>

definition parseAmountToBigInt :: "string \<Rightarrow> int \<Rightarrow> (amount_error, int) res" where
  "parseAmountToBigInt amount decimals =
     (let amount = trim_quotes amount;
          amount = replace_char CHR '','' ''.'' amount;
          amount = replace_char CHR '' '' [] amount;
          amount = replace_char (CHR 0x09) [] amount
      in if CHR ''.'' \<in> set amount then
           (case split_on CHR ''.'' amount of
              [hi, lo] \<Rightarrow>
                if int (length lo) > decimals \<and> decimals < 0 then Panic
                else
                  (let lo = (if int (length lo) < decimals
                             then lo @ replicate (nat decimals - length lo) (CHR ''0'')
                             else take (nat decimals) lo)
                   in case SetString10 (hi @ lo) of None \<Rightarrow> Err ErrInvalidAmount | Some n \<Rightarrow> Ok n)
            | _ \<Rightarrow> Err ErrInvalidAmount)
         else if decimals < 0 then Panic
         else (case SetString10 (amount @ replicate (nat decimals) (CHR ''0'')) of
                 None \<Rightarrow> Err ErrInvalidAmount
               | Some n \<Rightarrow> Ok n))"

text \<open>A nil \<open>*big.Int\<close> prints as \<open><nil>\<close>; a slice bound beyond the string panics.\<close>

definition formatBigIntToString :: "int \<Rightarrow> int \<Rightarrow> string option" where
  "formatBigIntToString balance decimals =
     (let str = big_string balance; n = int (length str)
      in if n > decimals then
           (if decimals < 0 then None
            else Some (take (length str - nat decimals) str @ ''.'' @ drop (length str - nat decimals) str))
         else Some (''0.'' @ replicate (nat decimals - length str) (CHR ''0'') @ str))"

section \<open>Digits\<close>

lemma dec_val_dec_char: "d < 10 \<Longrightarrow> dec_val (dec_char d) = Some d"
proof -
  assume "d < 10"
  then have "d \<in> set [0..<10]" by simp
  moreover have "\<forall>d \<in> set [0..<10]. dec_val (dec_char d) = Some d" by code_simp
  ultimately show ?thesis by blast
qed

lemma dec_val_0 [simp]: "dec_val (CHR ''0'') = Some 0"
  by (simp add: dec_val_def)

definition digit_string :: "string \<Rightarrow> bool" where
  "digit_string s \<longleftrightarrow> (\<forall>c \<in> set s. dec_val c \<noteq> None)"

lemma digit_string_simps [simp]:
  "digit_string []" "digit_string (c # s) \<longleftrightarrow> dec_val c \<noteq> None \<and> digit_string s"
  "digit_string (s @ t) \<longleftrightarrow> digit_string s \<and> digit_string t"
  "digit_string (replicate n (CHR ''0''))"
  by (auto simp: digit_string_def)

definition digits_of :: "string \<Rightarrow> nat" where
  "digits_of s = pos_value 10 (map (\<lambda>c. the (dec_val c)) s)"

lemma digits_of_zeros [simp]: "digits_of (replicate n (CHR ''0'') @ s) = digits_of s"
  by (simp add: digits_of_def)

lemma nat_string_digits: "digit_string (nat_string n)" "digits_of (nat_string n) = n" "nat_string n \<noteq> []"
proof -
  show "digit_string (nat_string n)"
    by (auto simp: nat_string_def digit_string_def dec_val_dec_char dec10.digits_less)
  have "map (\<lambda>c. the (dec_val c)) (map dec_char (pos_digits 10 n)) = pos_digits 10 n"
    by (simp add: map_idI dec_val_dec_char dec10.digits_less)
  then show "digits_of (nat_string n) = n"
    by (simp add: nat_string_def digits_of_def pos_value_Cons)
  show "nat_string n \<noteq> []" by (simp add: nat_string_def)
qed

lemma SetString10_digits:
  assumes "digit_string s" "s \<noteq> []"
  shows "SetString10 s = Some (int (digits_of s))"
proof -
  have "dec_val (hd s) \<noteq> None" using assms by (cases s) auto
  then have "hd s \<noteq> CHR ''-''" "hd s \<noteq> CHR ''+''" by (auto simp: dec_val_def)
  moreover have "\<not> list_ex (\<lambda>c. dec_val c = None) s" using assms(1) by (auto simp: digit_string_def list_ex_iff)
  ultimately show ?thesis using assms(2) by (simp add: SetString10_def digits_value_def digits_of_def)
qed

text \<open>Cleaning leaves a string of digits and points alone.\<close>

definition clean :: "string \<Rightarrow> bool" where
  "clean s \<longleftrightarrow> (\<forall>c \<in> set s. dec_val c \<noteq> None \<or> c = CHR ''.'')"

lemma clean_chars:
  "clean s \<Longrightarrow> c \<in> set s \<Longrightarrow> c \<noteq> CHR 0x22 \<and> c \<noteq> CHR '','' \<and> c \<noteq> CHR '' '' \<and> c \<noteq> CHR 0x09"
  by (auto simp: clean_def dec_val_def)

lemma replace_char_id: "c \<notin> set s \<Longrightarrow> replace_char c r s = s"
  by (induction s) (auto simp: replace_char_def)

lemma dropWhile_absent: "c \<notin> set s \<Longrightarrow> dropWhile (\<lambda>x. x = c) s = s"
  by (cases s) auto

lemma trim_quotes_id: "CHR 0x22 \<notin> set s \<Longrightarrow> trim_quotes s = s"
  by (simp add: trim_quotes_def dropWhile_absent)

lemma split_on_digits: "digit_string s \<Longrightarrow> split_on CHR ''.'' (s @ CHR ''.'' # t) = s # split_on CHR ''.'' t"
  by (induction s) (auto simp: dec_val_def)

lemma split_on_none: "digit_string s \<Longrightarrow> split_on CHR ''.'' s = [s]"
  by (induction s) (auto simp: dec_val_def)

lemma clean_point: "digit_string hi \<Longrightarrow> digit_string lo \<Longrightarrow> clean (hi @ CHR ''.'' # lo)"
  by (auto simp: clean_def digit_string_def)

text \<open>Parsing \<open>hi.lo\<close> with exactly \<open>d\<close> decimals reads the digits without the point.\<close>

lemma parse_point:
  assumes "digit_string hi" "digit_string lo" "int (length lo) = d" "hi @ lo \<noteq> []"
  shows "parseAmountToBigInt (hi @ CHR ''.'' # lo) d = Ok (int (digits_of (hi @ lo)))"
proof -
  let ?s = "hi @ CHR ''.'' # lo"
  have c: "clean ?s" by (rule clean_point [OF assms(1,2)])
  then have no: "CHR 0x22 \<notin> set ?s" "CHR '','' \<notin> set ?s" "CHR '' '' \<notin> set ?s" "CHR 0x09 \<notin> set ?s"
    using clean_chars by blast+
  have "trim_quotes ?s = ?s" "replace_char CHR '','' ''.'' ?s = ?s" "replace_char CHR '' '' [] ?s = ?s"
    "replace_char (CHR 0x09) [] ?s = ?s" by (rule trim_quotes_id replace_char_id, rule no)+
  moreover have "split_on CHR ''.'' ?s = [hi, lo]" using assms(1,2) by (simp add: split_on_digits split_on_none)
  moreover have "SetString10 (hi @ lo) = Some (int (digits_of (hi @ lo)))"
    using assms by (intro SetString10_digits) auto
  ultimately show ?thesis using assms(3) unfolding parseAmountToBigInt_def Let_def by auto
qed

text \<open>
  C35. Amounts survive formatting: a non-negative amount printed with \<open>_formatBigIntToString\<close> and
  read back with \<open>_parseAmountToBigInt\<close> for the same number of decimals is the same amount, for
  every amount and every number of decimals.
\<close>
theorem parse_format_amount:
  assumes "0 \<le> n" "0 \<le> d"
  shows "\<exists>s. formatBigIntToString n d = Some s \<and> parseAmountToBigInt s d = Ok n"
proof -
  let ?str = "nat_string (nat n)" let ?k = "length ?str - nat d"
  note dig = nat_string_digits [of "nat n"]
  have str: "big_string n = ?str" using assms(1) by (simp add: big_string_def)
  show ?thesis
  proof (cases "int (length ?str) > d")
    case True
    have "digit_string (take ?k ?str) \<and> digit_string (drop ?k ?str)"
      using dig(1) by (metis append_take_drop_id digit_string_simps(3))
    then have "parseAmountToBigInt (take ?k ?str @ CHR ''.'' # drop ?k ?str) d = Ok (int (digits_of (take ?k ?str @ drop ?k ?str)))"
      using True assms(2) dig(3) by (intro parse_point) auto
    then show ?thesis using True assms dig(2) by (simp add: formatBigIntToString_def str Let_def)
  next
    case False
    let ?lo = "replicate (nat d - length ?str) (CHR ''0'') @ ?str"
    have "parseAmountToBigInt (''0'' @ CHR ''.'' # ?lo) d = Ok (int (digits_of (''0'' @ ?lo)))"
      using False assms(2) dig by (intro parse_point) auto
    moreover have "digits_of (''0'' @ ?lo) = nat n"
      using dig(2) digits_of_zeros [of 1 ?lo] by (simp del: append_Cons add: numeral_eq_Suc)
    ultimately show ?thesis using False assms by (simp add: formatBigIntToString_def str Let_def)
  qed
qed

theorem parse_format_amount_witness:
  "\<exists>s. formatBigIntToString 1500 18 = Some s \<and> parseAmountToBigInt s 18 = Ok 1500"
  by (rule parse_format_amount) simp_all

end
