(* ===== verification/Types.thy ===== *)
theory Types
  imports Prelude
begin

text \<open>
  The data passed between the components (\<open>types/\<close>): transfers and blocks. A \<open>*big.Int\<close> is
  \<^const>\<open>None\<close> when it is nil; \<open>int\<close> and \<open>int64\<close> fields are block heights, counters and times,
  far from their bounds, and are \<^typ>\<open>int\<close>.
\<close>

record TransferInfo =
  TxID :: string
  Timestamp :: int
  BlockNum :: int
  Success :: bool
  Transfer :: bool
  NativeCoin :: bool
  Symbol :: string
  SmartContract :: bool
  From :: string
  To :: string
  Amount :: "int option"
  Token :: string
  TokenSymbol :: string
  Fee :: "int option"
  InPool :: bool
  Confirmed :: bool
  Confirmations :: int
  Decimals :: int
  ChainSpecificData :: bytes

record BlockInfo =
  BlockID :: string
  Number :: int
  ParentHash :: string
  BlockTimestamp :: int
  Transactions :: "TransferInfo list"

record TokenInfo =
  ContractAddress :: string
  TokenName :: string
  TokenSym :: string
  TokenDecimals :: int
  Protocol :: string

text \<open>\<open>DecodeChainSpecificData\<close> hands the raw bytes to the decoder it is given.\<close>

definition DecodeChainSpecificData :: "(bytes \<Rightarrow> ('e, unit) res) \<Rightarrow> TransferInfo \<Rightarrow> ('e, unit) res" where
  "DecodeChainSpecificData decoder t = decoder (ChainSpecificData t)"

text \<open>The zero value of the struct, used in examples.\<close>

definition zero_transfer :: TransferInfo where
  "zero_transfer = \<lparr> TxID = [], Timestamp = 0, BlockNum = 0, Success = False, Transfer = False,
     NativeCoin = False, Symbol = [], SmartContract = False, From = [], To = [], Amount = None,
     Token = [], TokenSymbol = [], Fee = None, InPool = False, Confirmed = False, Confirmations = 0,
     Decimals = 0, ChainSpecificData = [] \<rparr>"

end
