(* ===== verification/Watchdog.thy ===== *)
theory Watchdog
  imports Types
begin

text \<open>
  The block watchdog (\<open>watchdog/\<close>): polling the chain client, matching transactions against the
  known addresses and emitting events. One poll is one iteration of the loop of \<open>runLoop\<close>, given
  the answers of the client; the mutex of the service is part of the state, because the error paths
  of the loop leave it in different states. The event channel is the list of events emitted.
\<close>

section \<open>Events and state\<close>

datatype wd_event = BlockEv int string int | TxEv TransferInfo

datatype wd_error = ClientError

text \<open>
  What the client answers during one iteration: \<open>MemPoolContent\<close>, \<open>BlockNum\<close> and \<open>BlockByNum\<close> with
  full transactions.
\<close>

record poll =
  poll_mempool :: "(wd_error, TransferInfo list) res"
  poll_height :: "(wd_error, int) res"
  poll_block :: "int \<Rightarrow> (wd_error, BlockInfo) res"

text \<open>
  \<open>Running\<close>: the loop goroutine runs. \<open>Blocked\<close>: it waits in \<open>Lock\<close> for a mutex that only itself
  could release. \<open>Fatal\<close>: the runtime has stopped the process (\<open>Unlock\<close> of an unlocked mutex).
\<close>

datatype wd_status = Running | Blocked | Fatal

record wd_state =
  wd_locked :: bool
  wd_status :: wd_status
  lastSeenBlock :: int
  LastBlockNum :: int
  wd_events :: "wd_event list"

definition wd_Lock :: "wd_state \<Rightarrow> wd_state" where
  "wd_Lock s = (if wd_locked s then s\<lparr> wd_status := Blocked \<rparr> else s\<lparr> wd_locked := True \<rparr>)"

definition wd_Unlock :: "wd_state \<Rightarrow> wd_state" where
  "wd_Unlock s = (if wd_locked s then s\<lparr> wd_locked := False \<rparr> else s\<lparr> wd_status := Fatal \<rparr>)"

text \<open>\<open>UpdateState\<close> sets the number and saves it; its error is not used by the loop.\<close>

definition UpdateState :: "int \<Rightarrow> wd_state \<Rightarrow> wd_state" where
  "UpdateState n s = s\<lparr> LastBlockNum := n \<rparr>"

section \<open>Processing\<close>

text \<open>\<open>processTx\<close>: an event for a known sender, and one for a known recipient unless one was sent.\<close>

definition processTx :: "(string \<Rightarrow> bool) \<Rightarrow> TransferInfo \<Rightarrow> wd_event list" where
  "processTx known tx =
     (let (evs, eventSent) = (if known (From tx) then ([TxEv tx], True) else ([], False))
      in if known (To tx) then (if \<not> eventSent then evs @ [TxEv tx] else evs) else evs)"

definition processBlock ::
  "(string \<Rightarrow> bool) \<Rightarrow> (int \<Rightarrow> (wd_error, BlockInfo) res) \<Rightarrow> int \<Rightarrow> (wd_error, wd_event list) res" where
  "processBlock known blocks blockNum =
     (case blocks blockNum of
        Err e \<Rightarrow> Err e
      | Panic \<Rightarrow> Panic
      | Ok block \<Rightarrow>
          Ok (BlockEv blockNum (BlockID block) (BlockTimestamp block)
              # concat (map (processTx known) (Transactions block))))"

definition processMemPool :: "(string \<Rightarrow> bool) \<Rightarrow> TransferInfo list \<Rightarrow> wd_event list" where
  "processMemPool known pool =
     concat (map (\<lambda>tx. if \<not> Success tx then [] else processTx known tx) pool)"

definition emit :: "wd_event list \<Rightarrow> wd_state \<Rightarrow> wd_state" where
  "emit evs s = s\<lparr> wd_events := wd_events s @ evs \<rparr>"

text \<open>
  The catch-up loop over missed blocks: a block that cannot be processed unlocks the mutex and the
  loop goes on with the next block.
\<close>

fun catchUp :: "(string \<Rightarrow> bool) \<Rightarrow> (int \<Rightarrow> (wd_error, BlockInfo) res) \<Rightarrow> nat \<Rightarrow> int \<Rightarrow> wd_state \<Rightarrow> wd_state" where
  "catchUp known blocks 0 b s = s"
| "catchUp known blocks (Suc n) b s =
     (if wd_status s \<noteq> Running then s
      else case processBlock known blocks b of
             Ok evs \<Rightarrow> catchUp known blocks n (b + 1) (UpdateState b (emit evs s))
           | Err _ \<Rightarrow> catchUp known blocks n (b + 1) (wd_Unlock s)
           | Panic \<Rightarrow> s\<lparr> wd_status := Fatal \<rparr>)"

definition endOfPoll :: "int \<Rightarrow> wd_state \<Rightarrow> wd_state" where
  "endOfPoll currentBlock s =
     (if wd_status s \<noteq> Running then s else wd_Unlock (UpdateState currentBlock s))"

definition newBlocks :: "(string \<Rightarrow> bool) \<Rightarrow> poll \<Rightarrow> int \<Rightarrow> wd_state \<Rightarrow> wd_state" where
  "newBlocks known p currentBlock s =
     (if currentBlock > lastSeenBlock s then
        (if currentBlock - lastSeenBlock s > 1 then
           (let s1 = catchUp known (poll_block p) (nat (currentBlock - lastSeenBlock s)) (lastSeenBlock s + 1) s
            in if wd_status s1 \<noteq> Running then s1
               else endOfPoll currentBlock (s1\<lparr> lastSeenBlock := currentBlock \<rparr>))
         else
           (case processBlock known (poll_block p) currentBlock of
              Ok evs \<Rightarrow> endOfPoll currentBlock ((emit evs s)\<lparr> lastSeenBlock := currentBlock \<rparr>)
            | Err _ \<Rightarrow> wd_Unlock s
            | Panic \<Rightarrow> s\<lparr> wd_status := Fatal \<rparr>))
      else endOfPoll currentBlock s)"

text \<open>One iteration of \<open>runLoop\<close>.\<close>

definition runLoop_iteration :: "(string \<Rightarrow> bool) \<Rightarrow> poll \<Rightarrow> wd_state \<Rightarrow> wd_state" where
  "runLoop_iteration known p s =
     (if wd_status s \<noteq> Running then s
      else
        (let s = wd_Lock s
         in if wd_status s \<noteq> Running then s
            else
              (case poll_mempool p of
                 Err _ \<Rightarrow> s
               | Panic \<Rightarrow> s\<lparr> wd_status := Fatal \<rparr>
               | Ok pool \<Rightarrow>
                   (let s = emit (processMemPool known pool) s
                    in case poll_height p of
                         Err _ \<Rightarrow> wd_Unlock s
                       | Panic \<Rightarrow> s\<lparr> wd_status := Fatal \<rparr>
                       | Ok currentBlock \<Rightarrow> newBlocks known p currentBlock s))))"

definition runLoop_start :: "int \<Rightarrow> wd_state" where
  "runLoop_start n = \<lparr> wd_locked = False, wd_status = Running, lastSeenBlock = n, LastBlockNum = n, wd_events = [] \<rparr>"

definition runLoop :: "(string \<Rightarrow> bool) \<Rightarrow> poll list \<Rightarrow> wd_state \<Rightarrow> wd_state" where
  "runLoop known ps s = foldl (\<lambda>s p. runLoop_iteration known p s) s ps"

section \<open>Matching\<close>

text \<open>
  One event per relevant transaction: a transaction yields exactly one event when its sender or
  its recipient is a known address (also when both are), and none otherwise.
\<close>

lemma processTx_eq:
  "processTx known tx = (if known (From tx) \<or> known (To tx) then [TxEv tx] else [])"
  by (simp add: processTx_def)

definition ev_blocks :: "wd_event list \<Rightarrow> int list" where
  "ev_blocks evs = concat (map (\<lambda>e. case e of BlockEv n _ _ \<Rightarrow> [n] | TxEv _ \<Rightarrow> []) evs)"

lemma ev_blocks_append [simp]: "ev_blocks (a @ b) = ev_blocks a @ ev_blocks b"
  by (simp add: ev_blocks_def)

lemma ev_blocks_Nil [simp]: "ev_blocks [] = []"
  by (simp add: ev_blocks_def)

lemma ev_blocks_concat: "(\<And>x. x \<in> set xs \<Longrightarrow> ev_blocks (f x) = []) \<Longrightarrow> ev_blocks (concat (map f xs)) = []"
  by (induction xs) auto

lemma ev_blocks_processTx [simp]: "ev_blocks (processTx known tx) = []"
  by (simp add: processTx_eq ev_blocks_def)

lemma ev_blocks_mempool [simp]: "ev_blocks (processMemPool known pool) = []"
  unfolding processMemPool_def by (rule ev_blocks_concat) simp

lemma ev_blocks_block: "processBlock known blocks b = Ok evs \<Longrightarrow> ev_blocks evs = [b]"
proof -
  assume "processBlock known blocks b = Ok evs"
  moreover from this obtain blk where blk: "blocks b = Ok blk" by (auto simp: processBlock_def split: res.splits)
  ultimately have "evs = BlockEv b (BlockID blk) (BlockTimestamp blk) # concat (map (processTx known) (Transactions blk))"
    by (simp add: processBlock_def)
  moreover have "ev_blocks (concat (map (processTx known) (Transactions blk))) = []"
    by (rule ev_blocks_concat) simp
  ultimately show ?thesis by (simp add: ev_blocks_def)
qed

section \<open>Polling a client that answers\<close>

text \<open>
  A poll whose block height may fail, but whose mempool and blocks are answered. \<open>synced b0 s\<close> is the
  state between iterations: the mutex is free and exactly the blocks after the start block up to the
  last seen one have been announced, in order.
\<close>

definition poll_ok :: "poll \<Rightarrow> bool" where
  "poll_ok p \<longleftrightarrow> is_ok (poll_mempool p) \<and> poll_height p \<noteq> Panic \<and> (\<forall>b. is_ok (poll_block p b))"

definition synced :: "int \<Rightarrow> wd_state \<Rightarrow> bool" where
  "synced b0 s \<longleftrightarrow> wd_status s = Running \<and> \<not> wd_locked s \<and> b0 \<le> lastSeenBlock s \<and>
     ev_blocks (wd_events s) = [b0 + 1..lastSeenBlock s]"

lemma is_okE: "is_ok r \<Longrightarrow> (\<And>a. r = Ok a \<Longrightarrow> P) \<Longrightarrow> P"
  by (cases r) auto

lemma processBlock_ok: "is_ok (blocks b) \<Longrightarrow> \<exists>evs. processBlock known blocks b = Ok evs"
  by (auto simp: processBlock_def elim!: is_okE)

lemma upto_snoc_int: "i \<le> j + 1 \<Longrightarrow> [i..j] @ [j + 1] = [i..j + 1]"
  using upto_rec2 [of i "j + 1"] by simp

lemma catchUp_ok:
  assumes "\<And>b. is_ok (blocks b)" "wd_status s = Running"
    "ev_blocks (wd_events s) = [b0 + 1..b - 1]" "b0 + 1 \<le> b"
  shows "\<exists>evs m. catchUp known blocks n b s = s\<lparr> wd_events := evs, LastBlockNum := m \<rparr> \<and>
    ev_blocks evs = [b0 + 1..b - 1 + int n]"
  using assms(2-)
proof (induction n arbitrary: b s)
  case 0
  show ?case
    by (rule exI [of _ "wd_events s"], rule exI [of _ "LastBlockNum s"]) (use 0 in simp)
next
  case (Suc n)
  obtain evs where e: "processBlock known blocks b = Ok evs" using processBlock_ok assms(1) by blast
  let ?s = "UpdateState b (emit evs s)"
  have "ev_blocks (wd_events ?s) = [b0 + 1..b - 1] @ [b]"
    using Suc.prems(2) ev_blocks_block [OF e] by (simp add: UpdateState_def emit_def)
  also have "\<dots> = [b0 + 1..b]" using Suc.prems(3) upto_snoc_int [of "b0 + 1" "b - 1"] by simp
  finally have ev: "ev_blocks (wd_events ?s) = [b0 + 1..(b + 1) - 1]" by simp
  have r: "wd_status ?s = Running" using Suc.prems(1) by (simp add: UpdateState_def emit_def)
  obtain evs' m where "catchUp known blocks n (b + 1) ?s = ?s\<lparr> wd_events := evs', LastBlockNum := m \<rparr>"
    "ev_blocks evs' = [b0 + 1..(b + 1) - 1 + int n]"
    using Suc.IH [OF r ev] Suc.prems(3) by auto
  then show ?case using e Suc.prems(1)
    by (intro exI [of _ evs'] exI [of _ m]) (simp add: UpdateState_def emit_def algebra_simps)
qed

lemma newBlocks_ok:
  assumes "\<And>b. is_ok (poll_block p b)" "wd_status s = Running" "wd_locked s" "b0 \<le> lastSeenBlock s"
    "ev_blocks (wd_events s) = [b0 + 1..lastSeenBlock s]"
  shows "synced b0 (newBlocks known p c s) \<and> lastSeenBlock (newBlocks known p c s) = max c (lastSeenBlock s)"
proof -
  consider "c \<le> lastSeenBlock s" | "c = lastSeenBlock s + 1" | "c - lastSeenBlock s > 1" by linarith
  then show ?thesis
  proof cases
    case 1
    then show ?thesis using assms
      by (simp add: newBlocks_def endOfPoll_def UpdateState_def wd_Unlock_def synced_def)
  next
    case 2
    obtain evs where e: "processBlock known (poll_block p) c = Ok evs" using processBlock_ok assms(1) by blast
    show ?thesis using assms 2 e ev_blocks_block [OF e] upto_snoc_int [of "b0 + 1" "lastSeenBlock s"]
      by (simp add: newBlocks_def endOfPoll_def UpdateState_def wd_Unlock_def synced_def emit_def)
  next
    case 3
    obtain evs m where c: "catchUp known (poll_block p) (nat (c - lastSeenBlock s)) (lastSeenBlock s + 1) s =
        s\<lparr> wd_events := evs, LastBlockNum := m \<rparr>" "ev_blocks evs = [b0 + 1..c]"
      using catchUp_ok [of "poll_block p" s b0 "lastSeenBlock s + 1" known "nat (c - lastSeenBlock s)"] assms 3
      by auto
    show ?thesis using assms 3 c
      by (simp add: newBlocks_def Let_def endOfPoll_def UpdateState_def wd_Unlock_def synced_def)
  qed
qed

lemma iteration_ok:
  assumes "poll_ok p" "synced b0 s"
  shows "synced b0 (runLoop_iteration known p s) \<and>
    lastSeenBlock (runLoop_iteration known p s) =
      (case poll_height p of Ok c \<Rightarrow> max c (lastSeenBlock s) | _ \<Rightarrow> lastSeenBlock s)"
proof -
  obtain pool where pool: "poll_mempool p = Ok pool" using assms(1) by (auto simp: poll_ok_def elim: is_okE)
  have l: "wd_Lock s = s\<lparr> wd_locked := True \<rparr>" using assms(2) by (simp add: wd_Lock_def synced_def)
  let ?s = "emit (processMemPool known pool) (s\<lparr> wd_locked := True \<rparr>)"
  have s: "wd_status ?s = Running" "wd_locked ?s" "lastSeenBlock ?s = lastSeenBlock s"
    "ev_blocks (wd_events ?s) = ev_blocks (wd_events s)"
    using assms(2) by (simp_all add: emit_def synced_def)
  have it: "runLoop_iteration known p s =
    (case poll_height p of Err _ \<Rightarrow> wd_Unlock ?s | Panic \<Rightarrow> ?s\<lparr> wd_status := Fatal \<rparr> | Ok c \<Rightarrow> newBlocks known p c ?s)"
    using assms(2) by (simp add: runLoop_iteration_def pool synced_def l Let_def)
  show ?thesis
  proof (cases "poll_height p")
    case (Ok c)
    then show ?thesis using it s assms newBlocks_ok [of p ?s b0 known c] by (auto simp: poll_ok_def synced_def)
  next
    case (Err e)
    then show ?thesis using it s assms by (simp add: wd_Unlock_def synced_def)
  qed (use assms in \<open>simp add: poll_ok_def\<close>)
qed


definition demo_poll :: "int \<Rightarrow> poll" where
  "demo_poll h = \<lparr> poll_mempool = Ok [], poll_height = Ok h,
     poll_block = (\<lambda>b. Ok \<lparr> BlockID = ''b'', Number = b, ParentHash = [], BlockTimestamp = 0, Transactions = [] \<rparr>) \<rparr>"


section \<open>Error paths\<close>

text \<open>
  A failed mempool request stops the watchdog for good: the iteration goes back to the top of the
  loop with the mutex locked, so the next iteration waits for it forever, whatever the client answers
  from then on, and no event is emitted any more.
\<close>
lemma mempool_error_blocks:
  assumes "wd_status s = Running" "\<not> wd_locked s" "poll_mempool p = Err e"
  shows "wd_status (runLoop known (p # q # ps) s) = Blocked \<and> wd_events (runLoop known (p # q # ps) s) = wd_events s"
proof -
  have "runLoop_iteration known q (runLoop_iteration known p s) = s\<lparr> wd_locked := True, wd_status := Blocked \<rparr>"
    using assms by (simp add: runLoop_iteration_def wd_Lock_def Let_def)
  moreover have "runLoop known ps s' = s'" if "wd_status s' \<noteq> Running" for s'
    using that by (induction ps) (simp_all add: runLoop_def runLoop_iteration_def)
  ultimately show ?thesis by (simp add: runLoop_def)
qed

lemma catchUp_unlocked:
  "wd_status s = Fatal \<or> wd_status s = Running \<and> \<not> wd_locked s \<Longrightarrow>
   wd_status (catchUp known blocks n b s) = Fatal \<or>
   wd_status (catchUp known blocks n b s) = Running \<and> \<not> wd_locked (catchUp known blocks n b s)"
proof (induction n arbitrary: b s)
  case (Suc n)
  show ?case
  proof (cases "processBlock known blocks b")
    case (Ok evs)
    then show ?thesis using Suc.prems Suc.IH [of "UpdateState b (emit evs s)" "b + 1"]
      by (cases "wd_status s = Running") (simp_all add: UpdateState_def emit_def)
  next
    case (Err e)
    then show ?thesis using Suc.prems Suc.IH [of "wd_Unlock s" "b + 1"]
      by (cases "wd_status s = Running") (simp_all add: wd_Unlock_def)
  qed (use Suc.prems in auto)
qed auto

lemma catchUp_error:
  assumes "wd_status s = Running" "wd_locked s" "blocks x = Err e" "b \<le> x" "x < b + int n"
  shows "wd_status (catchUp known blocks n b s) = Fatal \<or>
    wd_status (catchUp known blocks n b s) = Running \<and> \<not> wd_locked (catchUp known blocks n b s)"
  using assms
proof (induction n arbitrary: b s)
  case (Suc n)
  show ?case
  proof (cases "processBlock known blocks b")
    case (Ok evs)
    then have "b \<noteq> x" using Suc.prems(3) by (auto simp: processBlock_def)
    then show ?thesis using Suc.prems Ok by (simp, intro Suc.IH) (simp_all add: UpdateState_def emit_def)
  next
    case (Err e)
    then show ?thesis using Suc.prems catchUp_unlocked [of "wd_Unlock s" known blocks n "b + 1"]
      by (simp add: wd_Unlock_def)
  qed (use Suc.prems in simp)
qed simp

text \<open>
  A block that cannot be fetched while catching up kills the process: when the chain is more than
  one block ahead and one of the missing blocks fails, the mutex is unlocked for that block and again at
  the end of the iteration, and unlocking an unlocked mutex is a fatal error of the runtime.
\<close>
lemma catchup_error_fatal:
  assumes "wd_status s = Running" "\<not> wd_locked s" "poll_mempool p = Ok pool" "poll_height p = Ok c"
    and "c - lastSeenBlock s > 1" "poll_block p x = Err e" "lastSeenBlock s < x" "x \<le> c"
  shows "wd_status (runLoop_iteration known p s) = Fatal"
proof -
  let ?s = "emit (processMemPool known pool) (s\<lparr> wd_locked := True \<rparr>)"
  let ?t = "catchUp known (poll_block p) (nat (c - lastSeenBlock s)) (lastSeenBlock s + 1) ?s"
  have "wd_status ?t = Fatal \<or> wd_status ?t = Running \<and> \<not> wd_locked ?t"
    using assms by (intro catchUp_error [where x = x]) (simp_all add: emit_def)
  moreover have l: "wd_Lock s = s\<lparr> wd_locked := True \<rparr>" using assms(2) by (simp add: wd_Lock_def)
  moreover have "lastSeenBlock ?s = lastSeenBlock s" by (simp add: emit_def)
  ultimately show ?thesis using assms(1-5)
    by (auto simp: runLoop_iteration_def newBlocks_def endOfPoll_def UpdateState_def wd_Unlock_def Let_def)
qed

section \<open>All reachable states\<close>

inductive wd_reach :: "(string \<Rightarrow> bool) \<Rightarrow> int \<Rightarrow> wd_state \<Rightarrow> bool" for known b0 where
  start: "wd_reach known b0 (runLoop_start b0)"
| poll: "wd_reach known b0 s \<Longrightarrow> wd_reach known b0 (runLoop_iteration known p s)"

definition relevant :: "(string \<Rightarrow> bool) \<Rightarrow> wd_event list \<Rightarrow> bool" where
  "relevant known evs \<longleftrightarrow> (\<forall>tx. TxEv tx \<in> set evs \<longrightarrow> known (From tx) \<or> known (To tx))"

lemma relevant_parts [simp]:
  "relevant known []" "relevant known (a @ b) \<longleftrightarrow> relevant known a \<and> relevant known b"
  "relevant known (processTx known tx)" "relevant known (processMemPool known pool)"
  by (auto simp: relevant_def processTx_eq processMemPool_def split: if_splits)

lemma relevant_block: "processBlock known blocks b = Ok evs \<Longrightarrow> relevant known evs"
  by (auto simp: relevant_def processBlock_def processTx_eq split: res.splits if_splits)

lemma relevant_catchUp:
  "relevant known (wd_events s) \<Longrightarrow> relevant known (wd_events (catchUp known blocks n b s))"
proof (induction n arbitrary: b s)
  case (Suc n)
  then show ?case using relevant_block [of known blocks b]
    by (auto simp: UpdateState_def emit_def wd_Unlock_def split: res.splits)
qed simp

lemma events_kept [simp]:
  "wd_events (wd_Lock s) = wd_events s" "wd_events (wd_Unlock s) = wd_events s"
  "wd_events (endOfPoll c s) = wd_events s" "wd_events (emit evs s) = wd_events s @ evs"
  by (simp_all add: wd_Lock_def wd_Unlock_def endOfPoll_def UpdateState_def emit_def)

lemma relevant_newBlocks:
  "relevant known (wd_events s) \<Longrightarrow> relevant known (wd_events (newBlocks known p c s))"
  using relevant_catchUp relevant_block
  by (auto simp: newBlocks_def Let_def split: res.splits)

text \<open>
  Only relevant transactions are reported: in every state the loop can reach, whatever the client
  answers and whichever error paths were taken, each transaction event is about a transaction whose
  sender or recipient is a known address.
\<close>
lemma wd_reach_relevant: "wd_reach known b0 s \<Longrightarrow> relevant known (wd_events s)"
proof (induction rule: wd_reach.induct)
  case start
  show ?case by (simp add: runLoop_start_def)
next
  case (poll s p)
  then show ?case
    by (auto simp: runLoop_iteration_def Let_def relevant_newBlocks split: res.splits)
qed

end
