(* ===== verification/Hold.thy ===== *)
theory Hold
  imports Prelude
begin

text \<open>
  The record store \<open>badgerhold\<close> is a third-party library. The definitions that use it take its
  operations as an argument, a value of \<open>hold_ops\<close> over some type \<open>'db\<close> of databases, and theorems
  assume the documented behaviour \<open>hold_laws\<close>. The storage layer hands the store through unchanged
  (\<open>BadgerHoldStorage.Do\<close>).
\<close>

datatype hold_error = ErrNotFound | OtherError

record ('db, 'r) hold_ops =
  hold_get :: "'db \<Rightarrow> string \<Rightarrow> (hold_error, 'r) res"
  hold_upsert :: "'db \<Rightarrow> string \<Rightarrow> 'r \<Rightarrow> (hold_error, 'db) res"
  hold_find :: "'db \<Rightarrow> ('r \<Rightarrow> bool) \<Rightarrow> (hold_error, 'r list) res"

text \<open>
  \<open>Get\<close> returns what was last upserted under the key, other keys are not affected, and \<open>Find\<close>
  returns each stored record that satisfies the query once. Calls may fail; they do not panic.
\<close>

definition hold_laws :: "('db, 'r) hold_ops \<Rightarrow> bool" where
  "hold_laws H \<longleftrightarrow>
     (\<forall>db k r db'. hold_upsert H db k r = Ok db' \<longrightarrow>
        hold_get H db' k = Ok r \<and> (\<forall>k'. k' \<noteq> k \<longrightarrow> hold_get H db' k' = hold_get H db k')) \<and>
     (\<forall>db q rs. hold_find H db q = Ok rs \<longrightarrow>
        (\<exists>ks. distinct ks \<and> (\<forall>k. k \<in> set ks \<longleftrightarrow> (\<exists>r. hold_get H db k = Ok r \<and> q r)) \<and>
           map (hold_get H db) ks = map Ok rs)) \<and>
     (\<forall>db k r q. hold_get H db k \<noteq> Panic \<and> hold_upsert H db k r \<noteq> Panic \<and> hold_find H db q \<noteq> Panic)"

lemma hold_upsert_get:
  "hold_laws H \<Longrightarrow> hold_upsert H db k r = Ok db' \<Longrightarrow>
   hold_get H db' k' = (if k' = k then Ok r else hold_get H db k')"
  by (auto simp: hold_laws_def)

lemma hold_find_keys:
  assumes "hold_laws H" "hold_find H db q = Ok rs"
  obtains ks where "distinct ks" "\<And>k. k \<in> set ks \<longleftrightarrow> (\<exists>r. hold_get H db k = Ok r \<and> q r)"
    "map (hold_get H db) ks = map Ok rs"
  using assms unfolding hold_laws_def by blast

lemma hold_find_set:
  assumes "hold_laws H" "hold_find H db q = Ok rs"
  shows "r \<in> set rs \<longleftrightarrow> (\<exists>k. hold_get H db k = Ok r \<and> q r)"
proof -
  obtain ks where ks: "\<And>k. k \<in> set ks \<longleftrightarrow> (\<exists>r. hold_get H db k = Ok r \<and> q r)" "map (hold_get H db) ks = map Ok rs"
    using hold_find_keys [OF assms] by metis
  have "r \<in> set rs \<longleftrightarrow> Ok r \<in> set (map (hold_get H db) ks)" unfolding ks(2) by auto
  also have "\<dots> \<longleftrightarrow> (\<exists>k \<in> set ks. hold_get H db k = Ok r)" by (auto simp: eq_commute)
  also have "\<dots> \<longleftrightarrow> (\<exists>k. hold_get H db k = Ok r \<and> q r)" using ks(1) by fastforce
  finally show ?thesis .
qed

lemma hold_no_panic:
  assumes "hold_laws H"
  shows "hold_get H db k \<noteq> Panic" "hold_upsert H db k r \<noteq> Panic" "hold_find H db q \<noteq> Panic"
  using assms by (auto simp: hold_laws_def)

section \<open>An instance\<close>

text \<open>An association list without duplicate keys satisfies the laws.\<close>

definition al_hold :: "((string \<times> 'r) list, 'r) hold_ops" where
  "al_hold = \<lparr>
     hold_get = (\<lambda>db k. case map_of db k of None \<Rightarrow> Err ErrNotFound | Some r \<Rightarrow> Ok r),
     hold_upsert = (\<lambda>db k r. Ok (al_upsert db k r)),
     hold_find = (\<lambda>db q. Ok (filter q (map (\<lambda>k. the (map_of db k)) (remdups (map fst db))))) \<rparr>"

lemma al_get: "hold_get al_hold db k = (case map_of db k of None \<Rightarrow> Err ErrNotFound | Some r \<Rightarrow> Ok r)"
  by (simp add: al_hold_def)

lemma al_get_iff: "hold_get al_hold db k = Ok r \<longleftrightarrow> map_of db k = Some r"
  by (simp add: al_get split: option.splits)

lemma al_find_keys:
  assumes "hold_find al_hold db q = Ok rs"
  shows "\<exists>ks. distinct ks \<and> (\<forall>k. k \<in> set ks \<longleftrightarrow> (\<exists>r. hold_get al_hold db k = Ok r \<and> q r)) \<and>
    map (hold_get al_hold db) ks = map Ok rs"
proof -
  let ?ks = "filter (\<lambda>k. q (the (map_of db k))) (remdups (map fst db))"
  have dom: "k \<in> fst ` set db \<longleftrightarrow> map_of db k \<noteq> None" for k by (metis domIff dom_map_of_conv_image_fst)
  have "rs = map (\<lambda>k. the (map_of db k)) ?ks"
    using assms by (simp add: al_hold_def filter_map comp_def)
  moreover have "k \<in> set ?ks \<longleftrightarrow> (\<exists>r. hold_get al_hold db k = Ok r \<and> q r)" for k
    unfolding al_get_iff using dom [of k] by auto
  moreover have "map (hold_get al_hold db) ?ks = map Ok (map (\<lambda>k. the (map_of db k)) ?ks)"
    using dom by (auto simp: al_get split: option.splits)
  ultimately show ?thesis by (intro exI [of _ ?ks]) simp
qed

lemma al_hold_laws: "hold_laws al_hold"
  unfolding hold_laws_def
proof (intro conjI)
  show "\<forall>db k r db'. hold_upsert al_hold db k r = Ok db' \<longrightarrow>
        hold_get al_hold db' k = Ok r \<and> (\<forall>k'. k' \<noteq> k \<longrightarrow> hold_get al_hold db' k' = hold_get al_hold db k')"
    by (auto simp: al_hold_def map_of_al_upsert)
  show "\<forall>db q rs. hold_find al_hold db q = Ok rs \<longrightarrow>
        (\<exists>ks. distinct ks \<and> (\<forall>k. k \<in> set ks \<longleftrightarrow> (\<exists>r. hold_get al_hold db k = Ok r \<and> q r)) \<and>
           map (hold_get al_hold db) ks = map Ok rs)"
    using al_find_keys by blast
  show "\<forall>db k r q. hold_get al_hold db k \<noteq> Panic \<and> hold_upsert al_hold db k r \<noteq> Panic \<and> hold_find al_hold db q \<noteq> Panic"
    by (auto simp: al_hold_def split: option.splits)
qed

end
