(* ===== verification/TxCache.thy ===== *)
theory TxCache
  imports Types Hold
begin

text \<open>
  The transaction cache (\<open>txcache/\<close>): records of transfers in the record store, their confirmation
  counters, and the queries of the RPC interface. Events run one after the other (\<open>eventLoop\<close>), so an
  event is a function on the database.
\<close>

section \<open>Records and configuration\<close>

record cache_config =
  cc_Debug :: bool
  cc_Confirmations :: int
  cc_RegisterConfirmations :: int
  cc_StoreIncomingTx :: bool
  cc_StoreOutgoingTx :: bool

text \<open>\<open>coldStart\<close>: the defaults, before the configuration is saved.\<close>

definition cache_coldStart :: "cache_config \<Rightarrow> cache_config" where
  "cache_coldStart c = c\<lparr> cc_Debug := False, cc_StoreIncomingTx := True, cc_StoreOutgoingTx := True,
     cc_Confirmations := 20, cc_RegisterConfirmations := 50 \<rparr>"

datatype cache_error = ErrConfigStorageEmpty | ErrUnknownTransaction | StoreError hold_error

record TransferInfoCachedRecord =
  c_TxID :: string
  c_Timestamp :: int
  c_BlockNum :: int
  c_Success :: bool
  c_Transfer :: bool
  c_NativeCoin :: bool
  c_Symbol :: string
  c_SmartContract :: bool
  c_From :: string
  c_To :: string
  c_Fee :: "int option"
  c_Amount :: "int option"
  c_Token :: string
  c_TokenSymbol :: string
  c_InPool :: bool
  c_Confirmed :: bool
  c_Confirmations :: int
  c_Decimals :: int
  c_ChainSpecificData :: bytes

text \<open>\<open>new(big.Int).Set(x)\<close> dereferences \<open>x\<close>: a nil fee or amount panics.\<close>

definition loadFromTransferInfo :: "TransferInfo \<Rightarrow> (cache_error, TransferInfoCachedRecord) res" where
  "loadFromTransferInfo info =
     (if Fee info = None \<or> Amount info = None then Panic
      else Ok \<lparr> c_TxID = TxID info, c_Timestamp = Timestamp info, c_BlockNum = BlockNum info,
        c_Success = Success info, c_Transfer = Transfer info, c_NativeCoin = NativeCoin info,
        c_Symbol = Symbol info, c_SmartContract = SmartContract info, c_From = From info, c_To = To info,
        c_Fee = Fee info, c_Amount = Amount info, c_Token = Token info, c_TokenSymbol = TokenSymbol info,
        c_InPool = InPool info, c_Confirmed = Confirmed info, c_Confirmations = Confirmations info,
        c_Decimals = Decimals info, c_ChainSpecificData = ChainSpecificData info \<rparr>)"

definition getTransferInfo :: "TransferInfoCachedRecord \<Rightarrow> (cache_error, TransferInfo) res" where
  "getTransferInfo r =
     (if c_Fee r = None \<or> c_Amount r = None then Panic
      else Ok \<lparr> TxID = c_TxID r, Timestamp = c_Timestamp r, BlockNum = c_BlockNum r,
        Success = c_Success r, Transfer = c_Transfer r, NativeCoin = c_NativeCoin r,
        Symbol = c_Symbol r, SmartContract = c_SmartContract r, From = c_From r, To = c_To r,
        Amount = c_Amount r, Token = c_Token r, TokenSymbol = c_TokenSymbol r, Fee = c_Fee r,
        InPool = c_InPool r, Confirmed = c_Confirmed r, Confirmations = c_Confirmations r,
        Decimals = c_Decimals r, ChainSpecificData = c_ChainSpecificData r \<rparr>)"

type_synonym 'db cache_ops = "('db, TransferInfoCachedRecord) hold_ops"

section \<open>Storage\<close>

definition getTransactionById :: "'db cache_ops \<Rightarrow> 'db \<Rightarrow> string \<Rightarrow> (cache_error, TransferInfoCachedRecord) res" where
  "getTransactionById H db txId =
     (case hold_get H db txId of
        Ok tx \<Rightarrow> Ok tx
      | Err e \<Rightarrow> Err (if e = ErrNotFound then ErrUnknownTransaction else StoreError e)
      | Panic \<Rightarrow> Panic)"

definition getTransactionsByAddress ::
  "'db cache_ops \<Rightarrow> 'db \<Rightarrow> string \<Rightarrow> (cache_error, TransferInfoCachedRecord list) res" where
  "getTransactionsByAddress H db address =
     (case hold_find H db (\<lambda>r. c_From r = address \<or> c_To r = address) of
        Ok txs \<Rightarrow> Ok txs
      | Err e \<Rightarrow> Err (StoreError e)
      | Panic \<Rightarrow> Panic)"

definition saveTransaction :: "'db cache_ops \<Rightarrow> TransferInfoCachedRecord \<Rightarrow> 'db \<Rightarrow> (hold_error, 'db) res" where
  "saveTransaction H tx db = hold_upsert H db (c_TxID tx) tx"

section \<open>Events\<close>

text \<open>A failed save is logged; the database stays as it was.\<close>

definition save_logged :: "'db cache_ops \<Rightarrow> TransferInfoCachedRecord \<Rightarrow> 'db \<Rightarrow> (cache_error, 'db) res" where
  "save_logged H tx db =
     (case saveTransaction H tx db of Ok db' \<Rightarrow> Ok db' | Err _ \<Rightarrow> Ok db | Panic \<Rightarrow> Panic)"

definition TransactionEvent :: "'db cache_ops \<Rightarrow> TransferInfo \<Rightarrow> 'db \<Rightarrow> (cache_error, 'db) res" where
  "TransactionEvent H info db =
     (case loadFromTransferInfo info of
        Ok r \<Rightarrow> save_logged H (if \<not> c_InPool r then r\<lparr> c_Confirmations := 1 \<rparr> else r) db
      | Err e \<Rightarrow> Err e
      | Panic \<Rightarrow> Panic)"

definition update_record :: "cache_config \<Rightarrow> int \<Rightarrow> TransferInfoCachedRecord \<Rightarrow> TransferInfoCachedRecord" where
  "update_record cfg blockNum tx =
     tx\<lparr> c_Confirmed := c_BlockNum tx \<le> blockNum - cc_Confirmations cfg,
        c_Confirmations := blockNum - c_BlockNum tx \<rparr>"

fun update_loop ::
  "'db cache_ops \<Rightarrow> cache_config \<Rightarrow> int \<Rightarrow> TransferInfoCachedRecord list \<Rightarrow> 'db \<Rightarrow> (cache_error, 'db) res" where
  "update_loop H cfg blockNum [] db = Ok db"
| "update_loop H cfg blockNum (tx # txs) db =
     (if blockNum - c_BlockNum tx > 1 \<and> \<not> c_InPool tx then
        (case save_logged H (update_record cfg blockNum tx) db of
           Ok db' \<Rightarrow> update_loop H cfg blockNum txs db'
         | Err e \<Rightarrow> Err e
         | Panic \<Rightarrow> Panic)
      else update_loop H cfg blockNum txs db)"

text \<open>\<open>blockUpdateEvent\<close>: a failed search is logged and leaves no record to update.\<close>

definition blockUpdateEvent :: "'db cache_ops \<Rightarrow> cache_config \<Rightarrow> int \<Rightarrow> 'db \<Rightarrow> (cache_error, 'db) res" where
  "blockUpdateEvent H cfg blockNum db =
     (case hold_find H db (\<lambda>r. c_BlockNum r \<ge> blockNum - cc_RegisterConfirmations cfg) of
        Ok txs \<Rightarrow> update_loop H cfg blockNum txs db
      | Err _ \<Rightarrow> update_loop H cfg blockNum [] db
      | Panic \<Rightarrow> Panic)"

section \<open>Queries\<close>

definition GetTransferInfo :: "'db cache_ops \<Rightarrow> 'db \<Rightarrow> string \<Rightarrow> (cache_error, TransferInfo) res" where
  "GetTransferInfo H db txHash = res_bind (getTransactionById H db txHash) getTransferInfo"

fun transfers_of :: "TransferInfoCachedRecord list \<Rightarrow> (cache_error, TransferInfo list) res" where
  "transfers_of [] = Ok []"
| "transfers_of (r # rs) = res_bind (getTransferInfo r) (\<lambda>t. res_bind (transfers_of rs) (\<lambda>ts. Ok (t # ts)))"

text \<open>
  \<open>sort.Sort\<close> orders by timestamp; the order of equal timestamps is not specified by Go, the model
  keeps them in the order of the store.
\<close>

definition GetTransfersByAddress :: "'db cache_ops \<Rightarrow> 'db \<Rightarrow> string \<Rightarrow> (cache_error, TransferInfo list) res" where
  "GetTransfersByAddress H db address =
     res_bind (getTransactionsByAddress H db address) (\<lambda>rs.
     res_bind (transfers_of rs) (\<lambda>txs. Ok (sort_key Timestamp txs)))"

section \<open>Storing and looking up\<close>

lemma load_get:
  assumes "Fee info \<noteq> None" "Amount info \<noteq> None"
  obtains r where "loadFromTransferInfo info = Ok r" "getTransferInfo r = Ok info" "c_TxID r = TxID info"
    "c_InPool r = InPool info" "c_Fee r \<noteq> None" "c_Amount r \<noteq> None"
  using assms by (auto simp: loadFromTransferInfo_def getTransferInfo_def)

text \<open>
  A reported transaction can be looked up: after the event for a transfer with a fee and an
  amount has been processed (and the store accepted it), \<open>GetTransferInfo\<close> returns the transfer
  unchanged, with one confirmation when it is in a block.
\<close>
lemma TransactionEvent_lookup:
  assumes "hold_laws H" "Fee info \<noteq> None" "Amount info \<noteq> None"
    and "\<And>r. is_ok (hold_upsert H db (TxID info) r)"
  shows "\<exists>db'. TransactionEvent H info db = Ok db' \<and>
    GetTransferInfo H db' (TxID info) = Ok (if InPool info then info else info\<lparr> Confirmations := 1 \<rparr>)"
proof -
  obtain r where r: "loadFromTransferInfo info = Ok r" "getTransferInfo r = Ok info" "c_TxID r = TxID info"
    "c_InPool r = InPool info" "c_Fee r \<noteq> None" "c_Amount r \<noteq> None"
    using load_get [OF assms(2,3)] by metis
  let ?r = "if \<not> c_InPool r then r\<lparr> c_Confirmations := 1 \<rparr> else r"
  obtain db' where db': "hold_upsert H db (TxID info) ?r = Ok db'"
    using assms(4) [of ?r] by (cases "hold_upsert H db (TxID info) ?r") auto
  have "c_TxID ?r = TxID info" using r(3) by simp
  then have "TransactionEvent H info db = Ok db'"
    using r(1) db' by (simp add: TransactionEvent_def save_logged_def saveTransaction_def)
  moreover have "getTransactionById H db' (TxID info) = Ok ?r"
    using hold_upsert_get [OF assms(1) db'] by (simp add: getTransactionById_def)
  moreover have "getTransferInfo ?r = Ok (if InPool info then info else info\<lparr> Confirmations := 1 \<rparr>)"
    using r(2,4,5,6) by (auto simp: getTransferInfo_def)
  ultimately show ?thesis by (simp add: GetTransferInfo_def)
qed

definition demo_transfer :: TransferInfo where
  "demo_transfer = zero_transfer\<lparr> TxID := ''0xab'', Timestamp := 7, BlockNum := 10, From := ''0x1'', To := ''0x2'',
     Fee := Some 21, Amount := Some 5 \<rparr>"

text \<open>
  A transfer without an amount or without a fee crashes the cache: the event panics on it,
  whatever the database holds. Events are run by a goroutine without recovery.
\<close>
lemma TransactionEvent_nil_panics:
  assumes "Amount info = None \<or> Fee info = None"
  shows "TransactionEvent H info db = Panic"
  using assms by (auto simp: TransactionEvent_def loadFromTransferInfo_def)

section \<open>Transfers of an address\<close>

lemma transfers_of_ok:
  "\<forall>r \<in> set rs. c_Fee r \<noteq> None \<and> c_Amount r \<noteq> None \<Longrightarrow>
   \<exists>ts. transfers_of rs = Ok ts \<and> (\<forall>t. t \<in> set ts \<longleftrightarrow> (\<exists>r \<in> set rs. getTransferInfo r = Ok t))"
proof (induction rs)
  case (Cons r rs)
  then obtain ts where ts: "transfers_of rs = Ok ts" "\<forall>t. t \<in> set ts \<longleftrightarrow> (\<exists>r \<in> set rs. getTransferInfo r = Ok t)"
    by auto
  obtain t where t: "getTransferInfo r = Ok t" using Cons.prems by (simp add: getTransferInfo_def)
  show ?case using ts t by auto
qed simp

text \<open>
  \<open>GetTransfersByAddress\<close> returns exactly the cached transfers from or to the address, in order of
  their timestamps.
\<close>
lemma GetTransfersByAddress_correct:
  assumes "hold_laws H" "is_ok (hold_find H db (\<lambda>r. c_From r = a \<or> c_To r = a))"
    and "\<And>k r. hold_get H db k = Ok r \<Longrightarrow> c_Fee r \<noteq> None \<and> c_Amount r \<noteq> None"
  shows "\<exists>ts. GetTransfersByAddress H db a = Ok ts \<and> sorted (map Timestamp ts) \<and>
    (\<forall>t. t \<in> set ts \<longleftrightarrow> (\<exists>k r. hold_get H db k = Ok r \<and> getTransferInfo r = Ok t \<and> (From t = a \<or> To t = a)))"
proof -
  obtain rs where rs: "hold_find H db (\<lambda>r. c_From r = a \<or> c_To r = a) = Ok rs"
    using assms(2) by (cases "hold_find H db (\<lambda>r. c_From r = a \<or> c_To r = a)") auto
  note mem = hold_find_set [OF assms(1) rs]
  then have "\<forall>r \<in> set rs. c_Fee r \<noteq> None \<and> c_Amount r \<noteq> None" using assms(3) by blast
  then obtain ts where ts: "transfers_of rs = Ok ts"
    "\<forall>t. t \<in> set ts \<longleftrightarrow> (\<exists>r \<in> set rs. getTransferInfo r = Ok t)" using transfers_of_ok by blast
  have parties: "getTransferInfo r = Ok t \<Longrightarrow> From t = c_From r \<and> To t = c_To r" for r t
    by (auto simp: getTransferInfo_def split: if_splits)
  have "GetTransfersByAddress H db a = Ok (sort_key Timestamp ts)"
    by (simp add: GetTransfersByAddress_def getTransactionsByAddress_def rs ts(1))
  moreover have "t \<in> set (sort_key Timestamp ts) \<longleftrightarrow>
      (\<exists>k r. hold_get H db k = Ok r \<and> getTransferInfo r = Ok t \<and> (From t = a \<or> To t = a))" for t
    using ts(2) mem parties by auto metis+
  ultimately show ?thesis by (intro exI [of _ "sort_key Timestamp ts"]) simp
qed

definition demo_record :: TransferInfoCachedRecord where
  "demo_record = (case loadFromTransferInfo demo_transfer of Ok r \<Rightarrow> r)"

lemma demo_record_simps:
  "c_TxID demo_record = ''0xab''" "c_From demo_record = ''0x1''" "c_To demo_record = ''0x2''"
  "c_Fee demo_record = Some 21" "c_Amount demo_record = Some 5" "c_BlockNum demo_record = 10" "\<not> c_InPool demo_record"
  by (simp_all add: demo_record_def loadFromTransferInfo_def demo_transfer_def zero_transfer_def)

section \<open>Confirmations\<close>

definition keyed :: "'db cache_ops \<Rightarrow> 'db \<Rightarrow> bool" where
  "keyed H db \<longleftrightarrow> (\<forall>k r. hold_get H db k = Ok r \<longrightarrow> c_TxID r = k)"

definition due :: "int \<Rightarrow> TransferInfoCachedRecord \<Rightarrow> bool" where
  "due blockNum r \<longleftrightarrow> blockNum - c_BlockNum r > 1 \<and> \<not> c_InPool r"

lemma update_record_id [simp]: "c_TxID (update_record cfg b r) = c_TxID r"
  by (simp add: update_record_def)

lemma update_loop_spec:
  assumes "hold_laws H" "\<And>db k r. is_ok (hold_upsert H db k r)"
    and "\<forall>tx \<in> set txs. stored (c_TxID tx) = Some tx"
  shows "\<exists>db'. update_loop H cfg b txs db = Ok db' \<and>
    (\<forall>k. hold_get H db' k = (case stored k of
        None \<Rightarrow> hold_get H db k
      | Some r \<Rightarrow> if r \<in> set txs \<and> c_TxID r = k \<and> due b r then Ok (update_record cfg b r) else hold_get H db k))"
  using assms(3)
proof (induction txs arbitrary: db)
  case Nil
  then show ?case by (auto split: option.splits)
next
  case (Cons tx txs)
  show ?case
  proof (cases "due b tx")
    case True
    obtain db1 where db1: "hold_upsert H db (c_TxID tx) (update_record cfg b tx) = Ok db1"
      using assms(2) [of db "c_TxID tx" "update_record cfg b tx"]
      by (cases "hold_upsert H db (c_TxID tx) (update_record cfg b tx)") auto
    obtain db' where db': "update_loop H cfg b txs db1 = Ok db'" "\<forall>k. hold_get H db' k = (case stored k of
        None \<Rightarrow> hold_get H db1 k
      | Some r \<Rightarrow> if r \<in> set txs \<and> c_TxID r = k \<and> due b r then Ok (update_record cfg b r) else hold_get H db1 k)"
      using Cons.IH [of db1] Cons.prems by auto
    have "update_loop H cfg b (tx # txs) db = Ok db'"
      using True db1 db'(1) by (simp add: due_def save_logged_def saveTransaction_def)
    then show ?thesis using db'(2) hold_upsert_get [OF assms(1) db1] Cons.prems True
      by (auto split: option.splits)
  next
    case False
    obtain db' where db': "update_loop H cfg b txs db = Ok db'" "\<forall>k. hold_get H db' k = (case stored k of
        None \<Rightarrow> hold_get H db k
      | Some r \<Rightarrow> if r \<in> set txs \<and> c_TxID r = k \<and> due b r then Ok (update_record cfg b r) else hold_get H db k)"
      using Cons.IH [of db] Cons.prems by auto
    have "update_loop H cfg b (tx # txs) db = Ok db'" using False db'(1) by (auto simp: due_def)
    then show ?thesis using db'(2) False by (auto split: option.splits)
  qed
qed

text \<open>
  C31. A new block updates exactly the records that are due: a record in the window of
  \<open>RegisterConfirmations\<close> blocks, in a block more than one behind the new one and not in the mempool, gets
  \<open>Confirmations = blockNum - BlockNum\<close> and is confirmed from \<open>Confirmations\<close> (of the configuration)
  blocks on; every other record is unchanged.
\<close>
theorem blockUpdateEvent_correct:
  assumes "hold_laws H" "keyed H db" "\<And>db k r. is_ok (hold_upsert H db k r)" "\<And>q. is_ok (hold_find H db q)"
  shows "\<exists>db'. blockUpdateEvent H cfg b db = Ok db' \<and>
    (\<forall>k r. hold_get H db k = Ok r \<longrightarrow> hold_get H db' k =
       Ok (if c_BlockNum r \<ge> b - cc_RegisterConfirmations cfg \<and> due b r then
             r\<lparr> c_Confirmed := c_BlockNum r \<le> b - cc_Confirmations cfg, c_Confirmations := b - c_BlockNum r \<rparr>
           else r))"
proof -
  let ?q = "\<lambda>r. c_BlockNum r \<ge> b - cc_RegisterConfirmations cfg"
  let ?stored = "\<lambda>k. case hold_get H db k of Ok r \<Rightarrow> Some r | _ \<Rightarrow> None"
  obtain txs where txs: "hold_find H db ?q = Ok txs" using assms(4) [of ?q] by (cases "hold_find H db ?q") auto
  note mem = hold_find_set [OF assms(1) txs]
  have "\<forall>tx \<in> set txs. ?stored (c_TxID tx) = Some tx" using mem assms(2) by (auto simp: keyed_def)
  from update_loop_spec [OF assms(1,3) this] obtain db' where
    db': "update_loop H cfg b txs db = Ok db'" "\<forall>k. hold_get H db' k = (case ?stored k of
        None \<Rightarrow> hold_get H db k
      | Some r \<Rightarrow> if r \<in> set txs \<and> c_TxID r = k \<and> due b r then Ok (update_record cfg b r) else hold_get H db k)"
    by blast
  have "blockUpdateEvent H cfg b db = Ok db'" using txs db'(1) by (simp add: blockUpdateEvent_def)
  moreover have "hold_get H db' k = Ok (if ?q r \<and> due b r then update_record cfg b r else r)"
    if "hold_get H db k = Ok r" for k r
  proof -
    have "c_TxID r = k" using that assms(2) by (simp add: keyed_def)
    moreover have "r \<in> set txs \<longleftrightarrow> ?q r" using mem that by auto
    ultimately show ?thesis using db'(2) that by simp
  qed
  ultimately show ?thesis unfolding update_record_def by blast
qed

theorem blockUpdateEvent_correct_witness:
  "\<exists>db'. blockUpdateEvent al_hold (cache_coldStart \<lparr> cc_Debug = True, cc_Confirmations = 0, cc_RegisterConfirmations = 0,
      cc_StoreIncomingTx = False, cc_StoreOutgoingTx = False \<rparr>) 40 [(''0xab'', demo_record)] = Ok db' \<and>
    hold_get al_hold db' ''0xab'' = Ok (demo_record\<lparr> c_Confirmed := True, c_Confirmations := 30 \<rparr>)"
proof -
  let ?db = "[(''0xab'', demo_record)]"
  have "keyed al_hold ?db" by (auto simp: keyed_def al_get_iff demo_record_simps split: if_splits)
  moreover have "hold_get al_hold ?db ''0xab'' = Ok demo_record" by (simp add: al_get)
  ultimately show ?thesis
    using blockUpdateEvent_correct [OF al_hold_laws, of ?db "cache_coldStart \<lparr> cc_Debug = True, cc_Confirmations = 0,
      cc_RegisterConfirmations = 0, cc_StoreIncomingTx = False, cc_StoreOutgoingTx = False \<rparr>" 40]
    by (auto simp: al_hold_def due_def demo_record_simps cache_coldStart_def)
qed

end
