(* ===== verification/KeyStore.thy ===== *)
theory KeyStore
  imports Prelude
begin

text \<open>
  The key-value storage of \<open>storage/badger_storage.go\<close> and the record interfaces of
  \<open>storage/simplekv.go\<close>. The database \<open>badger\<close> is a third-party library: its transactions are an
  argument of the definitions (\<open>kv_ops\<close>) and theorems assume its documented behaviour (\<open>kv_laws\<close>).
\<close>

section \<open>The database\<close>

datatype kv_error = ErrKeyNotFound | KvError

text \<open>
  \<open>Set\<close>, \<open>Get\<close> and \<open>Delete\<close> of one transaction, and what an iterator from \<open>Rewind\<close> to the end sees:
  the keys, each with the outcome of reading its value.
\<close>

record 'db kv_ops =
  kv_set :: "'db \<Rightarrow> bytes \<Rightarrow> bytes \<Rightarrow> (kv_error, 'db) res"
  kv_get :: "'db \<Rightarrow> bytes \<Rightarrow> (kv_error, bytes) res"
  kv_delete :: "'db \<Rightarrow> bytes \<Rightarrow> (kv_error, 'db) res"
  kv_items :: "'db \<Rightarrow> (bytes \<times> (kv_error, bytes) res) list"

definition kv_laws :: "'db kv_ops \<Rightarrow> bool" where
  "kv_laws K \<longleftrightarrow>
     (\<forall>db k v db'. kv_set K db k v = Ok db' \<longrightarrow>
        kv_get K db' k = Ok v \<and> (\<forall>k'. k' \<noteq> k \<longrightarrow> kv_get K db' k' = kv_get K db k')) \<and>
     (\<forall>db k db'. kv_delete K db k = Ok db' \<longrightarrow>
        kv_get K db' k = Err ErrKeyNotFound \<and> (\<forall>k'. k' \<noteq> k \<longrightarrow> kv_get K db' k' = kv_get K db k')) \<and>
     (\<forall>db. distinct (map fst (kv_items K db)) \<and>
        (\<forall>k v. (k, Ok v) \<in> set (kv_items K db) \<longleftrightarrow> kv_get K db k = Ok v)) \<and>
     (\<forall>db k v. kv_set K db k v \<noteq> Panic \<and> kv_get K db k \<noteq> Panic \<and> kv_delete K db k \<noteq> Panic \<and>
        (k, Panic) \<notin> set (kv_items K db))"

section \<open>Records\<close>

text \<open>
  The interfaces \<open>Key\<close> and \<open>Data\<close>: the key of a record, its serialisation, and the parser
  (\<^const>\<open>None\<close> is an error of \<open>Decode\<close>).
\<close>

record 'r Data =
  GetKey :: "'r \<Rightarrow> bytes"
  EncodeData :: "'r \<Rightarrow> bytes"
  DecodeData :: "bytes \<Rightarrow> 'r option"

datatype storage_error = KvErr kv_error | DecodeError

definition BadgerStorage_Save :: "'db kv_ops \<Rightarrow> 'r Data \<Rightarrow> 'db \<Rightarrow> 'r \<Rightarrow> (storage_error, 'db) res" where
  "BadgerStorage_Save K D db value =
     (let key = GetKey D value; data = EncodeData D value
      in res_map_err KvErr (kv_set K db key data))"

definition BadgerStorage_Read :: "'db kv_ops \<Rightarrow> 'r Data \<Rightarrow> 'db \<Rightarrow> bytes \<Rightarrow> (storage_error, 'r) res" where
  "BadgerStorage_Read K D db keyBytes =
     (case kv_get K db keyBytes of
        Err e \<Rightarrow> Err (KvErr e)
      | Panic \<Rightarrow> Panic
      | Ok raw \<Rightarrow> (case DecodeData D raw of Some r \<Rightarrow> Ok r | None \<Rightarrow> Err DecodeError))"

text \<open>
  The iteration of \<open>ReadAllKey\<close>. The processor changes state it has captured, which stays changed when
  a later record fails, so the state is returned next to the outcome.
\<close>

fun read_loop ::
  "(bytes \<Rightarrow> bytes \<Rightarrow> 's \<Rightarrow> 's \<times> (storage_error, unit) res) \<Rightarrow> (bytes \<times> (kv_error, bytes) res) list \<Rightarrow>
   's \<Rightarrow> 's \<times> (storage_error, unit) res" where
  "read_loop processor [] s = (s, Ok ())"
| "read_loop processor ((key, v) # its) s =
     (case v of
        Err e \<Rightarrow> (s, Err (KvErr e))
      | Panic \<Rightarrow> (s, Panic)
      | Ok raw \<Rightarrow>
          (case processor key raw s of
             (s', Ok _) \<Rightarrow> read_loop processor its s'
           | (s', r) \<Rightarrow> (s', r)))"

definition BadgerStorage_ReadAllKey ::
  "'db kv_ops \<Rightarrow> 'db \<Rightarrow> (bytes \<Rightarrow> bytes \<Rightarrow> 's \<Rightarrow> 's \<times> (storage_error, unit) res) \<Rightarrow> 's \<Rightarrow> 's \<times> (storage_error, unit) res" where
  "BadgerStorage_ReadAllKey K db processor s = read_loop processor (kv_items K db) s"

definition BadgerStorage_ReadAll ::
  "'db kv_ops \<Rightarrow> 'db \<Rightarrow> (bytes \<Rightarrow> 's \<Rightarrow> 's \<times> (storage_error, unit) res) \<Rightarrow> 's \<Rightarrow> 's \<times> (storage_error, unit) res" where
  "BadgerStorage_ReadAll K db processor s = read_loop (\<lambda>_. processor) (kv_items K db) s"

definition BadgerStorage_Delete :: "'db kv_ops \<Rightarrow> 'db \<Rightarrow> bytes \<Rightarrow> (storage_error, 'db) res" where
  "BadgerStorage_Delete K db rowKey = res_map_err KvErr (kv_delete K db rowKey)"

text \<open>
  The replicated storage starts the replication in a goroutine before it writes: the replica is told
  whether or not the local write succeeds.
\<close>

datatype replica_event = ReplicaUpdate bytes bytes | ReplicaDelete bytes

definition Replicated_Save ::
  "'db kv_ops \<Rightarrow> 'r Data \<Rightarrow> 'db \<Rightarrow> 'r \<Rightarrow> replica_event list \<times> (storage_error, 'db) res" where
  "Replicated_Save K D db value =
     (let key = GetKey D value; data = EncodeData D value
      in ([ReplicaUpdate key data], res_map_err KvErr (kv_set K db key data)))"

definition Replicated_Delete :: "'db kv_ops \<Rightarrow> 'db \<Rightarrow> bytes \<Rightarrow> replica_event list \<times> (storage_error, 'db) res" where
  "Replicated_Delete K db rowKey = ([ReplicaDelete rowKey], res_map_err KvErr (kv_delete K db rowKey))"

section \<open>Laws of the storage\<close>

lemma kv_set_get:
  "kv_laws K \<Longrightarrow> kv_set K db k v = Ok db' \<Longrightarrow> kv_get K db' k' = (if k' = k then Ok v else kv_get K db k')"
  by (auto simp: kv_laws_def)

lemma kv_items_get: "kv_laws K \<Longrightarrow> (k, Ok v) \<in> set (kv_items K db) \<longleftrightarrow> kv_get K db k = Ok v"
  by (auto simp: kv_laws_def)

lemma kv_items_distinct: "kv_laws K \<Longrightarrow> distinct (map fst (kv_items K db))"
  by (auto simp: kv_laws_def)

lemma kv_no_panic:
  assumes "kv_laws K"
  shows "kv_set K db k v \<noteq> Panic" "kv_get K db k \<noteq> Panic" "(k, Panic) \<notin> set (kv_items K db)"
  using assms by (auto simp: kv_laws_def)

lemma Save_Ok_iff:
  "BadgerStorage_Save K D db r = Ok db' \<longleftrightarrow> kv_set K db (GetKey D r) (EncodeData D r) = Ok db'"
  by (cases "kv_set K db (GetKey D r) (EncodeData D r)") (simp_all add: BadgerStorage_Save_def)

lemma Save_no_panic: "kv_laws K \<Longrightarrow> BadgerStorage_Save K D db r \<noteq> Panic"
  using kv_no_panic(1) [of K db "GetKey D r" "EncodeData D r"]
  by (cases "kv_set K db (GetKey D r) (EncodeData D r)") (simp_all add: BadgerStorage_Save_def)

lemma Read_after_Save:
  assumes "kv_laws K" "DecodeData D (EncodeData D r) = Some r" "BadgerStorage_Save K D db r = Ok db'"
  shows "BadgerStorage_Read K D db' k = (if k = GetKey D r then Ok r else BadgerStorage_Read K D db k)"
  using kv_set_get [OF assms(1) assms(3) [unfolded Save_Ok_iff]] assms(2)
  by (simp add: BadgerStorage_Read_def)

text \<open>A pass over readable records is a fold of the processor over the parsed records.\<close>

lemma read_loop_fold:
  assumes "\<forall>(k, v) \<in> set its. \<exists>raw r. v = Ok raw \<and> dec raw = Some r"
    "\<And>k raw r s. dec raw = Some r \<Longrightarrow> proc k raw s = (f r s, Ok ())"
  shows "read_loop proc its s = (fold f (map (\<lambda>(k, v). the (dec (case v of Ok raw \<Rightarrow> raw | _ \<Rightarrow> []))) its) s, Ok ())"
  using assms(1)
proof (induction its arbitrary: s)
  case (Cons it its)
  obtain k v where it: "it = (k, v)" by fastforce
  from Cons(2) obtain raw r where "v = Ok raw" "dec raw = Some r" by (auto simp: it)
  with Cons assms(2) [of raw r k s] show ?case by (simp add: it)
qed simp

section \<open>An instance\<close>

text \<open>An association list satisfies the laws of the database.\<close>

definition al_kv :: "(bytes \<times> bytes) list kv_ops" where
  "al_kv = \<lparr>
     kv_set = (\<lambda>db k v. Ok (al_upsert db k v)),
     kv_get = (\<lambda>db k. case map_of db k of None \<Rightarrow> Err ErrKeyNotFound | Some v \<Rightarrow> Ok v),
     kv_delete = (\<lambda>db k. Ok (filter (\<lambda>x. fst x \<noteq> k) db)),
     kv_items = (\<lambda>db. map (\<lambda>k. (k, Ok (the (map_of db k)))) (remdups (map fst db))) \<rparr>"

lemma map_of_filter_fst: "map_of (filter (\<lambda>x. fst x \<noteq> k) db) k' = (if k' = k then None else map_of db k')"
  by (induction db) auto

lemma al_kv_items:
  "(k, Ok v) \<in> set (kv_items al_kv db) \<longleftrightarrow> kv_get al_kv db k = Ok v"
proof -
  have "k \<in> fst ` set db \<longleftrightarrow> map_of db k \<noteq> None" by (metis domIff dom_map_of_conv_image_fst)
  then show ?thesis by (auto simp: al_kv_def split: option.splits)
qed

lemma al_kv_laws: "kv_laws al_kv"
proof -
  have "distinct (map fst (kv_items al_kv db))" for db
    by (simp add: al_kv_def comp_def)
  then show ?thesis
    unfolding kv_laws_def
    by (auto simp: al_kv_items) (auto simp: al_kv_def map_of_al_upsert map_of_filter_fst split: option.splits)
qed

end
