(* ===== verification/AddressPool.thy ===== *)
theory AddressPool
  imports FastMapCorrect KeyStore AddressCodec
begin

text \<open>
  The address manager (\<open>address/address.go\<close>, \<open>manager.go\<close>, \<open>api.go\<close>, \<open>fillpool.go\<close>,
  \<open>poolupdate.go\<close>, \<open>config.go\<close>, \<open>bip44support.go\<close>). Address records are shared by pointer between
  \<open>allAddresses\<close>, \<open>freeAddresses\<close> and the packed index, and are changed in place, so the model has a
  heap of records. The index is rebuilt by a goroutine (\<open>go p.updatePool()\<close>) that runs some time
  after the change; \<open>am_spawned\<close> and \<open>am_checks\<close> count the goroutines started.
\<close>

section \<open>Data\<close>

datatype am_error = ErrAddressUnknown | ErrAddressExists | ErrConfigStorageEmpty | ErrNoFreeAddresses
  | ErrInvalidAddressBytes | ErrInvalidAddress | ErrAddressBytesEmpty | ErrAddressStringEmpty
  | ErrPrivateKeyEmpty | ErrAddressPrivateKeyMismatch | ErrInvalidMnemonicLen
  | CodecErr address_error | HexErr hex_error | StorageErr storage_error | GenerateErr

record Address =
  a_Address :: string
  a_AddressBytes :: bytes
  a_PrivateKey :: bytes
  a_Master :: bool
  a_Subscribed :: bool
  a_ServiceId :: int
  a_UserId :: int
  a_InvoiceId :: int
  a_WatchOnly :: bool
  a_Bip39Support :: bool
  a_Bip39Mnemonic :: "string list"

definition zero_address :: Address where
  "zero_address = \<lparr> a_Address = [], a_AddressBytes = [], a_PrivateKey = [], a_Master = False,
     a_Subscribed = False, a_ServiceId = 0, a_UserId = 0, a_InvoiceId = 0, a_WatchOnly = False,
     a_Bip39Support = False, a_Bip39Mnemonic = [] \<rparr>"

record pool_config =
  pc_Debug :: bool
  pc_defaultBip44Support :: bool
  pc_defaultBip44CoinType :: string
  pc_defaultBip36MnemonicLen :: int
  pc_EnableAddressGenerate :: bool
  pc_MinFreePoolSize :: int
  pc_GeneratePoolUpTo :: int
  pc_Bip39Support :: bool
  pc_Bip36MnemonicLen :: int
  pc_Bip44CoinType :: string
  pc_Bip32DerivationPath :: string

text \<open>
  What the manager is given: the database behind its storage, the gob serialisation of a record,
  the interface \<open>AddressCodec\<close>, and the BIP-39/32/44 derivation.
\<close>

record codec_ops =
  ac_Decode :: "string \<Rightarrow> (address_error, bytes) res"
  ac_PrivateKeyToAddress :: "bytes \<Rightarrow> (address_error, string \<times> bytes) res"

record bip_ops =
  bip_NewMnemonic :: "bytes \<Rightarrow> (unit, string list) res"
  bip_EntropyFromMnemonic :: "string list \<Rightarrow> (unit, bytes) res"
  bip_derive :: "string list \<Rightarrow> string \<Rightarrow> (unit, bytes) res"

record 'db am_env =
  env_kv :: "'db kv_ops"
  env_gob_encode :: "Address \<Rightarrow> bytes"
  env_gob_decode :: "bytes \<Rightarrow> Address option"
  env_codec :: codec_ops
  env_bip :: bip_ops

definition address_data :: "'db am_env \<Rightarrow> Address Data" where
  "address_data E = \<lparr> GetKey = a_AddressBytes, EncodeData = env_gob_encode E, DecodeData = env_gob_decode E \<rparr>"

record 'db Manager =
  am_db :: "'db option"
  am_config :: pool_config
  am_heap :: "Address list"
  am_fast :: "nat objectValue list"
  am_all :: "string \<rightharpoonup> nat"
  am_free :: "string \<rightharpoonup> nat"
  am_spawned :: nat
  am_checks :: nat

type_synonym ('db, 'a) am_result = "'db Manager \<times> (am_error, 'a) res"

section \<open>Storage of a record\<close>

definition db_save :: "'db am_env \<Rightarrow> 'db Manager \<Rightarrow> Address \<Rightarrow> ('db, unit) am_result" where
  "db_save E m a =
     (case am_db m of
        None \<Rightarrow> (m, Panic)
      | Some db \<Rightarrow>
          (case BadgerStorage_Save (env_kv E) (address_data E) db a of
             Ok db' \<Rightarrow> (m\<lparr>am_db := Some db'\<rparr>, Ok ())
           | Err e \<Rightarrow> (m, Err (StorageErr e))
           | Panic \<Rightarrow> (m, Panic)))"

definition isAddressInDBUnsafe :: "'db am_env \<Rightarrow> 'db Manager \<Rightarrow> Address \<Rightarrow> bool" where
  "isAddressInDBUnsafe E m a =
     (case am_db m of
        None \<Rightarrow> False
      | Some db \<Rightarrow>
          (if length (a_AddressBytes a) = 0 then False
           else (case BadgerStorage_Read (env_kv E) (address_data E) db (a_AddressBytes a) of
                   Ok existing \<Rightarrow> a_Address existing \<noteq> []
                 | _ \<Rightarrow> False)))"

section \<open>The index\<close>

text \<open>\<open>rawPool\<close> as the source of the index; \<open>ks\<close> is the order in which the map is visited.\<close>

definition rawPool :: "'db Manager \<Rightarrow> string list \<Rightarrow> nat objectsSource" where
  "rawPool m ks = \<lparr> appendKeys = (\<lambda>_. map (\<lambda>k. a_Address (am_heap m ! the (am_all m k))) ks), src_get = am_all m \<rparr>"

definition nullStore :: "nat objectsSource" where
  "nullStore = \<lparr> appendKeys = (\<lambda>_. []), src_get = (\<lambda>_. None) \<rparr>"

definition updatePool :: "'db Manager \<Rightarrow> string list \<Rightarrow> ('db, unit) am_result" where
  "updatePool m ks =
     (if ks \<noteq> [] then
        (case newAddressMemStore (rawPool m ks) of
           None \<Rightarrow> (m, Panic)
         | Some st \<Rightarrow> (m\<lparr>am_fast := st\<rparr>, Ok ()))
      else (m, Ok ()))"

definition IsAddressKnown :: "'db Manager \<Rightarrow> string \<Rightarrow> (am_error, bool) res" where
  "IsAddressKnown m address =
     (case LookupString (am_fast m) address of None \<Rightarrow> Panic | Some (_, found) \<Rightarrow> Ok found)"

definition GetAddress :: "'db Manager \<Rightarrow> string \<Rightarrow> (am_error, nat option) res" where
  "GetAddress m address =
     (case LookupString (am_fast m) address of
        None \<Rightarrow> Panic
      | Some (addressRecord, found) \<Rightarrow> if \<not> found then Err ErrAddressUnknown else Ok addressRecord)"

section \<open>Subscribing\<close>

text \<open>\<open>getFreeAddressUnsafe\<close> returns what the range over \<open>freeAddresses\<close> visits first.\<close>

definition getFreeAddressUnsafe :: "'db Manager \<Rightarrow> string list \<Rightarrow> (am_error, nat) res" where
  "getFreeAddressUnsafe m ks = (case ks of [] \<Rightarrow> Err ErrNoFreeAddresses | k # _ \<Rightarrow> Ok (the (am_free m k)))"

definition updateAddressUnsafe ::
  "'db am_env \<Rightarrow> 'db Manager \<Rightarrow> string \<Rightarrow> (Address \<Rightarrow> Address \<times> (am_error, unit) res) \<Rightarrow> ('db, unit) am_result" where
  "updateAddressUnsafe E m addressStr updater =
     (case LookupString (am_fast m) addressStr of
        None \<Rightarrow> (m, Panic)
      | Some (addressRecord, found) \<Rightarrow>
          (if \<not> found then (m, Err ErrAddressUnknown)
           else
             (case addressRecord of
                None \<Rightarrow> (m, Panic)
              | Some p \<Rightarrow>
                  (case updater (am_heap m ! p) of
                     (a, Ok _) \<Rightarrow>
                       db_save E (m\<lparr>am_heap := (am_heap m)[p := a],
                                    am_free := (if \<not> a_Subscribed a then (am_free m)(a_Address a \<mapsto> p)
                                                else (am_free m)(a_Address a := None))\<rparr>) a
                   | (a, r) \<Rightarrow> (m\<lparr>am_heap := (am_heap m)[p := a]\<rparr>, r)))))"

definition subscribe_fields :: "int \<Rightarrow> int \<Rightarrow> int \<Rightarrow> bool \<Rightarrow> Address \<Rightarrow> Address" where
  "subscribe_fields serviceId userId invoiceId watchOnly a =
     a\<lparr>a_ServiceId := serviceId, a_UserId := userId, a_InvoiceId := invoiceId, a_WatchOnly := watchOnly,
       a_Subscribed := True\<rparr>"

text \<open>The error of the update is assigned and not returned.\<close>

definition GetFreeAddressAndSubscribe ::
  "'db am_env \<Rightarrow> 'db Manager \<Rightarrow> string list \<Rightarrow> int \<Rightarrow> int \<Rightarrow> int \<Rightarrow> bool \<Rightarrow> ('db, nat) am_result" where
  "GetFreeAddressAndSubscribe E m ks serviceId userId invoiceId watchOnly =
     (let (m', r) =
        (case getFreeAddressUnsafe m ks of
           Err e \<Rightarrow> (m, Err e)
         | Panic \<Rightarrow> (m, Panic)
         | Ok p \<Rightarrow>
             (case updateAddressUnsafe E m (a_Address (am_heap m ! p))
                     (\<lambda>a. (subscribe_fields serviceId userId invoiceId watchOnly a, Ok ())) of
                (m', Panic) \<Rightarrow> (m', Panic)
              | (m', _) \<Rightarrow> (m', Ok p)))
      in (m'\<lparr>am_checks := am_checks m' + 1\<rparr>, r))"

section \<open>Adding\<close>

definition addAddressUnsafe :: "'db am_env \<Rightarrow> 'db Manager \<Rightarrow> nat \<Rightarrow> ('db, unit) am_result" where
  "addAddressUnsafe E m p =
     (let a = am_heap m ! p
      in db_save E (m\<lparr>am_all := (am_all m)(a_Address a \<mapsto> p),
                      am_free := (if \<not> a_Subscribed a then (am_free m)(a_Address a \<mapsto> p) else am_free m),
                      am_spawned := am_spawned m + 1\<rparr>) a)"

text \<open>\<open>&Address{...}\<close>: a new record in the heap.\<close>

definition new_record :: "'db Manager \<Rightarrow> Address \<Rightarrow> 'db Manager \<times> nat" where
  "new_record m a = (m\<lparr>am_heap := am_heap m @ [a]\<rparr>, length (am_heap m))"

definition isRecordValid :: "Address \<Rightarrow> (am_error, unit) res" where
  "isRecordValid address =
     (if a_Address address = [] then Err ErrAddressStringEmpty
      else if length (a_AddressBytes address) = 0 then Err ErrAddressBytesEmpty
      else if \<not> a_WatchOnly address \<and> length (a_PrivateKey address) = 0 then Err ErrPrivateKeyEmpty
      else Ok ())"

definition NewAddressRecordFill :: "'db am_env \<Rightarrow> string \<Rightarrow> (Address \<Rightarrow> Address) \<Rightarrow> (am_error, Address) res" where
  "NewAddressRecordFill E addressString fill =
     (case ac_Decode (env_codec E) addressString of
        Err e \<Rightarrow> Err (CodecErr e)
      | Panic \<Rightarrow> Panic
      | Ok addressBytes \<Rightarrow>
          (let a = fill (zero_address\<lparr>a_AddressBytes := addressBytes, a_Address := addressString\<rparr>)
           in res_bind (isRecordValid a) (\<lambda>_. Ok a)))"

definition NewAddressRecord :: "'db am_env \<Rightarrow> string \<Rightarrow> bytes \<Rightarrow> (am_error, Address) res" where
  "NewAddressRecord E addressString privateKey =
     (case ac_Decode (env_codec E) addressString of
        Err e \<Rightarrow> Err (CodecErr e)
      | Panic \<Rightarrow> Panic
      | Ok addressBytes \<Rightarrow>
          (let a = zero_address\<lparr>a_AddressBytes := addressBytes, a_Address := addressString, a_PrivateKey := privateKey\<rparr>
           in res_bind (isRecordValid a) (\<lambda>_. Ok a)))"

definition AddAddressRecord :: "'db am_env \<Rightarrow> 'db Manager \<Rightarrow> nat \<Rightarrow> ('db, unit) am_result" where
  "AddAddressRecord E m p =
     (case IsAddressKnown m (a_Address (am_heap m ! p)) of
        Ok True \<Rightarrow> (m, Err ErrAddressExists)
      | Ok False \<Rightarrow> addAddressUnsafe E m p
      | Err e \<Rightarrow> (m, Err e)
      | Panic \<Rightarrow> (m, Panic))"

definition AddAddressFill ::
  "'db am_env \<Rightarrow> 'db Manager \<Rightarrow> string \<Rightarrow> (Address \<Rightarrow> Address) \<Rightarrow> ('db, nat) am_result" where
  "AddAddressFill E m addressString fill =
     (case IsAddressKnown m addressString of
        Ok True \<Rightarrow> (m, Err ErrAddressExists)
      | Ok False \<Rightarrow>
          (case NewAddressRecordFill E addressString fill of
             Err e \<Rightarrow> (m, Err e)
           | Panic \<Rightarrow> (m, Panic)
           | Ok a \<Rightarrow>
               (let (m1, p) = new_record m a
                in case AddAddressRecord E m1 p of
                     (m2, Ok _) \<Rightarrow> (m2, Ok p)
                   | (m2, Err e) \<Rightarrow> (m2, Err e)
                   | (m2, Panic) \<Rightarrow> (m2, Panic)))
      | Err e \<Rightarrow> (m, Err e)
      | Panic \<Rightarrow> (m, Panic))"

fun bulk_loop :: "'db am_env \<Rightarrow> 'db Manager \<Rightarrow> nat option list \<Rightarrow> ('db, unit) am_result" where
  "bulk_loop E m [] = (m, Ok ())"
| "bulk_loop E m (None # ps) = bulk_loop E m ps"
| "bulk_loop E m (Some p # ps) =
     (if a_Address (am_heap m ! p) = [] then bulk_loop E m ps
      else if am_all m (a_Address (am_heap m ! p)) \<noteq> None then bulk_loop E m ps
      else if isAddressInDBUnsafe E m (am_heap m ! p) then bulk_loop E m ps
      else
        (case addAddressUnsafe E m p of
           (m', Ok _) \<Rightarrow> bulk_loop E m' ps
         | (m', r) \<Rightarrow> (m', r)))"

definition AddAddressRecordsBulk :: "'db am_env \<Rightarrow> 'db Manager \<Rightarrow> nat option list \<Rightarrow> ('db, unit) am_result" where
  "AddAddressRecordsBulk E m addresses =
     (if length addresses = 0 then (m, Ok ()) else bulk_loop E m addresses)"

text \<open>
  \<open>AddPrivateKey\<close> returns no error when the record could not be stored;
  \<open>AddPrivateKeyHexFill\<close> does.
\<close>

definition key_record ::
  "'db am_env \<Rightarrow> 'db Manager \<Rightarrow> bytes \<Rightarrow> (Address \<Rightarrow> Address) \<Rightarrow> ((am_error, unit) res \<Rightarrow> string \<Rightarrow> (am_error, string) res) \<Rightarrow>
   ('db, string) am_result" where
  "key_record E m privateKeyBytes fillParams finish =
     (case ECDSAKeysFromPrivateKeyBytes privateKeyBytes of
        Ok privateKey \<Rightarrow>
          (case ac_PrivateKeyToAddress (env_codec E) privateKeyBytes of
             Err e \<Rightarrow> (m, Err (CodecErr e))
           | Panic \<Rightarrow> (m, Panic)
           | Ok (addressString, addressBytes) \<Rightarrow>
               (case IsAddressKnown m addressString of
                  Ok True \<Rightarrow> (m, Err ErrAddressExists)
                | Ok False \<Rightarrow>
                    (let (m1, p) = new_record m (fillParams (zero_address\<lparr>a_Address := addressString,
                                     a_AddressBytes := addressBytes,
                                     a_PrivateKey := BytesFromECDSAPrivateKey (Some privateKey)\<rparr>));
                         (m2, r) = addAddressUnsafe E m1 p
                     in (m2, finish r addressString))
                | Err e \<Rightarrow> (m, Err e)
                | Panic \<Rightarrow> (m, Panic)))
      | _ \<Rightarrow> (m, Panic))"

definition AddPrivateKey :: "'db am_env \<Rightarrow> 'db Manager \<Rightarrow> bytes \<Rightarrow> ('db, string) am_result" where
  "AddPrivateKey E m privateKeyBytes =
     key_record E m privateKeyBytes id (\<lambda>r addressString. case r of Panic \<Rightarrow> Panic | _ \<Rightarrow> Ok addressString)"

definition AddPrivateKeyHex :: "'db am_env \<Rightarrow> 'db Manager \<Rightarrow> string \<Rightarrow> ('db, string) am_result" where
  "AddPrivateKeyHex E m privateKeyHex =
     (case ParseHexBytes privateKeyHex of
        Err e \<Rightarrow> (m, Err (HexErr e))
      | Panic \<Rightarrow> (m, Panic)
      | Ok pkBytes \<Rightarrow> AddPrivateKey E m pkBytes)"

definition AddPrivateKeyHexFill ::
  "'db am_env \<Rightarrow> 'db Manager \<Rightarrow> string \<Rightarrow> (Address \<Rightarrow> Address) \<Rightarrow> ('db, string) am_result" where
  "AddPrivateKeyHexFill E m privateKeyHex fillParams =
     (case ParseHexBytes privateKeyHex of
        Err e \<Rightarrow> (m, Err (HexErr e))
      | Panic \<Rightarrow> (m, Panic)
      | Ok privateKeyBytes \<Rightarrow>
          key_record E m privateKeyBytes fillParams (\<lambda>r addressString. res_bind r (\<lambda>_. Ok addressString)))"

section \<open>Generating\<close>

text \<open>
  What one generation draws at random: the key of \<open>ecdsa.GenerateKey\<close> and the entropy of
  \<open>bip39.NewEntropy\<close>.
\<close>

record draw =
  draw_key :: "(unit, PrivateKey) res"
  draw_entropy :: "nat \<Rightarrow> (unit, bytes) res"

definition generatePrivateKey :: "draw \<Rightarrow> (am_error, bytes) res" where
  "generatePrivateKey d =
     (case draw_key d of
        Ok ecdsaKey \<Rightarrow> Ok (BytesFromECDSAPrivateKey (Some ecdsaKey))
      | Err _ \<Rightarrow> Err GenerateErr
      | Panic \<Rightarrow> Panic)"

definition createNewAddress :: "'db am_env \<Rightarrow> draw \<Rightarrow> (am_error, Address) res" where
  "createNewAddress E d =
     (case generatePrivateKey d of
        Err e \<Rightarrow> Err e
      | Panic \<Rightarrow> Panic
      | Ok privateKey \<Rightarrow>
          (case ac_PrivateKeyToAddress (env_codec E) privateKey of
             Err e \<Rightarrow> Err (CodecErr e)
           | Panic \<Rightarrow> Panic
           | Ok (addressStr, addressBytes) \<Rightarrow>
               Ok (zero_address\<lparr>a_Address := addressStr, a_AddressBytes := addressBytes, a_PrivateKey := privateKey\<rparr>)))"

definition bip44EntropyToAddressRecord :: "'db am_env \<Rightarrow> bytes \<Rightarrow> string \<Rightarrow> (am_error, Address) res" where
  "bip44EntropyToAddressRecord E entropy coinType =
     (case bip_NewMnemonic (env_bip E) entropy of
        Err _ \<Rightarrow> Err GenerateErr
      | Panic \<Rightarrow> Panic
      | Ok mnemonic \<Rightarrow>
          (case bip_derive (env_bip E) mnemonic coinType of
             Err _ \<Rightarrow> Err GenerateErr
           | Panic \<Rightarrow> Panic
           | Ok privateKey \<Rightarrow>
               (case ac_PrivateKeyToAddress (env_codec E) privateKey of
                  Err e \<Rightarrow> Err (CodecErr e)
                | Panic \<Rightarrow> Panic
                | Ok (addressStr, addressBytes) \<Rightarrow>
                    Ok (zero_address\<lparr>a_Address := addressStr, a_AddressBytes := addressBytes,
                          a_PrivateKey := privateKey, a_Bip39Support := True, a_Bip39Mnemonic := mnemonic\<rparr>))))"

definition createNewBIP44Address :: "'db am_env \<Rightarrow> int \<Rightarrow> string \<Rightarrow> draw \<Rightarrow> (am_error, Address) res" where
  "createNewBIP44Address E mnemonicLen coinType d =
     (if mnemonicLen \<noteq> 12 \<and> mnemonicLen \<noteq> 24 then Err ErrInvalidMnemonicLen
      else
        (case draw_entropy d (if mnemonicLen = 12 then 128 else 256) of
           Err _ \<Rightarrow> Err GenerateErr
         | Panic \<Rightarrow> Panic
         | Ok entropy \<Rightarrow> bip44EntropyToAddressRecord E entropy coinType))"

definition recoverBIP44AddressFromMnemonic :: "'db am_env \<Rightarrow> string list \<Rightarrow> string \<Rightarrow> (am_error, Address) res" where
  "recoverBIP44AddressFromMnemonic E mnemonic coinType =
     (case bip_EntropyFromMnemonic (env_bip E) mnemonic of
        Err _ \<Rightarrow> Err GenerateErr
      | Panic \<Rightarrow> Panic
      | Ok entropy \<Rightarrow> bip44EntropyToAddressRecord E entropy coinType)"

definition GenerateBit44Address :: "'db am_env \<Rightarrow> pool_config \<Rightarrow> draw \<Rightarrow> (am_error, Address) res" where
  "GenerateBit44Address E c d = createNewBIP44Address E (pc_Bip36MnemonicLen c) (pc_Bip44CoinType c) d"

definition GenerateBit44AddressWithLen :: "'db am_env \<Rightarrow> pool_config \<Rightarrow> int \<Rightarrow> draw \<Rightarrow> (am_error, Address) res" where
  "GenerateBit44AddressWithLen E c mnemonicLen d = createNewBIP44Address E mnemonicLen (pc_Bip44CoinType c) d"

definition RecoverBit44Address :: "'db am_env \<Rightarrow> pool_config \<Rightarrow> string list \<Rightarrow> (am_error, Address) res" where
  "RecoverBit44Address E c mnemonic = recoverBIP44AddressFromMnemonic E mnemonic (pc_Bip44CoinType c)"

text \<open>
  The refill loop: one draw per new address. An error ends the refill without \<open>go p.updatePool()\<close>; an address
  that could not be saved stays in the pool.
\<close>

fun refill_loop :: "'db am_env \<Rightarrow> 'db Manager \<Rightarrow> draw list \<Rightarrow> ('db, unit) am_result" where
  "refill_loop E m [] = (m\<lparr>am_spawned := am_spawned m + 1\<rparr>, Ok ())"
| "refill_loop E m (d # ds) =
     (case (if pc_Bip39Support (am_config m) then GenerateBit44Address E (am_config m) d else createNewAddress E d) of
        Panic \<Rightarrow> (m, Panic)
      | Err e \<Rightarrow> (m, Ok ())
      | Ok a \<Rightarrow>
          (let (m1, p) = new_record m a
           in case db_save E (m1\<lparr>am_all := (am_all m1)(a_Address a \<mapsto> p), am_free := (am_free m1)(a_Address a \<mapsto> p)\<rparr>) a of
                (m2, Ok _) \<Rightarrow> refill_loop E m2 ds
              | (m2, Err e) \<Rightarrow> (m2, Ok ())
              | (m2, Panic) \<Rightarrow> (m2, Panic)))"

definition refillFreeAddressPool :: "'db am_env \<Rightarrow> 'db Manager \<Rightarrow> int \<Rightarrow> (nat \<Rightarrow> draw) \<Rightarrow> ('db, unit) am_result" where
  "refillFreeAddressPool E m refillAmount draws = refill_loop E m (map draws [0..<nat refillAmount])"

definition checkFreeAddressPool :: "'db am_env \<Rightarrow> 'db Manager \<Rightarrow> string list \<Rightarrow> (nat \<Rightarrow> draw) \<Rightarrow> ('db, unit) am_result" where
  "checkFreeAddressPool E m ks draws =
     (let totalAddresses = length ks;
          freeAddresses = length (filter (\<lambda>k. \<not> a_Subscribed (am_heap m ! the (am_all m k))) ks);
          c = am_config m
      in if pc_EnableAddressGenerate c then
           (if totalAddresses = 0 then refillFreeAddressPool E m (pc_GeneratePoolUpTo c) draws
            else if int freeAddresses < pc_MinFreePoolSize c
              then refillFreeAddressPool E m (pc_GeneratePoolUpTo c - int freeAddresses) draws
            else (m, Ok ()))
         else (m, Ok ()))"

section \<open>Loading\<close>

definition load_processor :: "'db am_env \<Rightarrow> bytes \<Rightarrow> 'db Manager \<Rightarrow> 'db Manager \<times> (storage_error, unit) res" where
  "load_processor E raw m =
     (case env_gob_decode E raw of
        None \<Rightarrow> (m, Err DecodeError)
      | Some a \<Rightarrow>
          (let (m1, p) = new_record m a
           in (m1\<lparr>am_all := (am_all m1)(a_Address a \<mapsto> p),
                  am_free := (if \<not> a_Subscribed a then (am_free m1)(a_Address a \<mapsto> p) else am_free m1)\<rparr>, Ok ())))"

definition preLoadAddresses :: "'db am_env \<Rightarrow> 'db Manager \<Rightarrow> string list \<Rightarrow> ('db, unit) am_result" where
  "preLoadAddresses E m ks =
     (case am_db m of
        None \<Rightarrow> (m, Panic)
      | Some db \<Rightarrow>
          (case BadgerStorage_ReadAll (env_kv E) db (load_processor E) m of
             (m', Ok _) \<Rightarrow> updatePool m' ks
           | (m', Err e) \<Rightarrow> (m', Err (StorageErr e))
           | (m', Panic) \<Rightarrow> (m', Panic)))"

definition new_manager :: "'db option \<Rightarrow> pool_config \<Rightarrow> 'db Manager" where
  "new_manager db c =
     \<lparr> am_db = db, am_config = c, am_heap = [], am_fast = the (newAddressMemStore nullStore),
       am_all = Map.empty, am_free = Map.empty, am_spawned = 0, am_checks = 0 \<rparr>"

text \<open>
  \<open>NewManager\<close> once the options are applied and the configuration is loaded. \<open>ks\<close> is the order in which the
  loaded addresses are visited, by \<open>updatePool\<close> and by the count of the free ones.
\<close>

definition NewManager :: "'db am_env \<Rightarrow> 'db option \<Rightarrow> pool_config \<Rightarrow> string list \<Rightarrow> (nat \<Rightarrow> draw) \<Rightarrow> ('db, unit) am_result" where
  "NewManager E db c ks draws =
     (case preLoadAddresses E (new_manager db c) ks of
        (m, Ok _) \<Rightarrow> checkFreeAddressPool E m ks draws
      | (m, r) \<Rightarrow> (m, r))"

section \<open>Configuration\<close>

text \<open>The defaults of a first start and the completion of a loaded configuration.\<close>

definition pool_coldStart :: "pool_config \<Rightarrow> pool_config" where
  "pool_coldStart c =
     c\<lparr>pc_MinFreePoolSize := 100, pc_GeneratePoolUpTo := 110, pc_EnableAddressGenerate := True,
       pc_Bip44CoinType := (if pc_defaultBip44CoinType c = [] then ''Ether'' else pc_defaultBip44CoinType c),
       pc_Bip36MnemonicLen := (if pc_defaultBip36MnemonicLen c = 0 then 12 else pc_defaultBip36MnemonicLen c),
       pc_Bip39Support := pc_defaultBip44Support c,
       pc_Bip32DerivationPath := ''m/44'' @ [CHR 0x27] @ ''/60'' @ [CHR 0x27] @ ''/0'' @ [CHR 0x27] @ ''/0/0''\<rparr>"

definition checkDefaults :: "pool_config \<Rightarrow> pool_config \<times> bool" where
  "checkDefaults c =
     (let ch1 = (pc_Bip36MnemonicLen c = 0);
          c1 = (if ch1 then c\<lparr>pc_Bip36MnemonicLen :=
                  (if pc_defaultBip36MnemonicLen c = 0 then 12 else pc_defaultBip36MnemonicLen c)\<rparr> else c);
          ch2 = (pc_Bip44CoinType c1 = []);
          c2 = (if ch2 then c1\<lparr>pc_Bip44CoinType :=
                  (if pc_defaultBip44CoinType c1 = [] then ''Ether'' else pc_defaultBip44CoinType c1)\<rparr> else c1);
          ch3 = (pc_Bip32DerivationPath c2 = []);
          c3 = (if ch3 then c2\<lparr>pc_Bip32DerivationPath :=
                  ''m/44'' @ [CHR 0x27] @ ''/60'' @ [CHR 0x27] @ ''/0'' @ [CHR 0x27] @ ''/0/0''\<rparr> else c2)
      in (c3, ch1 \<or> ch2 \<or> ch3))"


end
