(* ===== verification/Subscriptions.thy ===== *)
theory Subscriptions
  imports AddressPool Types Hold Hashes Amount
begin

text \<open>
  The subscription manager (\<open>subscriptions/\<close>): stored transactions, the handlers of transaction and block
  events, the notifications they cause and the gathering of received coins. Events run one after the other
  (\<open>eventLoop\<close>). The notifications an event causes run in goroutines of their own, one at a time
  (\<open>notifyMux\<close>): an event returns the list of notifications it starts, and
  \<open>transactionEventPostProcess\<close> is a separate operation. The blockchain client is an interface and a
  parameter.
\<close>

section \<open>Data\<close>

datatype sub_error = ErrSubConfigStorageEmpty | ErrUnknownTransaction | ErrUnknownServiceId | SubStoreError hold_error

record Subscription =
  s_ServiceName :: string
  s_ServiceId :: int
  s_Internal :: bool
  s_ApiToken :: string
  s_ApiKey :: string
  s_EndpointUrl :: string
  s_ReportNewBlock :: bool
  s_ReportIncomingTx :: bool
  s_ReportOutgoingTx :: bool
  s_ReportMainCoin :: bool
  s_ReportTokens :: "(string \<times> bool) list"
  s_ReportBalanceChange :: bool
  s_GatherToMaster :: bool
  s_MasterList :: "string list"
  s_SecuritySignRequests :: bool
  s_SecuritySignResponse :: bool
  s_SecurityUseEncryption :: bool

definition zero_subscription :: Subscription where
  "zero_subscription = \<lparr> s_ServiceName = [], s_ServiceId = 0, s_Internal = False, s_ApiToken = [], s_ApiKey = [],
     s_EndpointUrl = [], s_ReportNewBlock = False, s_ReportIncomingTx = False, s_ReportOutgoingTx = False,
     s_ReportMainCoin = False, s_ReportTokens = [], s_ReportBalanceChange = False, s_GatherToMaster = False,
     s_MasterList = [], s_SecuritySignRequests = False, s_SecuritySignResponse = False,
     s_SecurityUseEncryption = False \<rparr>"

definition NewSubscription :: "int \<Rightarrow> string \<Rightarrow> (Subscription \<Rightarrow> Subscription) \<Rightarrow> Subscription" where
  "NewSubscription serviceId endpointUrl fillSettings =
     fillSettings (zero_subscription\<lparr>s_ServiceId := serviceId, s_EndpointUrl := endpointUrl\<rparr>)"

text \<open>
  \<open>equal\<close>. \<open>with.ReportTokens[k]\<close> of a missing key is false. \<open>ReportTokens\<close> is an association list
  with distinct keys.
\<close>

definition sub_equal :: "Subscription \<Rightarrow> Subscription \<Rightarrow> bool" where
  "sub_equal s w \<longleftrightarrow>
     s_ServiceName s = s_ServiceName w \<and> s_ServiceId s = s_ServiceId w \<and> s_Internal s = s_Internal w \<and>
     s_EndpointUrl s = s_EndpointUrl w \<and> s_ReportNewBlock s = s_ReportNewBlock w \<and>
     s_ReportIncomingTx s = s_ReportIncomingTx w \<and> s_ReportOutgoingTx s = s_ReportOutgoingTx w \<and>
     s_GatherToMaster s = s_GatherToMaster w \<and> s_ReportMainCoin s = s_ReportMainCoin w \<and>
     length (s_MasterList s) = length (s_MasterList w) \<and>
     list_all (\<lambda>(a, b). a = b) (zip (s_MasterList s) (s_MasterList w)) \<and>
     length (s_ReportTokens s) = length (s_ReportTokens w) \<and>
     list_all (\<lambda>(k, v). v = (map_of (s_ReportTokens w) k = Some True)) (s_ReportTokens s)"

record TransferInfoRecord =
  t_TxID :: string
  t_Timestamp :: int
  t_BlockNum :: int
  t_Ignore :: bool
  t_Success :: bool
  t_Transfer :: bool
  t_NativeCoin :: bool
  t_Symbol :: string
  t_SmartContract :: bool
  t_From :: string
  t_To :: string
  t_Amount :: "int option"
  t_Token :: string
  t_TokenSymbol :: string
  t_Fee :: "int option"
  t_InPool :: bool
  t_Confirmed :: bool
  t_ChainSpecificData :: bytes

definition fillFromTransferInfo :: "TransferInfo \<Rightarrow> TransferInfoRecord" where
  "fillFromTransferInfo info = \<lparr> t_TxID = TxID info, t_Timestamp = Timestamp info, t_BlockNum = BlockNum info,
     t_Ignore = False, t_Success = Success info, t_Transfer = Transfer info, t_NativeCoin = NativeCoin info,
     t_Symbol = Symbol info, t_SmartContract = SmartContract info, t_From = From info, t_To = To info,
     t_Amount = Amount info, t_Token = Token info, t_TokenSymbol = TokenSymbol info, t_Fee = Fee info,
     t_InPool = InPool info, t_Confirmed = Confirmed info, t_ChainSpecificData = ChainSpecificData info \<rparr>"

definition toTransferInfo :: "TransferInfoRecord \<Rightarrow> TransferInfo \<Rightarrow> TransferInfo" where
  "toTransferInfo t info = info\<lparr> TxID := t_TxID t, Timestamp := t_Timestamp t, BlockNum := t_BlockNum t,
     Success := t_Success t, Transfer := t_Transfer t, NativeCoin := t_NativeCoin t, Symbol := t_Symbol t,
     SmartContract := t_SmartContract t, From := t_From t, To := t_To t, Amount := t_Amount t, Token := t_Token t,
     TokenSymbol := t_TokenSymbol t, Fee := t_Fee t, InPool := t_InPool t, Confirmed := t_Confirmed t,
     ChainSpecificData := t_ChainSpecificData t \<rparr>"

text \<open>
  \<open>x.Cmp(y) == 0\<close> on two pointers: equal pointers, two nil ones included, compare equal; one nil pointer is
  dereferenced.
\<close>

definition big_eq :: "int option \<Rightarrow> int option \<Rightarrow> (sub_error, bool) res" where
  "big_eq x y =
     (case (x, y) of (None, None) \<Rightarrow> Ok True | (Some a, Some b) \<Rightarrow> Ok (a = b) | _ \<Rightarrow> Panic)"

definition isEqual :: "TransferInfoRecord \<Rightarrow> TransferInfo \<Rightarrow> (sub_error, bool) res" where
  "isEqual t tx =
     (if t_TxID t \<noteq> TxID tx \<or> t_BlockNum t \<noteq> BlockNum tx \<or> t_Success t \<noteq> Success tx \<or> t_Transfer t \<noteq> Transfer tx \<or>
         t_NativeCoin t \<noteq> NativeCoin tx \<or> t_Symbol t \<noteq> Symbol tx \<or> t_SmartContract t \<noteq> SmartContract tx \<or>
         t_From t \<noteq> From tx \<or> t_To t \<noteq> To tx then Ok False
      else
        res_bind (big_eq (t_Amount t) (Amount tx)) (\<lambda>b.
          if \<not> b \<or> t_Token t \<noteq> Token tx \<or> t_TokenSymbol t \<noteq> TokenSymbol tx then Ok False
          else res_bind (big_eq (t_Fee t) (Fee tx)) (\<lambda>b.
            if \<not> b \<or> t_InPool t \<noteq> InPool tx then Ok False else Ok True)))"

record TransferNotification =
  n_ChainId :: string
  n_TxID :: string
  n_Timestamp :: int
  n_BlockNum :: int
  n_Success :: bool
  n_Transfer :: bool
  n_NativeCoin :: bool
  n_Symbol :: string
  n_SmartContract :: bool
  n_From :: string
  n_To :: string
  n_Amount :: "int option"
  n_Token :: string
  n_TokenSymbol :: string
  n_Fee :: "int option"
  n_InPool :: bool
  n_Confirmed :: bool
  n_Confirmations :: int
  n_UserId :: int
  n_InvoiceId :: int
  n_Signature :: string

text \<open>\<open>new(TransferNotification).fill(tx)\<close>.\<close>

definition notification_fill :: "TransferInfoRecord \<Rightarrow> TransferNotification" where
  "notification_fill tx = \<lparr> n_ChainId = [], n_TxID = t_TxID tx, n_Timestamp = t_Timestamp tx,
     n_BlockNum = t_BlockNum tx, n_Success = t_Success tx, n_Transfer = t_Transfer tx,
     n_NativeCoin = t_NativeCoin tx, n_Symbol = t_Symbol tx, n_SmartContract = t_SmartContract tx,
     n_From = t_From tx, n_To = t_To tx, n_Amount = t_Amount tx, n_Token = t_Token tx,
     n_TokenSymbol = t_TokenSymbol tx, n_Fee = t_Fee tx, n_InPool = t_InPool tx, n_Confirmed = t_Confirmed tx,
     n_Confirmations = 0, n_UserId = 0, n_InvoiceId = 0, n_Signature = [] \<rparr>"

text \<open>\<open>Sign\<close>: a plain SHA-256 over the joined fields and the key; \<open>String\<close> of a nil \<open>*big.Int\<close> is \<open><nil>\<close>.\<close>

definition big_text :: "int option \<Rightarrow> string" where
  "big_text x = (case x of None \<Rightarrow> ''<nil>'' | Some n \<Rightarrow> big_string n)"

definition bool_text :: "bool \<Rightarrow> string" where
  "bool_text b = (if b then ''true'' else ''false'')"

definition notification_Sign :: "string \<Rightarrow> TransferNotification \<Rightarrow> TransferNotification" where
  "notification_Sign apiKey n =
     (let bodyParts = [n_TxID n, big_string (n_Timestamp n), big_string (n_BlockNum n), bool_text (n_Success n),
            bool_text (n_NativeCoin n), n_Symbol n, n_From n, n_To n, big_text (n_Amount n), n_Token n,
            n_TokenSymbol n, big_text (n_Fee n), bool_text (n_InPool n), bool_text (n_Confirmed n),
            big_string (n_Confirmations n), apiKey]
      in n\<lparr>n_Signature := fmt_x_bytes (sha256_sum (bytes_of_string (strings_Join '':'' bodyParts)))\<rparr>)"

section \<open>The transaction store\<close>

type_synonym 'db sub_ops = "('db, TransferInfoRecord) hold_ops"

definition sub_getTransactionById :: "'db sub_ops \<Rightarrow> 'db \<Rightarrow> string \<Rightarrow> (sub_error, TransferInfoRecord) res" where
  "sub_getTransactionById H db txId =
     (case hold_get H db txId of
        Ok tx \<Rightarrow> Ok tx
      | Err e \<Rightarrow> Err (if e = ErrNotFound then ErrUnknownTransaction else SubStoreError e)
      | Panic \<Rightarrow> Panic)"

definition sub_saveTransaction :: "'db sub_ops \<Rightarrow> 'db \<Rightarrow> TransferInfoRecord \<Rightarrow> (hold_error, 'db) res" where
  "sub_saveTransaction H db tx = hold_upsert H db (t_TxID tx) tx"

definition SearchTransactionsBeforeBlock :: "'db sub_ops \<Rightarrow> 'db \<Rightarrow> int \<Rightarrow> (hold_error, TransferInfoRecord list) res" where
  "SearchTransactionsBeforeBlock H db blockNum =
     res_bind (hold_find H db (\<lambda>r. t_BlockNum r < blockNum \<and> \<not> t_Confirmed r \<and> \<not> t_InPool r))
       (\<lambda>txList. Ok (sort_key t_BlockNum txList))"

definition SearchTransactionsAfterBlock :: "'db sub_ops \<Rightarrow> 'db \<Rightarrow> int \<Rightarrow> (hold_error, TransferInfoRecord list) res" where
  "SearchTransactionsAfterBlock H db blockNum =
     res_bind (hold_find H db (\<lambda>r. t_BlockNum r > blockNum \<and> \<not> t_Confirmed r \<and> \<not> t_InPool r))
       (\<lambda>txList. Ok (sort_key t_BlockNum txList))"

section \<open>Transaction events\<close>

text \<open>The result is the database and the notification that is started, if any.\<close>

definition transactionEventProcess ::
  "'db sub_ops \<Rightarrow> 'db \<Rightarrow> TransferInfo \<Rightarrow> (sub_error, 'db \<times> TransferNotification option) res" where
  "transactionEventProcess H db info =
     (let notify = (\<lambda>db txInfo.
        let n = notification_fill txInfo;
            n = (if \<not> n_InPool n then n\<lparr>n_Confirmations := 1\<rparr> else n)
        in if t_Ignore txInfo then Ok (db, None) else Ok (db, Some n))
      in case sub_getTransactionById H db (TxID info) of
           Panic \<Rightarrow> Panic
         | Err ErrUnknownTransaction \<Rightarrow>
             (let txInfo = fillFromTransferInfo info
              in case sub_saveTransaction H db txInfo of
                   Ok db' \<Rightarrow> notify db' txInfo
                 | Err _ \<Rightarrow> Ok (db, None)
                 | Panic \<Rightarrow> Panic)
         | Err _ \<Rightarrow> Ok (db, None)
         | Ok txInfo \<Rightarrow>
             (case isEqual txInfo info of
                Panic \<Rightarrow> Panic
              | Err e \<Rightarrow> Err e
              | Ok True \<Rightarrow> Ok (db, None)
              | Ok False \<Rightarrow>
                  (if t_InPool txInfo \<and> \<not> InPool info \<and> \<not> t_Ignore txInfo then
                     (let txInfo = txInfo\<lparr>t_BlockNum := BlockNum info, t_Timestamp := Timestamp info, t_InPool := False\<rparr>
                      in case sub_saveTransaction H db txInfo of
                           Ok db' \<Rightarrow> notify db' txInfo
                         | Err _ \<Rightarrow> notify db txInfo
                         | Panic \<Rightarrow> Panic)
                   else Ok (db, None))))"

section \<open>Block events\<close>

fun confirm_loop ::
  "'db sub_ops \<Rightarrow> int \<Rightarrow> 'db \<Rightarrow> TransferInfoRecord list \<Rightarrow> (sub_error, 'db \<times> TransferNotification list) res" where
  "confirm_loop H blockNum db [] = Ok (db, [])"
| "confirm_loop H blockNum db (tx # txs) =
     (case sub_saveTransaction H db (tx\<lparr>t_Confirmed := True\<rparr>) of
        Panic \<Rightarrow> Panic
      | Err _ \<Rightarrow> confirm_loop H blockNum db txs
      | Ok db' \<Rightarrow>
          (let n = (notification_fill (tx\<lparr>t_Confirmed := True\<rparr>))\<lparr>n_Confirmations := blockNum - t_BlockNum tx\<rparr>
           in res_bind (confirm_loop H blockNum db' txs)
                (\<lambda>(db'', ns). Ok (db'', if \<not> t_Ignore tx then n # ns else ns))))"

definition confirmedBlock :: "int \<Rightarrow> int \<Rightarrow> int" where
  "confirmedBlock MinConfirmations blockNum =
     (let minConfirmations = MinConfirmations - 1;
          c = blockNum - minConfirmations
      in if c < 1 then 1 else c)"

definition counting_notifications :: "int \<Rightarrow> TransferInfoRecord list \<Rightarrow> TransferNotification list" where
  "counting_notifications blockNum txList =
     map (\<lambda>tx. (notification_fill tx)\<lparr>n_Confirmations := blockNum - t_BlockNum tx + 1\<rparr>)
       (filter (\<lambda>tx. t_BlockNum tx < blockNum \<and> \<not> t_Ignore tx) txList)"

definition sub_blockEvent ::
  "'db sub_ops \<Rightarrow> int \<Rightarrow> 'db \<Rightarrow> int \<Rightarrow> (sub_error, 'db \<times> TransferNotification list) res" where
  "sub_blockEvent H MinConfirmations db blockNum =
     (case SearchTransactionsAfterBlock H db (confirmedBlock MinConfirmations blockNum) of
        Panic \<Rightarrow> Panic
      | Err _ \<Rightarrow> Ok (db, [])
      | Ok txList \<Rightarrow>
          (case SearchTransactionsBeforeBlock H db (confirmedBlock MinConfirmations blockNum) of
             Panic \<Rightarrow> Panic
           | Err _ \<Rightarrow> Ok (db, counting_notifications blockNum txList)
           | Ok txList' \<Rightarrow>
               res_bind (confirm_loop H blockNum db txList')
                 (\<lambda>(db', ns). Ok (db', counting_notifications blockNum txList @ ns))))"

record BlockNotification =
  b_ChainId :: string
  b_BlockNum :: int
  b_BlockId :: string

section \<open>Subscriptions\<close>

type_synonym subscribers = "int \<rightharpoonup> Subscription"

text \<open>\<open>subscriptionsColdStart\<close>: one internal service with the id 0.\<close>

definition subscriptionsColdStart :: subscribers where
  "subscriptionsColdStart = [0 \<mapsto> zero_subscription\<lparr>s_ServiceId := 0, s_Internal := True\<rparr>]"

definition SubscriptionGet :: "subscribers \<Rightarrow> int \<Rightarrow> (sub_error, Subscription) res" where
  "SubscriptionGet subs serviceId =
     (case subs serviceId of None \<Rightarrow> Err ErrUnknownServiceId | Some s \<Rightarrow> Ok s)"

text \<open>The edited subscriptions, and the error of saving them (the edit stays when the save fails).\<close>

definition SubscriptionEdit ::
  "(subscribers \<Rightarrow> (sub_error, unit) res) \<Rightarrow> subscribers \<Rightarrow> int \<Rightarrow> (Subscription \<Rightarrow> Subscription) \<Rightarrow>
   subscribers \<times> (sub_error, unit) res" where
  "SubscriptionEdit save subs serviceId edit =
     (case subs serviceId of
        None \<Rightarrow> (subs, Err ErrUnknownServiceId)
      | Some s \<Rightarrow> (let subs' = subs(serviceId \<mapsto> edit s) in (subs', save subs')))"

text \<open>The subscribers that are sent a block notification; \<open>ks\<close> is the iteration order.\<close>

definition blockNotifyServices :: "string \<Rightarrow> subscribers \<Rightarrow> int list \<Rightarrow> int \<Rightarrow> string \<Rightarrow> (Subscription \<times> BlockNotification) list" where
  "blockNotifyServices chainId subs ks blockNum blockId =
     map (\<lambda>k. (the (subs k), \<lparr> b_ChainId = chainId, b_BlockNum = blockNum, b_BlockId = blockId \<rparr>))
       (filter (\<lambda>k. s_ReportNewBlock (the (subs k))) ks)"

text \<open>
  What a subscriber is sent: internal ones and those without an endpoint get nothing over the network.
\<close>

definition sendNotification :: "Subscription \<Rightarrow> string \<Rightarrow> 'm \<Rightarrow> (string \<times> string \<times> 'm) list" where
  "sendNotification s subject message =
     (if s_Internal s \<or> s_EndpointUrl s = [] then [] else [(s_EndpointUrl s, subject, message)])"

definition NotifySubscriber :: "subscribers \<Rightarrow> int \<Rightarrow> string \<Rightarrow> 'm \<Rightarrow> (string \<times> string \<times> 'm) list" where
  "NotifySubscriber subs serviceId subject data =
     (case subs serviceId of None \<Rightarrow> [] | Some s \<Rightarrow> sendNotification s subject data)"

section \<open>Notifications and gathering\<close>

record chain_ops =
  cl_ChainId :: string
  cl_TransferAll :: "bytes \<Rightarrow> string \<Rightarrow> string \<Rightarrow> (unit, string) res"
  cl_TransferInfoByHash :: "string \<Rightarrow> (unit, TransferInfo) res"

text \<open>The database and the transfers that were ordered: private key, source and destination.\<close>

definition gatherNativeCoinToMaster ::
  "'db sub_ops \<Rightarrow> chain_ops \<Rightarrow> subscribers \<Rightarrow> 'db \<Rightarrow> Address \<Rightarrow> TransferNotification \<Rightarrow>
   (sub_error, 'db \<times> (bytes \<times> string \<times> string) list) res" where
  "gatherNativeCoinToMaster H C subs db a n =
     (case SubscriptionGet subs (a_ServiceId a) of
        Panic \<Rightarrow> Panic
      | Err _ \<Rightarrow> Ok (db, [])
      | Ok serviceInfo \<Rightarrow>
          (if \<not> s_GatherToMaster serviceInfo then Ok (db, [])
           else if length (s_MasterList serviceInfo) = 0 then Ok (db, [])
           else if \<not> n_NativeCoin n then Ok (db, [])
           else
             (let masterAddress = s_MasterList serviceInfo ! 0;
                  order = [(a_PrivateKey a, a_Address a, masterAddress)]
              in case cl_TransferAll C (a_PrivateKey a) (a_Address a) masterAddress of
                   Panic \<Rightarrow> Panic
                 | Err _ \<Rightarrow> Ok (db, order)
                 | Ok txId \<Rightarrow>
                     (if txId = [] then Ok (db, order)
                      else
                        (case cl_TransferInfoByHash C txId of
                           Panic \<Rightarrow> Panic
                         | Err _ \<Rightarrow> Ok (db, order)
                         | Ok sendTxInfo \<Rightarrow>
                             (case sub_saveTransaction H db ((fillFromTransferInfo sendTxInfo)\<lparr>t_Ignore := True\<rparr>) of
                                Panic \<Rightarrow> Panic
                              | Err _ \<Rightarrow> Ok (db, order)
                              | Ok db' \<Rightarrow> Ok (db', order)))))))"

text \<open>\<open>IsAddressKnown\<close> followed by \<open>GetAddress\<close>, whose error is dropped and whose result is dereferenced.\<close>

definition known_record :: "'adb Manager \<Rightarrow> string \<Rightarrow> (sub_error, Address option) res" where
  "known_record pool s =
     (case IsAddressKnown pool s of
        Ok False \<Rightarrow> Ok None
      | Ok True \<Rightarrow>
          (case GetAddress pool s of Ok (Some p) \<Rightarrow> Ok (Some (am_heap pool ! p)) | _ \<Rightarrow> Panic)
      | _ \<Rightarrow> Panic)"

text \<open>
  The result is the database, the services that are notified with the notification as it is when their
  goroutine starts, and the transfers that are ordered. Both goroutines get the same pointer.
\<close>

type_synonym 'db post_result =
  "(sub_error, 'db \<times> (int \<times> TransferNotification) list \<times> (bytes \<times> string \<times> string) list) res"

definition post_incoming ::
  "'db sub_ops \<Rightarrow> chain_ops \<Rightarrow> 'adb Manager \<Rightarrow> subscribers \<Rightarrow> 'db \<Rightarrow> TransferNotification \<Rightarrow>
   (int \<times> TransferNotification) list \<Rightarrow> 'db post_result" where
  "post_incoming H C pool subs db n sends =
     (case known_record pool (n_To n) of
        Panic \<Rightarrow> Panic
      | Err e \<Rightarrow> Err e
      | Ok None \<Rightarrow> Ok (db, sends, [])
      | Ok (Some a) \<Rightarrow>
          (case SubscriptionGet subs (a_ServiceId a) of
             Panic \<Rightarrow> Panic
           | Err _ \<Rightarrow> Ok (db, sends, [])
           | Ok serviceInfo \<Rightarrow>
               (let n' = (if s_ReportIncomingTx serviceInfo
                          then n\<lparr>n_ChainId := cl_ChainId C, n_UserId := a_UserId a, n_InvoiceId := a_InvoiceId a\<rparr> else n);
                    sends' = (if s_ReportIncomingTx serviceInfo then sends @ [(a_ServiceId a, n')] else sends)
                in if n_Confirmed n' \<and> n_Success n' then
                     res_bind (gatherNativeCoinToMaster H C subs db a n') (\<lambda>(db', orders). Ok (db', sends', orders))
                   else Ok (db, sends', []))))"

definition transactionEventPostProcess ::
  "'db sub_ops \<Rightarrow> chain_ops \<Rightarrow> 'adb Manager \<Rightarrow> subscribers \<Rightarrow> 'db \<Rightarrow> TransferNotification \<Rightarrow> 'db post_result" where
  "transactionEventPostProcess H C pool subs db n =
     (case known_record pool (n_From n) of
        Panic \<Rightarrow> Panic
      | Err e \<Rightarrow> Err e
      | Ok None \<Rightarrow> post_incoming H C pool subs db n []
      | Ok (Some a) \<Rightarrow>
          (case SubscriptionGet subs (a_ServiceId a) of
             Panic \<Rightarrow> Panic
           | Err _ \<Rightarrow> Ok (db, [], [])
           | Ok serviceInfo \<Rightarrow>
               (if s_ReportOutgoingTx serviceInfo
                then post_incoming H C pool subs db (n\<lparr>n_ChainId := cl_ChainId C\<rparr>)
                       [(a_ServiceId a, n\<lparr>n_ChainId := cl_ChainId C\<rparr>)]
                else post_incoming H C pool subs db n [])))"

end
