(* ===== verification/AddressPoolCorrect.thy ===== *)
theory AddressPoolCorrect
  imports AddressPool
begin

text \<open>
  Properties of the address manager: the invariant of its maps, its index and its heap in every
  reachable state, handing out addresses in a synchronised and in a stale state, bulk import, and
  loading from the database.
\<close>

section \<open>The index as an interface\<close>

text \<open>The contract the manager relies on: a built index answers exactly the keys of its source.\<close>

locale address_index =
  fixes build :: "'a objectsSource \<Rightarrow> 's option"
    and lookup :: "'s \<Rightarrow> string \<Rightarrow> ('a option \<times> bool) option"
    and ok_keys :: "string list \<Rightarrow> bool"
  assumes build_lookup: "ok_keys (appendKeys src []) \<Longrightarrow> \<exists>store. build src = Some store \<and>
    (\<forall>s. lookup store s = Some (if s \<in> set (appendKeys src []) then (src_get src s, True) else (None, False)))"
begin

text \<open>An index built from the entries of a map is the map.\<close>

lemma build_map:
  assumes "iter_order (src_get src) (appendKeys src [])" "ok_keys (appendKeys src [])"
  obtains store where "build src = Some store"
    "\<And>s. lookup store s = Some (src_get src s, src_get src s \<noteq> None)"
proof -
  obtain store where st: "build src = Some store"
    "\<And>s. lookup store s = Some (if s \<in> set (appendKeys src []) then (src_get src s, True) else (None, False))"
    using build_lookup [OF assms(2)] by blast
  have "lookup store s = Some (src_get src s, src_get src s \<noteq> None)" for s
    using assms(1) st(2) [of s] by (auto simp: iter_order_def dom_def)
  with st(1) that show thesis by blast
qed

end

interpretation fast_index: address_index newAddressMemStore LookupString index_keys_ok
  by unfold_locales (rule newAddressMemStore_spec)

section \<open>The invariant\<close>

definition index_at :: "'db Manager \<Rightarrow> string \<rightharpoonup> nat" where
  "index_at m s = (case LookupString (am_fast m) s of Some (r, True) \<Rightarrow> r | _ \<Rightarrow> None)"

definition index_ok :: "'db Manager \<Rightarrow> bool" where
  "index_ok m \<longleftrightarrow> (\<forall>s. LookupString (am_fast m) s = Some (index_at m s, index_at m s \<noteq> None))"

definition is_record :: "'db Manager \<Rightarrow> string \<Rightarrow> nat \<Rightarrow> bool" where
  "is_record m k p \<longleftrightarrow> p < length (am_heap m) \<and> a_Address (am_heap m ! p) = k"

definition am_inv :: "'db Manager \<Rightarrow> bool" where
  "am_inv m \<longleftrightarrow> index_ok m \<and> finite (dom (am_all m)) \<and>
     (\<forall>k p. am_all m k = Some p \<longrightarrow> is_record m k p) \<and>
     (\<forall>k p. am_free m k = Some p \<longrightarrow> is_record m k p \<and> \<not> a_Subscribed (am_heap m ! p) \<and> k \<in> dom (am_all m)) \<and>
     (\<forall>k p. index_at m k = Some p \<longrightarrow> is_record m k p \<and> k \<in> dom (am_all m))"

lemma am_invI:
  assumes "index_ok m" "finite (dom (am_all m))"
    "\<And>k p. am_all m k = Some p \<Longrightarrow> is_record m k p"
    "\<And>k p. am_free m k = Some p \<Longrightarrow> is_record m k p \<and> \<not> a_Subscribed (am_heap m ! p) \<and> k \<in> dom (am_all m)"
    "\<And>k p. index_at m k = Some p \<Longrightarrow> is_record m k p \<and> k \<in> dom (am_all m)"
  shows "am_inv m"
  unfolding am_inv_def using assms by blast

lemma am_invD:
  assumes "am_inv m"
  shows "index_ok m" "finite (dom (am_all m))"
    "\<And>k p. am_all m k = Some p \<Longrightarrow> is_record m k p"
    "\<And>k p. am_free m k = Some p \<Longrightarrow> is_record m k p \<and> \<not> a_Subscribed (am_heap m ! p) \<and> k \<in> dom (am_all m)"
    "\<And>k p. index_at m k = Some p \<Longrightarrow> is_record m k p \<and> k \<in> dom (am_all m)"
  using assms unfolding am_inv_def by blast+

text \<open>Operations that leave the index alone leave what it answers alone.\<close>

lemma index_at_cong: "am_fast m = am_fast m' \<Longrightarrow> index_at m = index_at m'"
  by (rule ext) (simp add: index_at_def)

lemma index_ok_cong: "am_fast m = am_fast m' \<Longrightarrow> index_ok m = index_ok m'"
  using index_at_cong [of m m'] by (simp add: index_ok_def)

lemma db_save_keeps:
  assumes "db_save E m a = (m', r)"
  shows "am_heap m' = am_heap m" "am_all m' = am_all m" "am_free m' = am_free m" "am_fast m' = am_fast m"
    "am_config m' = am_config m" "am_spawned m' = am_spawned m" "am_checks m' = am_checks m"
  using assms by (auto simp: db_save_def split: option.splits res.splits)

lemma am_inv_cong:
  assumes "am_fast m' = am_fast m" "am_heap m' = am_heap m" "am_all m' = am_all m" "am_free m' = am_free m"
  shows "am_inv m' = am_inv m"
  using assms index_at_cong [OF assms(1)] index_ok_cong [OF assms(1)] by (simp add: am_inv_def is_record_def)

lemma db_save_inv: "db_save E m a = (m', r) \<Longrightarrow> am_inv m' = am_inv m"
  by (rule am_inv_cong) (simp_all add: db_save_keeps)

lemma db_save_fst_inv: "am_inv (fst (db_save E m a)) = am_inv m"
  by (cases "db_save E m a") (simp add: db_save_inv)

lemma am_inv_new_record: "am_inv m \<Longrightarrow> am_inv (fst (new_record m a))"
  using index_at_cong [of "fst (new_record m a)" m] index_ok_cong [of "fst (new_record m a)" m]
  by (fastforce simp: am_inv_def new_record_def is_record_def nth_append)

text \<open>Entering a record under its own address.\<close>

lemma am_inv_add:
  assumes "am_inv m" "is_record m k p" "b \<Longrightarrow> \<not> a_Subscribed (am_heap m ! p)"
  shows "am_inv (m\<lparr>am_all := (am_all m)(k \<mapsto> p), am_free := (if b then (am_free m)(k \<mapsto> p) else am_free m),
    am_spawned := n\<rparr>)" (is "am_inv ?m")
proof -
  have idx: "index_at ?m = index_at m" "index_ok ?m = index_ok m"
    by (rule index_at_cong index_ok_cong, simp)+
  have rec: "is_record ?m = is_record m" by (rule ext)+ (simp add: is_record_def)
  show ?thesis
  proof (rule am_invI, goal_cases)
    case (4 k' q)
    with assms show ?case using am_invD(4) [OF assms(1), of k' q] unfolding rec by (cases b; cases "k' = k") auto
  next
    case (3 k' q)
    with assms(2) am_invD(3) [OF assms(1), of k' q] show ?case unfolding rec by (cases "k' = k") auto
  next
    case (5 k' q)
    with am_invD(5) [OF assms(1), of k' q] show ?case unfolding rec idx by auto
  qed (use assms(1) idx in \<open>auto dest: am_invD\<close>)
qed

lemma addAddressUnsafe_inv: "am_inv m \<Longrightarrow> p < length (am_heap m) \<Longrightarrow> am_inv (fst (addAddressUnsafe E m p))"
  unfolding addAddressUnsafe_def Let_def db_save_fst_inv
  by (rule am_inv_add) (auto simp: is_record_def)

text \<open>Subscribing the record the index knows, and dropping it from the free addresses.\<close>

lemma am_inv_subscribe:
  assumes "am_inv m" "is_record m k p" "a_Address a = k"
  shows "am_inv (m\<lparr>am_heap := (am_heap m)[p := a], am_free := (am_free m)(k := None)\<rparr>)" (is "am_inv ?m")
proof -
  have idx: "index_at ?m = index_at m" "index_ok ?m = index_ok m"
    by (rule index_at_cong index_ok_cong, simp)+
  have rec: "is_record ?m k' q = is_record m k' q" for k' q
    using assms(2,3) by (cases "q = p") (auto simp: is_record_def)
  show ?thesis
  proof (rule am_invI, goal_cases)
    case (4 k' q)
    then have f: "am_free m k' = Some q" "k' \<noteq> k" by (auto split: if_splits)
    note am_invD(4) [OF assms(1) f(1)]
    moreover from this f assms(2) have "q \<noteq> p" by (auto simp: is_record_def)
    ultimately show ?case unfolding rec by simp
  qed (use assms(1) idx rec in \<open>auto dest: am_invD\<close>)
qed

lemma a_Address_subscribe [simp]: "a_Address (subscribe_fields sv u i w a) = a_Address a"
  by (simp add: subscribe_fields_def)

lemma a_Subscribed_subscribe [simp]: "a_Subscribed (subscribe_fields sv u i w a)"
  by (simp add: subscribe_fields_def)

text \<open>What the update does, by what the index answers.\<close>

lemma update_subscribe:
  assumes "am_inv m"
  shows "updateAddressUnsafe E m k (\<lambda>a. (subscribe_fields sv u i w a, Ok ())) =
    (case index_at m k of
       None \<Rightarrow> (m, Err ErrAddressUnknown)
     | Some p \<Rightarrow>
         db_save E (m\<lparr>am_heap := (am_heap m)[p := subscribe_fields sv u i w (am_heap m ! p)],
                      am_free := (am_free m)(k := None)\<rparr>) (subscribe_fields sv u i w (am_heap m ! p)))"
proof -
  have l: "LookupString (am_fast m) k = Some (index_at m k, index_at m k \<noteq> None)"
    using am_invD(1) [OF assms] by (simp add: index_ok_def)
  show ?thesis
  proof (cases "index_at m k")
    case (Some p)
    then have "a_Address (am_heap m ! p) = k" using am_invD(5) [OF assms] by (auto simp: is_record_def)
    with l Some show ?thesis by (simp add: updateAddressUnsafe_def)
  qed (simp add: updateAddressUnsafe_def l)
qed

lemma am_inv_checks [simp]: "am_inv (m\<lparr>am_checks := n\<rparr>) = am_inv m" "am_inv (m\<lparr>am_spawned := n\<rparr>) = am_inv m"
  by (rule am_inv_cong; simp)+

lemma update_subscribe_inv:
  assumes "am_inv m" "updateAddressUnsafe E m k (\<lambda>a. (subscribe_fields sv u i w a, Ok ())) = (m', r)"
  shows "am_inv m'"
proof (cases "index_at m k")
  case (Some p)
  with am_invD(5) [OF assms(1)] have rec: "is_record m k p" by blast
  then have "am_inv (m\<lparr>am_heap := (am_heap m)[p := subscribe_fields sv u i w (am_heap m ! p)],
      am_free := (am_free m)(k := None)\<rparr>)"
    by (intro am_inv_subscribe [OF assms(1)]) (simp_all add: is_record_def)
  with assms(2) Some show ?thesis by (simp add: update_subscribe [OF assms(1)] db_save_inv)
qed (use assms in \<open>simp add: update_subscribe\<close>)

lemma GetFree_inv: "am_inv m \<Longrightarrow> am_inv (fst (GetFreeAddressAndSubscribe E m ks sv u i w))"
  by (auto simp: GetFreeAddressAndSubscribe_def dest: update_subscribe_inv split: res.splits prod.splits)

lemma appendKeys_rawPool:
  assumes "am_inv m" "iter_order (am_all m) ks"
  shows "appendKeys (rawPool m ks) [] = ks"
  using am_invD(3) [OF assms(1)] assms(2)
  by (auto simp: rawPool_def iter_order_def is_record_def intro!: map_idI)

text \<open>A run of \<open>updatePool\<close> makes the index the map of all addresses.\<close>

lemma updatePool_index:
  assumes "am_inv m" "iter_order (am_all m) ks" "index_keys_ok ks" "ks \<noteq> []"
  obtains st where "updatePool m ks = (m\<lparr>am_fast := st\<rparr>, Ok ())"
    "\<And>s. LookupString st s = Some (am_all m s, am_all m s \<noteq> None)"
proof -
  have src: "src_get (rawPool m ks) = am_all m" by (simp add: rawPool_def)
  obtain st where "newAddressMemStore (rawPool m ks) = Some st"
    "\<And>s. LookupString st s = Some (am_all m s, am_all m s \<noteq> None)"
    using fast_index.build_map [of "rawPool m ks"] assms appendKeys_rawPool [OF assms(1,2)] src by metis
  with assms(4) that show thesis by (simp add: updatePool_def)
qed

lemma index_at_fast: "(\<And>s. LookupString st s = Some (f s, f s \<noteq> None)) \<Longrightarrow> index_at (m\<lparr>am_fast := st\<rparr>) = f"
  by (rule ext) (auto simp: index_at_def split: bool.splits)

lemma updatePool_inv:
  assumes "am_inv m" "iter_order (am_all m) ks" "index_keys_ok ks"
  shows "am_inv (fst (updatePool m ks)) \<and> snd (updatePool m ks) = Ok () \<and>
    index_at (fst (updatePool m ks)) = am_all m"
proof (cases "ks = []")
  case True
  with assms have "am_all m = Map.empty" by (simp add: iter_order_Nil_iff)
  moreover have "index_at m k = None" for k using am_invD(5) [OF assms(1), of k] calculation by fastforce
  ultimately show ?thesis using True assms(1) by (auto simp: updatePool_def)
next
  case False
  obtain st where st: "updatePool m ks = (m\<lparr>am_fast := st\<rparr>, Ok ())"
    "\<And>s. LookupString st s = Some (am_all m s, am_all m s \<noteq> None)"
    using updatePool_index [OF assms False] by metis
  note idx = index_at_fast [OF st(2), of m]
  have "am_inv (m\<lparr>am_fast := st\<rparr>)"
  proof (rule am_invI, goal_cases)
    case 1
    show ?case by (simp add: index_ok_def idx st(2))
  next
    case (5 k p)
    with am_invD(3) [OF assms(1)] show ?case unfolding idx by (auto simp: is_record_def)
  next
    case (4 k p)
    then show ?case using am_invD(4) [OF assms(1)] by (auto simp: is_record_def)
  qed (use assms(1) in \<open>auto dest: am_invD simp: is_record_def\<close>)
  with st idx show ?thesis by simp
qed


lemma createNewAddress_free: "createNewAddress E d = Ok a \<Longrightarrow> \<not> a_Subscribed a"
  by (auto simp: createNewAddress_def zero_address_def split: res.splits)

lemma GenerateBit44Address_free: "GenerateBit44Address E c d = Ok a \<Longrightarrow> \<not> a_Subscribed a"
  by (auto simp: GenerateBit44Address_def createNewBIP44Address_def bip44EntropyToAddressRecord_def zero_address_def
      split: res.splits if_splits)

text \<open>A new record entered in both maps, as in the refill and in the load.\<close>

lemma am_inv_new_entry:
  assumes "am_inv m" "b \<Longrightarrow> \<not> a_Subscribed a"
  shows "am_inv (m\<lparr>am_heap := am_heap m @ [a], am_all := (am_all m)(a_Address a \<mapsto> length (am_heap m)),
    am_free := (if b then (am_free m)(a_Address a \<mapsto> length (am_heap m)) else am_free m)\<rparr>)" (is "am_inv ?m")
proof -
  let ?n = "fst (new_record m a)"
  have "am_inv (?n\<lparr>am_all := (am_all ?n)(a_Address a \<mapsto> length (am_heap m)),
      am_free := (if b then (am_free ?n)(a_Address a \<mapsto> length (am_heap m)) else am_free ?n), am_spawned := am_spawned m\<rparr>)"
    using assms by (intro am_inv_add am_inv_new_record) (auto simp: new_record_def is_record_def)
  moreover have "am_inv ?m = am_inv (?n\<lparr>am_all := (am_all ?n)(a_Address a \<mapsto> length (am_heap m)),
      am_free := (if b then (am_free ?n)(a_Address a \<mapsto> length (am_heap m)) else am_free ?n), am_spawned := am_spawned m\<rparr>)"
    by (rule am_inv_cong) (simp_all add: new_record_def)
  ultimately show ?thesis by simp
qed

lemma refill_loop_inv: "am_inv m \<Longrightarrow> am_inv (fst (refill_loop E m ds))"
proof (induction ds arbitrary: m)
  case (Cons d ds)
  let ?g = "if pc_Bip39Support (am_config m) then GenerateBit44Address E (am_config m) d else createNewAddress E d"
  show ?case
  proof (cases ?g)
    case (Ok a)
    then have "\<not> a_Subscribed a" using createNewAddress_free GenerateBit44Address_free by (metis (full_types))
    with am_inv_new_entry [OF Cons(2), of True a]
    have inv: "am_inv (m\<lparr>am_heap := am_heap m @ [a], am_all := (am_all m)(a_Address a \<mapsto> length (am_heap m)),
      am_free := (am_free m)(a_Address a \<mapsto> length (am_heap m))\<rparr>)" (is "am_inv ?m1") by simp
    obtain m2 r where s: "db_save E ?m1 a = (m2, r)" by fastforce
    with inv have "am_inv m2" by (simp add: db_save_inv)
    with Cons(1) Ok s show ?thesis by (cases r) (simp_all add: new_record_def)
  qed (use Cons(2) in simp_all)
qed simp

lemma bulk_loop_inv:
  "am_inv m \<Longrightarrow> (\<And>p. Some p \<in> set ps \<Longrightarrow> p < length (am_heap m)) \<Longrightarrow> am_inv (fst (bulk_loop E m ps))"
proof (induction E m ps rule: bulk_loop.induct)
  case (3 E m p ps)
  obtain m' r where a: "addAddressUnsafe E m p = (m', r)" by fastforce
  with addAddressUnsafe_inv [OF 3(5), of p E] 3(6) have "am_inv m'" by simp
  moreover have "am_heap m' = am_heap m"
    using a db_save_keeps(1) by (fastforce simp: addAddressUnsafe_def Let_def)
  ultimately show ?case using 3 a by (cases r) auto
qed auto

lemma load_processor_inv:
  assumes "am_inv m" "load_processor E raw m = (m', r)"
  shows "am_inv m'"
proof (cases "env_gob_decode E raw")
  case (Some a)
  with assms am_inv_new_entry [OF assms(1), of "\<not> a_Subscribed a" a] show ?thesis
    by (auto simp: load_processor_def new_record_def)
qed (use assms in \<open>auto simp: load_processor_def\<close>)

lemma read_loop_inv:
  assumes "\<And>k raw s s' r. P s \<Longrightarrow> proc k raw s = (s', r) \<Longrightarrow> P s'" "P s" "read_loop proc its s = (s', r)"
  shows "P s'"
  using assms(2,3)
proof (induction its arbitrary: s)
  case (Cons it its)
  obtain k v where it: "it = (k, v)" by fastforce
  show ?case
  proof (cases v)
    case (Ok raw)
    obtain t q where "proc k raw s = (t, q)" by fastforce
    with Cons assms(1) [of s k raw t q] Ok it show ?thesis by (cases q) auto
  qed (use Cons it in auto)
qed simp

lemma newAddressMemStore_null: "newAddressMemStore nullStore = Some [zeroObjectValue]"
  by (simp add: newAddressMemStore_def nullStore_def)

lemma am_inv_new_manager: "am_inv (new_manager db c)"
proof -
  have l: "LookupString [zeroObjectValue :: nat objectValue] s = Some (None, False)" for s
    using fast_index.build_lookup [of nullStore] unfolding newAddressMemStore_null
    by (simp add: nullStore_def index_keys_ok_def)
  then have "index_at (new_manager db c) = Map.empty"
    by (intro ext) (simp add: index_at_def new_manager_def newAddressMemStore_null)
  with l show ?thesis
    by (auto simp: am_inv_def index_ok_def new_manager_def newAddressMemStore_null)
qed

section \<open>Reachable states\<close>

text \<open>
  The critical sections of the manager in any order: the caller of \<open>AddAddressRecord\<close> checks the index
  before it takes the lock, so the addition itself is a step with no guard on what the maps hold.
  \<open>updatePool\<close> runs at any time; the addresses are assumed to fit the index.
\<close>

inductive am_reach :: "'db am_env \<Rightarrow> 'db Manager \<Rightarrow> bool" for E where
  am_start: "am_reach E (new_manager db c)"
| am_load: "am_reach E m \<Longrightarrow> am_db m = Some db \<Longrightarrow>
    am_reach E (fst (BadgerStorage_ReadAll (env_kv E) db (load_processor E) m))"
| am_update: "am_reach E m \<Longrightarrow> iter_order (am_all m) ks \<Longrightarrow> index_keys_ok ks \<Longrightarrow> am_reach E (fst (updatePool m ks))"
| am_subscribe: "am_reach E m \<Longrightarrow> iter_order (am_free m) ks \<Longrightarrow>
    am_reach E (fst (GetFreeAddressAndSubscribe E m ks sv u i w))"
| am_alloc: "am_reach E m \<Longrightarrow> am_reach E (fst (new_record m a))"
| am_add: "am_reach E m \<Longrightarrow> p < length (am_heap m) \<Longrightarrow> am_reach E (fst (addAddressUnsafe E m p))"
| am_bulk: "am_reach E m \<Longrightarrow> (\<And>p. Some p \<in> set ps \<Longrightarrow> p < length (am_heap m)) \<Longrightarrow>
    am_reach E (fst (AddAddressRecordsBulk E m ps))"
| am_refill: "am_reach E m \<Longrightarrow> am_reach E (fst (refillFreeAddressPool E m n draws))"

lemma am_reach_am_inv: "am_reach E m \<Longrightarrow> am_inv m"
proof (induction rule: am_reach.induct)
  case (am_load m db)
  then show ?case
    unfolding BadgerStorage_ReadAll_def
    by (cases "read_loop (\<lambda>_. load_processor E) (kv_items (env_kv E) db) m")
      (auto elim!: read_loop_inv [rotated 2] dest: load_processor_inv)
next
  case (am_bulk m ps)
  then show ?case by (auto simp: AddAddressRecordsBulk_def intro: bulk_loop_inv)
qed (simp_all add: am_inv_new_manager updatePool_inv GetFree_inv am_inv_new_record addAddressUnsafe_inv
    refillFreeAddressPool_def refill_loop_inv)


text \<open>
  C2. The address maps, the index and the records agree in every reachable state, whatever the
  interleaving of imports, refills, subscriptions and index updates and whichever storage calls fail:
  no lookup panics; every entry of \<open>allAddresses\<close>, of \<open>freeAddresses\<close> and of the index points to a record
  with that address; a free address is known and its record is not subscribed; the index knows only
  addresses of \<open>allAddresses\<close>.
\<close>
theorem am_reach_invariant: "am_reach E m \<Longrightarrow> am_inv m"
  by (rule am_reach_am_inv)

section \<open>Handing out addresses\<close>

text \<open>
  A state in which the index is up to date and the free addresses are the unsubscribed ones: the state
  after loading, and whenever the pending \<open>updatePool\<close> has run.
\<close>

definition free_of :: "'db Manager \<Rightarrow> string \<rightharpoonup> nat" where
  "free_of m k = (case am_all m k of None \<Rightarrow> None | Some p \<Rightarrow> if a_Subscribed (am_heap m ! p) then None else Some p)"

definition pool_synced :: "'db Manager \<Rightarrow> bool" where
  "pool_synced m \<longleftrightarrow> am_inv m \<and> index_at m = am_all m \<and> am_free m = free_of m"

definition storage_ready :: "'db am_env \<Rightarrow> 'db Manager \<Rightarrow> bool" where
  "storage_ready E m \<longleftrightarrow> kv_laws (env_kv E) \<and> am_db m \<noteq> None"

lemma db_save_ready: "storage_ready E m \<Longrightarrow> \<exists>m' r. db_save E m a = (m', r) \<and> r \<noteq> Panic \<and> am_db m' \<noteq> None"
  using Save_no_panic [of "env_kv E" "address_data E" "the (am_db m)" a]
  by (auto simp: storage_ready_def db_save_def split: res.splits)

text \<open>The state after the first entry \<open>k\<close> of the free addresses has been subscribed.\<close>

definition handed_out :: "'db Manager \<Rightarrow> string \<Rightarrow> nat \<Rightarrow> Address \<Rightarrow> 'db Manager \<Rightarrow> bool" where
  "handed_out m k p a m' \<longleftrightarrow> am_all m' = am_all m \<and> am_free m' = (am_free m)(k := None) \<and>
     am_heap m' = (am_heap m)[p := a] \<and> am_fast m' = am_fast m \<and> am_config m' = am_config m"

lemma handed_out_synced:
  assumes "pool_synced m" "am_all m k = Some p" "handed_out m k p a m'" "a_Address a = k" "a_Subscribed a"
  shows "pool_synced m'"
proof -
  have inv: "am_inv m" and rec: "is_record m k p"
    using assms(1,2) am_invD(3) by (auto simp: pool_synced_def)
  have "am_inv m'"
    using am_inv_subscribe [OF inv rec assms(4)] am_inv_cong [of m' "m\<lparr>am_heap := (am_heap m)[p := a], am_free := (am_free m)(k := None)\<rparr>"]
      assms(3) by (simp add: handed_out_def)
  moreover have "index_at m' = am_all m'"
    using index_at_cong [of m' m] assms(1,3) by (simp add: handed_out_def pool_synced_def)
  moreover have "am_free m' k' = free_of m' k'" for k'
  proof (cases "k' = k")
    case True
    with assms(2,3,5) rec show ?thesis by (simp add: handed_out_def free_of_def is_record_def)
  next
    case False
    then have "am_all m k' = Some q \<Longrightarrow> q \<noteq> p" for q
      using am_invD(3) [OF inv, of k' q] rec by (auto simp: is_record_def)
    with False assms(1,3) show ?thesis by (auto simp: handed_out_def free_of_def pool_synced_def split: option.splits)
  qed
  ultimately show ?thesis by (auto simp: pool_synced_def)
qed

lemma GetFree_handed_out:
  assumes "pool_synced m" "storage_ready E m" "am_free m k = Some p"
  shows "\<exists>m'. GetFreeAddressAndSubscribe E m (k # ks) sv u i w = (m', Ok p) \<and> am_all m k = Some p \<and>
    handed_out m k p (subscribe_fields sv u i w (am_heap m ! p)) m' \<and> storage_ready E m'"
proof -
  let ?a = "subscribe_fields sv u i w (am_heap m ! p)"
  let ?m = "m\<lparr>am_heap := (am_heap m)[p := ?a], am_free := (am_free m)(k := None)\<rparr>"
  have inv: "am_inv m" and all: "am_all m k = Some p" and idx: "index_at m k = Some p"
    using assms(1,3) by (auto simp: pool_synced_def free_of_def split: option.splits if_splits)
  have k: "a_Address (am_heap m ! p) = k" using am_invD(3) [OF inv all] by (simp add: is_record_def)
  obtain m1 r where s: "db_save E ?m ?a = (m1, r)" "r \<noteq> Panic" "am_db m1 \<noteq> None"
    using db_save_ready [of E ?m ?a] assms(2) by (auto simp: storage_ready_def)
  have up: "updateAddressUnsafe E m k (\<lambda>a. (subscribe_fields sv u i w a, Ok ())) = (m1, r)"
    by (simp add: update_subscribe [OF inv] idx s(1))
  have "GetFreeAddressAndSubscribe E m (k # ks) sv u i w = (m1\<lparr>am_checks := am_checks m1 + 1\<rparr>, Ok p)"
    using s(2) by (cases r) (simp_all add: GetFreeAddressAndSubscribe_def getFreeAddressUnsafe_def assms(3) k up)
  moreover have "handed_out m k p ?a (m1\<lparr>am_checks := am_checks m1 + 1\<rparr>)"
    using db_save_keeps [OF s(1)] by (simp add: handed_out_def)
  ultimately show ?thesis using all assms(2) s(3) by (auto simp: storage_ready_def)
qed

lemma GetFree_synced:
  assumes "pool_synced m" "storage_ready E m" "am_free m k = Some p"
  shows "\<exists>m'. GetFreeAddressAndSubscribe E m (k # ks) sv u i w = (m', Ok p) \<and> pool_synced m' \<and> storage_ready E m' \<and>
    am_all m' = am_all m \<and> am_free m' = (am_free m)(k := None) \<and>
    am_heap m' = (am_heap m)[p := subscribe_fields sv u i w (am_heap m ! p)]"
proof -
  obtain m' where m': "GetFreeAddressAndSubscribe E m (k # ks) sv u i w = (m', Ok p)" "am_all m k = Some p"
    "handed_out m k p (subscribe_fields sv u i w (am_heap m ! p)) m'" "storage_ready E m'"
    using GetFree_handed_out [OF assms] by blast
  have "a_Address (am_heap m ! p) = k"
    using am_invD(3) [of m k p] m'(2) assms(1) by (simp add: pool_synced_def is_record_def)
  then have "pool_synced m'" using handed_out_synced [OF assms(1) m'(2,3)] by simp
  with m' show ?thesis by (auto simp: handed_out_def)
qed


type_synonym request = "((string \<rightharpoonup> nat) \<Rightarrow> string list) \<times> int \<times> int \<times> int \<times> bool"

text \<open>
  A sequence of requests for a new address. Each request comes with the order in which its range over
  the free addresses visits them.
\<close>

fun serve :: "'db am_env \<Rightarrow> 'db Manager \<Rightarrow> request list \<Rightarrow> 'db Manager \<times> (am_error, nat) res list" where
  "serve E m [] = (m, [])"
| "serve E m ((ord, sv, u, i, w) # rs) =
     (let (m1, r) = GetFreeAddressAndSubscribe E m (ord (am_free m)) sv u i w;
          (m2, out) = serve E m1 rs
      in (m2, r # out))"

definition orders_ok :: "request list \<Rightarrow> bool" where
  "orders_ok rs \<longleftrightarrow> (\<forall>r \<in> set rs. \<forall>f. finite (dom f) \<longrightarrow> iter_order f (fst r f))"

fun marked :: "request \<Rightarrow> Address \<Rightarrow> Address" where
  "marked (ord, sv, u, i, w) a = subscribe_fields sv u i w a"

definition served :: "'db Manager \<Rightarrow> request list \<Rightarrow> 'db Manager \<Rightarrow> nat list \<Rightarrow> bool" where
  "served m rs m' ps \<longleftrightarrow> length ps = min (length rs) (card (dom (am_free m))) \<and> distinct ps \<and>
     set ps \<subseteq> ran (am_free m) \<and>
     (\<forall>j < length ps. am_heap m' ! (ps ! j) = marked (rs ! j) (am_heap m ! (ps ! j))) \<and>
     (\<forall>q. q \<notin> set ps \<longrightarrow> am_heap m' ! q = am_heap m ! q)"

lemma synced_finite_free: "pool_synced m \<Longrightarrow> finite (dom (am_free m))"
  using am_invD(2,4) [of m] by (meson domD finite_subset pool_synced_def subsetI)

lemma ran_free_delete:
  assumes "pool_synced m" "am_free m k = Some p"
  shows "ran ((am_free m)(k := None)) = ran (am_free m) - {p}"
proof -
  have "k' = k" if "am_free m k' = Some p" for k'
    using am_invD(4) [of m k p] am_invD(4) [of m k' p] assms that by (auto simp: pool_synced_def is_record_def)
  then have "(\<exists>k'. ((am_free m)(k := None)) k' = Some q) \<longleftrightarrow> (\<exists>k'. am_free m k' = Some q) \<and> q \<noteq> p" for q
    using assms(2) by (metis fun_upd_apply option.distinct(1) option.inject)
  then show ?thesis unfolding ran_def by blast
qed

lemma card_dom_delete: "finite (dom f) \<Longrightarrow> f k = Some p \<Longrightarrow> card (dom f) = Suc (card (dom (f(k := None))))"
  using card.remove [of "dom f" k] by (simp add: domI)

lemma served_step:
  assumes "pool_synced m" "am_free m k = Some p" "am_free m1 = (am_free m)(k := None)"
    "am_heap m1 = (am_heap m)[p := marked r (am_heap m ! p)]" "served m1 rs m' ps"
  shows "served m (r # rs) m' (p # ps)"
proof -
  have ran: "ran (am_free m1) = ran (am_free m) - {p}" using ran_free_delete [OF assms(1,2)] assms(3) by simp
  have p: "p < length (am_heap m)" "p \<in> ran (am_free m)"
    using am_invD(4) [of m k p] assms(1,2) by (auto simp: pool_synced_def is_record_def ran_def)
  have "p \<notin> set ps" using assms(5) ran by (auto simp: served_def)
  moreover have "card (dom (am_free m)) = Suc (card (dom (am_free m1)))"
    using card_dom_delete [OF synced_finite_free [OF assms(1)] assms(2)] assms(3) by simp
  moreover have "am_heap m' ! ((p # ps) ! j) = marked ((r # rs) ! j) (am_heap m ! ((p # ps) ! j))"
    if "j < length (p # ps)" for j
  proof (cases j)
    case 0
    have "am_heap m' ! p = am_heap m1 ! p" using assms(5) \<open>p \<notin> set ps\<close> unfolding served_def by blast
    with 0 p(1) assms(4) show ?thesis by simp
  next
    case (Suc j')
    with that have "ps ! j' \<noteq> p" using \<open>p \<notin> set ps\<close> by (metis Suc_less_eq length_Cons nth_mem)
    moreover have "am_heap m' ! (ps ! j') = marked (rs ! j') (am_heap m1 ! (ps ! j'))"
      using assms(5) Suc that unfolding served_def by simp
    ultimately show ?thesis using Suc assms(4) by simp
  qed
  moreover have "am_heap m' ! q = am_heap m ! q" if "q \<notin> set (p # ps)" for q
  proof -
    have "am_heap m' ! q = am_heap m1 ! q" using assms(5) that unfolding served_def by simp
    with that assms(4) show ?thesis by simp
  qed
  ultimately show ?thesis using assms(5) ran p(2) by (auto simp: served_def)
qed

lemma GetFree_none: "am_free m = Map.empty \<Longrightarrow> iter_order (am_free m) ks \<Longrightarrow>
  GetFreeAddressAndSubscribe E m ks sv u i w = (m\<lparr>am_checks := am_checks m + 1\<rparr>, Err ErrNoFreeAddresses)"
  by (simp add: iter_order_def GetFreeAddressAndSubscribe_def getFreeAddressUnsafe_def)

lemma pool_synced_checks: "pool_synced m \<Longrightarrow> pool_synced (m\<lparr>am_checks := n\<rparr>)"
  using index_at_cong [of "m\<lparr>am_checks := n\<rparr>" m]
  by (auto simp: pool_synced_def free_of_def fun_eq_iff split: option.splits)

lemma serve_served:
  assumes "pool_synced m" "storage_ready E m" "orders_ok rs"
  shows "\<exists>m' ps. serve E m rs = (m', map Ok ps @ replicate (length rs - length ps) (Err ErrNoFreeAddresses)) \<and>
    served m rs m' ps"
  using assms
proof (induction rs arbitrary: m)
  case Nil
  then show ?case by (auto simp: served_def)
next
  case (Cons r rs)
  obtain ord sv u i w where r: "r = (ord, sv, u, i, w)" by (cases r)
  have ord: "iter_order (am_free m) (ord (am_free m))" and ok: "orders_ok rs"
    using Cons.prems(3) synced_finite_free [OF Cons.prems(1)] by (auto simp: orders_ok_def r)
  show ?case
  proof (cases "ord (am_free m)")
    case Nil
    then have em: "am_free m = Map.empty" using ord by (simp add: iter_order_Nil_iff)
    let ?m = "m\<lparr>am_checks := am_checks m + 1\<rparr>"
    have g: "GetFreeAddressAndSubscribe E m (ord (am_free m)) sv u i w = (?m, Err ErrNoFreeAddresses)"
      using GetFree_none [OF em ord] .
    obtain m' ps where m': "serve E ?m rs = (m', map Ok ps @ replicate (length rs - length ps) (Err ErrNoFreeAddresses))"
      "served ?m rs m' ps"
      using Cons.IH [of ?m] Cons.prems(1,2) ok pool_synced_checks by (auto simp: storage_ready_def)
    then have "ps = []" using em by (simp add: served_def)
    with m' em g show ?thesis by (intro exI [of _ m'] exI [of _ "[]"]) (simp add: r served_def)
  next
    case (Cons k ks)
    then obtain p where p: "am_free m k = Some p" using ord by (auto simp: iter_order_def)
    obtain m1 where m1: "GetFreeAddressAndSubscribe E m (k # ks) sv u i w = (m1, Ok p)" "pool_synced m1"
      "storage_ready E m1" "am_free m1 = (am_free m)(k := None)"
      "am_heap m1 = (am_heap m)[p := marked r (am_heap m ! p)]"
      using GetFree_synced [OF Cons.prems(1,2) p, of ks sv u i w] unfolding r marked.simps by blast
    obtain m' ps where m': "serve E m1 rs = (m', map Ok ps @ replicate (length rs - length ps) (Err ErrNoFreeAddresses))"
      "served m1 rs m' ps"
      using Cons.IH [OF m1(2,3) ok] by blast
    have "served m (r # rs) m' (p # ps)" using served_step [OF Cons.prems(1) p m1(4,5) m'(2)] .
    with m'(1) m1(1) Cons show ?thesis by (intro exI [of _ m'] exI [of _ "p # ps"]) (simp add: r)
  qed
qed



text \<open>
  C34. With a stale index the same address is handed out again: while a free address is not yet in the
  index (its import or refill has not been followed by \<open>updatePool\<close>), a request that picks it returns it
  although the subscription failed; nothing of the pool changes, so the record is not subscribed, the
  address stays free, and the next request that picks it, of any other service, gets the same record.
\<close>
theorem stale_index_hands_out_twice:
  assumes "am_inv m" "am_free m k = Some p" "index_at m k = None"
  shows "GetFreeAddressAndSubscribe E m (k # ks) sv u i w = (m\<lparr>am_checks := am_checks m + 1\<rparr>, Ok p) \<and>
    snd (GetFreeAddressAndSubscribe E (fst (GetFreeAddressAndSubscribe E m (k # ks) sv u i w)) (k # ks') sv' u' i' w') = Ok p \<and>
    \<not> a_Subscribed (am_heap m ! p)"
proof -
  have stale: "GetFreeAddressAndSubscribe E m (k # ks) sv u i w = (m\<lparr>am_checks := am_checks m + 1\<rparr>, Ok p)"
    if "am_inv m" "am_free m k = Some p" "index_at m k = None" for m and ks :: "string list" and sv u i w
  proof -
    have "a_Address (am_heap m ! p) = k" using am_invD(4) [OF that(1,2)] by (simp add: is_record_def)
    then show ?thesis
      by (simp add: GetFreeAddressAndSubscribe_def getFreeAddressUnsafe_def that(2) update_subscribe [OF that(1)] that(3))
  qed
  have "index_at (m\<lparr>am_checks := am_checks m + 1\<rparr>) k = None"
    using assms(3) index_at_cong [of "m\<lparr>am_checks := am_checks m + 1\<rparr>" m] by simp
  with assms stale [OF assms, of ks sv u i w] stale [of "m\<lparr>am_checks := am_checks m + 1\<rparr>" ks' sv' u' i' w']
    am_invD(4) [OF assms(1,2)] show ?thesis by simp
qed

section \<open>Bulk import\<close>

lemma addAddressUnsafe_keeps:
  assumes "addAddressUnsafe E m p = (m', r)"
  shows "am_heap m' = am_heap m" "am_all m' = (am_all m)(a_Address (am_heap m ! p) \<mapsto> p)"
    "am_free m' = (if a_Subscribed (am_heap m ! p) then am_free m else (am_free m)(a_Address (am_heap m ! p) \<mapsto> p))"
  using db_save_keeps [OF assms [unfolded addAddressUnsafe_def Let_def]] by simp_all

definition in_db :: "'db am_env \<Rightarrow> 'db Manager \<Rightarrow> bytes \<Rightarrow> Address \<Rightarrow> bool" where
  "in_db E m key a \<longleftrightarrow> key \<noteq> [] \<and> a_Address a \<noteq> [] \<and>
     (\<exists>db. am_db m = Some db \<and> BadgerStorage_Read (env_kv E) (address_data E) db key = Ok a)"

lemma isAddressInDB_iff: "isAddressInDBUnsafe E m a \<longleftrightarrow> (\<exists>b. in_db E m (a_AddressBytes a) b)"
  by (auto simp: isAddressInDBUnsafe_def in_db_def split: option.splits res.splits)

lemma in_db_save:
  assumes "kv_laws (env_kv E)" "db_save E m a = (m', r)" "in_db E m key b" "key \<noteq> a_AddressBytes a"
  shows "in_db E m' key b"
proof (cases "\<exists>db'. am_db m' = Some db' \<and> am_db m' \<noteq> am_db m")
  case True
  then obtain db db' where db: "am_db m = Some db" "am_db m' = Some db'"
    "BadgerStorage_Save (env_kv E) (address_data E) db a = Ok db'"
    using assms(2) by (auto simp: db_save_def split: option.splits res.splits)
  then have "kv_get (env_kv E) db' key = kv_get (env_kv E) db key"
    using kv_set_get [OF assms(1)] assms(4) unfolding Save_Ok_iff by (auto simp: address_data_def)
  with assms(3) db show ?thesis by (auto simp: in_db_def BadgerStorage_Read_def)
next
  case False
  then have "am_db m' = am_db m" using assms(2) by (auto simp: db_save_def split: option.splits res.splits)
  with assms(3) show ?thesis by (simp add: in_db_def)
qed

definition kept :: "'db am_env \<Rightarrow> 'db Manager \<Rightarrow> 'db Manager \<Rightarrow> bool" where
  "kept E m m' \<longleftrightarrow> am_heap m' = am_heap m \<and>
     (\<forall>k p. am_all m k = Some p \<longrightarrow> am_all m' k = Some p \<and> am_free m' k = am_free m k) \<and>
     (\<forall>key a. in_db E m key a \<longrightarrow> in_db E m' key a)"

lemma kept_trans: "kept E m m1 \<Longrightarrow> kept E m1 m2 \<Longrightarrow> kept E m m2"
  by (auto simp: kept_def)

lemma addAddressUnsafe_kept:
  assumes "kv_laws (env_kv E)" "addAddressUnsafe E m p = (m', r)" "am_all m (a_Address (am_heap m ! p)) = None"
    "\<not> isAddressInDBUnsafe E m (am_heap m ! p)"
  shows "kept E m m'"
proof -
  have "in_db E m' key b" if "in_db E m key b" for key b
  proof -
    have "key \<noteq> a_AddressBytes (am_heap m ! p)" using that assms(4) unfolding isAddressInDB_iff by blast
    with in_db_save [OF assms(1) assms(2) [unfolded addAddressUnsafe_def Let_def], of key b] that
    show ?thesis by (simp add: in_db_def)
  qed
  with addAddressUnsafe_keeps [OF assms(2)] assms(3) show ?thesis by (auto simp: kept_def)
qed

lemma bulk_loop_kept:
  assumes "kv_laws (env_kv E)" "bulk_loop E m ps = (m', r)"
  shows "kept E m m' \<and> (r = Ok () \<longrightarrow> (\<forall>p. Some p \<in> set ps \<and> a_Address (am_heap m ! p) \<noteq> [] \<longrightarrow>
    am_all m' (a_Address (am_heap m ! p)) \<noteq> None \<or> isAddressInDBUnsafe E m' (am_heap m ! p)))"
  using assms
proof (induction E m ps rule: bulk_loop.induct)
  case (3 E m p ps)
  let ?a = "am_heap m ! p"
  consider "a_Address ?a = [] \<or> am_all m (a_Address ?a) \<noteq> None \<or> isAddressInDBUnsafe E m ?a"
    | "a_Address ?a \<noteq> []" "am_all m (a_Address ?a) = None" "\<not> isAddressInDBUnsafe E m ?a" by blast
  then show ?case
  proof cases
    case 1
    then have l: "bulk_loop E m ps = (m', r)" using 3(6) unfolding bulk_loop.simps(3) by metis
    then have "kept E m m' \<and> (r = Ok () \<longrightarrow> (\<forall>p. Some p \<in> set ps \<and> a_Address (am_heap m ! p) \<noteq> [] \<longrightarrow>
        am_all m' (a_Address (am_heap m ! p)) \<noteq> None \<or> isAddressInDBUnsafe E m' (am_heap m ! p)))"
      using 3(1,2,3,5) 1 by blast
    moreover from this 1 have "a_Address ?a = [] \<or> am_all m' (a_Address ?a) \<noteq> None \<or> isAddressInDBUnsafe E m' ?a"
      unfolding isAddressInDB_iff kept_def by blast
    ultimately show ?thesis by auto
  next
    case 2
    obtain m1 q where a: "addAddressUnsafe E m p = (m1, q)" by fastforce
    note k = addAddressUnsafe_kept [OF 3(5) a 2(2,3)] addAddressUnsafe_keeps [OF a]
    show ?thesis
    proof (cases q)
      case (Ok x)
      then have l: "bulk_loop E m1 ps = (m', r)" using 3(6) 2 a by simp
      have ih: "kept E m1 m' \<and> (r = Ok () \<longrightarrow> (\<forall>p. Some p \<in> set ps \<and> a_Address (am_heap m1 ! p) \<noteq> [] \<longrightarrow>
        am_all m' (a_Address (am_heap m1 ! p)) \<noteq> None \<or> isAddressInDBUnsafe E m' (am_heap m1 ! p)))"
        using 3(4) [OF 2(1) _ 2(3) a [symmetric] Ok 3(5) l] 2(2) by simp
      moreover have "am_all m' (a_Address ?a) \<noteq> None" using ih k(3) by (simp add: kept_def)
      ultimately show ?thesis using kept_trans [OF k(1)] k(2) by auto
    qed (use 3(6) 2 a k(1) in auto)
  qed
qed (auto simp: kept_def)


text \<open>
  A bulk import overwrites nothing: records whose address is already managed keep their record and
  their free or subscribed status, database entries that exist keep their value, and when the import
  succeeds every non-nil record with an address is afterwards managed or in the database.
\<close>
lemma AddAddressRecordsBulk_keeps:
  assumes "kv_laws (env_kv E)" "AddAddressRecordsBulk E m ps = (m', r)"
  shows "am_heap m' = am_heap m \<and>
    (\<forall>k p. am_all m k = Some p \<longrightarrow> am_all m' k = Some p \<and> am_free m' k = am_free m k) \<and>
    (\<forall>key a. in_db E m key a \<longrightarrow> in_db E m' key a) \<and>
    (r = Ok () \<longrightarrow> (\<forall>p. Some p \<in> set ps \<and> a_Address (am_heap m ! p) \<noteq> [] \<longrightarrow>
       am_all m' (a_Address (am_heap m ! p)) \<noteq> None \<or> isAddressInDBUnsafe E m' (am_heap m ! p)))"
proof (cases "ps = []")
  case False
  with assms(2) bulk_loop_kept [OF assms(1), of m ps m' r] show ?thesis
    by (simp add: AddAddressRecordsBulk_def kept_def)
qed (use assms(2) in \<open>simp add: AddAddressRecordsBulk_def\<close>)

section \<open>Loading\<close>

definition stored_records :: "'db am_env \<Rightarrow> 'db \<Rightarrow> Address list" where
  "stored_records E db =
     map (\<lambda>(k, v). the (env_gob_decode E (case v of Ok raw \<Rightarrow> raw | _ \<Rightarrow> []))) (kv_items (env_kv E) db)"

definition readable :: "'db am_env \<Rightarrow> 'db \<Rightarrow> bool" where
  "readable E db \<longleftrightarrow> (\<forall>(k, v) \<in> set (kv_items (env_kv E) db). \<exists>raw a. v = Ok raw \<and> env_gob_decode E raw = Some a)"

definition load1 :: "Address \<Rightarrow> 'db Manager \<Rightarrow> 'db Manager" where
  "load1 a m = m\<lparr>am_heap := am_heap m @ [a], am_all := (am_all m)(a_Address a \<mapsto> length (am_heap m)),
     am_free := (if \<not> a_Subscribed a then (am_free m)(a_Address a \<mapsto> length (am_heap m)) else am_free m)\<rparr>"

lemma ReadAll_load:
  assumes "readable E db"
  shows "BadgerStorage_ReadAll (env_kv E) db (load_processor E) m = (fold load1 (stored_records E db) m, Ok ())"
  unfolding BadgerStorage_ReadAll_def stored_records_def
  using assms by (intro read_loop_fold) (auto simp: readable_def load_processor_def load1_def new_record_def)

lemma fold_load_inv: "am_inv m \<Longrightarrow> am_inv (fold load1 rs m)"
proof (induction rs arbitrary: m)
  case (Cons a rs)
  have "am_inv (load1 a m)" unfolding load1_def by (rule am_inv_new_entry [OF Cons(2)])
  with Cons(1) show ?case by simp
qed simp

lemma fold_load:
  assumes "am_heap m = []" "am_all m = Map.empty" "am_free m = Map.empty" "distinct (map a_Address rs)"
  shows "am_heap (fold load1 rs m) = rs \<and> am_db (fold load1 rs m) = am_db m \<and>
    (\<forall>k p. am_all (fold load1 rs m) k = Some p \<longleftrightarrow> p < length rs \<and> a_Address (rs ! p) = k) \<and>
    (\<forall>k p. am_free (fold load1 rs m) k = Some p \<longleftrightarrow>
       p < length rs \<and> a_Address (rs ! p) = k \<and> \<not> a_Subscribed (rs ! p))"
  using assms(4)
proof (induction rs rule: rev_induct)
  case (snoc a rs)
  then have ih: "am_heap (fold load1 rs m) = rs" "am_db (fold load1 rs m) = am_db m"
    "\<And>k p. am_all (fold load1 rs m) k = Some p \<longleftrightarrow> p < length rs \<and> a_Address (rs ! p) = k"
    "\<And>k p. am_free (fold load1 rs m) k = Some p \<longleftrightarrow> p < length rs \<and> a_Address (rs ! p) = k \<and> \<not> a_Subscribed (rs ! p)"
    by auto
  have ne: "a_Address (rs ! p) \<noteq> a_Address a" if "p < length rs" for p
  proof -
    have "a_Address a \<notin> a_Address ` set rs" using snoc(2) by simp
    with nth_mem [OF that] show ?thesis by (metis imageI)
  qed
  have snoc_iff: "(p < Suc (length rs) \<and> Q ((rs @ [a]) ! p)) \<longleftrightarrow> p < length rs \<and> Q (rs ! p) \<or> p = length rs \<and> Q a" for p Q
    by (cases "p < length rs") (auto simp: nth_append less_Suc_eq)
  have "am_all (fold load1 (rs @ [a]) m) k = Some p \<longleftrightarrow> p < Suc (length rs) \<and> a_Address ((rs @ [a]) ! p) = k" for k p
    using ne [of p] ih(3) [of k p] snoc_iff [of p "\<lambda>x. a_Address x = k"]
    by (cases "k = a_Address a") (auto simp: load1_def [of a] ih(1))
  moreover have "am_free (fold load1 (rs @ [a]) m) k = Some p \<longleftrightarrow>
      p < Suc (length rs) \<and> a_Address ((rs @ [a]) ! p) = k \<and> \<not> a_Subscribed ((rs @ [a]) ! p)" for k p
    using ne [of p] ih(4) [of k p] snoc_iff [of p "\<lambda>x. a_Address x = k \<and> \<not> a_Subscribed x"]
    by (cases "k = a_Address a") (auto simp: load1_def [of a] ih(1))
  moreover have "am_heap (fold load1 (rs @ [a]) m) = rs @ [a]" "am_db (fold load1 (rs @ [a]) m) = am_db m"
    using ih(1,2) by (simp_all add: load1_def [of a])
  ultimately show ?case by simp
qed (simp add: assms)


lemma free_of_load:
  assumes "am_heap m = rs" "\<And>k p. am_all m k = Some p \<longleftrightarrow> p < length rs \<and> a_Address (rs ! p) = k"
    "\<And>k p. am_free m k = Some p \<longleftrightarrow> p < length rs \<and> a_Address (rs ! p) = k \<and> \<not> a_Subscribed (rs ! p)"
  shows "am_free m = free_of m"
proof
  fix k
  show "am_free m k = free_of m k"
  proof (cases "am_all m k")
    case None
    then have "am_free m k \<noteq> Some p" for p using assms(2) [of k p] assms(3) [of k p] by auto
    with None show ?thesis by (cases "am_free m k") (auto simp: free_of_def)
  next
    case (Some p)
    then have "q < length rs \<and> a_Address (rs ! q) = k \<longleftrightarrow> q = p" for q using assms(2) [of k q] by auto
    then have "am_free m k = Some q \<longleftrightarrow> q = p \<and> \<not> a_Subscribed (rs ! q)" for q using assms(3) [of k q] by blast
    with Some show ?thesis by (cases "am_free m k") (auto simp: free_of_def assms(1))
  qed
qed

lemma preLoad_state:
  assumes "readable E db" "distinct (map a_Address (stored_records E db))"
    "distinct ks" "set ks = a_Address ` set (stored_records E db)" "index_keys_ok ks"
  shows "\<exists>m. preLoadAddresses E (new_manager (Some db) c) ks = (m, Ok ()) \<and> pool_synced m \<and> am_db m = Some db \<and>
    am_heap m = stored_records E db \<and>
    (\<forall>k p. am_all m k = Some p \<longleftrightarrow> p < length (am_heap m) \<and> a_Address (am_heap m ! p) = k)"
proof -
  let ?rs = "stored_records E db"
  define m where "m = fold load1 ?rs (new_manager (Some db) c)"
  have new: "am_heap (new_manager (Some db) c) = []" "am_all (new_manager (Some db) c) = Map.empty"
    "am_free (new_manager (Some db) c) = Map.empty" "am_db (new_manager (Some db) c) = Some db"
    by (simp_all add: new_manager_def)
  have inv: "am_inv m" unfolding m_def by (rule fold_load_inv [OF am_inv_new_manager])
  have m: "am_heap m = ?rs" "am_db m = Some db"
    "\<And>k p. am_all m k = Some p \<longleftrightarrow> p < length ?rs \<and> a_Address (?rs ! p) = k"
    "\<And>k p. am_free m k = Some p \<longleftrightarrow> p < length ?rs \<and> a_Address (?rs ! p) = k \<and> \<not> a_Subscribed (?rs ! p)"
    using fold_load [OF new(1-3) assms(2)] new(4) unfolding m_def by auto
  have "dom (am_all m) = a_Address ` set ?rs" 
    by (fastforce simp: dom_def m(3) in_set_conv_nth image_iff)
  then have it: "iter_order (am_all m) ks" using assms(3,4) by (simp add: iter_order_def)
  let ?u = "fst (updatePool m ks)"
  have pool: "preLoadAddresses E (new_manager (Some db) c) ks = updatePool m ks"
    by (simp add: preLoadAddresses_def new(4) ReadAll_load [OF assms(1)] m_def)
  have u: "updatePool m ks = (?u, Ok ())" "am_inv ?u" "index_at ?u = am_all m"
    using updatePool_inv [OF inv it assms(5)] by (auto simp: prod_eq_iff)
  have same: "am_heap ?u = ?rs" "am_all ?u = am_all m" "am_free ?u = am_free m" "am_db ?u = Some db"
    using m by (auto simp: updatePool_def split: option.splits)
  have "pool_synced ?u"
    unfolding pool_synced_def using u same free_of_load [of ?u ?rs] m(3,4) by simp
  then show ?thesis using pool u(1) same m(3) by auto
qed


section \<open>A concrete pool\<close>

text \<open>
  A database with two records under the keys 1 and 2, whose serialisation is given by their key.
\<close>

definition demo_free :: Address where
  "demo_free = zero_address\<lparr>a_Address := ''0xa'', a_AddressBytes := [1], a_PrivateKey := [7]\<rparr>"

definition demo_taken :: Address where
  "demo_taken = zero_address\<lparr>a_Address := ''0xb'', a_AddressBytes := [2], a_PrivateKey := [8], a_Subscribed := True\<rparr>"

definition demo_env :: "(bytes \<times> bytes) list am_env" where
  "demo_env = \<lparr> env_kv = al_kv, env_gob_encode = a_AddressBytes,
     env_gob_decode = (\<lambda>raw. if raw = [1] then Some demo_free else if raw = [2] then Some demo_taken else None),
     env_codec = \<lparr> ac_Decode = (\<lambda>_. Ok [1]), ac_PrivateKeyToAddress = (\<lambda>_. Ok (''0xc'', [3])) \<rparr>,
     env_bip = \<lparr> bip_NewMnemonic = (\<lambda>_. Ok []), bip_EntropyFromMnemonic = (\<lambda>_. Ok []), bip_derive = (\<lambda>_ _. Ok []) \<rparr> \<rparr>"

definition demo_db :: "(bytes \<times> bytes) list" where
  "demo_db = [([1], [1]), ([2], [2])]"

definition demo_config :: pool_config where
  "demo_config = \<lparr> pc_Debug = False, pc_defaultBip44Support = False, pc_defaultBip44CoinType = [],
     pc_defaultBip36MnemonicLen = 0, pc_EnableAddressGenerate = False, pc_MinFreePoolSize = 0,
     pc_GeneratePoolUpTo = 0, pc_Bip39Support = False, pc_Bip36MnemonicLen = 0, pc_Bip44CoinType = [],
     pc_Bip32DerivationPath = [] \<rparr>"

lemma demo_items: "kv_items (env_kv demo_env) demo_db = [([1], Ok [1]), ([2], Ok [2])]"
  by (simp add: demo_env_def al_kv_def demo_db_def)

lemma demo_stored: "stored_records demo_env demo_db = [demo_free, demo_taken]"
  by (simp add: stored_records_def demo_items) (simp add: demo_env_def)

lemma demo_addresses: "a_Address demo_free = ''0xa''" "a_Address demo_taken = ''0xb''"
  "\<not> a_Subscribed demo_free" "a_Subscribed demo_taken"
  by (simp_all add: demo_free_def demo_taken_def zero_address_def)

lemma demo_pre:
  "readable demo_env demo_db" "distinct (map a_Address (stored_records demo_env demo_db))"
  "distinct [''0xa'', ''0xb'']" "set [''0xa'', ''0xb''] = a_Address ` set (stored_records demo_env demo_db)"
  "index_keys_ok [''0xa'', ''0xb'']"
  unfolding readable_def demo_items demo_stored by (simp_all add: demo_addresses index_keys_ok_def) (simp_all add: demo_env_def)


lemma demo_loaded:
  "\<exists>m. pool_synced m \<and> am_db m = Some demo_db \<and> am_heap m = [demo_free, demo_taken] \<and> dom (am_free m) = {''0xa''} \<and>
    ran (am_free m) = {0}"
proof -
  obtain m where m: "pool_synced m" "am_db m = Some demo_db" "am_heap m = [demo_free, demo_taken]"
    and all: "\<And>k p. am_all m k = Some p \<longleftrightarrow> p < length (am_heap m) \<and> a_Address (am_heap m ! p) = k"
    using preLoad_state [OF demo_pre, of demo_config] unfolding demo_stored by blast
  have free: "am_free m = free_of m" using m(1) by (simp add: pool_synced_def)
  have "am_free m k = Some p \<longleftrightarrow> k = ''0xa'' \<and> p = 0" for k p
  proof -
    have "am_free m k = Some p \<longleftrightarrow> am_all m k = Some p \<and> \<not> a_Subscribed (am_heap m ! p)"
      by (auto simp: free free_of_def split: option.splits)
    also have "\<dots> \<longleftrightarrow> p < 2 \<and> a_Address (am_heap m ! p) = k \<and> \<not> a_Subscribed (am_heap m ! p)"
      by (simp add: all m(3) numeral_2_eq_2)
    also have "\<dots> \<longleftrightarrow> k = ''0xa'' \<and> p = 0"
      by (auto simp: m(3) less_2_cases_iff demo_addresses)
    finally show ?thesis .
  qed
  then show ?thesis using m by (intro exI [of _ m]) (auto simp: dom_def ran_def)
qed

definition demo_request :: request where
  "demo_request = ((\<lambda>f. sorted_list_of_set (dom f)), 5, 6, 7, False)"



text \<open>The pool right after an import, before \<open>updatePool\<close> has run.\<close>

definition demo_stale :: "(bytes \<times> bytes) list Manager" where
  "demo_stale = fst (addAddressUnsafe demo_env (fst (new_record (new_manager (Some []) demo_config) demo_free)) 0)"

lemma demo_stale_reach: "am_reach demo_env demo_stale"
  unfolding demo_stale_def by (intro am_add am_alloc am_start) (simp add: new_record_def)

lemma demo_stale_state: "am_free demo_stale ''0xa'' = Some 0" "am_heap demo_stale = [demo_free]"
  "am_fast demo_stale = [zeroObjectValue]"
  by (simp_all add: demo_stale_def addAddressUnsafe_def db_save_def new_record_def new_manager_def newAddressMemStore_null
      demo_addresses BadgerStorage_Save_def demo_env_def al_kv_def address_data_def)

theorem am_reach_invariant_witness: "am_inv demo_stale"
  by (rule am_reach_invariant [OF demo_stale_reach])

theorem stale_index_hands_out_twice_witness:
  "am_reach demo_env demo_stale \<and>
   snd (GetFreeAddressAndSubscribe demo_env demo_stale [''0xa''] 1 10 100 False) = Ok 0 \<and>
   snd (GetFreeAddressAndSubscribe demo_env
     (fst (GetFreeAddressAndSubscribe demo_env demo_stale [''0xa''] 1 10 100 False)) [''0xa''] 2 20 200 False) = Ok 0"
proof -
  have "index_at demo_stale ''0xa'' = None"
    by (simp add: index_at_def demo_stale_state LookupString_def Let_def s_at_def zeroObjectValue_def)
  note stale_index_hands_out_twice [OF am_reach_am_inv [OF demo_stale_reach] demo_stale_state(1) this,
      of demo_env "[]" 1 10 100 False "[]" 2 20 200 False]
  then show ?thesis using demo_stale_reach by (metis snd_conv)
qed


end
