(* ===== verification/SubscriptionsCorrect.thy ===== *)
theory SubscriptionsCorrect
  imports Subscriptions AddressPoolCorrect
begin

text \<open>
  Properties of the subscription manager: how often a transaction is notified, what a block event
  confirms, and where gathered coins go.
\<close>

section \<open>Notifications of transaction events\<close>

definition records_keyed :: "'db sub_ops \<Rightarrow> 'db \<Rightarrow> bool" where
  "records_keyed H db \<longleftrightarrow> (\<forall>k r. hold_get H db k = Ok r \<longrightarrow> t_TxID r = k)"

lemma records_keyed_save:
  assumes "hold_laws H" "records_keyed H db" "sub_saveTransaction H db r = Ok db'"
  shows "records_keyed H db'"
  using hold_upsert_get [OF assms(1) assms(3) [unfolded sub_saveTransaction_def]] assms(2)
  by (auto simp: records_keyed_def split: if_splits)

definition first_note :: "TransferInfoRecord \<Rightarrow> TransferNotification" where
  "first_note r = (if t_InPool r then notification_fill r else (notification_fill r)\<lparr>n_Confirmations := 1\<rparr>)"

lemma fill_simps [simp]:
  "n_TxID (notification_fill r) = t_TxID r" "n_InPool (notification_fill r) = t_InPool r"
  "n_TxID (first_note r) = t_TxID r" "n_InPool (first_note r) = t_InPool r"
  by (simp_all add: notification_fill_def first_note_def)

lemma from_info_simps [simp]:
  "t_TxID (fillFromTransferInfo info) = TxID info" "t_InPool (fillFromTransferInfo info) = InPool info"
  "\<not> t_Ignore (fillFromTransferInfo info)"
  by (simp_all add: fillFromTransferInfo_def)

text \<open>The cases of a transaction event that ends normally.\<close>

definition mined :: "TransferInfo \<Rightarrow> TransferInfoRecord \<Rightarrow> TransferInfoRecord" where
  "mined info r = r\<lparr>t_BlockNum := BlockNum info, t_Timestamp := Timestamp info, t_InPool := False\<rparr>"

lemma mined_simps [simp]: "t_TxID (mined info r) = t_TxID r" "\<not> t_InPool (mined info r)" "t_Ignore (mined info r) = t_Ignore r"
  by (simp_all add: mined_def)

lemma transactionEventProcess_cases:
  assumes "transactionEventProcess H db info = Ok (db', n)"
  obtains (quiet) "db' = db" "n = None"
    | (new) "hold_get H db (TxID info) = Err ErrNotFound" "sub_saveTransaction H db (fillFromTransferInfo info) = Ok db'"
        "n = Some (first_note (fillFromTransferInfo info))"
    | (block) r where "hold_get H db (TxID info) = Ok r" "t_InPool r" "sub_saveTransaction H db (mined info r) = Ok db'"
        "n = Some (first_note (mined info r))"
    | (unsaved) r e where "hold_get H db (TxID info) = Ok r" "sub_saveTransaction H db (mined info r) = Err e"
proof (cases "hold_get H db (TxID info)")
  case (Ok r)
  show thesis
  proof (cases "sub_saveTransaction H db (mined info r)")
    case Panic
    with Ok assms show thesis
      by (auto simp: transactionEventProcess_def sub_getTransactionById_def Let_def mined_def
          split: res.splits bool.splits if_splits intro: quiet)
  next
    case (Err e)
    with Ok show thesis by (rule unsaved)
  next
    case s: (Ok db1)
    from Ok s assms show thesis
      using block [OF Ok] quiet
      by (auto simp: transactionEventProcess_def sub_getTransactionById_def Let_def mined_def first_note_def
          split: res.splits bool.splits if_splits)
  qed
next
  case (Err e)
  with assms new quiet show thesis
    by (auto simp: transactionEventProcess_def sub_getTransactionById_def Let_def first_note_def
        split: res.splits if_splits)
next
  case Panic
  with assms show thesis by (simp add: transactionEventProcess_def sub_getTransactionById_def)
qed

text \<open>A sequence of transaction events, and the notifications they start; a panic ends it.\<close>

fun run_events :: "'db sub_ops \<Rightarrow> 'db \<Rightarrow> TransferInfo list \<Rightarrow> 'db \<times> TransferNotification list" where
  "run_events H db [] = (db, [])"
| "run_events H db (info # infos) =
     (case transactionEventProcess H db info of
        Ok (db', n) \<Rightarrow>
          (let (db'', ns) = run_events H db' infos
           in (db'', (case n of None \<Rightarrow> ns | Some n \<Rightarrow> n # ns)))
      | _ \<Rightarrow> (db, []))"

definition notes_of :: "string \<Rightarrow> bool \<Rightarrow> TransferNotification list \<Rightarrow> nat" where
  "notes_of txid pool ns = length (filter (\<lambda>n. n_TxID n = txid \<and> n_InPool n = pool) ns)"

text \<open>How many notifications are still possible for a transaction, by what the database holds of it.\<close>

definition allowed :: "'db sub_ops \<Rightarrow> 'db \<Rightarrow> string \<Rightarrow> bool \<Rightarrow> nat" where
  "allowed H db txid pool =
     (case hold_get H db txid of
        Ok r \<Rightarrow> if t_InPool r \<and> \<not> pool then 1 else 0
      | _ \<Rightarrow> 1)"

lemma notes_of_simps [simp]:
  "notes_of txid pool [] = 0"
  "notes_of txid pool (n # ns) = (if n_TxID n = txid \<and> n_InPool n = pool then 1 else 0) + notes_of txid pool ns"
  by (simp_all add: notes_of_def)

lemma event_allowed:
  assumes "hold_laws H" "\<And>db k r. is_ok (hold_upsert H db k r)" "records_keyed H db"
    "transactionEventProcess H db info = Ok (db', n)"
  shows "records_keyed H db' \<and>
    allowed H db' txid pool + (case n of None \<Rightarrow> 0 | Some n \<Rightarrow> notes_of txid pool [n]) \<le> allowed H db txid pool"
  using assms(4)
proof (cases rule: transactionEventProcess_cases)
  case new
  note get = hold_upsert_get [OF assms(1) new(2) [unfolded sub_saveTransaction_def]]
  show ?thesis using records_keyed_save [OF assms(1,3) new(2)] new(1,3) get [of txid]
    by (auto simp: allowed_def split: res.splits)
next
  case (block r)
  then have txid: "t_TxID r = TxID info" using assms(3) by (simp add: records_keyed_def)
  note get = hold_upsert_get [OF assms(1) block(3) [unfolded sub_saveTransaction_def]]
  show ?thesis using records_keyed_save [OF assms(1,3) block(3)] block(1,2,4) get [of txid] txid
    by (auto simp: allowed_def split: res.splits)
next
  case (unsaved r e)
  then show ?thesis using assms(2) [of db "t_TxID (mined info r)" "mined info r"] by (simp add: sub_saveTransaction_def)
qed (use assms(3) in simp)

lemma run_events_allowed:
  assumes "hold_laws H" "\<And>db k r. is_ok (hold_upsert H db k r)" "records_keyed H db"
  shows "notes_of txid pool (snd (run_events H db infos)) \<le> allowed H db txid pool"
  using assms(3)
proof (induction infos arbitrary: db)
  case (Cons info infos)
  show ?case
  proof (cases "transactionEventProcess H db info")
    case (Ok x)
    obtain db' n where x: "x = (db', n)" by fastforce
    note step = event_allowed [OF assms(1,2) Cons(2) Ok [unfolded x], of txid pool]
    obtain db'' ns where r: "run_events H db' infos = (db'', ns)" by fastforce
    have "notes_of txid pool ns \<le> allowed H db' txid pool" using Cons(1) [of db'] step r by simp
    with step Ok x r show ?thesis by (cases n) auto
  qed auto
qed simp



text \<open>
  A transaction that is not known yet is stored and notified: its event stores the record and starts
  exactly one notification (with one confirmation when it is in a block), and reporting it again, at any
  other time, changes nothing and starts no notification.
\<close>
lemma transactionEvent_new:
  assumes "hold_laws H" "hold_get H db (TxID info) = Err ErrNotFound"
    "is_ok (hold_upsert H db (TxID info) (fillFromTransferInfo info))"
  shows "\<exists>db'. transactionEventProcess H db info = Ok (db', Some (first_note (fillFromTransferInfo info))) \<and>
    hold_get H db' (TxID info) = Ok (fillFromTransferInfo info) \<and>
    (\<forall>ts. transactionEventProcess H db' (info\<lparr>Timestamp := ts\<rparr>) = Ok (db', None))"
proof -
  obtain db' where s: "hold_upsert H db (TxID info) (fillFromTransferInfo info) = Ok db'"
    using assms(3) by (cases "hold_upsert H db (TxID info) (fillFromTransferInfo info)") auto
  have get: "hold_get H db' (TxID info) = Ok (fillFromTransferInfo info)"
    using hold_upsert_get [OF assms(1) s] by simp
  have "transactionEventProcess H db info = Ok (db', Some (first_note (fillFromTransferInfo info)))"
    using assms(2) s by (simp add: transactionEventProcess_def sub_getTransactionById_def sub_saveTransaction_def
        Let_def first_note_def)
  moreover have "isEqual (fillFromTransferInfo info) (info\<lparr>Timestamp := ts\<rparr>) = Ok True" for ts
    by (cases "Amount info"; cases "Fee info") (simp_all add: isEqual_def fillFromTransferInfo_def big_eq_def)
  ultimately show ?thesis using get by (simp add: transactionEventProcess_def sub_getTransactionById_def)
qed

section \<open>Confirmations\<close>

text \<open>The records a block event confirms and those it counts.\<close>

definition open_record :: "TransferInfoRecord \<Rightarrow> bool" where
  "open_record r \<longleftrightarrow> \<not> t_Confirmed r \<and> \<not> t_InPool r"

definition reached :: "int \<Rightarrow> int \<Rightarrow> TransferInfoRecord \<Rightarrow> bool" where
  "reached minConf N r \<longleftrightarrow> open_record r \<and> N - t_BlockNum r \<ge> minConf"

definition confirm_note :: "int \<Rightarrow> TransferInfoRecord \<Rightarrow> TransferNotification" where
  "confirm_note N r = (notification_fill (r\<lparr>t_Confirmed := True\<rparr>))\<lparr>n_Confirmations := N - t_BlockNum r\<rparr>"

definition count_note :: "int \<Rightarrow> TransferInfoRecord \<Rightarrow> TransferNotification" where
  "count_note N r = (notification_fill r)\<lparr>n_Confirmations := N - t_BlockNum r + 1\<rparr>"

lemma confirm_loop_spec:
  assumes "hold_laws H" "\<And>db k r. is_ok (hold_upsert H db k r)" "distinct (map t_TxID txs)"
  shows "\<exists>db'. confirm_loop H N db txs = Ok (db', map (confirm_note N) (filter (\<lambda>r. \<not> t_Ignore r) txs)) \<and>
    (\<forall>k. hold_get H db' k = (if k \<in> t_TxID ` set txs
       then Ok ((the (map_of (map (\<lambda>r. (t_TxID r, r)) txs) k))\<lparr>t_Confirmed := True\<rparr>) else hold_get H db k))"
  using assms(3)
proof (induction txs arbitrary: db)
  case (Cons tx txs)
  obtain db1 where s: "sub_saveTransaction H db (tx\<lparr>t_Confirmed := True\<rparr>) = Ok db1"
    using assms(2) [of db "t_TxID tx" "tx\<lparr>t_Confirmed := True\<rparr>"]
    by (cases "hold_upsert H db (t_TxID tx) (tx\<lparr>t_Confirmed := True\<rparr>)") (auto simp: sub_saveTransaction_def)
  note get = hold_upsert_get [OF assms(1) s [unfolded sub_saveTransaction_def]]
  obtain db' where db': "confirm_loop H N db1 txs = Ok (db', map (confirm_note N) (filter (\<lambda>r. \<not> t_Ignore r) txs))"
    "\<And>k. hold_get H db' k = (if k \<in> t_TxID ` set txs
       then Ok ((the (map_of (map (\<lambda>r. (t_TxID r, r)) txs) k))\<lparr>t_Confirmed := True\<rparr>) else hold_get H db1 k)"
    using Cons.IH [of db1] Cons.prems by auto
  have "confirm_loop H N db (tx # txs) = Ok (db', map (confirm_note N) (filter (\<lambda>r. \<not> t_Ignore r) (tx # txs)))"
    using s db'(1) by (simp add: confirm_note_def)
  moreover have "hold_get H db' k = (if k \<in> t_TxID ` set (tx # txs)
       then Ok ((the (map_of (map (\<lambda>r. (t_TxID r, r)) (tx # txs)) k))\<lparr>t_Confirmed := True\<rparr>) else hold_get H db k)" for k
    using db'(2) [of k] get [of k] Cons.prems by auto
  ultimately show ?case by blast
qed simp

text \<open>A search returns each matching record once, so the ids of its results differ.\<close>

lemma find_distinct:
  assumes "hold_laws H" "records_keyed H db" "hold_find H db q = Ok rs"
  shows "distinct (map t_TxID rs)" "r \<in> set rs \<longleftrightarrow> hold_get H db (t_TxID r) = Ok r \<and> q r"
proof -
  obtain ks where ks: "distinct ks" "map (hold_get H db) ks = map Ok rs"
    using hold_find_keys [OF assms(1,3)] by metis
  have "map t_TxID rs = ks"
  proof (rule nth_equalityI)
    show len: "length (map t_TxID rs) = length ks" using ks(2) by (metis length_map)
    fix i assume "i < length (map t_TxID rs)"
    then have "hold_get H db (ks ! i) = Ok (rs ! i)" using ks(2) len by (metis length_map nth_map)
    with assms(2) \<open>i < length (map t_TxID rs)\<close> show "map t_TxID rs ! i = ks ! i" by (simp add: records_keyed_def)
  qed
  with ks(1) show "distinct (map t_TxID rs)" by simp
  show "r \<in> set rs \<longleftrightarrow> hold_get H db (t_TxID r) = Ok r \<and> q r"
    using hold_find_set [OF assms(1,3), of r] assms(2) by (auto simp: records_keyed_def)
qed

lemma search_ok:
  assumes "hold_laws H" "records_keyed H db" "\<And>q. is_ok (hold_find H db q)"
  obtains la lb where
    "SearchTransactionsAfterBlock H db c = Ok la" "SearchTransactionsBeforeBlock H db c = Ok lb"
    "distinct (map t_TxID la)" "distinct (map t_TxID lb)"
    "\<And>r. r \<in> set la \<longleftrightarrow> hold_get H db (t_TxID r) = Ok r \<and> t_BlockNum r > c \<and> open_record r"
    "\<And>r. r \<in> set lb \<longleftrightarrow> hold_get H db (t_TxID r) = Ok r \<and> t_BlockNum r < c \<and> open_record r"
proof -
  let ?qa = "\<lambda>r. t_BlockNum r > c \<and> \<not> t_Confirmed r \<and> \<not> t_InPool r"
  let ?qb = "\<lambda>r. t_BlockNum r < c \<and> \<not> t_Confirmed r \<and> \<not> t_InPool r"
  obtain a b where f: "hold_find H db ?qa = Ok a" "hold_find H db ?qb = Ok b"
    using assms(3) [of ?qa] assms(3) [of ?qb] by (cases "hold_find H db ?qa"; cases "hold_find H db ?qb") auto
  have sorted: "distinct (map t_TxID (sort_key t_BlockNum xs))" if "distinct (map t_TxID xs)" for xs
    using that by (metis distinct_map distinct_sort set_sort)
  show thesis
  proof (rule that [of "sort_key t_BlockNum a" "sort_key t_BlockNum b"], goal_cases)
    case (5 r)
    show ?case using find_distinct(2) [OF assms(1,2) f(1), of r] by (auto simp: open_record_def)
  next
    case (6 r)
    show ?case using find_distinct(2) [OF assms(1,2) f(2), of r] by (auto simp: open_record_def)
  qed (use f find_distinct(1) [OF assms(1,2)] sorted in
    \<open>auto simp: SearchTransactionsAfterBlock_def SearchTransactionsBeforeBlock_def\<close>)
qed

lemma below_confirmed: "1 \<le> t_BlockNum r \<Longrightarrow> t_BlockNum r < confirmedBlock minConf N \<longleftrightarrow> N - t_BlockNum r \<ge> minConf"
  by (auto simp: confirmedBlock_def Let_def)



definition demo_mined :: TransferInfoRecord where
  "demo_mined = (fillFromTransferInfo (zero_transfer\<lparr>TxID := ''0x1'', BlockNum := 10\<rparr>))"


section \<open>Routing and gathering\<close>

lemma known_record_index:
  assumes "am_inv pool"
  shows "known_record pool s = Ok (map_option (\<lambda>p. am_heap pool ! p) (index_at pool s))"
  using am_invD(1) [OF assms]
  by (cases "index_at pool s") (simp_all add: known_record_def IsAddressKnown_def GetAddress_def index_ok_def)

lemma gather_orders:
  assumes "gatherNativeCoinToMaster H C subs db a n = Ok (db', orders)" "(key, src, dst) \<in> set orders"
  shows "\<exists>s. subs (a_ServiceId a) = Some s \<and> s_GatherToMaster s \<and> s_MasterList s \<noteq> [] \<and> dst = hd (s_MasterList s) \<and>
    n_NativeCoin n \<and> src = a_Address a \<and> key = a_PrivateKey a"
  using assms by (auto simp: gatherNativeCoinToMaster_def SubscriptionGet_def hd_conv_nth Let_def
      split: option.splits res.splits if_splits)

lemma post_incoming_orders:
  assumes "am_inv pool" "post_incoming H C pool subs db n sends = Ok (db', sends', orders)" "(key, src, dst) \<in> set orders"
  shows "\<exists>p s. index_at pool (n_To n) = Some p \<and> subs (a_ServiceId (am_heap pool ! p)) = Some s \<and>
    s_GatherToMaster s \<and> s_MasterList s \<noteq> [] \<and> dst = hd (s_MasterList s) \<and>
    src = n_To n \<and> key = a_PrivateKey (am_heap pool ! p) \<and> n_Confirmed n \<and> n_Success n \<and> n_NativeCoin n"
proof (cases "index_at pool (n_To n)")
  case (Some p)
  let ?a = "am_heap pool ! p"
  have to: "a_Address ?a = n_To n" using am_invD(5) [OF assms(1) Some] by (simp add: is_record_def)
  obtain m where m: "gatherNativeCoinToMaster H C subs db ?a m = Ok (db', orders)" "n_Confirmed n" "n_Success n"
    "n_NativeCoin m = n_NativeCoin n"
    using assms(2,3) by (auto simp: post_incoming_def known_record_index [OF assms(1)] Some res_bind_Ok_iff Let_def
        split: res.splits if_splits)
  show ?thesis using gather_orders [OF m(1) assms(3)] m Some to by auto
qed (use assms in \<open>auto simp: post_incoming_def known_record_index\<close>)



definition demo_gather :: "subscribers" where
  "demo_gather = [0 \<mapsto> zero_subscription\<lparr>s_GatherToMaster := True, s_MasterList := [''0xm'']\<rparr>]"

definition demo_chain :: chain_ops where
  "demo_chain = \<lparr> cl_ChainId = ''eth'', cl_TransferAll = (\<lambda>_ _ _. Err ()), cl_TransferInfoByHash = (\<lambda>_. Err ()) \<rparr>"

definition demo_note :: TransferNotification where
  "demo_note = notification_fill (fillFromTransferInfo
     (zero_transfer\<lparr>From := ''0xa'', To := ''0xa'', Confirmed := True, Success := True, NativeCoin := True\<rparr>))"



end
