(* ===== verification/Base58.thy ===== *)
theory Base58
  imports Hashes
begin

text \<open>
  Base58 and Base58Check (\<open>common/base58\<close>). Numbers are big integers, so the digit loops are recursions on
  natural numbers; the alphabet and the reverse table are the ones of \<open>alphabet.go\<close>.
\<close>

section \<open>Operations\<close>

definition alphabet :: string where
  "alphabet = ''123456789ABCDEFGHJKLMNPQRSTUVWXYZabcdefghijkmnopqrstuvwxyz''"

definition alphabetIdx0 :: char where
  "alphabetIdx0 = CHR ''1''"

text \<open>The table \<open>b58\<close>: 49 bytes that are no digits, then the runs of digits with the gaps between them.\<close>

definition b58 :: "nat list" where
  "b58 = replicate 49 255 @ [0..<9] @ replicate 7 255 @ [9..<17] @ [255] @ [17..<22] @ [255] @ [22..<33] @
     replicate 6 255 @ [33..<44] @ [255] @ [44..<58] @ replicate 133 255"

text \<open>\<open>Decode\<close>: the loop runs from the last character and gives up at the first one that is no digit.\<close>

fun decode_loop :: "string \<Rightarrow> nat \<Rightarrow> nat \<Rightarrow> nat option" where
  "decode_loop [] answer j = Some answer"
| "decode_loop (c # cs) answer j =
     (let tmp = b58 ! of_char c
      in if tmp = 255 then None else decode_loop cs (answer + j * tmp) (j * 58))"

definition Decode58 :: "string \<Rightarrow> bytes" where
  "Decode58 b =
     (case decode_loop (rev b) 0 1 of
        None \<Rightarrow> []
      | Some answer \<Rightarrow>
          (let tmpval = be_bytes answer;
               numZeros = length (takeWhile (\<lambda>c. c = alphabetIdx0) b)
           in replicate numZeros 0 @ tmpval))"

function encode_loop :: "nat \<Rightarrow> string" where
  "encode_loop x = (if x > 0 then alphabet ! (x mod 58) # encode_loop (x div 58) else [])"
  by pat_completeness auto
termination
  by (relation "measure (\<lambda>x. x)") auto

declare encode_loop.simps [simp del]

text \<open>The reversal in place, by swaps up to the middle.\<close>

definition reverse_swaps :: "'a list \<Rightarrow> 'a list" where
  "reverse_swaps xs =
     (let alen = length xs
      in foldl (\<lambda>a i. a[i := a ! (alen - 1 - i), alen - 1 - i := a ! i]) xs [0..<alen div 2])"

definition Encode58 :: "bytes \<Rightarrow> string" where
  "Encode58 b =
     (let answer = encode_loop (be_value b);
          answer = answer @ replicate (length (takeWhile (\<lambda>i. i = 0) b)) alphabetIdx0
      in reverse_swaps answer)"

datatype base58_error = ErrChecksum | ErrInvalidFormat

definition checksum58 :: "bytes \<Rightarrow> bytes" where
  "checksum58 input = take 4 (sha256_sum (sha256_sum input))"

definition CheckEncode :: "bytes \<Rightarrow> byte \<Rightarrow> string" where
  "CheckEncode input version =
     (let b = [version] @ input in Encode58 (b @ checksum58 b))"

definition CheckDecode :: "string \<Rightarrow> (base58_error, bytes \<times> byte) res" where
  "CheckDecode input =
     (let decoded = Decode58 input
      in if length decoded < 5 then Err ErrInvalidFormat
         else
           (let version = decoded ! 0;
                cksum = drop (length decoded - 4) decoded
            in if checksum58 (take (length decoded - 4) decoded) \<noteq> cksum then Err ErrChecksum
               else Ok (drop 1 (take (length decoded - 4) decoded), version)))"

section \<open>Digits\<close>

interpretation base58: positional 58 by unfold_locales simp

lemma length_alphabet [simp]: "length alphabet = 58"
  by (simp add: alphabet_def)

lemma b58_alphabet: "i < 58 \<Longrightarrow> b58 ! of_char (alphabet ! i) = i"
proof -
  have "list_all (\<lambda>i. b58 ! of_char (alphabet ! i) = i) [0..<58]" by code_simp
  then show "i < 58 \<Longrightarrow> b58 ! of_char (alphabet ! i) = i" by (simp add: list_all_iff)
qed

lemma alphabet_0_iff: "i < 58 \<Longrightarrow> alphabet ! i = alphabetIdx0 \<longleftrightarrow> i = 0"
  using b58_alphabet [of i] b58_alphabet [of 0] by (auto simp: alphabetIdx0_def alphabet_def)

lemma encode_loop_digits: "encode_loop x = rev (map ((!) alphabet) (pos_digits 58 x))"
proof (induction x rule: less_induct)
  case (less x)
  show ?case
  proof (cases "x = 0")
    case False
    then have "encode_loop x = alphabet ! (x mod 58) # encode_loop (x div 58)" by (simp add: encode_loop.simps)
    with False less [of "x div 58"] show ?thesis by (simp add: base58.digits_step)
  qed (simp add: encode_loop.simps)
qed

lemma decode_loop_digits:
  assumes "\<And>d. d \<in> set ds \<Longrightarrow> d < 58"
  shows "decode_loop (rev (map ((!) alphabet) ds)) a j = Some (a + j * pos_value 58 ds)"
  using assms
proof (induction ds arbitrary: a j rule: rev_induct)
  case (snoc d ds)
  then have d: "d < 58" by simp
  then have "d \<noteq> 255" by simp
  with d snoc show ?case by (simp add: b58_alphabet algebra_simps Let_def)
qed simp

text \<open>The swaps reverse the list.\<close>

lemma swaps_nth:
  assumes "k \<le> length xs div 2"
  shows "length (foldl (\<lambda>a i. a[i := a ! (length xs - 1 - i), length xs - 1 - i := a ! i]) xs [0..<k]) = length xs \<and>
    (\<forall>j < length xs. foldl (\<lambda>a i. a[i := a ! (length xs - 1 - i), length xs - 1 - i := a ! i]) xs [0..<k] ! j =
      (if j < k \<or> length xs - k \<le> j then xs ! (length xs - 1 - j) else xs ! j))"
  using assms
proof (induction k)
  case (Suc k)
  let ?f = "\<lambda>a i. a[i := a ! (length xs - 1 - i), length xs - 1 - i := a ! i]"
  let ?a = "foldl ?f xs [0..<k]"
  have len: "length ?a = length xs"
    and ih: "\<And>j. j < length xs \<Longrightarrow> ?a ! j = (if j < k \<or> length xs - k \<le> j then xs ! (length xs - 1 - j) else xs ! j)"
    using Suc by auto
  have k: "k < length xs" "length xs - 1 - k < length xs" "k \<noteq> length xs - 1 - k" using Suc.prems by auto
  have "foldl ?f xs [0..<Suc k] = ?f ?a k" by simp
  moreover have "?f ?a k ! j = (if j < Suc k \<or> length xs - Suc k \<le> j then xs ! (length xs - 1 - j) else xs ! j)"
    if "j < length xs" for j
    using that k ih [of k] ih [of "length xs - 1 - k"] ih [of j] Suc.prems len
    by (cases "j = k"; cases "j = length xs - 1 - k") (auto simp: nth_list_update)
  ultimately show ?case using len by simp
qed simp

lemma reverse_swaps_rev: "reverse_swaps xs = rev xs"
proof (rule nth_equalityI)
  have s: "length (reverse_swaps xs) = length xs"
    "\<And>j. j < length xs \<Longrightarrow> reverse_swaps xs ! j =
      (if j < length xs div 2 \<or> length xs - length xs div 2 \<le> j then xs ! (length xs - 1 - j) else xs ! j)"
    using swaps_nth [of "length xs div 2" xs] by (auto simp: reverse_swaps_def Let_def)
  show "length (reverse_swaps xs) = length (rev xs)" using s(1) by simp
  fix j assume "j < length (reverse_swaps xs)"
  then have j: "j < length xs" using s(1) by simp
  moreover have "\<not> (j < length xs div 2 \<or> length xs - length xs div 2 \<le> j) \<Longrightarrow> length xs - 1 - j = j" using j by linarith
  ultimately show "reverse_swaps xs ! j = rev xs ! j" using s(2) [OF j] by (auto simp: rev_nth)
qed

section \<open>Round trips\<close>

lemma map_leading_zeros:
  assumes "\<And>d. d \<in> set ds \<Longrightarrow> d < 58" "ds \<noteq> [] \<Longrightarrow> hd ds \<noteq> 0"
  shows "takeWhile (\<lambda>c. c = alphabetIdx0) (replicate n alphabetIdx0 @ map ((!) alphabet) ds) = replicate n alphabetIdx0"
proof (induction n)
  case 0
  show ?case using assms alphabet_0_iff [of "hd ds"] by (cases ds) auto
qed simp

lemma takeWhile_zeros: "takeWhile (\<lambda>i. i = 0) b = replicate (length (takeWhile (\<lambda>i. i = 0) b)) 0" for b :: bytes
  by (induction b) auto

lemma Decode58_Encode58: "Decode58 (Encode58 b) = b"
proof -
  let ?ds = "pos_digits 58 (be_value b)" and ?n = "length (takeWhile (\<lambda>i. i = 0) b)"
  have less: "d < 58" if "d \<in> set ?ds" for d using that by (rule base58.digits_less)
  have enc: "Encode58 b = replicate ?n alphabetIdx0 @ map ((!) alphabet) ?ds"
    by (simp add: Encode58_def encode_loop_digits reverse_swaps_rev)
  have z: "replicate ?n alphabetIdx0 = map ((!) alphabet) (replicate ?n 0)"
    using alphabet_0_iff [of 0] by (simp add: map_replicate)
  have "decode_loop (rev (Encode58 b)) 0 1 = Some (pos_value 58 (replicate ?n 0 @ ?ds))"
    unfolding enc z map_append [symmetric] using less
    by (subst decode_loop_digits) auto
  then have "decode_loop (rev (Encode58 b)) 0 1 = Some (be_value b)" by simp
  moreover have "length (takeWhile (\<lambda>c. c = alphabetIdx0) (Encode58 b)) = ?n"
    unfolding enc using map_leading_zeros [of ?ds ?n] less base58.hd_digits_pos [of "be_value b"] by fastforce
  ultimately have "Decode58 (Encode58 b) = replicate ?n 0 @ be_bytes (be_value b)"
    by (simp add: Decode58_def)
  also have "\<dots> = takeWhile (\<lambda>i. i = 0) b @ dropWhile (\<lambda>i. i = 0) b"
    using takeWhile_zeros [of b] by (simp add: be_bytes_be_value)
  finally show ?thesis by simp
qed

text \<open>
  Extended keys survive Base58Check: \<open>CheckDecode\<close> of \<open>CheckEncode\<close> returns the payload and the version, for
  every payload and version, leading zero bytes included; so does the unchecked pair \<open>Decode\<close> and \<open>Encode\<close>.
\<close>
lemma CheckDecode_CheckEncode:
  "CheckDecode (CheckEncode input version) = Ok (input, version) \<and> Decode58 (Encode58 input) = input"
proof -
  have "length (checksum58 b) = 4" for b by (simp add: checksum58_def length_sha256_sum)
  then show ?thesis by (simp add: CheckDecode_def CheckEncode_def Decode58_Encode58 Let_def)
qed

end
