(* ===== verification/Mnemonic.thy ===== *)
theory Mnemonic
  imports BigBytes Hashes
begin

text \<open>
  The two implementations of BIP-39 sentences: \<open>common/bip39/bip39.go\<close>, which works on one big integer, and
  \<open>common/seedphrase\<close>, which works on arrays of bits. The word list is an argument of the definitions
  (\<open>SetWordList\<close> chooses it).
\<close>

unbundle bit_operations_syntax

section \<open>Big integers: bip39.go\<close>

datatype bip39_error = ErrInvalidMnemonic | ErrEntropyLengthInvalid | ErrValidatedSeedLengthMismatch
  | ErrChecksumIncorrect | WordNotFound string

text \<open>\<open>SetWordList\<close> builds the reverse map: a later word replaces an earlier equal one.\<close>

definition wordMap :: "string list \<Rightarrow> string \<rightharpoonup> nat" where
  "wordMap wordList = map_of (rev (zip wordList [0..<length wordList]))"

definition validateEntropyBitSize :: "nat \<Rightarrow> (bip39_error, unit) res" where
  "validateEntropyBitSize bitSize =
     (if bitSize mod 32 \<noteq> 0 \<or> bitSize < 128 \<or> bitSize > 256 then Err ErrEntropyLengthInvalid else Ok ())"

definition computeChecksum :: "bytes \<Rightarrow> bytes" where
  "computeChecksum data = sha256_sum data"

text \<open>At most eight checksum bits are added: the callers only pass up to 32 bytes.\<close>

definition addChecksum :: "bytes \<Rightarrow> bytes" where
  "addChecksum data =
     (let firstChecksumByte = computeChecksum data ! 0;
          checksumBitLength = length data div 4
      in be_bytes (foldl (\<lambda>x i. let x = x * 2
                    in if firstChecksumByte AND push_bit (7 - i) 1 > 0 then x OR 1 else x)
            (be_value data) [0..<checksumBitLength]))"

definition padByteSlice :: "bytes \<Rightarrow> nat \<Rightarrow> bytes" where
  "padByteSlice s n = (if n \<le> length s then s else replicate (n - length s) 0 @ s)"

text \<open>The loop from the last word to the first; an index beyond the word list panics (\<^const>\<open>None\<close>).\<close>

fun sentence_loop :: "string list \<Rightarrow> nat \<Rightarrow> nat \<Rightarrow> string list option" where
  "sentence_loop wordList 0 entropyInt = Some []"
| "sentence_loop wordList (Suc i) entropyInt =
     (let word = entropyInt AND 2047;
          wordBytes = padByteSlice (be_bytes word) 2;
          index = be_value wordBytes
      in if index < length wordList
         then map_option (\<lambda>ws. ws @ [wordList ! index]) (sentence_loop wordList i (entropyInt div 2048))
         else None)"

definition NewMnemonic :: "string list \<Rightarrow> bytes \<Rightarrow> (bip39_error, string) res" where
  "NewMnemonic wordList entropy =
     (let entropyBitLength = length entropy * 8;
          checksumBitLength = entropyBitLength div 32;
          sentenceLength = (entropyBitLength + checksumBitLength) div 11
      in case validateEntropyBitSize entropyBitLength of
           Err e \<Rightarrow> Err e
         | Panic \<Rightarrow> Panic
         | Ok _ \<Rightarrow>
             (case sentence_loop wordList sentenceLength (be_value (addChecksum entropy)) of
                None \<Rightarrow> Panic
              | Some words \<Rightarrow> Ok (strings_Join '' '' words)))"

definition splitMnemonicWords :: "string \<Rightarrow> string list option" where
  "splitMnemonicWords mnemonic =
     (let words = strings_Fields mnemonic; numOfWords = length words
      in if numOfWords mod 3 \<noteq> 0 \<or> numOfWords < 12 \<or> numOfWords > 24 then None else Some words)"

fun words_value :: "string list \<Rightarrow> string list \<Rightarrow> nat \<Rightarrow> (bip39_error, nat) res" where
  "words_value wordList [] b = Ok b"
| "words_value wordList (v # vs) b =
     (case wordMap wordList v of
        None \<Rightarrow> Err (WordNotFound v)
      | Some index \<Rightarrow> words_value wordList vs ((b * 2048) OR unat (word_of_nat index :: 16 word)))"

text \<open>The two lookup tables, by the number of words.\<close>

definition checksumMask :: "nat \<Rightarrow> nat" where
  "checksumMask n = (if n = 12 then 15 else if n = 15 then 31 else if n = 18 then 63 else if n = 21 then 127 else 255)"

definition checksumShift :: "nat \<Rightarrow> nat" where
  "checksumShift n = (if n = 12 then 16 else if n = 15 then 8 else if n = 18 then 4 else 2)"

definition EntropyFromMnemonic :: "string list \<Rightarrow> string \<Rightarrow> (bip39_error, bytes) res" where
  "EntropyFromMnemonic wordList mnemonic =
     (case splitMnemonicWords mnemonic of
        None \<Rightarrow> Err ErrInvalidMnemonic
      | Some mnemonicSlice \<Rightarrow>
          res_bind (words_value wordList mnemonicSlice 0) (\<lambda>b.
            let l = length mnemonicSlice;
                mask = checksumMask l;
                checksum = b AND mask;
                entropy = padByteSlice (be_bytes (b div (mask + 1))) (l div 3 * 4);
                entropyChecksum = unat (computeChecksum entropy ! 0);
                entropyChecksum = (if l \<noteq> 24 then entropyChecksum div checksumShift l else entropyChecksum)
            in if checksum \<noteq> entropyChecksum then Err ErrChecksumIncorrect else Ok entropy))"

definition IsMnemonicValid :: "string list \<Rightarrow> string \<Rightarrow> bool" where
  "IsMnemonicValid wordList mnemonic = is_ok (EntropyFromMnemonic wordList mnemonic)"

definition MnemonicToByteArray :: "string list \<Rightarrow> string \<Rightarrow> bool \<Rightarrow> (bip39_error, bytes) res" where
  "MnemonicToByteArray wordList mnemonic raw =
     (let entropyBitSize = length (split_on CHR '' '' mnemonic) * 11;
          checksumBitSize = entropyBitSize mod 32;
          fullByteSize = (entropyBitSize - checksumBitSize) div 8 + 1
      in res_bind (EntropyFromMnemonic wordList mnemonic) (\<lambda>rawEntropyBytes.
           if raw then Ok rawEntropyBytes else Ok (padByteSlice (addChecksum rawEntropyBytes) fullByteSize)))"

section \<open>Bits: seedphrase\<close>

datatype seed_error = ErrSeedMnemonic | ErrInvalidMnemonicWordCount | ErrBytesLengthInvalid | ErrInvalidChecksum | ErrInvalidWord

definition validateBytesBitSize :: "nat \<Rightarrow> (seed_error, unit) res" where
  "validateBytesBitSize bitSize =
     (if bitSize mod 32 \<noteq> 0 \<or> bitSize < 128 \<or> bitSize > 256 then Err ErrBytesLengthInvalid else Ok ())"

definition validateMnemonicWordCount :: "string list \<Rightarrow> (seed_error, unit) res" where
  "validateMnemonicWordCount mnemonic =
     (let dataBitsLen = length mnemonic * 11;
          payloadBitLen = dataBitsLen div 32 * 32;
          crcBitLen = dataBitsLen - payloadBitLen
      in if crcBitLen \<noteq> payloadBitLen div 32 then Err ErrInvalidMnemonicWordCount else Ok ())"

definition byteBits :: "byte \<Rightarrow> byte list" where
  "byteBits b = map (\<lambda>i. drop_bit (7 - i) b AND 1) [0..<8]"

definition bytesToBitArray :: "bytes \<Rightarrow> byte list" where
  "bytesToBitArray data = concat (map byteBits data)"

text \<open>Reading a byte beyond the end of the array panics.\<close>

function bitArrayToBytes :: "byte list \<Rightarrow> bytes option" where
  "bitArrayToBytes bitArray =
     (if bitArray = [] then Some []
      else if length bitArray < 8 then None
      else map_option ((#) (foldl (\<lambda>b x. push_bit 1 b OR x) 0 (take 8 bitArray))) (bitArrayToBytes (drop 8 bitArray)))"
  by pat_completeness auto
termination
  by (relation "measure length") auto

declare bitArrayToBytes.simps [simp del]

text \<open>\<open>uint16ToBitArray\<close> fills the array from its end.\<close>

fun u16_loop :: "nat \<Rightarrow> 16 word \<Rightarrow> byte list \<Rightarrow> byte list" where
  "u16_loop 0 index bits = bits"
| "u16_loop (Suc i) index bits = u16_loop i (drop_bit 1 index) (ucast (index AND 1) # bits)"

definition uint16ToBitArray :: "16 word \<Rightarrow> byte list" where
  "uint16ToBitArray index = u16_loop 16 index []"

definition padBitsArray :: "byte list \<Rightarrow> nat \<Rightarrow> byte list" where
  "padBitsArray bitsArray n =
     (if n \<le> length bitsArray then bitsArray else replicate (n - length bitsArray) 0 @ bitsArray)"

definition getSha256Hash :: "bytes \<Rightarrow> bytes" where
  "getSha256Hash data = sha256_sum data"

definition addChecksumBits :: "bytes \<Rightarrow> byte list" where
  "addChecksumBits data =
     (let firstChecksumByte = getSha256Hash data ! 0;
          checksumBitLength = length data div 4;
          dataBits = bytesToBitArray data;
          checksumBits = bytesToBitArray [firstChecksumByte];
          checksumBits = (if length checksumBits > checksumBitLength then take checksumBitLength checksumBits else checksumBits)
      in dataBits @ checksumBits)"

fun bits_loop :: "string list \<Rightarrow> nat \<Rightarrow> byte list \<Rightarrow> string list option" where
  "bits_loop words 0 bits = Some []"
| "bits_loop words (Suc i) bits =
     (if length bits < 11 then None
      else
        (case bitArrayToBytes (padBitsArray (take 11 bits) 16) of
           None \<Rightarrow> None
         | Some indexBytes \<Rightarrow>
             (let index = be_value (take 2 indexBytes)
              in if index < length words then map_option ((#) (words ! index)) (bits_loop words i (drop 11 bits)) else None)))"

definition Bytes2Mnemonic :: "string list \<Rightarrow> bytes \<Rightarrow> (seed_error, string list) res" where
  "Bytes2Mnemonic words data =
     (let dataBitLength = length data * 8;
          checksumBitLength = dataBitLength div 32;
          sentenceLength = (dataBitLength + checksumBitLength) div 11
      in case validateBytesBitSize dataBitLength of
           Err e \<Rightarrow> Err e
         | Panic \<Rightarrow> Panic
         | Ok _ \<Rightarrow>
             (let dataSignedBits = addChecksumBits data
              in if length dataSignedBits mod 11 \<noteq> 0 then Err ErrBytesLengthInvalid
                 else (case bits_loop words sentenceLength dataSignedBits of None \<Rightarrow> Panic | Some m \<Rightarrow> Ok m)))"

definition shiftBitsFromBitArray :: "byte list \<Rightarrow> nat \<Rightarrow> byte list \<times> byte list" where
  "shiftBitsFromBitArray bits n = (take (length bits - n) bits, drop (length bits - n) bits)"

text \<open>The slice \<open>bytesToBitArray(...)[0:checksumBitLength]\<close> is cut from eight bits, appended one by one to nil, which is
  also the capacity: a longer prefix panics.\<close>

definition validateChecksumBits :: "byte list \<Rightarrow> (seed_error, unit) res" where
  "validateChecksumBits bits =
     (let checksumBitLength = length bits div 32;
          (dataBits, checksumBits) = shiftBitsFromBitArray bits checksumBitLength
      in if length dataBits mod 8 \<noteq> 0 then Err ErrInvalidChecksum
         else
           (case bitArrayToBytes dataBits of
              None \<Rightarrow> Panic
            | Some data \<Rightarrow>
                (let checksumByte = getSha256Hash data ! 0;
                     calculated = bytesToBitArray [checksumByte]
                 in if checksumBitLength > length calculated then Panic
                    else if checksumBits \<noteq> take checksumBitLength calculated then Err ErrInvalidChecksum
                    else Ok ())))"

definition extractDataFromBitsArray :: "byte list \<Rightarrow> bytes option" where
  "extractDataFromBitsArray bitsArray = bitArrayToBytes (fst (shiftBitsFromBitArray bitsArray (length bitsArray div 32)))"

fun mnemonic_bits :: "string list \<Rightarrow> string list \<Rightarrow> byte list \<Rightarrow> (seed_error, byte list) res" where
  "mnemonic_bits words [] bits = Ok bits"
| "mnemonic_bits words (word # mnemonic) bits =
     (case wordMap words word of
        None \<Rightarrow> Err ErrInvalidWord
      | Some index \<Rightarrow> mnemonic_bits words mnemonic (bits @ drop 5 (uint16ToBitArray (word_of_nat index))))"

definition Mnemonic2Bytes :: "string list \<Rightarrow> string list \<Rightarrow> (seed_error, bytes) res" where
  "Mnemonic2Bytes words mnemonic =
     res_bind (validateMnemonicWordCount mnemonic) (\<lambda>_.
     res_bind (mnemonic_bits words mnemonic []) (\<lambda>bitsArray.
     res_bind (validateChecksumBits bitsArray) (\<lambda>_.
       case extractDataFromBitsArray bitsArray of None \<Rightarrow> Panic | Some data \<Rightarrow> Ok data)))"

end
