(* ===== verification/MnemonicCorrect.thy ===== *)
theory MnemonicCorrect
  imports Mnemonic
begin

text \<open>
  Both implementations of BIP-39 compute the sentence of one specification, the base 2048 digits of the
  entropy followed by its checksum bits, and both read it back.
\<close>

unbundle bit_operations_syntax

section \<open>The specification\<close>

definition words_ok :: "string list \<Rightarrow> bool" where
  "words_ok ws \<longleftrightarrow> length ws = 2048 \<and> distinct ws \<and> list_all plain_word ws"

text \<open>Entropy of \<open>4 * c\<close> bytes has \<open>c\<close> checksum bits and \<open>3 * c\<close> words.\<close>

definition entropy_ok :: "nat \<Rightarrow> bytes \<Rightarrow> bool" where
  "entropy_ok c e \<longleftrightarrow> length e = 4 * c \<and> 4 \<le> c \<and> c \<le> 8"

definition checksum_bits :: "nat \<Rightarrow> bytes \<Rightarrow> nat" where
  "checksum_bits c e = unat (sha256_sum e ! 0) div 2 ^ (8 - c)"

definition sentence_value :: "nat \<Rightarrow> bytes \<Rightarrow> nat" where
  "sentence_value c e = be_value e * 2 ^ c + checksum_bits c e"

definition sentence :: "string list \<Rightarrow> nat \<Rightarrow> bytes \<Rightarrow> string list" where
  "sentence ws c e = map ((!) ws) (pos_fixed 2048 (3 * c) (sentence_value c e))"

interpretation base2048: positional 2048 by unfold_locales simp

lemma checksum_bits_less: "c \<le> 8 \<Longrightarrow> checksum_bits c e < 2 ^ c"
proof -
  assume "c \<le> 8"
  then have "(256 :: nat) = 2 ^ c * 2 ^ (8 - c)" by (simp flip: power_add)
  moreover have "unat (sha256_sum e ! 0) < 256" by (rule unat_byte_less)
  ultimately show ?thesis unfolding checksum_bits_def by (simp add: less_mult_imp_div_less)
qed

lemma sentence_value_less: "entropy_ok c e \<Longrightarrow> sentence_value c e < 2048 ^ (3 * c)"
proof -
  assume e: "entropy_ok c e"
  have "be_value e + 1 \<le> 2 ^ (32 * c)"
    using be_value_less [of e] e by (simp add: entropy_ok_def pow256 Suc_le_eq)
  then have "(be_value e + 1) * 2 ^ c \<le> 2 ^ (32 * c) * 2 ^ c" by (rule mult_right_mono) simp
  moreover have "checksum_bits c e < 2 ^ c" using e by (simp add: entropy_ok_def checksum_bits_less)
  moreover have "(2048 :: nat) ^ (3 * c) = 2 ^ (32 * c) * 2 ^ c"
    using power_mult [of "2 :: nat" 11 "3 * c"] by (simp flip: power_add)
  ultimately show ?thesis by (simp add: sentence_value_def)
qed

section \<open>Big integers\<close>

lemma or_low_bits: "i < 2048 \<Longrightarrow> (b * 2048) OR i = b * 2048 + i" for i b :: nat
proof -
  assume i: "i < 2048"
  have "take_bit 11 i = i" using i by (simp add: take_bit_eq_mod)
  moreover have "b * 2048 = push_bit 11 b" by (simp add: push_bit_eq_mult)
  ultimately have "push_bit 11 b AND i = 0"
    by (metis (no_types, lifting) bit_and_iff bit_eq_iff bit_push_bit_iff bit_take_bit_iff linorder_not_less bit_0_eq bot_apply bot_bool_def)
  then show ?thesis using \<open>b * 2048 = push_bit 11 b\<close> by (simp add: disjunctive_add_eq_or)
qed

lemma bit_test: "h AND push_bit k 1 > 0 \<longleftrightarrow> odd (unat h div 2 ^ k)" for h :: byte
proof -
  have "h AND push_bit k 1 > 0 \<longleftrightarrow> bit h k"
    unfolding bit_iff_and_push_bit_not_eq_0 by (rule word_neq_0_conv [symmetric])
  also have "\<dots> \<longleftrightarrow> bit (unat h) k" by (simp add: bit_unsigned_iff)
  finally show ?thesis by (simp add: bit_iff_odd)
qed

lemma checksum_loop_value:
  assumes "n \<le> 8"
  shows "foldl (\<lambda>x i. let x = x * 2 in if (h :: byte) AND push_bit (7 - i) 1 > 0 then x OR 1 else x) x [0..<n] =
    x * 2 ^ n + unat h div 2 ^ (8 - n)"
  using assms
proof (induction n)
  case 0
  then show ?case using unat_byte_less [of h] by simp
next
  case (Suc n)
  let ?y = "foldl (\<lambda>x i. let x = x * 2 in if h AND push_bit (7 - i) 1 > 0 then x OR 1 else x) x [0..<n]"
  have y: "?y = x * 2 ^ n + unat h div 2 ^ (8 - n)" using Suc by simp
  let ?q = "unat h div 2 ^ (7 - n)"
  have q: "?q = unat h div 2 ^ (8 - n) * 2 + of_bool (odd ?q)"
  proof -
    have "8 - n = Suc (7 - n)" using Suc.prems by simp
    then have "unat h div 2 ^ (8 - n) = ?q div 2" by (simp add: div_mult2_eq [symmetric] mult.commute)
    moreover have "q = q div 2 * 2 + of_bool (odd q)" for q :: nat by (cases "even q") (auto elim!: evenE oddE)
    ultimately show ?thesis by metis
  qed
  have or1: "(y * 2) OR 1 = y * 2 + 1" for y :: nat using or_one_eq [of "y * 2"] by simp
  have "foldl (\<lambda>x i. let x = x * 2 in if h AND push_bit (7 - i) 1 > 0 then x OR 1 else x) x [0..<Suc n] =
      (if h AND push_bit (7 - n) 1 > 0 then (?y * 2) OR 1 else ?y * 2)"
    by (simp add: Let_def)
  also have "\<dots> = ?y * 2 + of_bool (odd ?q)" unfolding bit_test or1 by simp
  also have "\<dots> = x * 2 ^ Suc n + ?q" using q unfolding y by (simp add: algebra_simps)
  finally show ?case by simp
qed

lemma addChecksum_value: "entropy_ok c e \<Longrightarrow> be_value (addChecksum e) = sentence_value c e"
  unfolding addChecksum_def entropy_ok_def computeChecksum_def sentence_value_def checksum_bits_def
    be_value_be_bytes Let_def [of "sha256_sum e ! 0"] Let_def [of "length e div 4"]
  by (subst checksum_loop_value) simp_all

lemma padByteSlice_value [simp]: "be_value (padByteSlice s n) = be_value s"
  by (simp add: padByteSlice_def)

lemma and_2047: "x AND 2047 = x mod 2048" for x :: nat
proof -
  have "x AND mask 11 = x mod 2 ^ 11" by (simp only: take_bit_eq_mask [symmetric] take_bit_eq_mod)
  moreover have "(mask 11 :: nat) = 2047" by (simp add: mask_eq_exp_minus_1)
  ultimately show ?thesis by simp
qed

lemma sentence_loop_digits:
  "length ws = 2048 \<Longrightarrow> sentence_loop ws n x = Some (map ((!) ws) (pos_fixed 2048 n x))"
  by (induction n arbitrary: x) (simp_all add: and_2047 Let_def)

lemma NewMnemonic_sentence:
  assumes "words_ok ws" "entropy_ok c e"
  shows "NewMnemonic ws e = Ok (strings_Join '' '' (sentence ws c e))"
proof -
  have "c \<in> {4, 5, 6, 7, 8}" using assms(2) by (auto simp: entropy_ok_def)
  then have "validateEntropyBitSize (length e * 8) = Ok ()" "(length e * 8 + length e * 8 div 32) div 11 = 3 * c"
    using assms(2) by (auto simp: entropy_ok_def validateEntropyBitSize_def)
  then show ?thesis using assms
    by (simp add: NewMnemonic_def Let_def sentence_loop_digits words_ok_def addChecksum_value sentence_def)
qed

lemma wordMap_nth:
  assumes "distinct ws" "i < length ws"
  shows "wordMap ws (ws ! i) = Some i"
proof -
  have "distinct (map fst (rev (zip ws [0..<length ws])))" using assms(1) by (simp add: rev_map [symmetric])
  moreover have "(ws ! i, i) \<in> set (rev (zip ws [0..<length ws]))" using assms(2) by (auto simp: set_zip)
  ultimately show ?thesis by (simp add: wordMap_def)
qed

lemma words_value_digits:
  assumes "words_ok ws" "\<And>i. i \<in> set is \<Longrightarrow> i < 2048"
  shows "words_value ws (map ((!) ws) is) b = Ok (foldl (\<lambda>a d. a * 2048 + d) b is)"
  using assms(2)
proof (induction "is" arbitrary: b)
  case (Cons i "is")
  then have i: "i < 2048" by simp
  then have "unat (word_of_nat i :: 16 word) = i" by (simp add: unat_of_nat)
  with Cons i assms(1) show ?case by (simp add: words_ok_def wordMap_nth or_low_bits)
qed simp

lemma pad_be_bytes: "length e = n \<Longrightarrow> padByteSlice (be_bytes (be_value e)) n = e"
proof -
  assume n: "length e = n"
  let ?z = "takeWhile (\<lambda>b. b = 0) e" and ?d = "dropWhile (\<lambda>b. b = 0) e"
  have e: "e = ?z @ ?d" by simp
  have z: "?z = replicate (length ?z) 0" by (rule replicate_eqI) (auto dest: set_takeWhileD)
  have "length ?z + length ?d = n" using n e by (metis length_append)
  then have "padByteSlice ?d n = replicate (length ?z) 0 @ ?d" by (auto simp: padByteSlice_def)
  with z e show ?thesis by (simp add: be_bytes_be_value)
qed

lemma plain_words: "words_ok ws \<Longrightarrow> list_all plain_word (sentence ws c e)"
  using base2048.fixed_less by (fastforce simp: words_ok_def sentence_def list_all_iff)

lemma and_mask_of: "x AND (2 ^ c - 1) = x mod 2 ^ c" for x :: nat
  by (simp only: take_bit_eq_mod [symmetric] take_bit_eq_mask mask_eq_exp_minus_1)

lemma checksum_tables:
  assumes "4 \<le> c" "c \<le> 8"
  shows "checksumMask (3 * c) = 2 ^ c - 1"
    "(if 3 * c \<noteq> 24 then h div checksumShift (3 * c) else h) = h div 2 ^ (8 - c)"
proof -
  have "c \<in> {4, 5, 6, 7, 8}" using assms by auto
  then show "checksumMask (3 * c) = 2 ^ c - 1"
    "(if 3 * c \<noteq> 24 then h div checksumShift (3 * c) else h) = h div 2 ^ (8 - c)"
    by (auto simp: checksumMask_def checksumShift_def)
qed

lemma EntropyFromMnemonic_sentence:
  assumes "words_ok ws" "entropy_ok c e"
  shows "EntropyFromMnemonic ws (strings_Join '' '' (sentence ws c e)) = Ok e"
proof -
  let ?S = "sentence_value c e"
  have c: "4 \<le> c" "c \<le> 8" "length e = 4 * c" using assms(2) by (auto simp: entropy_ok_def)
  have "splitMnemonicWords (strings_Join '' '' (sentence ws c e)) = Some (sentence ws c e)"
    using c by (simp add: splitMnemonicWords_def Fields_Join [OF plain_words [OF assms(1)]] Let_def) (simp add: sentence_def)
  moreover have "words_value ws (sentence ws c e) 0 = Ok ?S"
    unfolding sentence_def using words_value_digits [OF assms(1), of "pos_fixed 2048 (3 * c) ?S" 0] base2048.fixed_less
      base2048.value_fixed [of "3 * c" ?S] sentence_value_less [OF assms(2)]
    by (simp add: pos_value_def)
  moreover have "?S mod 2 ^ c = checksum_bits c e" "?S div 2 ^ c = be_value e"
    using checksum_bits_less [of c e] c by (simp_all add: sentence_value_def)
  moreover have "length (sentence ws c e) = 3 * c" by (simp add: sentence_def)
  moreover have "(2 :: nat) ^ c - 1 + 1 = 2 ^ c" "3 * c div 3 * 4 = 4 * c" by simp_all
  ultimately show ?thesis
    using pad_be_bytes [OF c(3)]
    unfolding EntropyFromMnemonic_def Let_def computeChecksum_def
    by (simp only: option.case res_bind.simps checksum_tables [OF c(1,2)] and_mask_of checksum_bits_def
        simp_thms if_False)
qed

text \<open>
  A mnemonic restores its key: for every entropy of 16, 20, 24, 28 or 32 bytes and every word list of 2048
  different words, \<open>EntropyFromMnemonic\<close> accepts the sentence of \<open>NewMnemonic\<close> (the checksum included) and
  returns the entropy, leading zero bytes included.
\<close>
lemma EntropyFromMnemonic_NewMnemonic:
  assumes "words_ok ws" "entropy_ok c e"
  shows "res_bind (NewMnemonic ws e) (EntropyFromMnemonic ws) = Ok e"
  by (simp add: NewMnemonic_sentence [OF assms] EntropyFromMnemonic_sentence [OF assms])


section \<open>Bits\<close>

definition is_bits :: "byte list \<Rightarrow> bool" where
  "is_bits xs \<longleftrightarrow> (\<forall>x \<in> set xs. x = 0 \<or> x = 1)"

lemma unat_list_inj: "map unat xs = map unat ys \<Longrightarrow> xs = ys" for xs ys :: "byte list"
proof (induction xs arbitrary: ys)
  case (Cons x xs)
  then show ?case by (cases ys) (auto simp: word_unat_eq_iff)
qed simp

lemma unat_byteBits: "map unat (byteBits b) = pos_fixed 2 8 (unat b)"
proof -
  have "unat (drop_bit (7 - i) b AND 1) = unat b div 2 ^ (8 - 1 - i) mod 2" for i
  proof -
    have "unat (drop_bit (7 - i) b) = unat b div 2 ^ (7 - i)"
      unfolding unat_drop_bit_eq by (rule drop_bit_eq_div)
    then show ?thesis by (simp only: and_one_eq unat_mod) simp
  qed
  then show ?thesis by (simp add: byteBits_def bits2.fixed_map)
qed

lemma length_byteBits [simp]: "length (byteBits b) = 8"
  by (simp add: byteBits_def)

lemma unat_bytesToBitArray: "map unat (bytesToBitArray e) = pos_fixed 2 (length e * 8) (be_value e)"
proof -
  have "map unat (bytesToBitArray e) = concat (map (pos_fixed 2 8) (map unat e))"
    by (simp add: bytesToBitArray_def map_concat unat_byteBits comp_def)
  also have "\<dots> = pos_fixed 2 (length e * 8) (pos_value 256 (map unat e))"
    using bits2.concat_fixed [of "map unat e" 8] unat_byte_less by (fastforce)
  finally show ?thesis by (simp add: be_value_def)
qed

lemma fold_byte:
  assumes "is_bits xs"
  shows "foldl (\<lambda>b x. push_bit 1 b OR x) (word_of_nat a) xs = (word_of_nat (foldl (\<lambda>a d. a * 2 + d) a (map unat xs)) :: byte)"
  using assms
proof (induction xs arbitrary: a)
  case (Cons x xs)
  have "x = 0 \<or> x = 1" "is_bits xs" using Cons(2) by (auto simp: is_bits_def)
  moreover have "(word_of_nat (a * 2) :: byte) OR 1 = word_of_nat (a * 2 + 1)"
    using or_one_eq [of "word_of_nat (a * 2) :: byte"] by (simp add: add.commute)
  moreover have "push_bit 1 (word_of_nat a :: byte) = word_of_nat (a * 2)" by (simp add: push_bit_eq_mult)
  ultimately have step: "push_bit 1 (word_of_nat a :: byte) OR x = word_of_nat (a * 2 + unat x)" by (elim disjE) simp_all
  show ?case using Cons(1) [OF \<open>is_bits xs\<close>, of "a * 2 + unat x"] by (simp only: foldl_Cons list.map step)
qed simp

lemma bitArrayToBytes_bytes: "bitArrayToBytes (bytesToBitArray e) = Some e"
proof (induction e)
  case Nil
  show ?case by (simp add: bitArrayToBytes.simps bytesToBitArray_def)
next
  case (Cons b e)
  have "is_bits (byteBits b)" by (auto simp: is_bits_def byteBits_def and_one_eq)
  then have "foldl (\<lambda>b x. push_bit 1 b OR x) 0 (byteBits b) = word_of_nat (pos_value 2 (pos_fixed 2 8 (unat b)))"
    using fold_byte [of "byteBits b" 0] unfolding unat_byteBits by (simp add: pos_value_def)
  also have "\<dots> = b" by (simp add: bits2.value_fixed)
  finally have "foldl (\<lambda>b x. push_bit 1 b OR x) 0 (byteBits b) = b" .
  moreover have "bytesToBitArray (b # e) = byteBits b @ bytesToBitArray e" by (simp add: bytesToBitArray_def)
  moreover have "byteBits b \<noteq> []" using length_byteBits [of b] by fastforce
  ultimately show ?case using Cons by (subst bitArrayToBytes.simps) simp
qed

lemma is_bits_bytes: "is_bits (bytesToBitArray e)"
  by (auto simp: is_bits_def bytesToBitArray_def byteBits_def and_one_eq)

lemma length_bytesToBitArray [simp]: "length (bytesToBitArray e) = length e * 8"
  using unat_bytesToBitArray [of e] by (metis bits2.length_fixed length_map)

text \<open>Every array of \<open>8 * k\<close> bits comes from \<open>k\<close> bytes.\<close>

lemma bits_from_bytes:
  assumes "is_bits xs" "length xs = k * 8"
  obtains e where "xs = bytesToBitArray e" "length e = k"
proof -
  let ?v = "pos_value 2 (map unat xs)" and ?e = "be_fixed k (pos_value 2 (map unat xs))"
  have d: "d < 2" if "d \<in> set (map unat xs)" for d using that assms(1) by (auto simp: is_bits_def)
  have "?v < 256 ^ k" using bits2.value_less [of "map unat xs"] d assms(2) by (simp add: pow256 mult.commute)
  then have "be_value ?e = ?v" by (simp add: be_value_be_fixed)
  then have "map unat (bytesToBitArray ?e) = map unat xs"
    unfolding unat_bytesToBitArray using d assms(2) by (intro bits2.fixed_unique) auto
  then have "xs = bytesToBitArray ?e" using unat_list_inj by metis
  with that show thesis by simp
qed

text \<open>The eleven bits of one word as its index.\<close>

lemma index_of_bits:
  assumes "is_bits xs" "length xs = 11"
  shows "\<exists>bs. bitArrayToBytes (padBitsArray xs 16) = Some bs \<and> be_value (take 2 bs) = pos_value 2 (map unat xs)"
proof -
  have p: "padBitsArray xs 16 = replicate 5 0 @ xs" using assms(2) by (simp add: padBitsArray_def)
  obtain e where e: "padBitsArray xs 16 = bytesToBitArray e" "length e = 2"
    using bits_from_bytes [of "padBitsArray xs 16" 2] assms by (auto simp: p is_bits_def)
  have "be_value e = pos_value 2 (map unat (bytesToBitArray e))"
    using be_value_less [of e] e(2) by (simp add: unat_bytesToBitArray bits2.value_fixed pow256)
  also have "\<dots> = pos_value 2 (map unat xs)" by (simp add: e(1) [symmetric] p map_replicate)
  finally show ?thesis using e bitArrayToBytes_bytes [of e] by simp
qed


section \<open>The bit implementation computes the same sentence\<close>

text \<open>Groups of \<open>k\<close> small digits are the large digits.\<close>

lemma length_chunks [simp]: "length (chunks n k ds) = n"
  by (induction n arbitrary: ds) auto

lemma value_chunks:
  "length ds = n * k \<Longrightarrow> pos_value (b ^ k) (map (pos_value b) (chunks n k ds)) = pos_value b ds"
proof (induction n arbitrary: ds)
  case (Suc n)
  then have len: "length (take k ds) = k" "length (drop k ds) = n * k" by auto
  have "pos_value b ds = pos_value b (take k ds @ drop k ds)" by simp
  then show ?case using Suc.IH [OF len(2)] len
    by (simp only: pos_value_append chunks.simps list.map pos_value_Cons length_map length_chunks) (simp add: power_mult mult.commute)
qed simp

lemma chunks_elem: "length ds = n * k \<Longrightarrow> c \<in> set (chunks n k ds) \<Longrightarrow> length c = k \<and> set c \<subseteq> set ds"
proof (induction n arbitrary: ds)
  case (Suc n)
  then consider "c = take k ds" | "c \<in> set (chunks n k (drop k ds))" by auto
  then show ?case
  proof cases
    case 1
    then show ?thesis using Suc.prems(1) set_take_subset [of k ds] by simp
  next
    case 2
    then have "length c = k \<and> set c \<subseteq> set (drop k ds)" using Suc.IH [of "drop k ds"] Suc.prems(1) by simp
    then show ?thesis using set_drop_subset [of k ds] by blast
  qed
qed simp

lemma fixed_chunks:
  assumes "length ds = n * 11" "\<And>d. d \<in> set ds \<Longrightarrow> d < 2"
  shows "pos_fixed 2048 n (pos_value 2 ds) = map (pos_value 2) (chunks n 11 ds)"
proof (rule base2048.fixed_unique)
  show "pos_value 2048 (map (pos_value 2) (chunks n 11 ds)) = pos_value 2 ds"
    using value_chunks [OF assms(1), of 2] by simp
  fix d assume "d \<in> set (map (pos_value 2) (chunks n 11 ds))"
  then obtain c where c: "c \<in> set (chunks n 11 ds)" "d = pos_value 2 c" by auto
  then show "d < 2048" using bits2.value_less [of c] chunks_elem [OF assms(1) c(1)] assms(2) by fastforce
qed simp

lemma map_chunks: "map (map f) (chunks n k xs) = chunks n k (map f xs)"
  by (induction n arbitrary: xs) (simp_all add: take_map drop_map)

lemma bits_loop_chunks:
  assumes "length ws = 2048" "is_bits bits" "length bits = n * 11"
  shows "bits_loop ws n bits = Some (map (\<lambda>c. ws ! pos_value 2 (map unat c)) (chunks n 11 bits))"
  using assms(2,3)
proof (induction n arbitrary: bits)
  case (Suc n)
  have b: "is_bits (take 11 bits)" "is_bits (drop 11 bits)" "length (take 11 bits) = 11" "length (drop 11 bits) = n * 11"
    using Suc.prems by (auto simp: is_bits_def dest: in_set_takeD in_set_dropD)
  obtain bs where bs: "bitArrayToBytes (padBitsArray (take 11 bits) 16) = Some bs"
    "be_value (take 2 bs) = pos_value 2 (map unat (take 11 bits))"
    using index_of_bits [OF b(1,3)] by blast
  have "d < 2" if "d \<in> set (map unat (take 11 bits))" for d using that b(1) by (auto simp: is_bits_def)
  then have "pos_value 2 (map unat (take 11 bits)) < 2048"
    using bits2.value_less [of "map unat (take 11 bits)"] b(3) by simp
  with Suc.IH [OF b(2,4)] bs Suc.prems(2) assms(1) show ?case by simp
qed simp

lemma addChecksumBits_digits:
  assumes "entropy_ok c e"
  shows "is_bits (addChecksumBits e)" "map unat (addChecksumBits e) = pos_fixed 2 (33 * c) (sentence_value c e)"
    "addChecksumBits e = bytesToBitArray e @ take c (byteBits (sha256_sum e ! 0))"
proof -
  have c: "length e = 4 * c" "c \<le> 8" using assms by (auto simp: entropy_ok_def)
  show eq: "addChecksumBits e = bytesToBitArray e @ take c (byteBits (sha256_sum e ! 0))"
    using c by (auto simp: addChecksumBits_def getSha256Hash_def Let_def bytesToBitArray_def)
  have "is_bits (bytesToBitArray [sha256_sum e ! 0])" by (rule is_bits_bytes)
  then show "is_bits (addChecksumBits e)" using is_bits_bytes [of e]
    unfolding eq by (auto simp: is_bits_def bytesToBitArray_def dest: in_set_takeD)
  have "8 = c + (8 - c)" using c by simp
  then have cs: "map unat (take c (byteBits (sha256_sum e ! 0))) = pos_fixed 2 c (checksum_bits c e)"
    using bits2.take_fixed [of c "8 - c" "unat (sha256_sum e ! 0)"]
    by (simp add: take_map [symmetric] unat_byteBits checksum_bits_def)
  have "pos_fixed 2 (33 * c) (sentence_value c e) = map unat (addChecksumBits e)"
  proof (rule bits2.fixed_unique)
    show "length (map unat (addChecksumBits e)) = 33 * c" using c by (simp add: eq)
    show "\<And>d. d \<in> set (map unat (addChecksumBits e)) \<Longrightarrow> d < 2"
      using \<open>is_bits (addChecksumBits e)\<close> by (auto simp: is_bits_def)
    show "pos_value 2 (map unat (addChecksumBits e)) = sentence_value c e"
      unfolding eq map_append cs unat_bytesToBitArray pos_value_append bits2.value_fixed bits2.length_fixed
      using be_value_less [of e] checksum_bits_less [OF c(2), of e] c
      by (simp add: sentence_value_def pow256 mult.commute)
  qed
  then show "map unat (addChecksumBits e) = pos_fixed 2 (33 * c) (sentence_value c e)" by simp
qed

lemma Bytes2Mnemonic_sentence:
  assumes "words_ok ws" "entropy_ok c e"
  shows "Bytes2Mnemonic ws e = Ok (sentence ws c e)"
proof -
  have c: "c \<in> {4, 5, 6, 7, 8}" "length e = 4 * c" using assms(2) by (auto simp: entropy_ok_def)
  note bits = addChecksumBits_digits [OF assms(2)]
  have len: "length (addChecksumBits e) = 3 * c * 11" 
  proof -
    have "length (map unat (addChecksumBits e)) = 33 * c" unfolding bits(2) by simp
    then show ?thesis by simp
  qed
  have "bits_loop ws (3 * c) (addChecksumBits e) =
      Some (map ((!) ws) (map (pos_value 2) (chunks (3 * c) 11 (map unat (addChecksumBits e)))))"
    using bits_loop_chunks [OF _ bits(1) len] assms(1) by (simp add: words_ok_def map_chunks [symmetric])
  also have "map (pos_value 2) (chunks (3 * c) 11 (map unat (addChecksumBits e))) =
      pos_fixed 2048 (3 * c) (pos_value 2 (map unat (addChecksumBits e)))"
    using len bits(1) by (intro fixed_chunks [symmetric]) (auto simp: is_bits_def)
  also have "pos_value 2 (map unat (addChecksumBits e)) = sentence_value c e"
  proof -
    have "(2048 :: nat) ^ (3 * c) = 2 ^ (33 * c)" using power_mult [of "2 :: nat" 11 "3 * c"] by simp
    then show ?thesis using sentence_value_less [OF assms(2)] by (simp add: bits(2) bits2.value_fixed)
  qed
  finally have "bits_loop ws (3 * c) (addChecksumBits e) = Some (sentence ws c e)" by (simp add: sentence_def)
  moreover have "validateBytesBitSize (length e * 8) = Ok ()" "(length e * 8 + length e * 8 div 32) div 11 = 3 * c"
    using c by (auto simp: validateBytesBitSize_def)
  ultimately show ?thesis using len by (simp add: Bytes2Mnemonic_def Let_def)
qed


section \<open>The bit implementation reads the sentence back\<close>

lemma u16_loop_digits: "map unat (u16_loop n w acc) = pos_fixed 2 n (unat w) @ map unat acc"
proof (induction n arbitrary: w acc)
  case (Suc n)
  have "unat (drop_bit 1 w) = unat w div 2" unfolding unat_drop_bit_eq by (simp add: drop_bit_eq_div)
  moreover have "unat (ucast (w AND 1) :: byte) = unat w mod 2"
  proof -
    have "w AND 1 = 0 \<or> w AND 1 = 1" by (auto simp: and_one_eq mod2_eq_if)
    moreover have "unat (w AND 1) = unat w mod 2" by (simp only: and_one_eq unat_mod) simp
    ultimately show ?thesis by auto
  qed
  ultimately show ?case using Suc [of "drop_bit 1 w" "ucast (w AND 1) # acc"] by (simp only: u16_loop.simps list.map pos_fixed.simps) simp
qed simp

lemma u16_bits_11:
  assumes "i < 2048"
  shows "map unat (drop 5 (uint16ToBitArray (word_of_nat i))) = pos_fixed 2 11 i"
proof -
  have "unat (word_of_nat i :: 16 word) = i" using assms by (simp add: unat_of_nat)
  then have "map unat (uint16ToBitArray (word_of_nat i)) = pos_fixed 2 (5 + 11) i"
    by (simp add: uint16ToBitArray_def u16_loop_digits)
  then show ?thesis using bits2.drop_fixed [of 5 11 i] by (simp only: drop_map [symmetric])
qed

lemma mnemonic_bits_digits:
  assumes "words_ok ws" "\<And>i. i \<in> set is \<Longrightarrow> i < 2048"
  shows "\<exists>bs. mnemonic_bits ws (map ((!) ws) is) acc = Ok (acc @ bs) \<and> map unat bs = concat (map (pos_fixed 2 11) is)"
  using assms(2)
proof (induction "is" arbitrary: acc)
  case (Cons i "is")
  let ?b = "drop 5 (uint16ToBitArray (word_of_nat i))"
  have i: "i < 2048" using Cons(2) by simp
  then have "wordMap ws (ws ! i) = Some i" using assms(1) by (simp add: words_ok_def wordMap_nth)
  moreover obtain bs where "mnemonic_bits ws (map ((!) ws) is) (acc @ ?b) = Ok ((acc @ ?b) @ bs)"
    "map unat bs = concat (map (pos_fixed 2 11) is)"
    using Cons(1) [of "acc @ ?b"] Cons(2) by auto
  ultimately show ?case using u16_bits_11 [OF i] by (intro exI [of _ "?b @ bs"]) simp
qed simp

lemma mnemonic_bits_sentence:
  assumes "words_ok ws" "entropy_ok c e"
  shows "mnemonic_bits ws (sentence ws c e) [] = Ok (addChecksumBits e)"
proof -
  let ?is = "pos_fixed 2048 (3 * c) (sentence_value c e)"
  have less: "i < 2048" if "i \<in> set ?is" for i using that by (rule base2048.fixed_less)
  obtain bs where bs: "mnemonic_bits ws (sentence ws c e) [] = Ok bs" "map unat bs = concat (map (pos_fixed 2 11) ?is)"
    using mnemonic_bits_digits [OF assms(1) less, of _ "[]"] by (auto simp: sentence_def)
  have "concat (map (pos_fixed 2 11) ?is) = pos_fixed 2 (3 * c * 11) (pos_value 2048 ?is)"
    using bits2.concat_fixed [of ?is 11] less by simp
  also have "\<dots> = map unat (addChecksumBits e)"
    using addChecksumBits_digits(2) [OF assms(2)] sentence_value_less [OF assms(2)]
    by (simp add: base2048.value_fixed mult.commute)
  finally show ?thesis using bs unat_list_inj by metis
qed

lemma Mnemonic2Bytes_sentence:
  assumes "words_ok ws" "entropy_ok c e"
  shows "Mnemonic2Bytes ws (sentence ws c e) = Ok e"
proof -
  have c: "4 \<le> c" "c \<le> 8" "length e = 4 * c" using assms(2) by (auto simp: entropy_ok_def)
  let ?cs = "take c (byteBits (sha256_sum e ! 0))"
  have eq: "addChecksumBits e = bytesToBitArray e @ ?cs" using addChecksumBits_digits(3) [OF assms(2)] .
  have len: "length (addChecksumBits e) = 33 * c" "length (addChecksumBits e) div 32 = c" using c by (simp_all add: eq)
  have "shiftBitsFromBitArray (addChecksumBits e) c = (bytesToBitArray e, ?cs)"
    using c by (simp add: shiftBitsFromBitArray_def eq)
  then have "validateChecksumBits (addChecksumBits e) = Ok ()" "extractDataFromBitsArray (addChecksumBits e) = Some e"
    using c len by (simp_all add: validateChecksumBits_def extractDataFromBitsArray_def bitArrayToBytes_bytes
        getSha256Hash_def Let_def bytesToBitArray_def [of "[_]"])
  moreover have "validateMnemonicWordCount (sentence ws c e) = Ok ()"
  proof -
    have "3 * c * 11 div 32 = c" using c by simp
    then show ?thesis by (simp add: validateMnemonicWordCount_def sentence_def Let_def)
  qed
  ultimately show ?thesis by (simp add: Mnemonic2Bytes_def mnemonic_bits_sentence [OF assms])
qed

text \<open>
  C38. The two BIP-39 implementations agree: for every valid entropy and word list the bit array version
  produces the words of the big integer version, and each reads what the other wrote.
\<close>
theorem mnemonics_agree:
  assumes "words_ok ws" "entropy_ok c e"
  shows "\<exists>words. Bytes2Mnemonic ws e = Ok words \<and> NewMnemonic ws e = Ok (strings_Join '' '' words) \<and>
    Mnemonic2Bytes ws words = Ok e \<and> EntropyFromMnemonic ws (strings_Join '' '' words) = Ok e"
  using Bytes2Mnemonic_sentence [OF assms] NewMnemonic_sentence [OF assms] Mnemonic2Bytes_sentence [OF assms]
    EntropyFromMnemonic_sentence [OF assms] by blast

section \<open>A concrete word list\<close>

text \<open>The words \<open>a\<close>, \<open>aa\<close>, \<open>aaa\<close> and so on.\<close>

definition demo_words :: "string list" where
  "demo_words = map (\<lambda>i. replicate (Suc i) CHR ''a'') [0..<2048]"

lemma demo_words_ok: "words_ok demo_words"
  by (auto simp: words_ok_def demo_words_def distinct_map inj_on_def list_all_iff plain_word_def is_space_def)

lemma demo_entropy_ok: "entropy_ok 4 (replicate 16 0)"
  by (simp add: entropy_ok_def)

theorem mnemonics_agree_witness:
  "\<exists>words. Bytes2Mnemonic demo_words (replicate 16 0) = Ok words \<and> Mnemonic2Bytes demo_words words = Ok (replicate 16 0)"
  using mnemonics_agree [OF demo_words_ok demo_entropy_ok] by blast

text \<open>
  The word count test of \<open>Mnemonic2Bytes\<close> lets every multiple of three up to 93 through: a sentence of 27 known
  words panics on the checksum bits, and the empty sentence is accepted.
\<close>
lemma Mnemonic2Bytes_27_words_panics:
  assumes "words_ok ws" "length is = 27" "\<And>i. i \<in> set is \<Longrightarrow> i < 2048"
  shows "Mnemonic2Bytes ws (map ((!) ws) is) = Panic \<and> Mnemonic2Bytes ws [] = Ok []"
proof -
  obtain bs where bs: "mnemonic_bits ws (map ((!) ws) is) [] = Ok bs" "map unat bs = concat (map (pos_fixed 2 11) is)"
    using mnemonic_bits_digits [OF assms(1,3), of _ "[]"] by auto
  have len: "length bs = 297"
    using arg_cong [OF bs(2), of length] assms(2) by (simp add: bits2.length_concat_fixed)
  have bits: "is_bits bs"
  proof -
    have "unat x < 2" if "x \<in> set bs" for x
    proof -
      have "unat x \<in> set (concat (map (pos_fixed 2 11) is))" using that bs(2) by (metis imageI set_map)
      then show ?thesis using bits2.fixed_less by auto
    qed
    moreover have "x = 0 \<or> x = 1" if "unat x < 2" for x :: "8 word"
      using less_2_cases [OF that] word_unat_eq_iff [of x 0] word_unat_eq_iff [of x 1] by auto
    ultimately show ?thesis unfolding is_bits_def by blast
  qed
  obtain d where d: "take 288 bs = bytesToBitArray d"
    using bits_from_bytes [of "take 288 bs" 36] bits len by (auto simp: is_bits_def dest: in_set_takeD)
  have "validateChecksumBits bs = Panic"
    using len by (simp add: validateChecksumBits_def shiftBitsFromBitArray_def d bitArrayToBytes_bytes Let_def)
  moreover have "validateMnemonicWordCount (map ((!) ws) is) = Ok ()"
    using assms(2) by (simp add: validateMnemonicWordCount_def Let_def)
  moreover have "Mnemonic2Bytes ws [] = Ok []"
    by (simp add: Mnemonic2Bytes_def validateMnemonicWordCount_def validateChecksumBits_def shiftBitsFromBitArray_def
        extractDataFromBitsArray_def bitArrayToBytes.simps)
  ultimately show ?thesis using bs(1) by (simp add: Mnemonic2Bytes_def)
qed


end
