(* ===== verification/Json.thy ===== *)
theory Json
  imports Amount
begin

text \<open>
  What the program uses of \<open>encoding/json\<close>. A document is a tree; a number keeps its literal text.
  \<open>json.Unmarshal\<close> into a Go value of a given type is a function of the old value, because \<open>null\<close>
  leaves most values as they are and an object only sets the fields it names.
\<close>

section \<open>Documents\<close>

datatype json = JNull | JBool bool | JNum string | JStr string | JArr "json list" | JObj "(string \<times> json) list"

text \<open>A type mismatch or a syntax error.\<close>

datatype json_error = UnmarshalError

section \<open>Scalars\<close>

fun unjson_string :: "json \<Rightarrow> string \<Rightarrow> (json_error, string) res" where
  "unjson_string (JStr s) old = Ok s"
| "unjson_string JNull old = Ok old"
| "unjson_string _ old = Err UnmarshalError"

fun unjson_bool :: "json \<Rightarrow> bool \<Rightarrow> (json_error, bool) res" where
  "unjson_bool (JBool b) old = Ok b"
| "unjson_bool JNull old = Ok old"
| "unjson_bool _ old = Err UnmarshalError"

text \<open>\<open>strconv.ParseInt(s, 10, 64)\<close> of a number literal, which has no sign but \<open>-\<close>.\<close>

definition parse_int10 :: "string \<Rightarrow> int option" where
  "parse_int10 s =
     (case (if s \<noteq> [] \<and> hd s = CHR ''+'' then None else SetString10 s) of
        None \<Rightarrow> None
      | Some i \<Rightarrow> if - (2 ^ 63) \<le> i \<and> i < 2 ^ 63 then Some i else None)"

fun unjson_int :: "json \<Rightarrow> int \<Rightarrow> (json_error, int) res" where
  "unjson_int (JNum s) old = (case parse_int10 s of None \<Rightarrow> Err UnmarshalError | Some i \<Rightarrow> Ok i)"
| "unjson_int JNull old = Ok old"
| "unjson_int _ old = Err UnmarshalError"

text \<open>
  \<open>isValidNumber\<close>: an optional minus sign, an integer part without leading zeros, an optional
  fraction, an optional exponent.
\<close>

definition is_digit :: "char \<Rightarrow> bool" where
  "is_digit c \<longleftrightarrow> dec_val c \<noteq> None"

definition drop_exponent :: "string \<Rightarrow> string option" where
  "drop_exponent s =
     (if s \<noteq> [] \<and> (hd s = CHR ''e'' \<or> hd s = CHR ''E'') then
        (let t = tl s;
             t = (if t \<noteq> [] \<and> (hd t = CHR ''+'' \<or> hd t = CHR ''-'') then tl t else t)
         in if t \<noteq> [] \<and> is_digit (hd t) then Some (dropWhile is_digit t) else None)
      else Some s)"

definition drop_fraction :: "string \<Rightarrow> string" where
  "drop_fraction s =
     (if 2 \<le> length s \<and> hd s = CHR ''.'' \<and> is_digit (s ! 1) then dropWhile is_digit (tl s) else s)"

definition isValidNumber :: "string \<Rightarrow> bool" where
  "isValidNumber s =
     (let s = (if s \<noteq> [] \<and> hd s = CHR ''-'' then tl s else s)
      in if s = [] \<or> \<not> is_digit (hd s) then False
         else
           (let s = (if hd s = CHR ''0'' then tl s else dropWhile is_digit s)
            in drop_exponent (drop_fraction s) = Some []))"

text \<open>A field of type \<open>json.Number\<close> keeps the literal; a JSON string is accepted when it is one.\<close>

fun unjson_number :: "json \<Rightarrow> string \<Rightarrow> (json_error, string) res" where
  "unjson_number (JNum s) old = Ok s"
| "unjson_number (JStr s) old = (if isValidNumber s then Ok s else Err UnmarshalError)"
| "unjson_number JNull old = Ok old"
| "unjson_number _ old = Err UnmarshalError"

section \<open>Slices and maps\<close>

text \<open>
  Decoding goes on after the first type mismatch and reports it at the end: the result is an error
  when any element is.
\<close>

fun unjson_list :: "(json \<Rightarrow> (json_error, 'a) res) \<Rightarrow> json list \<Rightarrow> (json_error, 'a list) res" where
  "unjson_list f [] = Ok []"
| "unjson_list f (j # js) =
     (case f j of
        Panic \<Rightarrow> Panic
      | Err e \<Rightarrow> (case unjson_list f js of Panic \<Rightarrow> Panic | _ \<Rightarrow> Err e)
      | Ok x \<Rightarrow> res_bind (unjson_list f js) (\<lambda>xs. Ok (x # xs)))"

fun unjson_slice :: "(json \<Rightarrow> (json_error, 'a) res) \<Rightarrow> json \<Rightarrow> (json_error, 'a list) res" where
  "unjson_slice f (JArr js) = unjson_list f js"
| "unjson_slice f JNull = Ok []"
| "unjson_slice f _ = Err UnmarshalError"

text \<open>\<open>map[string]json.RawMessage\<close>: the last of several equal keys wins; \<open>null\<close> gives the nil map.\<close>

fun unjson_map :: "json \<Rightarrow> (json_error, string \<rightharpoonup> json) res" where
  "unjson_map (JObj kvs) = Ok (map_of (rev kvs))"
| "unjson_map JNull = Ok Map.empty"
| "unjson_map _ = Err UnmarshalError"

section \<open>Structs\<close>

text \<open>
  A key of an object sets the field with that name, or else the field whose name is equal up to
  Unicode simple case folding. Field names are ASCII letters here, so besides the other case only
  the long s (U+017F) and the Kelvin sign (U+212A) fold to them.
\<close>

definition upper_char :: "char \<Rightarrow> char" where
  "upper_char c = (if 97 \<le> (of_char c :: nat) \<and> of_char c \<le> (122 :: nat) then char_of (of_char c - 32 :: nat) else c)"

definition to_upper :: "string \<Rightarrow> string" where
  "to_upper = map upper_char"

fun foldName :: "string \<Rightarrow> string" where
  "foldName [] = []"
| "foldName (c # cs) =
     (case cs of
        [] \<Rightarrow> [upper_char c]
      | d # ds \<Rightarrow>
          if c = CHR 0xC5 \<and> d = CHR 0xBF then CHR ''S'' # foldName ds
          else (case ds of
                  [] \<Rightarrow> upper_char c # foldName cs
                | e # es \<Rightarrow>
                    if c = CHR 0xE2 \<and> d = CHR 0x84 \<and> e = CHR 0xAA then CHR ''K'' # foldName es
                    else upper_char c # foldName cs))"

definition field_matches :: "string \<Rightarrow> string \<Rightarrow> bool" where
  "field_matches name key \<longleftrightarrow> key = name \<or> foldName key = foldName name"

text \<open>
  The values an object has for a field are decoded in the order of the document into the same Go
  variable. \<open>struct_field f name v0 j\<close> is the value of the field afterwards.
\<close>

fun fields_fold :: "(json \<Rightarrow> 'a \<Rightarrow> ('e, 'a) res) \<Rightarrow> string \<Rightarrow> (string \<times> json) list \<Rightarrow> 'a \<Rightarrow> ('e, 'a) res" where
  "fields_fold f name [] v = Ok v"
| "fields_fold f name ((k, j) # kvs) v =
     (if field_matches name k then
        (case f j v of
           Ok v' \<Rightarrow> fields_fold f name kvs v'
         | r \<Rightarrow> r)
      else fields_fold f name kvs v)"

fun struct_field :: "(json \<Rightarrow> 'a \<Rightarrow> (json_error, 'a) res) \<Rightarrow> string \<Rightarrow> 'a \<Rightarrow> json \<Rightarrow> (json_error, 'a) res" where
  "struct_field f name v0 (JObj kvs) = fields_fold f name kvs v0"
| "struct_field f name v0 JNull = Ok v0"
| "struct_field f name v0 _ = Err UnmarshalError"

end
