(* ===== verification/Abi.thy ===== *)
theory Abi
  imports AddressCodec
begin

text \<open>
  Smart contract calls (\<open>abi/smartcontractabi.go\<close>, \<open>erc20.go\<close>, \<open>helpers.go\<close>, \<open>manager.go\<close>, the
  template of \<open>abi_tpls.go\<close>): method signatures, encoding and decoding of call data, the ERC-20
  calls, and the registry of known contracts.

  The signatures of an ABI are filled in by \<open>_prepare\<close> under a \<open>sync.Once\<close> the first time a method is
  looked up. The model keeps the flag and the signatures in the record and looks methods up in the
  prepared record; \<open>GetMethodByName_prepare\<close> shows that it makes no difference whether the filled-in
  record was kept from an earlier call. \<open>keccak\<close> is the third-party hash.
\<close>

section \<open>Data\<close>

datatype abi_error = ErrSmartContractMethodParamsCountMismatch | ErrSmartContractUnknownMethod
  | ErrInvalidParamsData | ErrAbiConfigStorageEmpty | ErrUnknownContract | ErrNotTransferMethod
  | AbiCodecErr address_error | AbiStorageErr

record SmartContractAbiEntryInput =
  in_Name :: string
  in_Type :: string
  in_Indexed :: bool

record SmartContractAbiEntryOutput =
  out_Type :: string
  out_Name :: string

record SmartContractAbiEntry =
  e_Constant :: bool
  e_Signature :: bytes
  e_Name :: string
  e_StateMutability :: string
  e_Type :: string
  e_Inputs :: "SmartContractAbiEntryInput list"
  e_Outputs :: "SmartContractAbiEntryOutput list"

record SmartContractAbi =
  abi_prepared :: bool
  abi_Entries :: "SmartContractAbiEntry list"

definition AddEntry :: "SmartContractAbiEntry \<Rightarrow> SmartContractAbi \<Rightarrow> SmartContractAbi" where
  "AddEntry entry a = a\<lparr> abi_Entries := abi_Entries a @ [entry] \<rparr>"

record paramInput =
  p_Name :: string
  p_Type :: string
  p_Data :: bytes

text \<open>The dynamic values the code passes as \<open>interface{}\<close>; a failed type assertion panics.\<close>

datatype abi_value = VBytes bytes | VBool bool

section \<open>Padding and numbers\<close>

text \<open>\<open>bytePad\<close>: the last \<open>bytesLen\<close> bytes of a long source, a short one right-aligned.\<close>

definition bytePad :: "bytes \<Rightarrow> nat \<Rightarrow> byte \<Rightarrow> bytes" where
  "bytePad src bytesLen padByte =
     (if length src \<ge> bytesLen then drop (length src - bytesLen) src
      else replicate (bytesLen - length src) padByte @ src)"

fun trim_index :: "bytes \<Rightarrow> nat \<Rightarrow> nat" where
  "trim_index [] i = i"
| "trim_index [b] i = i"
| "trim_index (b # c # bs) i = (if b \<noteq> 0 then i else trim_index (c # bs) (i + 1))"

text \<open>
  \<open>bytesTrimZero\<close>: when every byte is zero the loop variable stops at the last index, so one zero
  byte is left; the test \<open>len(src) == i\<close> only holds for the empty slice.
\<close>

definition bytesTrimZero :: "bytes \<Rightarrow> bytes" where
  "bytesTrimZero src =
     (let i = trim_index src 0 in if length src = i then [] else drop i src)"

definition int64ToByte :: "64 word \<Rightarrow> bytes" where
  "int64ToByte i = bytePad (be_bytes (unat i)) 8 0"

definition byteToInt64 :: "bytes \<Rightarrow> 64 word" where
  "byteToInt64 b = word_of_nat (be_value (bytePad b 8 0))"

definition GetBigInt :: "paramInput \<Rightarrow> nat" where
  "GetBigInt p = be_value (p_Data p)"

definition GetInt64 :: "paramInput \<Rightarrow> 64 word" where
  "GetInt64 p = byteToInt64 (p_Data p)"

definition GetBool :: "paramInput \<Rightarrow> bool" where
  "GetBool p = (if length (p_Data p) = 0 then False else last (p_Data p) \<noteq> 0)"

definition SetAddress :: "bytes \<Rightarrow> paramInput \<Rightarrow> paramInput" where
  "SetAddress addrBytes p = p\<lparr> p_Data := bytePad addrBytes 32 0 \<rparr>"

definition SetInt64 :: "64 word \<Rightarrow> paramInput \<Rightarrow> paramInput" where
  "SetInt64 amount p = p\<lparr> p_Data := bytePad (int64ToByte amount) 32 0 \<rparr>"

text \<open>\<open>big.Int.Bytes\<close> is the absolute value.\<close>

definition SetBigInt :: "int \<Rightarrow> paramInput \<Rightarrow> paramInput" where
  "SetBigInt amount p = p\<lparr> p_Data := bytePad (be_bytes (nat \<bar>amount\<bar>)) 32 0 \<rparr>"

definition SetBool :: "bool \<Rightarrow> paramInput \<Rightarrow> paramInput" where
  "SetBool val p = p\<lparr> p_Data := replicate 31 0 @ [if val then 1 else 0] \<rparr>"

section \<open>Signatures\<close>

definition updateSignature :: "(bytes \<Rightarrow> bytes) \<Rightarrow> SmartContractAbiEntry \<Rightarrow> SmartContractAbiEntry" where
  "updateSignature keccak e =
     e\<lparr> e_Signature := take 4 (Keccak256 keccak
          [bytes_of_string (e_Name e @ ''('' @ strings_Join '','' (map in_Type (e_Inputs e)) @ '')'')]) \<rparr>"

definition isSignatureEmpty :: "SmartContractAbiEntry \<Rightarrow> bool" where
  "isSignatureEmpty e = list_all (\<lambda>b. b = 0) (e_Signature e)"

definition GetSignature :: "(bytes \<Rightarrow> bytes) \<Rightarrow> SmartContractAbiEntry \<Rightarrow> bytes" where
  "GetSignature keccak e = e_Signature (if isSignatureEmpty e then updateSignature keccak e else e)"

definition checkSignature :: "SmartContractAbiEntry \<Rightarrow> bytes \<Rightarrow> bool" where
  "checkSignature e signature = (e_Signature e = signature)"

definition prepare :: "(bytes \<Rightarrow> bytes) \<Rightarrow> SmartContractAbi \<Rightarrow> SmartContractAbi" where
  "prepare keccak a =
     (if abi_prepared a then a
      else a\<lparr> abi_prepared := True, abi_Entries := map (updateSignature keccak) (abi_Entries a) \<rparr>)"

definition GetMethodById ::
  "(bytes \<Rightarrow> bytes) \<Rightarrow> SmartContractAbi \<Rightarrow> bytes \<Rightarrow> (abi_error, SmartContractAbiEntry) res" where
  "GetMethodById keccak a signature =
     (case find (\<lambda>e. checkSignature e signature) (abi_Entries (prepare keccak a)) of
        Some e \<Rightarrow> Ok e
      | None \<Rightarrow> Err ErrSmartContractUnknownMethod)"

definition GetMethodByName ::
  "(bytes \<Rightarrow> bytes) \<Rightarrow> SmartContractAbi \<Rightarrow> string \<Rightarrow> (abi_error, SmartContractAbiEntry) res" where
  "GetMethodByName keccak a name =
     (case find (\<lambda>e. e_Name e = name) (abi_Entries (prepare keccak a)) of
        Some e \<Rightarrow> Ok e
      | None \<Rightarrow> Err ErrSmartContractUnknownMethod)"

definition extractMethodId :: "bytes \<Rightarrow> bytes option" where
  "extractMethodId data = (if length data < 4 then None else Some (take 4 data))"

section \<open>Encoding and decoding of parameters\<close>

definition parseParam :: "string \<Rightarrow> bytes \<Rightarrow> (abi_error, bytes \<times> nat) res" where
  "parseParam paramType data =
     (if paramType = ''uint256'' \<or> paramType = ''int256'' then
        (if length data < 32 then Err ErrInvalidParamsData else Ok (take 32 data, 32))
      else if paramType = ''address'' then
        (if length data < 32 then Err ErrInvalidParamsData else Ok (take 20 (drop 12 data), 32))
      else if paramType = ''bool'' then
        (if length data < 32 then Err ErrInvalidParamsData else Ok (take 1 (drop 31 data), 32))
      else Err ErrInvalidParamsData)"

fun decode_params :: "SmartContractAbiEntryInput list \<Rightarrow> bytes \<Rightarrow> (abi_error, paramInput list) res" where
  "decode_params [] data = Ok []"
| "decode_params (param # inputs) data =
     (case parseParam (in_Type param) data of
        Ok (parsed, next) \<Rightarrow>
          (if length data \<ge> next then
             res_bind (decode_params inputs (drop next data))
               (\<lambda>ps. Ok (\<lparr> p_Name = in_Name param, p_Type = in_Type param, p_Data = parsed \<rparr> # ps))
           else Err ErrInvalidParamsData)
      | Err e \<Rightarrow> Err e
      | Panic \<Rightarrow> Panic)"

definition DecodeInputs :: "SmartContractAbiEntry \<Rightarrow> bytes \<Rightarrow> (abi_error, paramInput list) res" where
  "DecodeInputs e data =
     (if length data < 4 then Err ErrInvalidParamsData else decode_params (e_Inputs e) (drop 4 data))"

text \<open>
  One parameter of \<open>encodeInputs\<close>. A \<open>uint256\<close> is appended as it is given, without padding; a
  parameter of any other type than the three adds nothing.
\<close>

definition encode_param :: "string \<Rightarrow> abi_value \<Rightarrow> bytes option" where
  "encode_param paramType v =
     (if paramType = ''address'' then (case v of VBytes addr \<Rightarrow> Some (bytePad addr 32 0) | _ \<Rightarrow> None)
      else if paramType = ''uint256'' then (case v of VBytes b \<Rightarrow> Some b | _ \<Rightarrow> None)
      else if paramType = ''bool'' then
        (case v of VBool val \<Rightarrow> Some (replicate 31 0 @ [if val then 1 else 0]) | _ \<Rightarrow> None)
      else Some [])"

fun encode_params :: "SmartContractAbiEntryInput list \<Rightarrow> abi_value list \<Rightarrow> bytes option" where
  "encode_params (i # inputs) (v # params) =
     (case encode_param (in_Type i) v of
        None \<Rightarrow> None
      | Some b \<Rightarrow> map_option ((@) b) (encode_params inputs params))"
| "encode_params _ _ = Some []"

definition encodeInputsBytes ::
  "(bytes \<Rightarrow> bytes) \<Rightarrow> SmartContractAbiEntry \<Rightarrow> abi_value list \<Rightarrow> (abi_error, bytes) res" where
  "encodeInputsBytes keccak e params =
     (if length (e_Inputs e) \<noteq> length params then Err ErrSmartContractMethodParamsCountMismatch
      else (case encode_params (e_Inputs e) params of
              None \<Rightarrow> Panic
            | Some b \<Rightarrow> Ok (take 4 (GetSignature keccak e) @ b)))"

definition encodeInputs ::
  "(bytes \<Rightarrow> bytes) \<Rightarrow> SmartContractAbiEntry \<Rightarrow> abi_value list \<Rightarrow> (abi_error, string) res" where
  "encodeInputs keccak e params = res_bind (encodeInputsBytes keccak e params) (\<lambda>b. Ok (BytesToHex b))"

section \<open>The ERC-20 template\<close>

definition abi_in :: "string \<Rightarrow> string \<Rightarrow> bool \<Rightarrow> SmartContractAbiEntryInput" where
  "abi_in name ty indexed = \<lparr> in_Name = name, in_Type = ty, in_Indexed = indexed \<rparr>"

definition abi_out :: "string \<Rightarrow> string \<Rightarrow> SmartContractAbiEntryOutput" where
  "abi_out ty name = \<lparr> out_Type = ty, out_Name = name \<rparr>"

definition abi_entry ::
  "bool \<Rightarrow> string \<Rightarrow> string \<Rightarrow> string \<Rightarrow> SmartContractAbiEntryInput list \<Rightarrow> SmartContractAbiEntryOutput list \<Rightarrow>
   SmartContractAbiEntry" where
  "abi_entry constant name stateMutability ty inputs outputs =
     \<lparr> e_Constant = constant, e_Signature = [0, 0, 0, 0], e_Name = name, e_StateMutability = stateMutability,
       e_Type = ty, e_Inputs = inputs, e_Outputs = outputs \<rparr>"

text \<open>The entries of the JSON text \<open>erc20tpl\<close>, as \<open>json.Unmarshal\<close> reads them.\<close>

definition erc20tpl :: "SmartContractAbiEntry list" where
  "erc20tpl =
     [abi_entry True ''name'' ''View'' ''Function'' [] [abi_out ''string'' ''''],
      abi_entry True ''deprecated'' ''View'' ''Function'' [] [abi_out ''bool'' ''''],
      abi_entry False ''addBlackList'' ''Nonpayable'' ''Function'' [abi_in ''_evilUser'' ''address'' False] [],
      abi_entry True ''upgradedAddress'' ''View'' ''Function'' [] [abi_out ''address'' ''''],
      abi_entry True ''decimals'' ''View'' ''Function'' [] [abi_out ''uint8'' ''''],
      abi_entry True ''maximumFee'' ''View'' ''Function'' [] [abi_out ''uint256'' ''''],
      abi_entry True ''_totalSupply'' ''View'' ''Function'' [] [abi_out ''uint256'' ''''],
      abi_entry False ''unpause'' ''Nonpayable'' ''Function'' [] [],
      abi_entry True ''getBlackListStatus'' ''View'' ''Function'' [abi_in ''_maker'' ''address'' False] [abi_out ''bool'' ''''],
      abi_entry True ''paused'' ''View'' ''Function'' [] [abi_out ''bool'' ''''],
      abi_entry True ''calcFee'' ''View'' ''Function'' [abi_in ''_value'' ''uint256'' False] [abi_out ''uint256'' ''''],
      abi_entry False ''pause'' ''Nonpayable'' ''Function'' [] [],
      abi_entry True ''owner'' ''View'' ''Function'' [] [abi_out ''address'' ''''],
      abi_entry True ''symbol'' ''View'' ''Function'' [] [abi_out ''string'' ''''],
      abi_entry False ''setParams'' ''Nonpayable'' ''Function'' [abi_in ''newBasisPoints'' ''uint256'' False, abi_in ''newMaxFee'' ''uint256'' False] [],
      abi_entry True ''basisPointsRate'' ''View'' ''Function'' [] [abi_out ''uint256'' ''''],
      abi_entry True ''isBlackListed'' ''View'' ''Function'' [abi_in '''' ''address'' False] [abi_out ''bool'' ''''],
      abi_entry False ''removeBlackList'' ''Nonpayable'' ''Function'' [abi_in ''_clearedUser'' ''address'' False] [],
      abi_entry True ''MAX_UINT'' ''View'' ''Function'' [] [abi_out ''uint256'' ''''],
      abi_entry False ''transferOwnership'' ''Nonpayable'' ''Function'' [abi_in ''newOwner'' ''address'' False] [],
      abi_entry False '''' ''Nonpayable'' ''Constructor'' [abi_in ''_initialSupply'' ''uint256'' False, abi_in ''_name'' ''string'' False, abi_in ''_symbol'' ''string'' False, abi_in ''_decimals'' ''uint8'' False] [],
      abi_entry False ''DestroyedBlackFunds'' '''' ''Event'' [abi_in ''_blackListedUser'' ''address'' True, abi_in ''_balance'' ''uint256'' False] [],
      abi_entry False ''Issue'' '''' ''Event'' [abi_in ''amount'' ''uint256'' False] [],
      abi_entry False ''Redeem'' '''' ''Event'' [abi_in ''amount'' ''uint256'' False] [],
      abi_entry False ''Deprecate'' '''' ''Event'' [abi_in ''newAddress'' ''address'' False] [],
      abi_entry False ''AddedBlackList'' '''' ''Event'' [abi_in ''_user'' ''address'' True] [],
      abi_entry False ''RemovedBlackList'' '''' ''Event'' [abi_in ''_user'' ''address'' True] [],
      abi_entry False ''Params'' '''' ''Event'' [abi_in ''feeBasisPoints'' ''uint256'' False, abi_in ''maxFee'' ''uint256'' False] [],
      abi_entry False ''Pause'' '''' ''Event'' [] [],
      abi_entry False ''Unpause'' '''' ''Event'' [] [],
      abi_entry False ''OwnershipTransferred'' '''' ''Event'' [abi_in ''previousOwner'' ''address'' True, abi_in ''newOwner'' ''address'' True] [],
      abi_entry False ''Approval'' '''' ''Event'' [abi_in ''owner'' ''address'' True, abi_in ''spender'' ''address'' True, abi_in ''value'' ''uint256'' False] [],
      abi_entry False ''Transfer'' '''' ''Event'' [abi_in ''from'' ''address'' True, abi_in ''to'' ''address'' True, abi_in ''value'' ''uint256'' False] [],
      abi_entry False ''transfer'' ''Nonpayable'' ''Function'' [abi_in ''_to'' ''address'' False, abi_in ''_value'' ''uint256'' False] [abi_out ''bool'' ''''],
      abi_entry False ''transferFrom'' ''Nonpayable'' ''Function'' [abi_in ''_from'' ''address'' False, abi_in ''_to'' ''address'' False, abi_in ''_value'' ''uint256'' False] [abi_out ''bool'' ''''],
      abi_entry True ''balanceOf'' ''View'' ''Function'' [abi_in ''who'' ''address'' False] [abi_out ''uint256'' ''''],
      abi_entry True ''oldBalanceOf'' ''View'' ''Function'' [abi_in ''who'' ''address'' False] [abi_out ''uint256'' ''''],
      abi_entry False ''approve'' ''Nonpayable'' ''Function'' [abi_in ''_spender'' ''address'' False, abi_in ''_value'' ''uint256'' False] [abi_out ''bool'' ''''],
      abi_entry False ''increaseApproval'' ''Nonpayable'' ''Function'' [abi_in ''_spender'' ''address'' False, abi_in ''_addedValue'' ''uint256'' False] [abi_out ''bool'' ''''],
      abi_entry False ''decreaseApproval'' ''Nonpayable'' ''Function'' [abi_in ''_spender'' ''address'' False, abi_in ''_subtractedValue'' ''uint256'' False] [abi_out ''bool'' ''''],
      abi_entry True ''allowance'' ''View'' ''Function'' [abi_in ''_owner'' ''address'' False, abi_in ''_spender'' ''address'' False] [abi_out ''uint256'' ''remaining''],
      abi_entry False ''deprecate'' ''Nonpayable'' ''Function'' [abi_in ''_upgradedAddress'' ''address'' False] [],
      abi_entry True ''totalSupply'' ''View'' ''Function'' [] [abi_out ''uint256'' ''''],
      abi_entry False ''issue'' ''Nonpayable'' ''Function'' [abi_in ''amount'' ''uint256'' False] [],
      abi_entry False ''redeem'' ''Nonpayable'' ''Function'' [abi_in ''amount'' ''uint256'' False] [],
      abi_entry False ''destroyBlackFunds'' ''Nonpayable'' ''Function'' [abi_in ''_blackListedUser'' ''address'' False] []]"

section \<open>The registry and the ERC-20 calls\<close>

record SmartContractInfo =
  sc_Name :: string
  sc_Symbol :: string
  sc_ContractAddress :: string
  sc_OriginAddress :: string
  sc_Decimals :: int
  sc_OriginGasLimit :: int
  sc_Abi :: "SmartContractAbi option"

text \<open>The interface \<open>address.AddressCodec\<close>, as far as this package calls it.\<close>

record abi_codec =
  acod_Encode :: "bytes \<Rightarrow> (address_error, string) res"
  acod_Decode :: "string \<Rightarrow> (address_error, bytes) res"

record SmartContractsManager =
  scm_contracts :: "SmartContractInfo list"
  scm_bySymbol :: "string \<rightharpoonup> SmartContractInfo"
  scm_byName :: "string \<rightharpoonup> SmartContractInfo"
  scm_byAddress :: "string \<rightharpoonup> SmartContractInfo"
  scm_erc20abi :: "SmartContractAbi option"
  scm_addressCodec :: "abi_codec option"

definition abi_NewManager :: "abi_codec option \<Rightarrow> SmartContractsManager" where
  "abi_NewManager codec =
     \<lparr> scm_contracts = [], scm_bySymbol = Map.empty, scm_byName = Map.empty, scm_byAddress = Map.empty,
       scm_erc20abi = None, scm_addressCodec = codec \<rparr>"

text \<open>\<open>afterLoad\<close>: the three indexes are rebuilt; a later contract replaces an earlier one.\<close>

definition index_by :: "(SmartContractInfo \<Rightarrow> string) \<Rightarrow> SmartContractInfo list \<Rightarrow> string \<rightharpoonup> SmartContractInfo" where
  "index_by f cs = fold (\<lambda>c m. m(f c \<mapsto> c)) cs Map.empty"

definition afterLoad :: "SmartContractsManager \<Rightarrow> SmartContractsManager" where
  "afterLoad m =
     m\<lparr> scm_byName := index_by sc_Name (scm_contracts m),
        scm_byAddress := index_by (\<lambda>c. to_lower (sc_ContractAddress c)) (scm_contracts m),
        scm_bySymbol := index_by sc_Symbol (scm_contracts m) \<rparr>"

definition addUnsafe :: "SmartContractInfo \<Rightarrow> SmartContractsManager \<Rightarrow> SmartContractsManager" where
  "addUnsafe c m =
     (if list_ex (\<lambda>ec. sc_Name ec = sc_Name c \<or> sc_ContractAddress ec = sc_ContractAddress c) (scm_contracts m) then m
      else afterLoad (m\<lparr> scm_contracts := scm_contracts m @ [c] \<rparr>))"

text \<open>
  \<open>Add\<close> also writes the list to the storage; the write's error is dropped. The second component is
  what is written.
\<close>

definition abi_Add :: "SmartContractInfo \<Rightarrow> SmartContractsManager \<Rightarrow> SmartContractsManager \<times> SmartContractInfo list" where
  "abi_Add c m = (let m' = addUnsafe c m in (m', scm_contracts m'))"

text \<open>\<open>Load\<close>: \<open>stored\<close> is what the storage returns, decoded from JSON.\<close>

definition abi_Load ::
  "(abi_error, SmartContractInfo list) res \<Rightarrow> SmartContractsManager \<Rightarrow> (abi_error, SmartContractsManager) res" where
  "abi_Load stored m = res_bind stored (\<lambda>loaded. Ok (afterLoad (m\<lparr> scm_contracts := loaded \<rparr>)))"

text \<open>The list \<open>rawKnownContractTpl\<close>: one contract without an address, with the same entries.\<close>

definition rawKnownContractTpl :: "SmartContractInfo list" where
  "rawKnownContractTpl =
     [\<lparr> sc_Name = ''erc20token'', sc_Symbol = ''ERC20'', sc_ContractAddress = [], sc_OriginAddress = [],
        sc_Decimals = 6, sc_OriginGasLimit = 0,
        sc_Abi = Some \<lparr> abi_prepared = False, abi_Entries = erc20tpl \<rparr> \<rparr>]"

definition abi_ColdStart :: "SmartContractsManager \<Rightarrow> SmartContractsManager" where
  "abi_ColdStart m = afterLoad (fold addUnsafe rawKnownContractTpl m)"

text \<open>\<open>Init\<close>: the storage is filled first when it does not exist yet.\<close>

definition abi_Init ::
  "bool \<Rightarrow> (SmartContractInfo list \<Rightarrow> (abi_error, unit) res) \<Rightarrow> (abi_error, SmartContractInfo list) res \<Rightarrow>
   SmartContractsManager \<Rightarrow> (abi_error, SmartContractsManager) res" where
  "abi_Init exists save stored m =
     res_bind (if exists then Ok m
               else (let m' = abi_ColdStart m in res_bind (save (scm_contracts m')) (\<lambda>_. Ok m')))
       (\<lambda>m. abi_Load stored (m\<lparr> scm_erc20abi := Some \<lparr> abi_prepared = False, abi_Entries = erc20tpl \<rparr> \<rparr>))"

definition last_contract :: "(SmartContractInfo \<Rightarrow> bool) \<Rightarrow> SmartContractsManager \<Rightarrow> SmartContractInfo option" where
  "last_contract P m = fold (\<lambda>c r. if P c then Some c else r) (scm_contracts m) None"

definition nonempty_address :: "SmartContractInfo option \<Rightarrow> (abi_error, string) res" where
  "nonempty_address c =
     (let a = (case c of None \<Rightarrow> [] | Some c \<Rightarrow> sc_ContractAddress c)
      in if a = [] then Err ErrUnknownContract else Ok a)"

definition GetSmartContractAddressByName :: "string \<Rightarrow> SmartContractsManager \<Rightarrow> (abi_error, string) res" where
  "GetSmartContractAddressByName contractName m = nonempty_address (last_contract (\<lambda>c. sc_Name c = contractName) m)"

definition GetSmartContractAddressByToken :: "string \<Rightarrow> SmartContractsManager \<Rightarrow> (abi_error, string) res" where
  "GetSmartContractAddressByToken symbol m = nonempty_address (last_contract (\<lambda>c. sc_Symbol c = symbol) m)"

definition GetSmartContractByToken :: "string \<Rightarrow> SmartContractsManager \<Rightarrow> (abi_error, SmartContractInfo) res" where
  "GetSmartContractByToken symbol m =
     (case last_contract (\<lambda>c. sc_Symbol c = symbol) m of None \<Rightarrow> Err ErrUnknownContract | Some c \<Rightarrow> Ok c)"

definition GetSmartContractByAddress :: "string \<Rightarrow> SmartContractsManager \<Rightarrow> (abi_error, SmartContractInfo) res" where
  "GetSmartContractByAddress contractAddress m =
     (case scm_byAddress m (to_lower contractAddress) of None \<Rightarrow> Err ErrUnknownContract | Some c \<Rightarrow> Ok c)"

definition GetSmartContractList :: "SmartContractsManager \<Rightarrow> string \<rightharpoonup> string" where
  "GetSmartContractList m = fold (\<lambda>c l. l(sc_Name c \<mapsto> sc_ContractAddress c)) (scm_contracts m) Map.empty"

definition Erc20CallGetBalance :: "(bytes \<Rightarrow> bytes) \<Rightarrow> SmartContractsManager \<Rightarrow> string \<Rightarrow> (abi_error, string) res" where
  "Erc20CallGetBalance keccak m address =
     (case scm_erc20abi m of
        None \<Rightarrow> Err ErrSmartContractUnknownMethod
      | Some erc20abi \<Rightarrow>
          (case scm_addressCodec m of
             None \<Rightarrow> Err ErrInvalidParamsData
           | Some codec \<Rightarrow>
               res_bind (GetMethodByName keccak erc20abi ''balanceOf'') (\<lambda>method.
               res_bind (res_map_err AbiCodecErr (acod_Decode codec address)) (\<lambda>addressBytes.
               encodeInputs keccak method [VBytes addressBytes]))))"

definition Erc20IsTransfer :: "(bytes \<Rightarrow> bytes) \<Rightarrow> SmartContractsManager \<Rightarrow> bytes \<Rightarrow> bool" where
  "Erc20IsTransfer keccak m callData =
     (case scm_erc20abi m of
        None \<Rightarrow> False
      | Some erc20abi \<Rightarrow>
          (case GetMethodByName keccak erc20abi ''transfer'' of
             Ok method \<Rightarrow>
               (case extractMethodId callData of
                  None \<Rightarrow> False
                | Some callDataMethod \<Rightarrow> checkSignature method callDataMethod)
           | _ \<Rightarrow> False))"

definition Erc20DecodeAmount :: "bytes \<Rightarrow> nat" where
  "Erc20DecodeAmount callData = GetBigInt \<lparr> p_Name = [], p_Type = ''uint256'', p_Data = callData \<rparr>"

fun transfer_params ::
  "abi_codec option \<Rightarrow> paramInput list \<Rightarrow> string \<times> nat option \<Rightarrow> (abi_error, string \<times> nat option) res" where
  "transfer_params codec [] (address, amount) = Ok (address, amount)"
| "transfer_params codec (param # params) (address, amount) =
     (if p_Type param = ''address'' then
        (case codec of
           None \<Rightarrow> Panic
         | Some c \<Rightarrow>
             res_bind (res_map_err AbiCodecErr (acod_Encode c (p_Data param)))
               (\<lambda>a. transfer_params codec params (a, amount)))
      else if p_Type param = ''uint256'' then transfer_params codec params (address, Some (GetBigInt param))
      else Err ErrInvalidParamsData)"

definition Erc20DecodeIfTransfer ::
  "(bytes \<Rightarrow> bytes) \<Rightarrow> SmartContractsManager \<Rightarrow> bytes \<Rightarrow> (abi_error, string \<times> nat option) res" where
  "Erc20DecodeIfTransfer keccak m callData =
     (case scm_erc20abi m of
        None \<Rightarrow> Err ErrSmartContractUnknownMethod
      | Some erc20abi \<Rightarrow>
          res_bind (GetMethodByName keccak erc20abi ''transfer'') (\<lambda>method.
            case extractMethodId callData of
              None \<Rightarrow> Err ErrNotTransferMethod
            | Some callDataMethod \<Rightarrow>
                (if \<not> checkSignature method callDataMethod then Err ErrNotTransferMethod
                 else res_bind (DecodeInputs method callData)
                        (\<lambda>params. transfer_params (scm_addressCodec m) params ([], None)))))"

section \<open>Preparing is idempotent\<close>

lemma prepare_idem [simp]: "prepare keccak (prepare keccak a) = prepare keccak a"
  by (simp add: prepare_def)

lemma GetMethodByName_prepare: "GetMethodByName keccak (prepare keccak a) name = GetMethodByName keccak a name"
  by (simp add: GetMethodByName_def)

lemma GetMethodById_prepare: "GetMethodById keccak (prepare keccak a) sig = GetMethodById keccak a sig"
  by (simp add: GetMethodById_def)

section \<open>Call data round trip\<close>

definition param_fits :: "string \<Rightarrow> abi_value \<Rightarrow> bool" where
  "param_fits ty v =
     (case v of
        VBytes b \<Rightarrow> ty = ''address'' \<and> length b = 20 \<or> ty = ''uint256'' \<and> length b = 32
      | VBool _ \<Rightarrow> ty = ''bool'')"

definition value_data :: "abi_value \<Rightarrow> bytes" where
  "value_data v = (case v of VBytes b \<Rightarrow> b | VBool x \<Rightarrow> [if x then 1 else 0])"

lemma encode_param_fits:
  assumes "param_fits ty v"
  shows "\<exists>b. encode_param ty v = Some b \<and> length b = 32 \<and> parseParam ty (b @ rest) = Ok (value_data v, 32)"
  using assms by (cases v) (auto simp: param_fits_def encode_param_def parseParam_def value_data_def bytePad_def)

lemma decode_encode_params:
  assumes "list_all2 (\<lambda>i v. param_fits (in_Type i) v) ins vs"
  shows "\<exists>b. encode_params ins vs = Some b \<and>
     decode_params ins (b @ rest) =
       Ok (map2 (\<lambda>i v. \<lparr> p_Name = in_Name i, p_Type = in_Type i, p_Data = value_data v \<rparr>) ins vs)"
  using assms
proof (induction ins vs)
  case (Cons i ins v vs)
  then obtain b where b: "encode_params ins vs = Some b" "decode_params ins (b @ rest) =
      Ok (map2 (\<lambda>i v. \<lparr> p_Name = in_Name i, p_Type = in_Type i, p_Data = value_data v \<rparr>) ins vs)" by blast
  obtain c where "encode_param (in_Type i) v = Some c" "length c = 32"
      "parseParam (in_Type i) (c @ b @ rest) = Ok (value_data v, 32)"
    using encode_param_fits [OF Cons(1)] by blast
  with b show ?case by simp
qed simp

text \<open>
  Decoding call data returns the encoded parameters: addresses of 20 bytes, \<open>uint256\<close> values of
  32 bytes and booleans, in order and under their names, whatever bytes follow.
\<close>
lemma DecodeInputs_encodeInputs:
  assumes "list_all2 (\<lambda>i v. param_fits (in_Type i) v) (e_Inputs e) vs" "length (GetSignature keccak e) = 4"
  shows "\<exists>data. encodeInputsBytes keccak e vs = Ok data \<and> take 4 data = GetSignature keccak e \<and>
     DecodeInputs e (data @ rest) =
       Ok (map2 (\<lambda>i v. \<lparr> p_Name = in_Name i, p_Type = in_Type i, p_Data = value_data v \<rparr>) (e_Inputs e) vs)"
proof -
  obtain b where "encode_params (e_Inputs e) vs = Some b" "decode_params (e_Inputs e) (b @ rest) =
      Ok (map2 (\<lambda>i v. \<lparr> p_Name = in_Name i, p_Type = in_Type i, p_Data = value_data v \<rparr>) (e_Inputs e) vs)"
    using decode_encode_params [OF assms(1), of rest] by blast
  then show ?thesis using assms(2) list_all2_lengthD [OF assms(1)]
    by (intro exI [of _ "GetSignature keccak e @ b"]) (simp add: encodeInputsBytes_def DecodeInputs_def)
qed

section \<open>ERC-20 transfers\<close>

text \<open>The manager after \<open>Init\<close>: the template, prepared or not yet.\<close>

definition erc20_ready :: "(bytes \<Rightarrow> bytes) \<Rightarrow> SmartContractsManager \<Rightarrow> bool" where
  "erc20_ready keccak m \<longleftrightarrow>
     (let a = \<lparr> abi_prepared = False, abi_Entries = erc20tpl \<rparr>
      in scm_erc20abi m = Some a \<or> scm_erc20abi m = Some (prepare keccak a))"

definition transfer_selector :: "(bytes \<Rightarrow> bytes) \<Rightarrow> bytes" where
  "transfer_selector keccak = take 4 (Keccak256 keccak [bytes_of_string ''transfer(address,uint256)''])"

lemma find_map_updateSignature:
  "find (\<lambda>e. e_Name e = name) (map (updateSignature keccak) es) =
     map_option (updateSignature keccak) (find (\<lambda>e. e_Name e = name) es)"
  by (induction es) (auto simp: updateSignature_def)

lemma find_transfer:
  "find (\<lambda>e. e_Name e = ''transfer'') erc20tpl =
     Some (abi_entry False ''transfer'' ''Nonpayable'' ''Function''
       [abi_in ''_to'' ''address'' False, abi_in ''_value'' ''uint256'' False] [abi_out ''bool'' []])"
  by (simp add: erc20tpl_def abi_entry_def)

lemma find_balanceOf:
  "find (\<lambda>e. e_Name e = ''balanceOf'') erc20tpl =
     Some (abi_entry True ''balanceOf'' ''View'' ''Function'' [abi_in ''who'' ''address'' False] [abi_out ''uint256'' []])"
  by (simp add: erc20tpl_def abi_entry_def)

lemma ready_method:
  assumes "erc20_ready keccak m" "find (\<lambda>e. e_Name e = name) erc20tpl = Some e"
  shows "\<exists>a. scm_erc20abi m = Some a \<and> GetMethodByName keccak a name = Ok (updateSignature keccak e)"
proof -
  let ?a = "\<lparr> abi_prepared = False, abi_Entries = erc20tpl \<rparr>"
  have "GetMethodByName keccak ?a name = Ok (updateSignature keccak e)"
    using assms(2) by (simp add: GetMethodByName_def prepare_def find_map_updateSignature)
  with assms(1) GetMethodByName_prepare [of keccak ?a name] show ?thesis
    by (auto simp: erc20_ready_def Let_def)
qed

lemma ready_transfer:
  assumes "erc20_ready keccak m"
  shows "\<exists>a e. scm_erc20abi m = Some a \<and> GetMethodByName keccak a ''transfer'' = Ok e \<and>
     e_Signature e = transfer_selector keccak \<and>
     e_Inputs e = [abi_in ''_to'' ''address'' False, abi_in ''_value'' ''uint256'' False]"
  using ready_method [OF assms find_transfer]
  by (auto simp: updateSignature_def abi_entry_def abi_in_def transfer_selector_def)

lemma Erc20IsTransfer_iff:
  assumes "erc20_ready keccak m"
  shows "Erc20IsTransfer keccak m callData \<longleftrightarrow> 4 \<le> length callData \<and> take 4 callData = transfer_selector keccak"
  using ready_transfer [OF assms] by (auto simp: Erc20IsTransfer_def extractMethodId_def checkSignature_def split: if_splits)

lemma decode_transfer_params:
  "decode_params [abi_in ''_to'' ''address'' False, abi_in ''_value'' ''uint256'' False] data =
     (if length data < 64 then Err ErrInvalidParamsData
      else Ok [\<lparr> p_Name = ''_to'', p_Type = ''address'', p_Data = take 20 (drop 12 data) \<rparr>,
               \<lparr> p_Name = ''_value'', p_Type = ''uint256'', p_Data = take 32 (drop 32 data) \<rparr>])"
  by (simp add: abi_in_def parseParam_def) linarith

lemma Erc20DecodeIfTransfer_eq:
  assumes "erc20_ready keccak m" "scm_addressCodec m = Some codec"
  shows "Erc20DecodeIfTransfer keccak m callData =
     (if length callData < 4 \<or> take 4 callData \<noteq> transfer_selector keccak then Err ErrNotTransferMethod
      else if length callData < 68 then Err ErrInvalidParamsData
      else res_bind (res_map_err AbiCodecErr (acod_Encode codec (take 20 (drop 16 callData))))
             (\<lambda>a. Ok (a, Some (be_value (take 32 (drop 36 callData))))))"
proof -
  obtain a e where "scm_erc20abi m = Some a" "GetMethodByName keccak a ''transfer'' = Ok e"
      "e_Signature e = transfer_selector keccak"
      "e_Inputs e = [abi_in ''_to'' ''address'' False, abi_in ''_value'' ''uint256'' False]"
    using ready_transfer [OF assms(1)] by blast
  then show ?thesis using assms(2)
    by (cases "acod_Encode codec (take 20 (drop 16 callData))")
      (auto simp: Erc20DecodeIfTransfer_def extractMethodId_def checkSignature_def DecodeInputs_def
        decode_transfer_params GetBigInt_def add.commute simp del: decode_params.simps)
qed

text \<open>
  C28. A call is decoded as an ERC-20 transfer exactly when it starts with the selector of
  \<open>transfer(address,uint256)\<close> and carries both parameters; the recipient is then the codec's text for
  the low 20 bytes of the first word and the amount the number in the second word.
\<close>
theorem Erc20DecodeIfTransfer_iff:
  assumes "erc20_ready keccak m" "scm_addressCodec m = Some codec"
  shows "Erc20DecodeIfTransfer keccak m callData = Ok (recipient, amount) \<longleftrightarrow>
     68 \<le> length callData \<and> take 4 callData = transfer_selector keccak \<and>
     acod_Encode codec (take 20 (drop 16 callData)) = Ok recipient \<and>
     amount = Some (be_value (take 32 (drop 36 callData)))"
  unfolding Erc20DecodeIfTransfer_eq [OF assms] by (auto simp: res_bind_Ok_iff)

definition demo_manager :: SmartContractsManager where
  "demo_manager = (abi_NewManager (Some \<lparr> acod_Encode = \<lambda>b. Ok (map char_of_byte b), acod_Decode = \<lambda>s. Ok (bytes_of_string s) \<rparr>))
     \<lparr> scm_erc20abi := Some \<lparr> abi_prepared = False, abi_Entries = erc20tpl \<rparr> \<rparr>"

theorem Erc20DecodeIfTransfer_iff_witness:
  "Erc20DecodeIfTransfer (\<lambda>_. replicate 32 7) demo_manager (replicate 4 7 @ replicate 12 0 @ replicate 20 65 @ replicate 31 0 @ [9]) =
     Ok (replicate 20 CHR ''A'', Some 9)"
proof -
  have "be_value [0, 0, 0, 0, 0, 0, 0, 0, 0, 0, 0, 0, 0, 0, 0, 0, 0, 0, 0, 0, 0, 0, 0, 0, 0, 0, 0, 0, 0, 0, 0, 9] = 9"
    by code_simp
  moreover have "char_of_byte 65 = CHR ''A''" by code_simp
  ultimately show ?thesis
    by (subst Erc20DecodeIfTransfer_iff [where codec = "\<lparr> acod_Encode = \<lambda>b. Ok (map char_of_byte b), acod_Decode = \<lambda>s. Ok (bytes_of_string s) \<rparr>"])
      (simp_all add: demo_manager_def abi_NewManager_def erc20_ready_def transfer_selector_def Keccak256_def eval_nat_numeral)
qed

lemma Erc20CallGetBalance_data:
  assumes "erc20_ready keccak m" "scm_addressCodec m = Some codec" "acod_Decode codec address = Ok b"
    and "length (keccak (bytes_of_string ''balanceOf(address)'')) = 32" "take 4 (keccak (bytes_of_string ''balanceOf(address)'')) \<noteq> [0, 0, 0, 0]"
  shows "Erc20CallGetBalance keccak m address =
     Ok (BytesToHex (take 4 (keccak (bytes_of_string ''balanceOf(address)'')) @ bytePad b 32 0))"
proof -
  obtain a where "scm_erc20abi m = Some a" "GetMethodByName keccak a ''balanceOf'' =
      Ok (updateSignature keccak (abi_entry True ''balanceOf'' ''View'' ''Function'' [abi_in ''who'' ''address'' False] [abi_out ''uint256'' []]))"
    using ready_method [OF assms(1) find_balanceOf] by blast
  then show ?thesis using assms(2-)
    by (simp add: Erc20CallGetBalance_def encodeInputs_def encodeInputsBytes_def encode_param_def
        updateSignature_def abi_entry_def abi_in_def GetSignature_def Keccak256_def)
qed

section \<open>The registry of contracts\<close>

definition scm_inv :: "SmartContractsManager \<Rightarrow> bool" where
  "scm_inv m \<longleftrightarrow>
     scm_byName m = index_by sc_Name (scm_contracts m) \<and>
     scm_byAddress m = index_by (\<lambda>c. to_lower (sc_ContractAddress c)) (scm_contracts m) \<and>
     scm_bySymbol m = index_by sc_Symbol (scm_contracts m) \<and>
     distinct (map sc_Name (scm_contracts m)) \<and> distinct (map sc_ContractAddress (scm_contracts m))"

lemma index_by_snoc [simp]: "index_by f (cs @ [c]) = (index_by f cs)(f c \<mapsto> c)"
  by (simp add: index_by_def)

lemma index_by_Nil [simp]: "index_by f [] = Map.empty"
  by (simp add: index_by_def)

lemma index_by_Some: "index_by f cs k = Some c \<Longrightarrow> c \<in> set cs \<and> f c = k"
  by (induction cs rule: rev_induct) (auto split: if_splits)

lemma index_by_dom: "c \<in> set cs \<Longrightarrow> \<exists>d. index_by f cs (f c) = Some d"
  by (induction cs rule: rev_induct) auto

lemma index_by_unique:
  assumes "c \<in> set cs" "\<And>d. d \<in> set cs \<Longrightarrow> f d = f c \<Longrightarrow> d = c"
  shows "index_by f cs (f c) = Some c"
  using assms
proof (induction cs rule: rev_induct)
  case (snoc x cs)
  then show ?case by (cases "f x = f c") auto
qed simp

lemma distinct_map_unique: "distinct (map f cs) \<Longrightarrow> c \<in> set cs \<Longrightarrow> d \<in> set cs \<Longrightarrow> f d = f c \<Longrightarrow> d = c"
  by (simp add: distinct_map inj_on_def)

lemma afterLoad_inv:
  "distinct (map sc_Name (scm_contracts m)) \<Longrightarrow> distinct (map sc_ContractAddress (scm_contracts m)) \<Longrightarrow> scm_inv (afterLoad m)"
  by (simp add: afterLoad_def scm_inv_def)

lemma scm_contracts_afterLoad [simp]: "scm_contracts (afterLoad m) = scm_contracts m"
  by (simp add: afterLoad_def)

lemma addUnsafe_inv: "scm_inv m \<Longrightarrow> scm_inv (addUnsafe c m)"
proof (cases "list_ex (\<lambda>ec. sc_Name ec = sc_Name c \<or> sc_ContractAddress ec = sc_ContractAddress c) (scm_contracts m)")
  case False
  assume "scm_inv m"
  with False show ?thesis unfolding addUnsafe_def if_not_P [OF False]
    by (intro afterLoad_inv) (auto simp: scm_inv_def list_ex_iff)
qed (simp add: addUnsafe_def)

lemma fold_addUnsafe_inv: "scm_inv m \<Longrightarrow> scm_inv (fold addUnsafe cs m)"
  by (induction cs arbitrary: m) (simp_all add: addUnsafe_inv)

lemma NewManager_inv: "scm_inv (abi_NewManager codec)"
  by (simp add: scm_inv_def abi_NewManager_def)

lemma addUnsafe_keeps: "d \<in> set (scm_contracts m) \<Longrightarrow> d \<in> set (scm_contracts (addUnsafe c m))"
  by (simp add: addUnsafe_def)

lemma fold_addUnsafe_keeps: "d \<in> set (scm_contracts m) \<Longrightarrow> d \<in> set (scm_contracts (fold addUnsafe cs m))"
  by (induction cs arbitrary: m) (simp_all add: addUnsafe_keeps)

lemma addUnsafe_adds:
  "\<exists>d \<in> set (scm_contracts (addUnsafe c m)). sc_Name d = sc_Name c \<or> sc_ContractAddress d = sc_ContractAddress c"
  by (auto simp: addUnsafe_def list_ex_iff)

text \<open>
  C29. Whatever contracts are added, and in whatever order, the registry keeps its indexes in step
  with its list: names and addresses stay unique, a contract once added is never replaced, it is found
  under its name, and under its address in any spelling unless another contract's address differs
  from it only in case.
\<close>
theorem registry_correct:
  assumes "c \<in> set (scm_contracts (fold addUnsafe cs (abi_NewManager codec)))"
    and "m = fold addUnsafe (cs @ cs') (abi_NewManager codec)"
  shows "scm_inv m \<and> scm_byName m (sc_Name c) = Some c \<and>
    (\<forall>a. to_lower a = to_lower (sc_ContractAddress c) \<longrightarrow>
       (\<exists>d. GetSmartContractByAddress a m = Ok d \<and>
          (d = c \<or> sc_ContractAddress d \<noteq> sc_ContractAddress c \<and> to_lower (sc_ContractAddress d) = to_lower a)))"
proof -
  have inv: "scm_inv m" unfolding assms(2) by (rule fold_addUnsafe_inv [OF NewManager_inv])
  have c: "c \<in> set (scm_contracts m)" unfolding assms(2) fold_append comp_def by (rule fold_addUnsafe_keeps [OF assms(1)])
  have name: "scm_byName m (sc_Name c) = Some c"
    using inv c distinct_map_unique [of sc_Name "scm_contracts m" c]
    by (simp add: scm_inv_def index_by_unique)
  have addr: "\<exists>d. GetSmartContractByAddress a m = Ok d \<and>
      (d = c \<or> sc_ContractAddress d \<noteq> sc_ContractAddress c \<and> to_lower (sc_ContractAddress d) = to_lower a)"
    if a: "to_lower a = to_lower (sc_ContractAddress c)" for a
  proof -
    have ix: "scm_byAddress m = index_by (\<lambda>c. to_lower (sc_ContractAddress c)) (scm_contracts m)"
      using inv by (simp add: scm_inv_def)
    obtain d where d: "scm_byAddress m (to_lower a) = Some d"
      using index_by_dom [OF c, of "\<lambda>c. to_lower (sc_ContractAddress c)"] a unfolding ix by auto
    with ix have "d \<in> set (scm_contracts m) \<and> to_lower (sc_ContractAddress d) = to_lower a"
      by (metis (mono_tags, lifting) index_by_Some)
    moreover have "d = c" if "sc_ContractAddress d = sc_ContractAddress c"
      using inv c calculation that distinct_map_unique [of sc_ContractAddress "scm_contracts m" c d]
      by (simp add: scm_inv_def)
    ultimately show ?thesis using d by (auto simp: GetSmartContractByAddress_def)
  qed
  show ?thesis using inv name addr by blast
qed

definition demo_contract :: "string \<Rightarrow> string \<Rightarrow> SmartContractInfo" where
  "demo_contract name address =
     \<lparr> sc_Name = name, sc_Symbol = name, sc_ContractAddress = address, sc_OriginAddress = [], sc_Decimals = 6,
       sc_OriginGasLimit = 0, sc_Abi = None \<rparr>"

theorem registry_correct_witness:
  "scm_byName (fold addUnsafe ([demo_contract ''A'' ''0xAb''] @ [demo_contract ''A'' ''0xCd'']) (abi_NewManager None)) ''A'' =
     Some (demo_contract ''A'' ''0xAb'')"
  using registry_correct [of "demo_contract ''A'' ''0xAb''" "[demo_contract ''A'' ''0xAb'']" None _ "[demo_contract ''A'' ''0xCd'']"]
  by (simp add: demo_contract_def addUnsafe_def abi_NewManager_def)


end
