(* ===== verification/EthClient.thy ===== *)
theory EthClient
  imports Json Abi TxSigner Types
begin

text \<open>
  The Ethereum client (\<open>clients/ethclient\<close>) over the JSON-RPC client (\<open>clients/urpc\<close>): decoding of
  transactions and blocks from JSON, the RPC methods, the classification of transactions as
  transfers, and the transfers themselves.

  The Ethereum node is the parameter: a transport takes the state of the node and a request and gives
  the new state and the response, or a transport error. A client operation is a function of the node
  state; \<^const>\<open>None\<close> means that it does not return (the nonce search of the signature may not end).
  \<open>keccak\<close> is the third-party hash, \<open>now\<close> the value of \<open>time.Now().Unix()\<close>.
\<close>

section \<open>The JSON-RPC client\<close>

datatype client_error = ErrHashesOnlyBlockHash | ErrTransactionNotFound | ErrTransactionNotTransfer
  | ErrUnsupportedTransactionFormat | ErrUnsupportedTransactionType | ErrTransactionSignError
  | ErrInsufficientFunds | ErrNothingToTransfer | ErrUnknownToken | ErrPrivateKeyMismatch
  | RpcErr string | JsonErr json_error | ClientHexErr hex_error | ClientCodecErr address_error
  | ClientAbiErr abi_error | ClientRlpErr rlp_error

record Request =
  rq_Method :: string
  rq_Params :: "json list"

record Response =
  rs_Error :: "(int \<times> string) option"
  rs_Result :: "json option"

type_synonym 'n transport = "'n \<Rightarrow> Request \<Rightarrow> 'n \<times> (string, Response) res"
type_synonym ('n, 'a) io = "'n \<Rightarrow> ('n \<times> (client_error, 'a) res) option"

definition io_bind :: "('n, 'a) io \<Rightarrow> ('a \<Rightarrow> ('n, 'b) io) \<Rightarrow> ('n, 'b) io" where
  "io_bind m f n =
     (case m n of
        None \<Rightarrow> None
      | Some (n', Ok a) \<Rightarrow> f a n'
      | Some (n', Err e) \<Rightarrow> Some (n', Err e)
      | Some (n', Panic) \<Rightarrow> Some (n', Panic))"

definition io_lift :: "(client_error, 'a) res \<Rightarrow> ('n, 'a) io" where
  "io_lift r n = Some (n, r)"

text \<open>\<open>urpc.Client.Call\<close>: an error object in the response becomes a Go error with its message.\<close>

definition urpc_Call :: "'n transport \<Rightarrow> Request \<Rightarrow> ('n, Response) io" where
  "urpc_Call T req n =
     (case T n req of
        (n', Ok response) \<Rightarrow>
          Some (n', case rs_Error response of None \<Rightarrow> Ok response | Some (code, message) \<Rightarrow> Err (RpcErr message))
      | (n', Err e) \<Rightarrow> Some (n', Err (RpcErr e))
      | (n', Panic) \<Rightarrow> Some (n', Panic))"

text \<open>\<open>ParseResult\<close> into a string variable that is empty; an absent result is not a JSON text.\<close>

definition ParseResult_string :: "Response \<Rightarrow> (client_error, string) res" where
  "ParseResult_string response =
     (case rs_Result response of
        None \<Rightarrow> Err (JsonErr UnmarshalError)
      | Some j \<Rightarrow> res_map_err JsonErr (unjson_string j []))"

definition rpc_string :: "'n transport \<Rightarrow> string \<Rightarrow> json list \<Rightarrow> ('n, string) io" where
  "rpc_string T method params =
     io_bind (urpc_Call T \<lparr> rq_Method = method, rq_Params = params \<rparr>) (\<lambda>result. io_lift (ParseResult_string result))"

section \<open>Transactions\<close>

record Transaction =
  x_BlockHash :: string
  x_BlockNumber :: int
  x_Hash :: string
  x_From :: string
  x_To :: string
  x_Gas :: int
  x_GasPrice :: "int option"
  x_Value :: "int option"
  x_Input :: string
  x_Nonce :: int
  x_TransactionIndex :: int
  x_Type :: int
  x_ChainId :: int
  x_AccessList :: "json option"
  x_V :: string
  x_R :: string
  x_S :: string

definition new_Transaction :: Transaction where
  "new_Transaction = \<lparr> x_BlockHash = [], x_BlockNumber = 0, x_Hash = [], x_From = [], x_To = [], x_Gas = 0,
     x_GasPrice = None, x_Value = None, x_Input = [], x_Nonce = 0, x_TransactionIndex = 0, x_Type = 0,
     x_ChainId = 0, x_AccessList = None, x_V = [], x_R = [], x_S = [] \<rparr>"

text \<open>The two shapes of a step of the \<open>UnmarshalJSON\<close> methods, and their sequence.\<close>

definition str_step ::
  "(string \<rightharpoonup> json) \<Rightarrow> string \<Rightarrow> ('t \<Rightarrow> string) \<Rightarrow> (string \<Rightarrow> 't \<Rightarrow> 't) \<Rightarrow> 't \<Rightarrow> (client_error, 't) res" where
  "str_step proxy key get upd t =
     (case proxy key of
        None \<Rightarrow> Ok t
      | Some j \<Rightarrow> res_bind (res_map_err JsonErr (unjson_string j (get t))) (\<lambda>s. Ok (upd s t)))"

definition hex_step ::
  "(string \<rightharpoonup> json) \<Rightarrow> string \<Rightarrow> string list \<Rightarrow> (string \<Rightarrow> (hex_error, 'v) res) \<Rightarrow> ('v \<Rightarrow> 't \<Rightarrow> 't) \<Rightarrow> 't \<Rightarrow>
   (client_error, 't) res" where
  "hex_step proxy key skipped parse upd t =
     (case proxy key of
        None \<Rightarrow> Ok t
      | Some j \<Rightarrow>
          res_bind (res_map_err JsonErr (unjson_string j [])) (\<lambda>s.
            if s \<in> set skipped then Ok t
            else res_bind (res_map_err ClientHexErr (parse s)) (\<lambda>v. Ok (upd v t))))"

fun run_steps :: "('t \<Rightarrow> (client_error, 't) res) list \<Rightarrow> 't \<Rightarrow> (client_error, 't) res" where
  "run_steps [] t = Ok t"
| "run_steps (step # steps) t = res_bind (step t) (run_steps steps)"

text \<open>
  \<open>Transaction.UnmarshalJSON\<close>. The error of the first \<open>json.Unmarshal\<close> is overwritten or dropped: a
  value that is not an object leaves the transaction as it was.
\<close>

definition Transaction_UnmarshalJSON :: "json \<Rightarrow> Transaction \<Rightarrow> (client_error, Transaction) res" where
  "Transaction_UnmarshalJSON data =
     (let proxy = (case unjson_map data of Ok m \<Rightarrow> m | _ \<Rightarrow> Map.empty)
      in run_steps
           [str_step proxy ''blockHash'' x_BlockHash (\<lambda>v. x_BlockHash_update (\<lambda>_. v)),
            hex_step proxy ''blockNumber'' [[]] ParseHexInt64 (\<lambda>v. x_BlockNumber_update (\<lambda>_. v)),
            str_step proxy ''from'' x_From (\<lambda>v. x_From_update (\<lambda>_. v)),
            hex_step proxy ''gas'' [[], ''0x''] ParseHexInt64 (\<lambda>v. x_Gas_update (\<lambda>_. v)),
            hex_step proxy ''gasPrice'' [] ParseBigInt (\<lambda>v. x_GasPrice_update (\<lambda>_. Some v)),
            str_step proxy ''hash'' x_Hash (\<lambda>v. x_Hash_update (\<lambda>_. v)),
            str_step proxy ''input'' x_Input (\<lambda>v. x_Input_update (\<lambda>_. v)),
            hex_step proxy ''nonce'' [[], ''0x''] ParseHexInt64 (\<lambda>v. x_Nonce_update (\<lambda>_. v)),
            str_step proxy ''to'' x_To (\<lambda>v. x_To_update (\<lambda>_. v)),
            hex_step proxy ''transactionIndex'' [[], ''0x''] ParseHexInt64 (\<lambda>v. x_TransactionIndex_update (\<lambda>_. v)),
            hex_step proxy ''value'' [] ParseBigInt (\<lambda>v. x_Value_update (\<lambda>_. Some v)),
            hex_step proxy ''type'' [] ParseHexInt64 (\<lambda>v. x_Type_update (\<lambda>_. v)),
            hex_step proxy ''chainId'' [] ParseHexInt64 (\<lambda>v. x_ChainId_update (\<lambda>_. v)),
            (\<lambda>t. Ok (case proxy ''accessList'' of None \<Rightarrow> t | Some j \<Rightarrow> t\<lparr> x_AccessList := Some j \<rparr>)),
            str_step proxy ''v'' x_V (\<lambda>v. x_V_update (\<lambda>_. v)),
            str_step proxy ''r'' x_R (\<lambda>v. x_R_update (\<lambda>_. v)),
            str_step proxy ''s'' x_S (\<lambda>v. x_S_update (\<lambda>_. v))])"

section \<open>Blocks\<close>

record Block =
  b_FullTransactions :: bool
  b_Number :: int
  b_Hash :: string
  b_ParentHash :: string
  b_ParentBeaconBlockRoot :: string
  b_Nonce :: nat
  b_Sha3Uncles :: string
  b_LogsBloom :: string
  b_TransactionsRoot :: string
  b_StateRoot :: string
  b_ReceiptsRoot :: string
  b_Miner :: string
  b_BaseFeePerGas :: "int option"
  b_Difficulty :: int
  b_TotalDifficulty :: string
  b_ExtraData :: string
  b_Size :: int
  b_GasLimit :: int
  b_GasUsed :: int
  b_Timestamp :: int
  b_BlobGasUsed :: string
  b_ExcessBlobGas :: string
  b_MixHash :: string
  b_Transactions :: "json option"
  b_transactionsFullDecoded :: "Transaction list"
  b_transactionsHashesDecoded :: "string list"
  b_Uncles :: "string list"
  b_Withdrawals :: "json option"
  b_WithdrawalsRoot :: string

definition new_Block :: "bool \<Rightarrow> Block" where
  "new_Block fullTransactions = \<lparr> b_FullTransactions = fullTransactions, b_Number = 0, b_Hash = [],
     b_ParentHash = [], b_ParentBeaconBlockRoot = [], b_Nonce = 0, b_Sha3Uncles = [], b_LogsBloom = [],
     b_TransactionsRoot = [], b_StateRoot = [], b_ReceiptsRoot = [], b_Miner = [], b_BaseFeePerGas = None,
     b_Difficulty = 0, b_TotalDifficulty = [], b_ExtraData = [], b_Size = 0, b_GasLimit = 0, b_GasUsed = 0,
     b_Timestamp = 0, b_BlobGasUsed = [], b_ExcessBlobGas = [], b_MixHash = [], b_Transactions = None,
     b_transactionsFullDecoded = [], b_transactionsHashesDecoded = [], b_Uncles = [], b_Withdrawals = None,
     b_WithdrawalsRoot = [] \<rparr>"

definition GetTransactions :: "Block \<Rightarrow> (client_error, Transaction list) res" where
  "GetTransactions b = (if \<not> b_FullTransactions b then Err ErrHashesOnlyBlockHash else Ok (b_transactionsFullDecoded b))"

definition GetTransactionsHashes :: "Block \<Rightarrow> string list" where
  "GetTransactionsHashes b = b_transactionsHashesDecoded b"

text \<open>
  The slice \<open>[]*Transaction\<close>: a \<open>null\<close> element is a nil pointer, and reading its hash panics. After the
  loop over the hashes all elements are there.
\<close>

fun unjson_tx :: "json \<Rightarrow> (client_error, Transaction option) res" where
  "unjson_tx JNull = Ok None"
| "unjson_tx j = res_bind (Transaction_UnmarshalJSON j new_Transaction) (\<lambda>t. Ok (Some t))"

fun unjson_txs :: "json list \<Rightarrow> (client_error, Transaction option list) res" where
  "unjson_txs [] = Ok []"
| "unjson_txs (j # js) =
     (case unjson_tx j of
        Panic \<Rightarrow> Panic
      | Err e \<Rightarrow> Err e
      | Ok t \<Rightarrow> res_bind (unjson_txs js) (\<lambda>ts. Ok (t # ts)))"

definition full_transactions :: "json \<Rightarrow> Block \<Rightarrow> (client_error, Block) res" where
  "full_transactions j b =
     res_bind (case j of JArr js \<Rightarrow> unjson_txs js | JNull \<Rightarrow> Ok [] | _ \<Rightarrow> Err (JsonErr UnmarshalError))
       (\<lambda>txs. if None \<in> set txs then Panic
              else Ok (b\<lparr> b_transactionsFullDecoded := map the txs,
                          b_transactionsHashesDecoded := map (\<lambda>t. x_Hash (the t)) txs \<rparr>))"

definition transactions_step :: "(string \<rightharpoonup> json) \<Rightarrow> Block \<Rightarrow> (client_error, Block) res" where
  "transactions_step proxy b =
     (case proxy ''transactions'' of
        None \<Rightarrow> Ok b
      | Some j \<Rightarrow>
          (let b = b\<lparr> b_Transactions := Some j \<rparr>
           in if b_FullTransactions b then full_transactions j b
              else res_bind (res_map_err JsonErr (unjson_slice (\<lambda>j. unjson_string j []) j))
                     (\<lambda>hs. Ok (b\<lparr> b_transactionsHashesDecoded := hs \<rparr>))))"

definition Block_UnmarshalJSON :: "json \<Rightarrow> Block \<Rightarrow> (client_error, Block) res" where
  "Block_UnmarshalJSON data b =
     res_bind (res_map_err JsonErr (unjson_map data)) (\<lambda>proxy.
       run_steps
         [hex_step proxy ''number'' [] ParseHexInt64 (\<lambda>v. b_Number_update (\<lambda>_. v)),
          str_step proxy ''hash'' b_Hash (\<lambda>v. b_Hash_update (\<lambda>_. v)),
          str_step proxy ''parentHash'' b_ParentHash (\<lambda>v. b_ParentHash_update (\<lambda>_. v)),
          str_step proxy ''parentBeaconBlockRoot'' b_ParentBeaconBlockRoot (\<lambda>v. b_ParentBeaconBlockRoot_update (\<lambda>_. v)),
          hex_step proxy ''nonce'' [] ParseHexUint64 (\<lambda>v. b_Nonce_update (\<lambda>_. v)),
          str_step proxy ''sha3Uncles'' b_Sha3Uncles (\<lambda>v. b_Sha3Uncles_update (\<lambda>_. v)),
          str_step proxy ''logsBloom'' b_LogsBloom (\<lambda>v. b_LogsBloom_update (\<lambda>_. v)),
          str_step proxy ''transactionsRoot'' b_TransactionsRoot (\<lambda>v. b_TransactionsRoot_update (\<lambda>_. v)),
          str_step proxy ''stateRoot'' b_StateRoot (\<lambda>v. b_StateRoot_update (\<lambda>_. v)),
          str_step proxy ''receiptsRoot'' b_ReceiptsRoot (\<lambda>v. b_ReceiptsRoot_update (\<lambda>_. v)),
          str_step proxy ''miner'' b_Miner (\<lambda>v. b_Miner_update (\<lambda>_. v)),
          hex_step proxy ''baseFeePerGas'' [] ParseBigInt (\<lambda>v. b_BaseFeePerGas_update (\<lambda>_. Some v)),
          hex_step proxy ''difficulty'' [] ParseHexInt64 (\<lambda>v. b_Difficulty_update (\<lambda>_. v)),
          str_step proxy ''totalDifficulty'' b_TotalDifficulty (\<lambda>v. b_TotalDifficulty_update (\<lambda>_. v)),
          str_step proxy ''extraData'' b_ExtraData (\<lambda>v. b_ExtraData_update (\<lambda>_. v)),
          hex_step proxy ''size'' [] ParseHexInt64 (\<lambda>v. b_Size_update (\<lambda>_. v)),
          hex_step proxy ''gasLimit'' [] ParseHexInt64 (\<lambda>v. b_GasLimit_update (\<lambda>_. v)),
          hex_step proxy ''gasUsed'' [] ParseHexInt64 (\<lambda>v. b_GasUsed_update (\<lambda>_. v)),
          hex_step proxy ''timestamp'' [] ParseHexInt64 (\<lambda>v. b_Timestamp_update (\<lambda>_. v)),
          str_step proxy ''blobGasUsed'' b_BlobGasUsed (\<lambda>v. b_BlobGasUsed_update (\<lambda>_. v)),
          str_step proxy ''excessBlobGas'' b_ExcessBlobGas (\<lambda>v. b_ExcessBlobGas_update (\<lambda>_. v)),
          str_step proxy ''mixHash'' b_MixHash (\<lambda>v. b_MixHash_update (\<lambda>_. v)),
          transactions_step proxy,
          (\<lambda>b. case proxy ''uncles'' of
                 None \<Rightarrow> Ok b
               | Some j \<Rightarrow> res_bind (res_map_err JsonErr (unjson_slice (\<lambda>j. unjson_string j []) j))
                             (\<lambda>u. Ok (b\<lparr> b_Uncles := u \<rparr>))),
          (\<lambda>b. Ok (case proxy ''withdrawals'' of None \<Rightarrow> b | Some j \<Rightarrow> b\<lparr> b_Withdrawals := Some j \<rparr>)),
          str_step proxy ''withdrawalsRoot'' b_WithdrawalsRoot (\<lambda>v. b_WithdrawalsRoot_update (\<lambda>_. v))] b)"

section \<open>The client and the decoding of transactions\<close>

record Client =
  c_Debug :: bool
  c_chainName :: string
  c_chainId :: string
  c_chainSymbol :: string
  c_decimals :: int
  c_abi :: SmartContractsManager
  c_tokens :: "TokenInfo list"
  c_minConfirmations :: int

text \<open>The configuration file of the client.\<close>

record client_Config =
  cfg_ChainName :: string
  cfg_ChainId :: string
  cfg_ChainSymbol :: string
  cfg_Decimals :: int
  cfg_Confirmations :: int
  cfg_Debug :: bool
  cfg_Tokens :: "TokenInfo list"

definition client_coldStart :: client_Config where
  "client_coldStart =
     \<lparr> cfg_ChainName = ''Ethereum'', cfg_ChainId = ''ethereum'', cfg_ChainSymbol = ''ETH'', cfg_Decimals = 18,
       cfg_Confirmations = 20, cfg_Debug = False,
       cfg_Tokens =
         [\<lparr> ContractAddress = ''0xdAC17F958D2ee523a2206206994597C13D831ec7'', TokenName = ''TetherToken'',
            TokenSym = ''USDT'', TokenDecimals = 6, Protocol = ''TRC20'' \<rparr>,
          \<lparr> ContractAddress = ''0xA0b86991c6218b36c1d19D4a2e9Eb0cE3606eB48'', TokenName = ''USD Coin'',
            TokenSym = ''USDC'', TokenDecimals = 6, Protocol = ''TRC20'' \<rparr>] \<rparr>"

definition NewClient :: "SmartContractsManager \<Rightarrow> Client" where
  "NewClient abi =
     \<lparr> c_Debug = False, c_chainName = ''Ethereum'', c_chainId = ''ethereum'', c_chainSymbol = ''ETH'',
       c_decimals = 18, c_abi = abi, c_tokens = [], c_minConfirmations = 12 \<rparr>"

text \<open>\<open>Init\<close>: the loaded configuration overrides what it sets; the tokens always come from it.\<close>

definition client_Init :: "client_Config \<Rightarrow> Client \<Rightarrow> Client" where
  "client_Init cfg c =
     c\<lparr> c_Debug := cfg_Debug cfg,
        c_chainName := (if cfg_ChainName cfg \<noteq> [] then cfg_ChainName cfg else c_chainName c),
        c_chainId := (if cfg_ChainId cfg \<noteq> [] then cfg_ChainId cfg else c_chainId c),
        c_chainSymbol := (if cfg_ChainSymbol cfg \<noteq> [] then cfg_ChainSymbol cfg else c_chainSymbol c),
        c_decimals := (if cfg_Decimals cfg \<noteq> 0 then cfg_Decimals cfg else c_decimals c),
        c_minConfirmations := (if cfg_Confirmations cfg \<noteq> 0 then cfg_Confirmations cfg else c_minConfirmations c),
        c_tokens := cfg_Tokens cfg \<rparr>"

definition SetConfirmations :: "int \<Rightarrow> Client \<Rightarrow> Client" where
  "SetConfirmations confirmations c = c\<lparr> c_minConfirmations := confirmations \<rparr>"

fun protocols_loop :: "TokenInfo list \<Rightarrow> string list \<Rightarrow> string list" where
  "protocols_loop [] protocols = protocols"
| "protocols_loop (token # tokens) protocols =
     protocols_loop tokens (if Protocol token \<notin> set protocols then protocols @ [Protocol token] else protocols)"

definition TokenProtocols :: "Client \<Rightarrow> string list" where
  "TokenProtocols c = protocols_loop (c_tokens c) []"

definition tokenGetIfExistByAddress :: "Client \<Rightarrow> string \<Rightarrow> TokenInfo option" where
  "tokenGetIfExistByAddress c contractAddress =
     find (\<lambda>token. to_lower (ContractAddress token) = to_lower contractAddress) (c_tokens c)"

definition tokenGetIfExistBySymbol :: "Client \<Rightarrow> string \<Rightarrow> TokenInfo option" where
  "tokenGetIfExistBySymbol c symbol = find (\<lambda>token. to_lower (TokenSym token) = to_lower symbol) (c_tokens c)"

text \<open>\<open>_addressToNormal\<close> drops both errors: a text that is no address becomes the empty string.\<close>

definition addressToNormal :: "(bytes \<Rightarrow> bytes) \<Rightarrow> string \<Rightarrow> (client_error, string) res" where
  "addressToNormal keccak address =
     (let ab = (case DecodeAddressToBytes address of Ok b \<Rightarrow> b | _ \<Rightarrow> [])
      in case EncodeBytesToAddress keccak ab of
           Ok normalAddress \<Rightarrow> Ok normalAddress
         | Err _ \<Rightarrow> Ok []
         | Panic \<Rightarrow> Panic)"

text \<open>
  The contract branch of \<open>transactionDecode\<close>. With \<open>Debug\<close> the log statements slice the input and
  compare the amount, which can panic.
\<close>

definition token_transfer ::
  "(bytes \<Rightarrow> bytes) \<Rightarrow> Client \<Rightarrow> Transaction \<Rightarrow> TransferInfo \<Rightarrow> TokenInfo \<Rightarrow> (client_error, TransferInfo) res" where
  "token_transfer keccak c tx txInfo knownToken =
     (case ParseHexBytes (x_Input tx) of
        Panic \<Rightarrow> Panic
      | Err _ \<Rightarrow> Err ErrUnsupportedTransactionFormat
      | Ok callData \<Rightarrow>
          (if Erc20IsTransfer keccak (c_abi c) callData then
             (case Erc20DecodeIfTransfer keccak (c_abi c) callData of
                Panic \<Rightarrow> Panic
              | Err _ \<Rightarrow> Err ErrUnsupportedTransactionType
              | Ok (toAddress, amountWei) \<Rightarrow>
                  (case amountWei of
                     None \<Rightarrow> if toAddress = [] \<and> \<not> c_Debug c then Err ErrUnsupportedTransactionType else Panic
                   | Some amount \<Rightarrow>
                       (if toAddress = [] \<or> amount = 0 then Err ErrUnsupportedTransactionType
                        else res_bind (addressToNormal keccak toAddress) (\<lambda>recipient.
                          Ok (txInfo\<lparr> SmartContract := True, Token := TokenName knownToken,
                                TokenSymbol := TokenSym knownToken, Decimals := TokenDecimals knownToken,
                                To := recipient, Amount := Some (int amount) \<rparr>)))))
           else if c_Debug c \<and> length (x_Input tx) < 16 then Panic
           else Err ErrUnsupportedTransactionType))"

definition contract_branch ::
  "(bytes \<Rightarrow> bytes) \<Rightarrow> Client \<Rightarrow> Transaction \<Rightarrow> TransferInfo \<Rightarrow> (client_error, TransferInfo) res" where
  "contract_branch keccak c tx txInfo =
     (if x_To tx = [] \<or> x_To tx = ''0x'' then Err ErrUnsupportedTransactionFormat
      else res_bind (addressToNormal keccak (x_To tx)) (\<lambda>possibleContractAddress.
        case tokenGetIfExistByAddress c possibleContractAddress of
          None \<Rightarrow> Err ErrUnsupportedTransactionType
        | Some knownToken \<Rightarrow> token_transfer keccak c tx txInfo knownToken))"

text \<open>\<open>transactionDecode\<close>; the gas is converted to \<open>uint64\<close> for the fee.\<close>

definition transactionDecode ::
  "(bytes \<Rightarrow> bytes) \<Rightarrow> int \<Rightarrow> Client \<Rightarrow> Transaction \<Rightarrow> (client_error, TransferInfo) res" where
  "transactionDecode keccak now c tx =
     (case x_GasPrice tx of
        None \<Rightarrow> Panic
      | Some gasPrice \<Rightarrow>
          res_bind (addressToNormal keccak (x_From tx)) (\<lambda>sender.
          res_bind (addressToNormal keccak (x_To tx)) (\<lambda>recipient.
            let txInfo = zero_transfer\<lparr> TxID := x_Hash tx, BlockNum := x_BlockNumber tx, Success := True,
                  Timestamp := now, From := sender, To := recipient,
                  Fee := Some (gasPrice * (x_Gas tx mod 2 ^ 64)) \<rparr>
            in if x_Input tx = ''0x'' \<or> x_Input tx = [] then
                 (case x_Value tx of
                    None \<Rightarrow> Panic
                  | Some v \<Rightarrow>
                      (if 0 < v then
                         Ok (txInfo\<lparr> Transfer := True, Amount := Some v, NativeCoin := True,
                               Symbol := c_chainSymbol c, Decimals := c_decimals c \<rparr>)
                       else if x_Input tx \<noteq> ''0x'' then contract_branch keccak c tx txInfo
                       else Ok txInfo))
               else contract_branch keccak c tx txInfo)))"

text \<open>The errors on which a transaction is left out of a block or of the pool.\<close>

definition skippable :: "client_error \<Rightarrow> bool" where
  "skippable e \<longleftrightarrow> e = ErrTransactionNotTransfer \<or> e = ErrUnsupportedTransactionType \<or>
     e = ClientAbiErr ErrUnknownContract \<or> e = ErrUnsupportedTransactionFormat"

fun decode_txs ::
  "('x \<Rightarrow> (client_error, TransferInfo) res) \<Rightarrow> (TransferInfo \<Rightarrow> TransferInfo) \<Rightarrow> 'x list \<Rightarrow>
   (client_error, TransferInfo list) res" where
  "decode_txs decode adjust [] = Ok []"
| "decode_txs decode adjust (tx # txs) =
     (case decode tx of
        Panic \<Rightarrow> Panic
      | Err e \<Rightarrow> if skippable e then decode_txs decode adjust txs else Err e
      | Ok t \<Rightarrow> res_bind (decode_txs decode adjust txs) (\<lambda>ts. Ok (adjust t # ts)))"

text \<open>
  \<open>blockDecode\<close>. Without full transactions the slice is made with \<open>len(block.Transactions)\<close> entries,
  the number of bytes of the raw JSON text (\<open>rawLen\<close>), of which only the first are filled: the second
  component of the result is the number of nil entries left at its end.
\<close>

definition blockDecode ::
  "(bytes \<Rightarrow> bytes) \<Rightarrow> int \<Rightarrow> (json \<Rightarrow> nat) \<Rightarrow> Client \<Rightarrow> Block \<Rightarrow> (client_error, BlockInfo \<times> nat) res" where
  "blockDecode keccak now rawLen c block =
     (let blockDecoded = \<lparr> BlockID = b_Hash block, Number = b_Number block, ParentHash = b_ParentHash block,
            BlockTimestamp = b_Timestamp block, Transactions = [] \<rparr>
      in if b_FullTransactions block then
           res_bind
             (decode_txs (transactionDecode keccak now c)
                (\<lambda>t. t\<lparr> InPool := False, Timestamp := b_Timestamp block, BlockNum := b_Number block \<rparr>)
                (b_transactionsFullDecoded block))
             (\<lambda>txs. Ok (blockDecoded\<lparr> Transactions := txs \<rparr>, 0))
         else
           (let n = (case b_Transactions block of None \<Rightarrow> 0 | Some j \<Rightarrow> rawLen j);
                hashes = b_transactionsHashesDecoded block
            in if n < length hashes then Panic
               else Ok (blockDecoded\<lparr> Transactions := map (\<lambda>h. zero_transfer\<lparr> TxID := h \<rparr>) hashes \<rparr>, n - length hashes)))"

section \<open>RPC methods\<close>

definition rpc_hex ::
  "(string \<Rightarrow> (hex_error, 'a) res) \<Rightarrow> 'n transport \<Rightarrow> string \<Rightarrow> json list \<Rightarrow> ('n, 'a) io" where
  "rpc_hex parse T method params =
     io_bind (rpc_string T method params) (\<lambda>s. io_lift (res_map_err ClientHexErr (parse s)))"

definition GetNetId :: "'n transport \<Rightarrow> ('n, int) io" where
  "GetNetId T = rpc_hex ParseHexInt64 T ''eth_chainId'' []"

definition GetBalance :: "'n transport \<Rightarrow> string \<Rightarrow> ('n, int) io" where
  "GetBalance T address = rpc_hex ParseBigInt T ''eth_getBalance'' [JStr address, JStr ''latest'']"

definition GasPrice :: "'n transport \<Rightarrow> ('n, int) io" where
  "GasPrice T = rpc_hex ParseBigInt T ''eth_gasPrice'' []"

definition GetBlockNumber :: "'n transport \<Rightarrow> ('n, int) io" where
  "GetBlockNumber T = rpc_hex ParseHexInt64 T ''eth_blockNumber'' []"

definition PendingNonceAt :: "'n transport \<Rightarrow> string \<Rightarrow> ('n, int) io" where
  "PendingNonceAt T address = rpc_hex ParseHexInt64 T ''eth_getTransactionCount'' [JStr address, JStr ''pending'']"

definition SendRawTransaction :: "'n transport \<Rightarrow> string \<Rightarrow> ('n, string) io" where
  "SendRawTransaction T data = rpc_string T ''eth_sendRawTransaction'' [JStr data]"

definition eth_Call :: "'n transport \<Rightarrow> string \<Rightarrow> string \<Rightarrow> ('n, string) io" where
  "eth_Call T contractAddress data =
     rpc_string T ''eth_call'' [JObj [(''to'', JStr contractAddress), (''input'', JStr data)], JStr ''latest'']"

definition CallByBlockNumber :: "'n transport \<Rightarrow> string \<Rightarrow> string \<Rightarrow> int \<Rightarrow> ('n, string) io" where
  "CallByBlockNumber T contractAddress data blockNumber =
     rpc_string T ''eth_call''
       [JObj [(''to'', JStr contractAddress), (''input'', JStr data)], JStr (Int64ToHex blockNumber)]"

text \<open>A transaction in the result; an absent or \<open>null\<close> result is an unknown transaction.\<close>

definition transaction_result :: "Response \<Rightarrow> (client_error, Transaction) res" where
  "transaction_result result =
     (case rs_Result result of
        None \<Rightarrow> Err ErrTransactionNotFound
      | Some JNull \<Rightarrow> Err ErrTransactionNotFound
      | Some j \<Rightarrow> Transaction_UnmarshalJSON j new_Transaction)"

definition GetTransactionByHash :: "'n transport \<Rightarrow> string \<Rightarrow> ('n, Transaction) io" where
  "GetTransactionByHash T hash =
     io_bind (urpc_Call T \<lparr> rq_Method = ''eth_getTransactionByHash'', rq_Params = [JStr hash] \<rparr>)
       (\<lambda>result. io_lift (transaction_result result))"

definition GetTransactionByBlockHashAndIndex :: "'n transport \<Rightarrow> string \<Rightarrow> int \<Rightarrow> ('n, Transaction) io" where
  "GetTransactionByBlockHashAndIndex T hash index =
     io_bind (urpc_Call T \<lparr> rq_Method = ''eth_getTransactionByBlockHashAndIndex'', rq_Params = [JStr hash, JStr (IntToHex index)] \<rparr>)
       (\<lambda>result. io_lift (transaction_result result))"

definition GetTransactionByBlockNumberAndIndex :: "'n transport \<Rightarrow> int \<Rightarrow> int \<Rightarrow> ('n, Transaction) io" where
  "GetTransactionByBlockNumberAndIndex T blockNumber index =
     io_bind (urpc_Call T \<lparr> rq_Method = ''eth_getTransactionByBlockNumberAndIndex'',
                            rq_Params = [JStr (Int64ToHex blockNumber), JStr (IntToHex index)] \<rparr>)
       (\<lambda>result. io_lift (transaction_result result))"

definition block_result :: "bool \<Rightarrow> Response \<Rightarrow> (client_error, Block) res" where
  "block_result fullTransactions result =
     (case rs_Result result of
        None \<Rightarrow> Err (JsonErr UnmarshalError)
      | Some j \<Rightarrow> Block_UnmarshalJSON j (new_Block fullTransactions))"

definition GetBlockByHash :: "'n transport \<Rightarrow> string \<Rightarrow> bool \<Rightarrow> ('n, Block) io" where
  "GetBlockByHash T hash fullTransactions =
     io_bind (urpc_Call T \<lparr> rq_Method = ''eth_getBlockByHash'', rq_Params = [JStr hash, JBool fullTransactions] \<rparr>)
       (\<lambda>result. io_lift (block_result fullTransactions result))"

definition GetBlockByNumber :: "'n transport \<Rightarrow> int \<Rightarrow> bool \<Rightarrow> ('n, Block) io" where
  "GetBlockByNumber T number fullTransactions =
     io_bind (urpc_Call T \<lparr> rq_Method = ''eth_getBlockByNumber'',
                            rq_Params = [JStr (Int64ToHex number), JBool fullTransactions] \<rparr>)
       (\<lambda>result. io_lift (block_result fullTransactions result))"

text \<open>The request object of \<open>eth_estimateGas\<close>: empty strings are left out.\<close>

definition estimateGasRequest :: "string \<Rightarrow> string \<Rightarrow> string \<Rightarrow> string \<Rightarrow> json" where
  "estimateGasRequest sender recipient amount data =
     JObj (map (\<lambda>(k, v). (k, JStr v))
       (filter (\<lambda>(k, v). v \<noteq> []) [(''from'', sender), (''to'', recipient), (''value'', amount), (''input'', data)]))"

definition GetEstimatedGas :: "'n transport \<Rightarrow> string \<Rightarrow> string \<Rightarrow> string \<Rightarrow> int option \<Rightarrow> ('n, int) io" where
  "GetEstimatedGas T sender recipient data amount =
     rpc_hex ParseHexInt64 T ''eth_estimateGas'' [estimateGasRequest sender recipient (BigIntToHex amount) data]"

definition GetEstimatedGasPrice :: "'n transport \<Rightarrow> ('n, int) io" where
  "GetEstimatedGasPrice T = rpc_hex ParseBigInt T ''eth_gasPrice'' []"

definition GetEstimatedFee ::
  "'n transport \<Rightarrow> string \<Rightarrow> string \<Rightarrow> string \<Rightarrow> int option \<Rightarrow> ('n, int \<times> int \<times> int) io" where
  "GetEstimatedFee T sender recipient data amount =
     io_bind (GetEstimatedGas T sender recipient data amount) (\<lambda>gas.
     io_bind (GetEstimatedGasPrice T) (\<lambda>gasPrice.
     io_lift (Ok (gasPrice * gas, gasPrice, gas))))"

text \<open>
  \<open>GetTxPoolContent\<close> decodes into a struct with two maps of maps of pointers; a \<open>null\<close> result makes
  the pointer to the struct nil, and the function panics.
\<close>

type_synonym tx_pool = "string \<rightharpoonup> (string \<rightharpoonup> Transaction option)"

fun unjson_kvs :: "(json \<Rightarrow> ('e, 'a) res) \<Rightarrow> (string \<times> json) list \<Rightarrow> ('e, (string \<times> 'a) list) res" where
  "unjson_kvs f [] = Ok []"
| "unjson_kvs f ((k, j) # kvs) = res_bind (f j) (\<lambda>x. res_bind (unjson_kvs f kvs) (\<lambda>xs. Ok ((k, x) # xs)))"

fun unjson_account :: "json \<Rightarrow> (client_error, string \<rightharpoonup> Transaction option) res" where
  "unjson_account (JObj kvs) = res_bind (unjson_kvs unjson_tx kvs) (\<lambda>xs. Ok (map_of (rev xs)))"
| "unjson_account JNull = Ok Map.empty"
| "unjson_account _ = Err (JsonErr UnmarshalError)"

fun unjson_pool :: "json \<Rightarrow> tx_pool \<Rightarrow> (client_error, tx_pool) res" where
  "unjson_pool (JObj kvs) old = res_bind (unjson_kvs unjson_account kvs) (\<lambda>xs. Ok (old ++ map_of (rev xs)))"
| "unjson_pool JNull old = Ok Map.empty"
| "unjson_pool _ old = Err (JsonErr UnmarshalError)"

definition pool_result :: "Response \<Rightarrow> (client_error, tx_pool \<times> tx_pool) res" where
  "pool_result result =
     (case rs_Result result of
        Some (JObj kvs) \<Rightarrow>
          res_bind (fields_fold unjson_pool ''pending'' kvs Map.empty) (\<lambda>pending.
          res_bind (fields_fold unjson_pool ''queued'' kvs Map.empty) (\<lambda>queued. Ok (pending, queued)))
      | Some JNull \<Rightarrow> Panic
      | _ \<Rightarrow> Err (JsonErr UnmarshalError))"

definition GetTxPoolContent :: "'n transport \<Rightarrow> ('n, tx_pool \<times> tx_pool) io" where
  "GetTxPoolContent T =
     io_bind (urpc_Call T \<lparr> rq_Method = ''txpool_content'', rq_Params = [] \<rparr>) (\<lambda>result. io_lift (pool_result result))"

section \<open>The chain client\<close>

definition BalanceOf :: "'n transport \<Rightarrow> string \<Rightarrow> ('n, int) io" where
  "BalanceOf = GetBalance"

definition ContractGetBalanceOf ::
  "(bytes \<Rightarrow> bytes) \<Rightarrow> Client \<Rightarrow> 'n transport \<Rightarrow> string \<Rightarrow> string \<Rightarrow> ('n, int) io" where
  "ContractGetBalanceOf keccak c T contractAddress address =
     io_bind (io_lift (res_map_err ClientAbiErr (Erc20CallGetBalance keccak (c_abi c) address))) (\<lambda>callTx.
     io_bind (eth_Call T contractAddress callTx) (\<lambda>result.
     io_bind (io_lift (res_map_err ClientHexErr (ParseHexBytes result))) (\<lambda>b.
     io_lift (Ok (int (Erc20DecodeAmount b))))))"

definition TokensBalanceOf ::
  "(bytes \<Rightarrow> bytes) \<Rightarrow> Client \<Rightarrow> 'n transport \<Rightarrow> string \<Rightarrow> string \<Rightarrow> ('n, int) io" where
  "TokensBalanceOf keccak c T address token =
     (case tokenGetIfExistBySymbol c token of
        Some tokenInfo \<Rightarrow> ContractGetBalanceOf keccak c T (ContractAddress tokenInfo) address
      | None \<Rightarrow>
          (case tokenGetIfExistByAddress c token of
             Some tokenInfo \<Rightarrow> ContractGetBalanceOf keccak c T (ContractAddress tokenInfo) address
           | None \<Rightarrow> io_lift (Err ErrUnknownToken)))"

text \<open>
  \<open>MemPoolContent\<close> ranges over the two maps; \<open>accounts\<close> and \<open>nonces\<close> give the order in which Go
  visits the keys.
\<close>

definition pool_txs ::
  "(tx_pool \<Rightarrow> string list) \<Rightarrow> ((string \<rightharpoonup> Transaction option) \<Rightarrow> string list) \<Rightarrow> tx_pool \<Rightarrow> Transaction option list" where
  "pool_txs accounts nonces m =
     concat (map (\<lambda>a. map (\<lambda>k. the (the (m a) k)) (nonces (the (m a)))) (accounts m))"

definition decode_pointer ::
  "(bytes \<Rightarrow> bytes) \<Rightarrow> int \<Rightarrow> Client \<Rightarrow> Transaction option \<Rightarrow> (client_error, TransferInfo) res" where
  "decode_pointer keccak now c p = (case p of None \<Rightarrow> Panic | Some tx \<Rightarrow> transactionDecode keccak now c tx)"

definition MemPoolContent ::
  "(bytes \<Rightarrow> bytes) \<Rightarrow> int \<Rightarrow> (tx_pool \<Rightarrow> string list) \<Rightarrow> ((string \<rightharpoonup> Transaction option) \<Rightarrow> string list) \<Rightarrow> Client \<Rightarrow>
   'n transport \<Rightarrow> ('n, TransferInfo list) io" where
  "MemPoolContent keccak now accounts nonces c T =
     io_bind (GetTxPoolContent T) (\<lambda>(pending, queued).
     io_bind (io_lift (decode_txs (decode_pointer keccak now c) (InPool_update (\<lambda>_. True)) (pool_txs accounts nonces pending))) (\<lambda>ts.
     io_bind (io_lift (decode_txs (decode_pointer keccak now c) (InPool_update (\<lambda>_. True)) (pool_txs accounts nonces queued))) (\<lambda>us.
     io_lift (Ok (ts @ us)))))"

text \<open>\<open>BlockByNum\<close> drops the error of \<open>blockDecode\<close>: the block is then nil (\<^const>\<open>None\<close>).\<close>

definition BlockByNum ::
  "(bytes \<Rightarrow> bytes) \<Rightarrow> int \<Rightarrow> (json \<Rightarrow> nat) \<Rightarrow> Client \<Rightarrow> 'n transport \<Rightarrow> int \<Rightarrow> bool \<Rightarrow> ('n, (BlockInfo \<times> nat) option) io" where
  "BlockByNum keccak now rawLen c T blockNum fullInfo =
     io_bind (GetBlockByNumber T blockNum fullInfo) (\<lambda>blockInternal.
       io_lift (case blockDecode keccak now rawLen c blockInternal of
                  Ok b \<Rightarrow> Ok (Some b)
                | Err _ \<Rightarrow> Ok None
                | Panic \<Rightarrow> Panic))"

text \<open>\<open>BlockByHash\<close> and the three token operations are not implemented: they panic.\<close>

definition BlockByHash :: "'n transport \<Rightarrow> string \<Rightarrow> bool \<Rightarrow> ('n, BlockInfo) io" where
  "BlockByHash T blockHash fullInfo = io_bind (GetBlockByHash T blockHash fullInfo) (\<lambda>_. io_lift Panic)"

definition TransferTokenByPrivateKey ::
  "'n transport \<Rightarrow> bytes \<Rightarrow> string \<Rightarrow> string \<Rightarrow> int \<Rightarrow> string \<Rightarrow> ('n, string) io" where
  "TransferTokenByPrivateKey T fromPrivateKey sender recipient amount token = io_lift Panic"

definition TransferTokenGetEstimatedFee :: "'n transport \<Rightarrow> string \<Rightarrow> string \<Rightarrow> int \<Rightarrow> string \<Rightarrow> ('n, int) io" where
  "TransferTokenGetEstimatedFee T sender recipient amount token = io_lift Panic"

text \<open>
  \<open>TransferInfoByHash\<close> and \<open>TransferInfoByNum\<close> drop the error of the second request: the current
  block is then 0. They count the confirmations differently.
\<close>

definition io_default :: "'a \<Rightarrow> ('n, 'a) io \<Rightarrow> ('n, 'a) io" where
  "io_default d m n =
     (case m n of
        Some (n', Err _) \<Rightarrow> Some (n', Ok d)
      | r \<Rightarrow> r)"

definition TransferInfoByHash ::
  "(bytes \<Rightarrow> bytes) \<Rightarrow> int \<Rightarrow> Client \<Rightarrow> 'n transport \<Rightarrow> string \<Rightarrow> ('n, TransferInfo) io" where
  "TransferInfoByHash keccak now c T txHash =
     io_bind (GetTransactionByHash T txHash) (\<lambda>txInternal.
     io_bind (io_lift (transactionDecode keccak now c txInternal)) (\<lambda>tx.
     io_bind (io_default 0 (GetBlockNumber T)) (\<lambda>currentBlock.
     io_lift (Ok
       (if x_BlockNumber txInternal = 0 then tx\<lparr> InPool := True \<rparr>
        else tx\<lparr> Confirmations := currentBlock - x_BlockNumber txInternal + 1,
                 Confirmed := \<not> (currentBlock - x_BlockNumber txInternal < c_minConfirmations c - 1) \<rparr>)))))"

definition TransferInfoByNum ::
  "(bytes \<Rightarrow> bytes) \<Rightarrow> int \<Rightarrow> Client \<Rightarrow> 'n transport \<Rightarrow> int \<Rightarrow> int \<Rightarrow> ('n, TransferInfo) io" where
  "TransferInfoByNum keccak now c T blockNum txIndex =
     io_bind (GetTransactionByBlockNumberAndIndex T blockNum txIndex) (\<lambda>txInternal.
     io_bind (io_lift (transactionDecode keccak now c txInternal)) (\<lambda>tx.
     io_bind (io_default 0 (GetBlockNumber T)) (\<lambda>currentBlock.
     io_lift (Ok
       (tx\<lparr> InPool := (if x_BlockNumber txInternal = 0 then True else InPool tx),
            Confirmed := (if currentBlock - x_BlockNumber txInternal > c_minConfirmations c then True else Confirmed tx),
            Confirmations := currentBlock - x_BlockNumber txInternal \<rparr>)))))"

section \<open>Transfers\<close>

definition TransactionSendRaw :: "'n transport \<Rightarrow> bytes \<Rightarrow> ('n, string) io" where
  "TransactionSendRaw T rawTx = SendRawTransaction T (BytesToHex rawTx)"

text \<open>
  \<open>sendRawByPrivateKeyUnsafe\<close>: its last part, from \<open>Sign\<close> on, is \<open>sign_and_send\<close>. Nonce and gas are
  converted from \<open>int64\<close> to \<open>uint64\<close>.
\<close>

definition sign_and_send ::
  "(bytes \<Rightarrow> bytes) \<Rightarrow> 'n transport \<Rightarrow> EthTxSigner \<Rightarrow> PrivateKey \<Rightarrow> ('n, string) io" where
  "sign_and_send keccak T txSigner pk n =
     (case Sign keccak txSigner pk of
        None \<Rightarrow> None
      | Some (Ok (txSigned, sig)) \<Rightarrow>
          (if length sig = 0 then Some (n, Err ErrTransactionSignError)
           else io_bind (io_lift (res_map_err ClientRlpErr (EncodeRPL txSigned)))
                  (\<lambda>txSignedBytes. SendRawTransaction T (BytesToHex txSignedBytes)) n)
      | Some _ \<Rightarrow> Some (n, Panic))"

definition sendRawByPrivateKeyUnsafe ::
  "(bytes \<Rightarrow> bytes) \<Rightarrow> 'n transport \<Rightarrow> bytes \<Rightarrow> string \<Rightarrow> string \<Rightarrow> int \<Rightarrow> int \<Rightarrow> int \<Rightarrow> ('n, string) io" where
  "sendRawByPrivateKeyUnsafe keccak T fromPrivateKey sender recipient amount gasPrice gas =
     io_bind (io_lift (res_map_err ClientCodecErr (DecodeAddressToBytes recipient))) (\<lambda>toBytes.
     io_bind (io_lift (case ECDSAKeysFromPrivateKeyBytes fromPrivateKey of Ok pk \<Rightarrow> Ok pk | _ \<Rightarrow> Panic)) (\<lambda>pk.
     io_bind (PendingNonceAt T sender) (\<lambda>nonce.
     io_bind (GetNetId T) (\<lambda>netId.
       sign_and_send keccak T
         (SetChainId (Some netId)
           (NewEthTxSigner (nat (nonce mod 2 ^ 64)) (Some gasPrice) (nat (gas mod 2 ^ 64)) toBytes (Some amount) [])) pk))))"

text \<open>The checks both transfers begin with: the key belongs to the sender, the recipient decodes.\<close>

definition transfer_checks :: "(bytes \<Rightarrow> bytes) \<Rightarrow> bytes \<Rightarrow> string \<Rightarrow> string \<Rightarrow> (client_error, string) res" where
  "transfer_checks keccak fromPrivateKey sender recipient =
     res_bind (res_map_err ClientCodecErr (PrivateKeyToAddress keccak fromPrivateKey)) (\<lambda>(fromAddress, _).
       if to_upper sender \<noteq> to_upper fromAddress then Err ErrPrivateKeyMismatch
       else res_bind (res_map_err ClientCodecErr (DecodeAddressToBytes recipient)) (\<lambda>_. Ok fromAddress))"

definition TransferByPrivateKey ::
  "(bytes \<Rightarrow> bytes) \<Rightarrow> 'n transport \<Rightarrow> bytes \<Rightarrow> string \<Rightarrow> string \<Rightarrow> int \<Rightarrow> ('n, string) io" where
  "TransferByPrivateKey keccak T fromPrivateKey sender recipient amount =
     io_bind (io_lift (transfer_checks keccak fromPrivateKey sender recipient)) (\<lambda>fromAddress.
     io_bind (GetBalance T sender) (\<lambda>currentBalance.
     io_bind (GetEstimatedFee T fromAddress recipient [] (Some currentBalance)) (\<lambda>(fee, gasPrice, gas).
       if amount + fee > currentBalance then io_lift (Err ErrInsufficientFunds)
       else sendRawByPrivateKeyUnsafe keccak T fromPrivateKey sender recipient amount gasPrice gas)))"

definition TransferAllByPrivateKey ::
  "(bytes \<Rightarrow> bytes) \<Rightarrow> 'n transport \<Rightarrow> bytes \<Rightarrow> string \<Rightarrow> string \<Rightarrow> ('n, string) io" where
  "TransferAllByPrivateKey keccak T fromPrivateKey sender recipient =
     io_bind (io_lift (transfer_checks keccak fromPrivateKey sender recipient)) (\<lambda>fromAddress.
     io_bind (GetBalance T sender) (\<lambda>currentBalance.
     io_bind (GetEstimatedFee T fromAddress recipient [] (Some currentBalance)) (\<lambda>(fee, gasPrice, gas).
       let amountToTransfer = currentBalance - fee
       in if amountToTransfer \<le> 0 then io_lift (Err ErrNothingToTransfer)
          else sendRawByPrivateKeyUnsafe keccak T fromPrivateKey sender recipient amountToTransfer gasPrice gas)))"

definition TransferGetEstimatedFee :: "'n transport \<Rightarrow> string \<Rightarrow> string \<Rightarrow> int \<Rightarrow> ('n, int) io" where
  "TransferGetEstimatedFee T sender recipient amount =
     io_bind (GetEstimatedFee T sender recipient [] (Some amount)) (\<lambda>(fee, _, _). io_lift (Ok fee))"


end
