(* ===== verification/EthClientCorrect.thy ===== *)
theory EthClientCorrect
  imports EthClient
begin

text \<open>
  Correctness of the Ethereum client: what the transfers send to the node, how transactions are
  classified, that a block of well-formed transactions is always decoded, and the JSON round trip of
  transactions.
\<close>

section \<open>Runs of client operations\<close>

lemma io_bind_Some:
  "io_bind m f n = Some (n', r) \<longleftrightarrow>
     (\<exists>n1 a. m n = Some (n1, Ok a) \<and> f a n1 = Some (n', r)) \<or>
     (\<exists>e. m n = Some (n', Err e) \<and> r = Err e) \<or> m n = Some (n', Panic) \<and> r = Panic"
  by (auto simp: io_bind_def split: option.splits res.splits)

lemma io_bind_Ok: "io_bind m f n = Some (n', Ok b) \<longleftrightarrow> (\<exists>n1 a. m n = Some (n1, Ok a) \<and> f a n1 = Some (n', Ok b))"
  by (auto simp: io_bind_Some)

lemma io_lift_Some [simp]: "io_lift r n = Some (n', r') \<longleftrightarrow> n' = n \<and> r = r'"
  by (auto simp: io_lift_def)

text \<open>The node with a log of the requests it was sent.\<close>

definition logged :: "'n transport \<Rightarrow> ('n \<times> Request list) transport" where
  "logged T = (\<lambda>(n, log) req. case T n req of (n', r) \<Rightarrow> ((n', log @ [req]), r))"

definition broadcasts :: "Request list \<Rightarrow> Request list" where
  "broadcasts log = filter (\<lambda>r. rq_Method r = ''eth_sendRawTransaction'') log"

text \<open>An operation is quiet when it broadcasts nothing, however it ends.\<close>

definition quiet :: "('n \<times> Request list, 'a) io \<Rightarrow> bool" where
  "quiet m \<longleftrightarrow> (\<forall>n log n' log' r. m (n, log) = Some ((n', log'), r) \<longrightarrow> broadcasts log' = broadcasts log)"

named_theorems quiet_intros \<open>operations that broadcast nothing\<close>

lemma quietD: "quiet m \<Longrightarrow> m (n, log) = Some ((n', log'), r) \<Longrightarrow> broadcasts log' = broadcasts log"
  unfolding quiet_def by blast

lemma quiet_bind [quiet_intros]:
  assumes "quiet m" "\<And>a. quiet (f a)"
  shows "quiet (io_bind m f)"
  unfolding quiet_def
proof (intro allI impI)
  fix n log n' log' r
  assume "io_bind m f (n, log) = Some ((n', log'), r)"
  then consider n1 log1 a where "m (n, log) = Some ((n1, log1), Ok a)" "f a (n1, log1) = Some ((n', log'), r)"
    | r1 where "m (n, log) = Some ((n', log'), r1)"
    unfolding io_bind_Some by (metis surj_pair)
  then show "broadcasts log' = broadcasts log"
    by cases (use assms quietD in metis)+
qed

lemma quiet_then:
  assumes "io_bind m f (n, log) = Some ((n', log'), r)" "quiet m"
  obtains "broadcasts log' = broadcasts log" "\<not> is_ok r"
  | a n1 log1 where "m (n, log) = Some ((n1, log1), Ok a)" "broadcasts log1 = broadcasts log"
      "f a (n1, log1) = Some ((n', log'), r)"
proof -
  from assms(1) consider n1 log1 a where "m (n, log) = Some ((n1, log1), Ok a)" "f a (n1, log1) = Some ((n', log'), r)"
    | r1 where "m (n, log) = Some ((n', log'), r1)" "\<not> is_ok r"
    unfolding io_bind_Some by (metis is_ok_simps(2,3) surj_pair)
  then show ?thesis by cases (use that quietD [OF assms(2)] in blast)+
qed

lemma quiet_lift [quiet_intros]: "quiet (io_lift r)"
  by (simp add: quiet_def)

lemma urpc_logged:
  assumes "urpc_Call (logged T) req (n, log) = Some ((n', log'), r)"
  shows "log' = log @ [req]"
  using assms by (auto simp: urpc_Call_def logged_def split: prod.splits res.splits)

lemma quiet_call [quiet_intros]: "rq_Method req \<noteq> ''eth_sendRawTransaction'' \<Longrightarrow> quiet (urpc_Call (logged T) req)"
  unfolding quiet_def by (auto dest!: urpc_logged simp: broadcasts_def)

lemma quiet_rpc_string [quiet_intros]: "method \<noteq> ''eth_sendRawTransaction'' \<Longrightarrow> quiet (rpc_string (logged T) method params)"
  unfolding rpc_string_def by (intro quiet_intros) simp

lemma quiet_rpc_hex [quiet_intros]: "method \<noteq> ''eth_sendRawTransaction'' \<Longrightarrow> quiet (rpc_hex parse (logged T) method params)"
  unfolding rpc_hex_def by (intro quiet_intros)

lemma quiet_requests [quiet_intros]:
  "quiet (GetBalance (logged T) a)" "quiet (PendingNonceAt (logged T) a)" "quiet (GetNetId (logged T))"
  "quiet (GetEstimatedGas (logged T) a b d v)" "quiet (GetEstimatedGasPrice (logged T))"
  unfolding GetBalance_def PendingNonceAt_def GetNetId_def GetEstimatedGas_def GetEstimatedGasPrice_def
  by (intro quiet_intros; simp)+

lemma quiet_fee [quiet_intros]: "quiet (GetEstimatedFee (logged T) a b d v)"
  unfolding GetEstimatedFee_def by (intro quiet_intros)

lemma quiet_default [quiet_intros]: "quiet m \<Longrightarrow> quiet (io_default d m)"
  by (fastforce simp: quiet_def io_default_def split: option.splits prod.splits res.splits)

lemma quiet_info [quiet_intros]: "quiet (TransferInfoByHash keccak now c (logged T) txHash)"
  unfolding TransferInfoByHash_def GetTransactionByHash_def GetBlockNumber_def by (intro quiet_intros) simp_all

lemma rpc_logged:
  assumes "rpc_string (logged T) method params (n, log) = Some ((n', log'), r)"
  shows "log' = log @ [\<lparr> rq_Method = method, rq_Params = params \<rparr>]"
  using assms unfolding rpc_string_def io_bind_Some by (auto dest: urpc_logged)

section \<open>What a transfer broadcasts\<close>

text \<open>
  The raw transactions a sending operation may broadcast: signed with the key, to the decoded
  recipient, with the given amount, gas price and gas.
\<close>

definition signed_transfer ::
  "(bytes \<Rightarrow> bytes) \<Rightarrow> bytes \<Rightarrow> string \<Rightarrow> int \<Rightarrow> int \<Rightarrow> int \<Rightarrow> string \<Rightarrow> bool" where
  "signed_transfer keccak fromPrivateKey recipient amount gasPrice gas raw \<longleftrightarrow>
     (\<exists>toBytes pk nonce netId txSigned sig b.
        DecodeAddressToBytes recipient = Ok toBytes \<and> ECDSAKeysFromPrivateKeyBytes fromPrivateKey = Ok pk \<and>
        Sign keccak (SetChainId (Some netId)
          (NewEthTxSigner nonce (Some gasPrice) (nat (gas mod 2 ^ 64)) toBytes (Some amount) [])) pk = Some (Ok (txSigned, sig)) \<and>
        EncodeRPL txSigned = Ok b \<and> raw = BytesToHex b)"

lemma sign_and_send_broadcasts:
  assumes "sign_and_send keccak (logged T) tx pk (n, log) = Some ((n', log'), r)"
  shows "broadcasts log' = broadcasts log \<and> \<not> is_ok r \<or>
    (\<exists>txSigned sig b. Sign keccak tx pk = Some (Ok (txSigned, sig)) \<and> EncodeRPL txSigned = Ok b \<and>
       log' = log @ [\<lparr> rq_Method = ''eth_sendRawTransaction'', rq_Params = [JStr (BytesToHex b)] \<rparr>])"
  using assms unfolding sign_and_send_def SendRawTransaction_def
  by (auto simp: io_bind_Some split: option.splits res.splits prod.splits if_splits dest: rpc_logged)

lemma send_broadcasts:
  assumes "sendRawByPrivateKeyUnsafe keccak (logged T) fromPrivateKey sender recipient amount gasPrice gas (n, log) =
      Some ((n', log'), r)"
  shows "broadcasts log' = broadcasts log \<and> \<not> is_ok r \<or>
    (\<exists>raw. broadcasts log' = broadcasts log @ [\<lparr> rq_Method = ''eth_sendRawTransaction'', rq_Params = [JStr raw] \<rparr>] \<and>
       signed_transfer keccak fromPrivateKey recipient amount gasPrice gas raw)"
proof (cases "DecodeAddressToBytes recipient")
  case (Ok toBytes)
  show ?thesis
  proof (cases "ECDSAKeysFromPrivateKeyBytes fromPrivateKey")
    case (Ok pk)
    let ?tx = "\<lambda>nonce netId. SetChainId (Some netId)
      (NewEthTxSigner (nat (nonce mod 2 ^ 64)) (Some gasPrice) (nat (gas mod 2 ^ 64)) toBytes (Some amount) [])"
    from assms \<open>DecodeAddressToBytes recipient = Ok toBytes\<close> Ok
    have "io_bind (PendingNonceAt (logged T) sender) (\<lambda>nonce. io_bind (GetNetId (logged T)) (\<lambda>netId.
        sign_and_send keccak (logged T) (?tx nonce netId) pk)) (n, log) = Some ((n', log'), r)"
      by (simp add: sendRawByPrivateKeyUnsafe_def io_bind_def io_lift_def)
    then consider "\<not> is_ok r" "broadcasts log' = broadcasts log"
      | nonce netId n1 log1 where "broadcasts log1 = broadcasts log"
          "sign_and_send keccak (logged T) (?tx nonce netId) pk (n1, log1) = Some ((n', log'), r)"
      by (elim quiet_then) (auto intro: quiet_requests elim!: quiet_then)
    then show ?thesis
    proof cases
      case 2
      from sign_and_send_broadcasts [OF this(2)] this(1) Ok \<open>DecodeAddressToBytes recipient = Ok toBytes\<close> show ?thesis
        unfolding signed_transfer_def by (fastforce simp: broadcasts_def)
    qed simp
  qed (use assms Ok in \<open>auto simp: sendRawByPrivateKeyUnsafe_def io_bind_def io_lift_def\<close>)
qed (use assms in \<open>auto simp: sendRawByPrivateKeyUnsafe_def io_bind_def io_lift_def\<close>)

lemma fee_product:
  assumes "GetEstimatedFee T a b d v n = Some (n', Ok (fee, gasPrice, gas))"
  shows "fee = gasPrice * gas"
  using assms by (auto simp: GetEstimatedFee_def io_bind_Ok)

text \<open>The common beginning of the two transfers: checks, balance and fee.\<close>

lemma transfer_prefix:
  assumes "io_bind (io_lift (transfer_checks keccak key sender recipient)) (\<lambda>fromAddress.
      io_bind (GetBalance (logged T) sender) (\<lambda>balance.
      io_bind (GetEstimatedFee (logged T) fromAddress recipient [] (Some balance)) (\<lambda>(fee, gasPrice, gas).
        cont balance fee gasPrice gas))) (n, []) = Some ((n', log), r)"
  obtains "broadcasts log = []" "\<not> is_ok r"
  | fromAddress b n1 log1 n2 log2 balance gasPrice gas where
      "PrivateKeyToAddress keccak key = Ok (fromAddress, b)" "to_upper sender = to_upper fromAddress"
      "GetBalance (logged T) sender (n, []) = Some ((n1, log1), Ok balance)"
      "GetEstimatedFee (logged T) fromAddress recipient [] (Some balance) (n1, log1) =
         Some ((n2, log2), Ok (gasPrice * gas, gasPrice, gas))"
      "broadcasts log2 = []" "cont balance (gasPrice * gas) gasPrice gas (n2, log2) = Some ((n', log), r)"
proof -
  have none: "broadcasts [] = []" by (simp add: broadcasts_def)
  from assms show ?thesis
  proof (elim quiet_then [OF _ quiet_lift], goal_cases)
    case 1
    then show ?thesis using that(1) none by simp
  next
    case (2 fromAddress n0 log0)
    then have "n0 = n" "log0 = []" and ok: "transfer_checks keccak key sender recipient = Ok fromAddress" by auto
    then obtain b where key: "PrivateKeyToAddress keccak key = Ok (fromAddress, b)" "to_upper sender = to_upper fromAddress"
      by (auto simp: transfer_checks_def res_bind_Ok_iff split: prod.splits if_splits)
    from 2(3) [unfolded \<open>n0 = n\<close> \<open>log0 = []\<close>] show ?thesis
    proof (elim quiet_then [OF _ quiet_requests(1)] quiet_then [OF _ quiet_fee], goal_cases)
      case (3 balance n1 log1 fee n2 log2)
      obtain f g p where "fee = (f, g, p)" by (cases fee)
      with 3 fee_product [of "logged T" fromAddress recipient "[]" "Some balance" "(n1, log1)" "(n2, log2)" f g p] key none
      show ?thesis by (intro that(2) [of fromAddress b n1 log1 balance n2 log2 g p]) auto
    qed (use that(1) none in simp_all)
  qed
qed

lemma transfer_sends:
  assumes "TransferByPrivateKey keccak (logged T) key sender recipient amount (n, []) = Some ((n', log), r)"
  shows "broadcasts log = [] \<and> \<not> is_ok r \<or>
    (\<exists>fromAddress b n1 log1 n2 log2 balance gasPrice gas raw.
       PrivateKeyToAddress keccak key = Ok (fromAddress, b) \<and> to_upper sender = to_upper fromAddress \<and>
       GetBalance (logged T) sender (n, []) = Some ((n1, log1), Ok balance) \<and>
       GetEstimatedFee (logged T) fromAddress recipient [] (Some balance) (n1, log1) =
         Some ((n2, log2), Ok (gasPrice * gas, gasPrice, gas)) \<and>
       amount + gasPrice * gas \<le> balance \<and>
       broadcasts log = [\<lparr> rq_Method = ''eth_sendRawTransaction'', rq_Params = [JStr raw] \<rparr>] \<and>
       signed_transfer keccak key recipient amount gasPrice gas raw)"
  using assms unfolding TransferByPrivateKey_def
proof (elim transfer_prefix, goal_cases)
  case (2 fromAddress b n1 log1 n2 log2 balance gasPrice gas)
  show ?case
  proof (cases "amount + gasPrice * gas > balance")
    case False
    with 2(6) have "sendRawByPrivateKeyUnsafe keccak (logged T) key sender recipient amount gasPrice gas (n2, log2) =
        Some ((n', log), r)" by simp
    from send_broadcasts [OF this] 2(1-5) False show ?thesis by (auto simp: not_less)
  qed (use 2(5,6) in auto)
qed simp

text \<open>
  C17. A transfer of \<open>amount\<close> broadcasts at most one transaction, and when it reports a hash it has
  broadcast one: a transaction of exactly this amount to the recipient, signed with the key, whose
  address is the sender, and only if the amount and the estimated fee are covered by the balance the
  node reports. In every other case nothing is broadcast.
\<close>
theorem TransferByPrivateKey_broadcasts:
  assumes "TransferByPrivateKey keccak (logged T) key sender recipient amount (n, []) = Some ((n', log), r)"
  shows "broadcasts log = [] \<and> \<not> is_ok r \<or>
    (\<exists>fromAddress b n1 log1 n2 log2 balance gasPrice gas raw.
       PrivateKeyToAddress keccak key = Ok (fromAddress, b) \<and> to_upper sender = to_upper fromAddress \<and>
       GetBalance (logged T) sender (n, []) = Some ((n1, log1), Ok balance) \<and>
       GetEstimatedFee (logged T) fromAddress recipient [] (Some balance) (n1, log1) =
         Some ((n2, log2), Ok (gasPrice * gas, gasPrice, gas)) \<and>
       amount + gasPrice * gas \<le> balance \<and>
       broadcasts log = [\<lparr> rq_Method = ''eth_sendRawTransaction'', rq_Params = [JStr raw] \<rparr>] \<and>
       signed_transfer keccak key recipient amount gasPrice gas raw)"
  using assms by (rule transfer_sends)

text \<open>
  Transferring everything broadcasts at most one transaction, whose amount is the balance less the
  estimated fee, and positive: amount and fee together are exactly the balance the node reports.
\<close>
lemma TransferAllByPrivateKey_broadcasts:
  assumes "TransferAllByPrivateKey keccak (logged T) key sender recipient (n, []) = Some ((n', log), r)"
  shows "broadcasts log = [] \<and> \<not> is_ok r \<or>
    (\<exists>fromAddress b n1 log1 n2 log2 balance gasPrice gas amount raw.
       PrivateKeyToAddress keccak key = Ok (fromAddress, b) \<and> to_upper sender = to_upper fromAddress \<and>
       GetBalance (logged T) sender (n, []) = Some ((n1, log1), Ok balance) \<and>
       GetEstimatedFee (logged T) fromAddress recipient [] (Some balance) (n1, log1) =
         Some ((n2, log2), Ok (gasPrice * gas, gasPrice, gas)) \<and>
       0 < amount \<and> amount + gasPrice * gas = balance \<and>
       broadcasts log = [\<lparr> rq_Method = ''eth_sendRawTransaction'', rq_Params = [JStr raw] \<rparr>] \<and>
       signed_transfer keccak key recipient amount gasPrice gas raw)"
  using assms unfolding TransferAllByPrivateKey_def Let_def
proof (elim transfer_prefix, goal_cases)
  case (2 fromAddress b n1 log1 n2 log2 balance gasPrice gas)
  show ?case
  proof (cases "balance - gasPrice * gas \<le> 0")
    case False
    with 2(6) have "sendRawByPrivateKeyUnsafe keccak (logged T) key sender recipient (balance - gasPrice * gas) gasPrice gas
        (n2, log2) = Some ((n', log), r)" by simp
    note sent = send_broadcasts [OF this, unfolded 2(5) append_Nil]
    have pos: "0 < balance - gasPrice * gas" "balance - gasPrice * gas + gasPrice * gas = balance" using False by simp_all
    from sent show ?thesis
    proof (elim disjE exE)
      fix raw
      assume "broadcasts log = [\<lparr> rq_Method = ''eth_sendRawTransaction'', rq_Params = [JStr raw] \<rparr>] \<and>
        signed_transfer keccak key recipient (balance - gasPrice * gas) gasPrice gas raw"
      with 2(1-4) pos show ?thesis by blast
    qed blast
  qed (use 2(5,6) in auto)
qed simp


text \<open>A node that answers every request, with a fixed balance.\<close>

definition demo_node :: "string \<Rightarrow> unit transport" where
  "demo_node balance n req = (n, Ok \<lparr> rs_Error = None,
     rs_Result = Some (JStr (if rq_Method req = ''eth_getBalance'' then balance else ''0x1'')) \<rparr>)"

definition demo_hash :: "bytes \<Rightarrow> bytes" where
  "demo_hash b = replicate 32 0"

definition demo_sender :: string where
  "demo_sender = ''0x'' @ replicate 40 CHR ''0''"

lemma demo_checks: "transfer_checks demo_hash [] demo_sender ''0xab'' = Ok demo_sender"
  by code_simp

lemma demo_rpc:
  "rpc_hex parse (logged (demo_node balance)) method params ((), log) =
     Some (((), log @ [\<lparr> rq_Method = method, rq_Params = params \<rparr>]),
       res_map_err ClientHexErr (parse (if method = ''eth_getBalance'' then balance else ''0x1'')))"
  by (simp add: rpc_hex_def rpc_string_def io_bind_def io_lift_def urpc_Call_def logged_def demo_node_def ParseResult_string_def)

lemma demo_numbers: "ParseBigInt ''0x5'' = Ok 5" "ParseBigInt ''0x1'' = Ok 1" "ParseHexInt64 ''0x1'' = Ok 1"
  by (simp_all add: ParseBigInt_def ParseHexInt64_def parse_int16_def parse_uint16_def trim_prefix_def hex_val_def
      be_value_def pos_value_Cons)

lemmas demo_run = demo_checks demo_rpc demo_numbers io_bind_def io_lift_def GetBalance_def GetEstimatedFee_def
  GetEstimatedGas_def GetEstimatedGasPrice_def

lemma demo_poor:
  "\<exists>log. TransferByPrivateKey demo_hash (logged (demo_node ''0x5'')) [] demo_sender ''0xab'' 10 ((), []) =
     Some (((), log), Err ErrInsufficientFunds)"
  by (simp add: TransferByPrivateKey_def demo_run)

theorem TransferByPrivateKey_broadcasts_witness:
  "\<exists>log. TransferByPrivateKey demo_hash (logged (demo_node ''0x5'')) [] demo_sender ''0xab'' 10 ((), []) =
     Some (((), log), Err ErrInsufficientFunds) \<and> broadcasts log = []"
proof -
  obtain log where run: "TransferByPrivateKey demo_hash (logged (demo_node ''0x5'')) [] demo_sender ''0xab'' 10 ((), []) =
      Some (((), log), Err ErrInsufficientFunds)" using demo_poor by blast
  from TransferByPrivateKey_broadcasts [OF run] have "broadcasts log = []"
  proof (elim disjE exE conjE)
    fix b n1 log1 n2 log2 balance gasPrice gas raw fromAddress
    assume "GetBalance (logged (demo_node ''0x5'')) demo_sender ((), []) = Some ((n1, log1), Ok balance)"
      "GetEstimatedFee (logged (demo_node ''0x5'')) fromAddress ''0xab'' [] (Some balance) (n1, log1) =
         Some ((n2, log2), Ok (gasPrice * gas, gasPrice, gas))" "10 + gasPrice * gas \<le> balance"
    then show ?thesis by (auto simp: demo_run)
  qed
  with run show ?thesis by blast
qed


section \<open>Classification of transactions\<close>

text \<open>The codec the client hands to the contract manager, and the state after initialisation.\<close>

definition eth_codec :: "(bytes \<Rightarrow> bytes) \<Rightarrow> abi_codec" where
  "eth_codec keccak = \<lparr> acod_Encode = EncodeBytesToAddress keccak, acod_Decode = DecodeAddressToBytes \<rparr>"

definition client_ready :: "(bytes \<Rightarrow> bytes) \<Rightarrow> Client \<Rightarrow> bool" where
  "client_ready keccak c \<longleftrightarrow> erc20_ready keccak (c_abi c) \<and> scm_addressCodec (c_abi c) = Some (eth_codec keccak) \<and>
     \<not> c_Debug c \<and> (\<forall>x. length (keccak x) = 32)"

text \<open>The checksummed spelling of an address text, empty when it is not one of 20 bytes.\<close>

definition normal_address :: "(bytes \<Rightarrow> bytes) \<Rightarrow> string \<Rightarrow> string" where
  "normal_address keccak address =
     (case DecodeAddressToBytes address of
        Ok b \<Rightarrow> (case EncodeBytesToAddress keccak b of Ok s \<Rightarrow> s | _ \<Rightarrow> [])
      | _ \<Rightarrow> [])"

text \<open>
  The specification: which transactions are transfers. A native transfer has no input and a positive
  value; a token transfer calls \<open>transfer(address,uint256)\<close> of a known contract with a positive
  amount; a transaction without input and value is kept without an amount; nothing else is kept.
\<close>

definition token_call :: "(bytes \<Rightarrow> bytes) \<Rightarrow> Client \<Rightarrow> Transaction \<Rightarrow> (TokenInfo \<times> bytes \<times> nat) option" where
  "token_call keccak c tx =
     (if x_To tx = [] \<or> x_To tx = ''0x'' then None
      else case (tokenGetIfExistByAddress c (normal_address keccak (x_To tx)), ParseHexBytes (x_Input tx)) of
             (Some token, Ok d) \<Rightarrow>
               (let amount = be_value (take 32 (drop 36 d))
                in if 68 \<le> length d \<and> take 4 d = transfer_selector keccak \<and> amount \<noteq> 0
                   then Some (token, take 20 (drop 16 d), amount) else None)
           | _ \<Rightarrow> None)"

definition transfer_spec :: "(bytes \<Rightarrow> bytes) \<Rightarrow> int \<Rightarrow> Client \<Rightarrow> Transaction \<Rightarrow> TransferInfo option" where
  "transfer_spec keccak now c tx =
     (let base = zero_transfer\<lparr> TxID := x_Hash tx, BlockNum := x_BlockNumber tx, Success := True, Timestamp := now,
            From := normal_address keccak (x_From tx), To := normal_address keccak (x_To tx),
            Fee := Some (the (x_GasPrice tx) * (x_Gas tx mod 2 ^ 64)) \<rparr>
      in if (x_Input tx = ''0x'' \<or> x_Input tx = []) \<and> 0 < the (x_Value tx) then
           Some (base\<lparr> Transfer := True, Amount := x_Value tx, NativeCoin := True, Symbol := c_chainSymbol c,
                       Decimals := c_decimals c \<rparr>)
         else if x_Input tx = ''0x'' then Some base
         else (case token_call keccak c tx of
                 None \<Rightarrow> None
               | Some (token, recipient, amount) \<Rightarrow>
                   (case EncodeBytesToAddress keccak recipient of
                      Ok a \<Rightarrow> Some (base\<lparr> SmartContract := True, Token := TokenName token, TokenSymbol := TokenSym token,
                                Decimals := TokenDecimals token, To := a, Amount := Some (int amount) \<rparr>)
                    | _ \<Rightarrow> None)))"

lemma hex_decode_not_Panic: "hex_decode s \<noteq> Panic"
proof (induction s rule: hex_decode.induct)
  case (3 c d cs)
  then show ?case by (cases "hex_val c"; cases "hex_val d"; cases "hex_decode cs") auto
qed (auto split: option.splits)

lemma Decode_not_Panic: "DecodeAddressToBytes a \<noteq> Panic"
  using hex_decode_not_Panic by (auto simp: DecodeAddressToBytes_def ParseHexBytes_def split: res.splits)

lemma Encode_total:
  assumes "\<forall>x. length (keccak x) = 32"
  shows "EncodeBytesToAddress keccak b \<noteq> Panic \<and> (length b = 20 \<longleftrightarrow> (\<exists>a. EncodeBytesToAddress keccak b = Ok a)) \<and>
    (\<forall>a. EncodeBytesToAddress keccak b = Ok a \<longrightarrow> DecodeAddressToBytes a = Ok b \<and> a \<noteq> [])"
proof (cases "length b = 20")
  case True
  then obtain r where r: "EncodeBytesToAddress keccak b = Ok (''0x'' @ r)" using checksum_of_bytes [of b keccak] assms by auto
  moreover from address_roundtrip [OF True, of keccak] assms r have "DecodeAddressToBytes (''0x'' @ r) = Ok b" by auto
  ultimately show ?thesis using True by simp
qed (simp add: EncodeBytesToAddress_def)

lemma addressToNormal_eq:
  assumes "\<forall>x. length (keccak x) = 32"
  shows "addressToNormal keccak a = Ok (normal_address keccak a)"
proof -
  have "EncodeBytesToAddress keccak [] = Err ErrInvalidAddressBytes" by (simp add: EncodeBytesToAddress_def)
  then show ?thesis using Encode_total [OF assms] Decode_not_Panic [of a]
    by (auto simp: addressToNormal_def normal_address_def split: res.splits)
qed

lemma normal_of_encoded:
  assumes "\<forall>x. length (keccak x) = 32" "EncodeBytesToAddress keccak b = Ok a"
  shows "normal_address keccak a = a"
  using Encode_total [OF assms(1), of b] assms(2) by (simp add: normal_address_def)

lemma token_transfer_spec:
  assumes "client_ready keccak c" "tokenGetIfExistByAddress c (normal_address keccak (x_To tx)) = Some token"
    and "x_To tx \<noteq> []" "x_To tx \<noteq> ''0x''"
  shows "case token_call keccak c tx of
      None \<Rightarrow> (\<exists>e. token_transfer keccak c tx t token = Err e \<and> skippable e)
    | Some (token', recipient, amount) \<Rightarrow> token' = token \<and>
        (\<exists>a. EncodeBytesToAddress keccak recipient = Ok a \<and>
           token_transfer keccak c tx t token =
             Ok (t\<lparr> SmartContract := True, Token := TokenName token, TokenSymbol := TokenSym token,
                    Decimals := TokenDecimals token, To := a, Amount := Some (int amount) \<rparr>))"
proof -
  have ready: "erc20_ready keccak (c_abi c)" "scm_addressCodec (c_abi c) = Some (eth_codec keccak)" "\<not> c_Debug c"
      and hash: "\<forall>x. length (keccak x) = 32"
    using assms(1) by (simp_all add: client_ready_def)
  show ?thesis
  proof (cases "ParseHexBytes (x_Input tx)")
    case (Ok d)
    note dec = Erc20DecodeIfTransfer_eq [OF ready(1,2), of d] and isT = Erc20IsTransfer_iff [OF ready(1), of d]
    show ?thesis
    proof (cases "68 \<le> length d \<and> take 4 d = transfer_selector keccak")
      case True
      obtain a where a: "EncodeBytesToAddress keccak (take 20 (drop 16 d)) = Ok a"
        using Encode_total [OF hash, of "take 20 (drop 16 d)"] True by auto
      with Encode_total [OF hash, of "take 20 (drop 16 d)"] have "a \<noteq> []" by blast
      with a True Ok assms(2-4) dec isT ready(3) show ?thesis
        by (simp add: token_call_def token_transfer_def eth_codec_def Let_def addressToNormal_eq [OF hash]
            normal_of_encoded [OF hash] skippable_def)
    next
      case False
      then have "token_call keccak c tx = None" using Ok assms(2-4) by (auto simp: token_call_def Let_def)
      moreover have "\<exists>e. token_transfer keccak c tx t token = Err e \<and> skippable e"
        using False Ok dec isT ready(3) by (auto simp: token_transfer_def skippable_def not_le)
      ultimately show ?thesis by simp
    qed
  qed (use assms(2-4) hex_decode_not_Panic in \<open>auto simp: token_call_def token_transfer_def skippable_def ParseHexBytes_def\<close>)
qed

lemma contract_branch_spec:
  assumes "client_ready keccak c"
  shows "case token_call keccak c tx of
      None \<Rightarrow> (\<exists>e. contract_branch keccak c tx t = Err e \<and> skippable e)
    | Some (token, recipient, amount) \<Rightarrow>
        (\<exists>a. EncodeBytesToAddress keccak recipient = Ok a \<and>
           contract_branch keccak c tx t =
             Ok (t\<lparr> SmartContract := True, Token := TokenName token, TokenSymbol := TokenSym token,
                    Decimals := TokenDecimals token, To := a, Amount := Some (int amount) \<rparr>))"
proof (cases "x_To tx = [] \<or> x_To tx = ''0x''")
  case True
  then show ?thesis by (simp add: token_call_def contract_branch_def skippable_def)
next
  case False
  have hash: "\<forall>x. length (keccak x) = 32" using assms by (simp add: client_ready_def)
  show ?thesis
  proof (cases "tokenGetIfExistByAddress c (normal_address keccak (x_To tx))")
    case None
    then show ?thesis using False
      by (simp add: token_call_def contract_branch_def skippable_def addressToNormal_eq [OF hash])
  next
    case (Some token)
    have "contract_branch keccak c tx t = token_transfer keccak c tx t token"
      using False Some by (simp add: contract_branch_def addressToNormal_eq [OF hash])
    with token_transfer_spec [OF assms Some, of t] False show ?thesis by (auto split: option.splits)
  qed
qed

lemma transactionDecode_spec:
  assumes "client_ready keccak c" "x_GasPrice tx \<noteq> None" "x_Value tx \<noteq> None"
  shows "case transfer_spec keccak now c tx of
      Some t \<Rightarrow> transactionDecode keccak now c tx = Ok t
    | None \<Rightarrow> (\<exists>e. transactionDecode keccak now c tx = Err e \<and> skippable e)"
proof -
  have hash: "\<forall>x. length (keccak x) = 32" using assms by (simp add: client_ready_def)
  obtain g v where gv: "x_GasPrice tx = Some g" "x_Value tx = Some v" using assms(2,3) by auto
  note branch = contract_branch_spec [OF assms(1), of tx]
  let ?base = "zero_transfer\<lparr> TxID := x_Hash tx, BlockNum := x_BlockNumber tx, Success := True, Timestamp := now,
      From := normal_address keccak (x_From tx), To := normal_address keccak (x_To tx), Fee := Some (g * (x_Gas tx mod 2 ^ 64)) \<rparr>"
  show ?thesis
  proof (cases "(x_Input tx = ''0x'' \<or> x_Input tx = []) \<and> 0 < v \<or> x_Input tx = ''0x''")
    case True
    then show ?thesis using gv by (auto simp: transfer_spec_def transactionDecode_def addressToNormal_eq [OF hash] Let_def)
  next
    case False
    then have "transactionDecode keccak now c tx = contract_branch keccak c tx ?base"
      using gv by (auto simp: transactionDecode_def addressToNormal_eq [OF hash] Let_def)
    with False gv branch [of ?base] show ?thesis
      by (cases "token_call keccak c tx") (auto simp: transfer_spec_def Let_def)
  qed
qed


definition demo_client :: Client where
  "demo_client = NewClient ((abi_NewManager (Some (eth_codec demo_hash)))
     \<lparr> scm_erc20abi := Some \<lparr> abi_prepared = False, abi_Entries = erc20tpl \<rparr> \<rparr>)"

lemma demo_client_ready: "client_ready demo_hash demo_client"
  by (simp add: client_ready_def demo_client_def NewClient_def abi_NewManager_def erc20_ready_def demo_hash_def)

definition demo_tx :: Transaction where
  "demo_tx = new_Transaction\<lparr> x_Hash := ''0x1'', x_Input := ''0x'', x_GasPrice := Some 2, x_Gas := 21, x_Value := Some 7 \<rparr>"

definition demo_native :: TransferInfo where
  "demo_native = zero_transfer\<lparr> TxID := ''0x1'', Success := True, Timestamp := 3, Fee := Some 42, Transfer := True,
     Amount := Some 7, NativeCoin := True, Symbol := ''ETH'', Decimals := 18 \<rparr>"

lemma demo_spec: "transfer_spec demo_hash 3 demo_client demo_tx = Some demo_native"
  by (simp add: transfer_spec_def demo_client_def NewClient_def demo_tx_def demo_native_def new_Transaction_def
      normal_address_def DecodeAddressToBytes_def ParseHexBytes_def EncodeBytesToAddress_def trim_prefix_def Let_def zero_transfer_def)


section \<open>Blocks\<close>

lemma decode_txs_spec:
  assumes "\<And>tx. tx \<in> set txs \<Longrightarrow>
      case spec tx of Some t \<Rightarrow> decode tx = Ok t | None \<Rightarrow> (\<exists>e. decode tx = Err e \<and> skippable e)"
  shows "decode_txs decode adjust txs = Ok (map adjust (List.map_filter spec txs))"
  using assms
proof (induction txs)
  case (Cons tx txs)
  note IH = Cons(1) [OF Cons(2)]
  from Cons(2) [of tx] IH show ?case by (cases "spec tx") (auto simp: map_filter_simps)
qed (simp add: map_filter_simps)

text \<open>
  A block with full transactions is always decoded: the result has exactly the transactions the
  specification keeps, in the order of the block, each with the block's time and number, and none is
  marked as pending. So \<open>BlockByNum\<close>, which drops the error of the decoding, never returns a nil block
  for it.
\<close>
lemma blockDecode_spec:
  assumes "client_ready keccak c" "b_FullTransactions block"
    and "\<And>tx. tx \<in> set (b_transactionsFullDecoded block) \<Longrightarrow> x_GasPrice tx \<noteq> None \<and> x_Value tx \<noteq> None"
  shows "blockDecode keccak now rawLen c block =
     Ok (\<lparr> BlockID = b_Hash block, Number = b_Number block, ParentHash = b_ParentHash block,
           BlockTimestamp = b_Timestamp block,
           Transactions = map (\<lambda>t. t\<lparr> InPool := False, Timestamp := b_Timestamp block, BlockNum := b_Number block \<rparr>)
             (List.map_filter (transfer_spec keccak now c) (b_transactionsFullDecoded block)) \<rparr>, 0)"
proof -
  have "decode_txs (transactionDecode keccak now c) adjust (b_transactionsFullDecoded block) =
      Ok (map adjust (List.map_filter (transfer_spec keccak now c) (b_transactionsFullDecoded block)))" for adjust
    by (rule decode_txs_spec) (use transactionDecode_spec [OF assms(1)] assms(3) in blast)
  then show ?thesis using assms(2) by (simp add: blockDecode_def Let_def)
qed

section \<open>JSON round trip\<close>

text \<open>A transaction as an Ethereum node sends it.\<close>

definition tx_json :: "Transaction \<Rightarrow> json" where
  "tx_json t = JObj
     [(''blockHash'', JStr (x_BlockHash t)), (''blockNumber'', JStr (Int64ToHex (x_BlockNumber t))),
      (''from'', JStr (x_From t)), (''gas'', JStr (Int64ToHex (x_Gas t))),
      (''gasPrice'', JStr (BigIntToHex (x_GasPrice t))), (''hash'', JStr (x_Hash t)), (''input'', JStr (x_Input t)),
      (''nonce'', JStr (Int64ToHex (x_Nonce t))), (''to'', JStr (x_To t)),
      (''transactionIndex'', JStr (Int64ToHex (x_TransactionIndex t))), (''value'', JStr (BigIntToHex (x_Value t))),
      (''type'', JStr (Int64ToHex (x_Type t))), (''chainId'', JStr (Int64ToHex (x_ChainId t))),
      (''accessList'', the (x_AccessList t)), (''v'', JStr (x_V t)), (''r'', JStr (x_R t)), (''s'', JStr (x_S t))]"

definition int64 :: "int \<Rightarrow> bool" where
  "int64 i \<longleftrightarrow> - (2 ^ 63) \<le> i \<and> i < 2 ^ 63"

lemma parse_int64: "int64 i \<Longrightarrow> ParseHexInt64 (Int64ToHex i) = Ok i"
  using parse_int16_fmt [of i] by (simp add: ParseHexInt64_def Int64ToHex_def int64_def)

lemma int64_not_skipped: "Int64ToHex i \<noteq> [] \<and> Int64ToHex i \<noteq> ''0x''"
  by (simp add: Int64ToHex_def fmt_x_int_def fmt_x_nat_def hex16.digits_eq_Nil_iff)

text \<open>
  A transaction survives its JSON form: decoding what a node sends for a transaction whose
  numbers are in range returns the transaction, field by field.
\<close>
lemma Transaction_json_roundtrip:
  assumes "int64 (x_BlockNumber t)" "int64 (x_Gas t)" "int64 (x_Nonce t)" "int64 (x_TransactionIndex t)"
    and "int64 (x_Type t)" "int64 (x_ChainId t)" "x_GasPrice t = Some gasPrice" "0 \<le> gasPrice"
    and "x_Value t = Some v" "0 \<le> v" "x_AccessList t \<noteq> None"
  shows "Transaction_UnmarshalJSON (tx_json t) new_Transaction = Ok t"
  using assms
  by (cases t) (auto simp: Transaction_UnmarshalJSON_def tx_json_def str_step_def hex_step_def parse_int64 int64_not_skipped
      ParseBigInt_BigIntToHex new_Transaction_def Let_def)


end
