(* ===== verification/Endpoint.thy ===== *)
theory Endpoint
  imports EthClientCorrect SubscriptionsCorrect TxCache
begin

text \<open>
  The RPC endpoint (\<open>endpoint/\<close>): the parameters of a request, the authorisation of the secured
  methods, the request handlers and the router. A handler is a function of the state of the node it
  runs in (the Ethereum node, the address pool, the subscriptions, the transaction cache); its outcome
  is the changed state with the response, or a panic, which the router turns into an error.
  \<^const>\<open>None\<close> means that it does not return.
\<close>

section \<open>Requests\<close>

datatype rpc_error = ErrParamNotFound | ErrInvalidParamType | ParamsError

record JsonRpcRequest =
  jr_Id :: string
  jr_JsonRpc :: string
  jr_Method :: string
  jr_Params :: "json option"

text \<open>\<open>ParseParams\<close>: absent parameters are not a JSON text.\<close>

definition ParseParams :: "(json \<Rightarrow> (json_error, 'a) res) \<Rightarrow> JsonRpcRequest \<Rightarrow> (json_error, 'a) res" where
  "ParseParams decode request = (case jr_Params request of None \<Rightarrow> Err UnmarshalError | Some j \<Rightarrow> decode j)"

subsection \<open>Numbers\<close>

text \<open>\<open>underscoreOK\<close> of \<open>strconv\<close>: underscores may only separate digits or follow a base prefix.\<close>

fun underscore_loop :: "bool \<Rightarrow> char \<Rightarrow> string \<Rightarrow> bool" where
  "underscore_loop hex i [] \<longleftrightarrow> i \<noteq> CHR ''_''"
| "underscore_loop hex i (c # cs) \<longleftrightarrow>
     (if is_digit c \<or> hex \<and> hex_val c \<noteq> None then underscore_loop hex (CHR ''0'') cs
      else if c = CHR ''_'' then i = CHR ''0'' \<and> underscore_loop hex (CHR ''_'') cs
      else i \<noteq> CHR ''_'' \<and> underscore_loop hex (CHR ''!'') cs)"

definition underscoreOK :: "string \<Rightarrow> bool" where
  "underscoreOK s =
     (if length s \<ge> 2 \<and> s ! 0 = CHR ''0'' \<and> lower_char (s ! 1) \<in> set ''box''
      then underscore_loop (lower_char (s ! 1) = CHR ''x'') (CHR ''0'') (drop 2 s)
      else underscore_loop False (CHR ''^'') s)"

text \<open>The value of a digit in any base up to 36; \<open>strconv\<close> compares it with the base.\<close>

definition digit36 :: "char \<Rightarrow> nat option" where
  "digit36 c =
     (let n = of_char (lower_char c)
      in if is_digit c then dec_val c else if 97 \<le> n \<and> n \<le> 122 then Some (n - 87) else None)"

fun uint_loop :: "nat \<Rightarrow> nat \<Rightarrow> string \<Rightarrow> nat option" where
  "uint_loop base n [] = Some n"
| "uint_loop base n (c # cs) =
     (if c = CHR ''_'' then uint_loop base n cs
      else case digit36 c of
             None \<Rightarrow> None
           | Some d \<Rightarrow> if d \<ge> base \<or> n * base + d \<ge> 2 ^ 64 then None else uint_loop base (n * base + d) cs)"

definition parse_uint0 :: "string \<Rightarrow> nat option" where
  "parse_uint0 s =
     (if s = [] then None
      else
        let (base, digits) =
              (if hd s \<noteq> CHR ''0'' then (10, s)
               else if length s \<ge> 3 \<and> lower_char (s ! 1) = CHR ''b'' then (2, drop 2 s)
               else if length s \<ge> 3 \<and> lower_char (s ! 1) = CHR ''o'' then (8, drop 2 s)
               else if length s \<ge> 3 \<and> lower_char (s ! 1) = CHR ''x'' then (16, drop 2 s)
               else (8, tl s))
        in if CHR ''_'' \<in> set digits \<and> \<not> underscoreOK s then None else uint_loop base 0 digits)"

text \<open>\<open>strconv.ParseInt(s, 0, 64)\<close>; both of its errors are one here.\<close>

definition parseStringToInt64 :: "string \<Rightarrow> (rpc_error, int) res" where
  "parseStringToInt64 s =
     (let neg = (s \<noteq> [] \<and> hd s = CHR ''-'');
          digits = (if s \<noteq> [] \<and> (hd s = CHR ''-'' \<or> hd s = CHR ''+'') then tl s else s)
      in case parse_uint0 digits of
           None \<Rightarrow> Err ParamsError
         | Some n \<Rightarrow>
             if neg then (if n > 2 ^ 63 then Err ParamsError else Ok (- int n))
             else (if n \<ge> 2 ^ 63 then Err ParamsError else Ok (int n)))"

text \<open>
  A JSON number in an \<open>interface{}\<close> is a \<open>float64\<close>: the literal \<open>m * 10 ^ e\<close> rounded to 53 bits, half to
  even. \<open>float_trunc num den\<close> is the integer part of the double nearest to \<open>num / den\<close>.
\<close>

definition half_even :: "nat \<Rightarrow> nat \<Rightarrow> nat" where
  "half_even num den =
     (let q = num div den; r = num mod den
      in if 2 * r < den \<or> 2 * r = den \<and> even q then q else q + 1)"

definition float_trunc :: "nat \<Rightarrow> nat \<Rightarrow> nat" where
  "float_trunc num den =
     (if num = 0 then 0
      else
        (let a = BitLen num; b = BitLen den;
             top = (if num * 2 ^ b \<ge> den * 2 ^ a then int a - int b else int a - int b - 1);
             k = top - 52
         in if 0 \<le> k then half_even num (den * 2 ^ nat k) * 2 ^ nat k
            else half_even (num * 2 ^ nat (- k)) den div 2 ^ nat (- k)))"

text \<open>Mantissa digits and decimal exponent of a literal.\<close>

definition literal_parts :: "string \<Rightarrow> string \<times> int" where
  "literal_parts s =
     (let ip = takeWhile is_digit s; rest = dropWhile is_digit s;
          fp = (if rest \<noteq> [] \<and> hd rest = CHR ''.'' then takeWhile is_digit (tl rest) else []);
          rest = (if rest \<noteq> [] \<and> hd rest = CHR ''.'' then dropWhile is_digit (tl rest) else rest);
          e = (if rest = [] then 0 else case SetString10 (tl rest) of None \<Rightarrow> 0 | Some e \<Rightarrow> e)
      in (ip @ fp, e - int (length fp)))"

definition literal_value :: "string \<Rightarrow> bool \<times> nat" where
  "literal_value s =
     (let neg = (s \<noteq> [] \<and> hd s = CHR ''-'');
          (digits, e) = literal_parts (if neg then tl s else s);
          m = pos_value 10 (map (\<lambda>c. the (dec_val c)) digits)
      in (neg, if 0 \<le> e then float_trunc (m * 10 ^ nat e) 1 else float_trunc m (10 ^ nat (- e))))"

text \<open>A literal that rounds beyond the range of \<open>float64\<close> makes the whole text fail to decode.\<close>

fun floats_ok :: "json \<Rightarrow> bool" where
  "floats_ok (JNum s) \<longleftrightarrow> snd (literal_value s) < 2 ^ 1024"
| "floats_ok (JArr js) \<longleftrightarrow> list_all floats_ok js"
| "floats_ok (JObj kvs) \<longleftrightarrow> list_all (\<lambda>kv. floats_ok (snd kv)) kvs"
| "floats_ok _ \<longleftrightarrow> True"

text \<open>The map the parameters are decoded into, with values of type \<open>interface{}\<close>.\<close>

definition parseParamsMap :: "JsonRpcRequest \<Rightarrow> (rpc_error, string \<rightharpoonup> json) res" where
  "parseParamsMap request =
     (case jr_Params request of
        None \<Rightarrow> Err ParamsError
      | Some j \<Rightarrow>
          if \<not> floats_ok j then Err ParamsError
          else (case unjson_map j of Ok m \<Rightarrow> Ok m | Err _ \<Rightarrow> Err ParamsError | Panic \<Rightarrow> Panic))"

text \<open>
  \<open>int64(f)\<close> truncates; beyond the range of \<open>int64\<close> the result is that of the amd64 instruction.
\<close>

definition number_to_int64 :: "string \<Rightarrow> int" where
  "number_to_int64 s =
     (let (neg, v) = literal_value s;
          i = (if neg then - int v else int v)
      in if - (2 ^ 63) \<le> i \<and> i < 2 ^ 63 then i else - (2 ^ 63))"

definition GetParamRaw :: "JsonRpcRequest \<Rightarrow> string \<Rightarrow> (rpc_error, json) res" where
  "GetParamRaw request key =
     res_bind (parseParamsMap request) (\<lambda>m. case m key of None \<Rightarrow> Err ErrParamNotFound | Some j \<Rightarrow> Ok j)"

fun param_int :: "json \<Rightarrow> (rpc_error, int) res" where
  "param_int JNull = Ok 0"
| "param_int (JNum s) = Ok (number_to_int64 s)"
| "param_int (JStr s) = parseStringToInt64 s"
| "param_int _ = Err ErrInvalidParamType"

definition GetParamInt :: "JsonRpcRequest \<Rightarrow> string \<Rightarrow> (rpc_error, int) res" where
  "GetParamInt request key = res_bind (GetParamRaw request key) param_int"

text \<open>A boolean; a text is true when it is \<open>true\<close> or \<open>1\<close>, a number when it is positive, all else is false.\<close>

fun param_bool :: "json \<Rightarrow> bool" where
  "param_bool (JBool b) = b"
| "param_bool (JStr s) = (s = ''true'' \<or> s = ''1'')"
| "param_bool (JNum s) = (number_to_int64 s > 0)"
| "param_bool _ = False"

definition GetParamBool :: "JsonRpcRequest \<Rightarrow> string \<Rightarrow> (rpc_error, bool) res" where
  "GetParamBool request key = res_bind (GetParamRaw request key) (\<lambda>j. Ok (param_bool j))"

section \<open>Responses\<close>

record JsonRpcResponse =
  jp_Id :: string
  jp_Error :: "(int \<times> string \<times> string) option"
  jp_Result :: "json option"

definition NewResponse :: JsonRpcResponse where
  "NewResponse = \<lparr> jp_Id = [], jp_Error = None, jp_Result = None \<rparr>"

definition SetError :: "int \<Rightarrow> string \<Rightarrow> JsonRpcResponse \<Rightarrow> JsonRpcResponse" where
  "SetError code message r =
     r\<lparr> jp_Error := Some (code, message, (case jp_Error r of None \<Rightarrow> [] | Some (_, _, d) \<Rightarrow> d)) \<rparr>"

definition SetErrorWithData :: "int \<Rightarrow> string \<Rightarrow> string \<Rightarrow> JsonRpcResponse \<Rightarrow> JsonRpcResponse" where
  "SetErrorWithData code message data r = r\<lparr> jp_Error := Some (code, message, data) \<rparr>"

text \<open>\<open>SetResult\<close> drops the error of \<open>json.Marshal\<close>: a value that cannot be marshalled leaves no result.\<close>

definition SetResult :: "json option \<Rightarrow> JsonRpcResponse \<Rightarrow> JsonRpcResponse" where
  "SetResult result r = r\<lparr> jp_Result := result \<rparr>"

definition ERROR_PARSE :: "JsonRpcResponse \<Rightarrow> JsonRpcResponse" where
  "ERROR_PARSE = SetError (- 32700) ''Parse error''"

definition ERROR_INVALID :: "string \<Rightarrow> JsonRpcResponse \<Rightarrow> JsonRpcResponse" where
  "ERROR_INVALID = SetError (- 32600)"

definition ERROR_SERVER :: "string \<Rightarrow> JsonRpcResponse \<Rightarrow> JsonRpcResponse" where
  "ERROR_SERVER = SetError (- 32000)"

definition ERROR_UNAUTHORIZED :: "string \<Rightarrow> JsonRpcResponse \<Rightarrow> JsonRpcResponse" where
  "ERROR_UNAUTHORIZED data = SetErrorWithData (- 32001) ''unauthorized access'' data"

text \<open>
  The type \<open>amount\<close> is written into the JSON text as it is, so it has to be a number there; one such
  field that is not makes the whole value fail.
\<close>

definition amount_json :: "string \<Rightarrow> json option" where
  "amount_json a = (if isValidNumber a then Some (JNum a) else None)"

text \<open>A struct as an object; a field is left out when its second component says so (\<open>omitempty\<close>).\<close>

fun marshal_struct :: "(string \<times> bool \<times> json option) list \<Rightarrow> json option" where
  "marshal_struct [] = Some (JObj [])"
| "marshal_struct ((k, omit, v) # fs) =
     (if omit then marshal_struct fs
      else case (v, marshal_struct fs) of
             (Some j, Some (JObj kvs)) \<Rightarrow> Some (JObj ((k, j) # kvs))
           | _ \<Rightarrow> None)"

definition jint :: "int \<Rightarrow> json option" where
  "jint i = Some (JNum (big_string i))"

definition jstr :: "string \<Rightarrow> json option" where
  "jstr s = Some (JStr s)"

definition jbool :: "bool \<Rightarrow> json option" where
  "jbool b = Some (JBool b)"

end
