(* ===== verification/EndpointHandlers.thy ===== *)
theory EndpointHandlers
  imports Endpoint "HOL-Library.List_Lexorder" "HOL-Library.Char_ord"
begin

text \<open>
  The request handlers of the endpoint (\<open>endpoint/methods_*.go\<close>) and its router. A handler gets the
  context of the request, the request, the response it fills in, and the state of the components it
  calls; the rest of the node is the record \<open>BackRpc\<close>. A panic ends the handler with the state reached;
  no handler has touched the response before it can panic. The texts of the errors of other components are
  parameters.
\<close>

section \<open>The handler and the state behind it\<close>

record ('n, 'db, 'hdb) world =
  w_node :: 'n
  w_pool :: "'db Manager"
  w_subs :: subscribers
  w_cache :: 'hdb

datatype 'w outcome = Done 'w JsonRpcResponse | Panicked 'w

record RpcRequestContext =
  x_stringParams :: "string \<rightharpoonup> string"
  x_intParams :: "string \<rightharpoonup> int"
  x_boolParams :: "string \<rightharpoonup> bool"
  x_apiToken :: string
  x_authorized :: bool

type_synonym 'w RpcProcessor = "RpcRequestContext \<Rightarrow> JsonRpcRequest \<Rightarrow> JsonRpcResponse \<Rightarrow> 'w \<Rightarrow> 'w outcome option"

text \<open>
  \<open>r_free\<close> is the order in which a range over the map of free addresses visits it, \<open>r_draw\<close> what the
  random source yields, \<open>r_unixNano\<close> and \<open>r_now\<close> what the clock shows.
\<close>

record ('n, 'db, 'hdb) BackRpc =
  r_keccak :: "bytes \<Rightarrow> bytes"
  r_transport :: "'n transport"
  r_chainClient :: Client
  r_knownTokens :: "string \<rightharpoonup> TokenInfo"
  r_addressEnv :: "'db am_env"
  r_subscriptionsSave :: "subscribers \<Rightarrow> (sub_error, unit) res"
  r_txCache :: "'hdb cache_ops"
  r_rpcProcessors :: "string \<rightharpoonup> ('n, 'db, 'hdb) world RpcProcessor"
  r_fallbackResponse :: "(string \<times> int \<times> string option) option"
  r_free :: "'db Manager \<Rightarrow> string list"
  r_draw :: draw
  r_unixNano :: int
  r_now :: int
  r_clientText :: "client_error \<Rightarrow> string"
  r_poolText :: "am_error \<Rightarrow> string"
  r_subText :: "sub_error \<Rightarrow> string"
  r_codecText :: "address_error \<Rightarrow> string"

subsection \<open>The request context\<close>

datatype context_error = ErrKeyNotFound

definition NewRpcRequestContext :: RpcRequestContext where
  "NewRpcRequestContext =
     \<lparr> x_stringParams = Map.empty, x_intParams = Map.empty, x_boolParams = Map.empty, x_apiToken = [],
       x_authorized = False \<rparr>"

definition ctx_get :: "(string \<rightharpoonup> 'v) \<Rightarrow> string \<Rightarrow> (context_error, 'v) res" where
  "ctx_get m key = (case m key of Some v \<Rightarrow> Ok v | None \<Rightarrow> Err ErrKeyNotFound)"

definition ctx_GetString :: "RpcRequestContext \<Rightarrow> string \<Rightarrow> (context_error, string) res" where
  "ctx_GetString ctx = ctx_get (x_stringParams ctx)"

definition ctx_GetInt :: "RpcRequestContext \<Rightarrow> string \<Rightarrow> (context_error, int) res" where
  "ctx_GetInt ctx = ctx_get (x_intParams ctx)"

definition ctx_GetBool :: "RpcRequestContext \<Rightarrow> string \<Rightarrow> (context_error, bool) res" where
  "ctx_GetBool ctx = ctx_get (x_boolParams ctx)"

definition ctx_SetString :: "string \<Rightarrow> string \<Rightarrow> RpcRequestContext \<Rightarrow> RpcRequestContext" where
  "ctx_SetString key value ctx = ctx\<lparr> x_stringParams := (x_stringParams ctx)(key \<mapsto> value) \<rparr>"

definition ctx_SetInt :: "string \<Rightarrow> int \<Rightarrow> RpcRequestContext \<Rightarrow> RpcRequestContext" where
  "ctx_SetInt key value ctx = ctx\<lparr> x_intParams := (x_intParams ctx)(key \<mapsto> value) \<rparr>"

definition ctx_SetBool :: "string \<Rightarrow> bool \<Rightarrow> RpcRequestContext \<Rightarrow> RpcRequestContext" where
  "ctx_SetBool key value ctx = ctx\<lparr> x_boolParams := (x_boolParams ctx)(key \<mapsto> value) \<rparr>"

definition Authorized :: "bool \<Rightarrow> RpcRequestContext \<Rightarrow> RpcRequestContext" where
  "Authorized v ctx = ctx\<lparr> x_authorized := v \<rparr>"

text \<open>The API token is returned without an error, also when there is none.\<close>

definition GetApiToken :: "RpcRequestContext \<Rightarrow> (context_error, string) res" where
  "GetApiToken ctx = Ok (x_apiToken ctx)"

subsection \<open>Ends of handlers\<close>

definition reply :: "JsonRpcResponse \<Rightarrow> 'w \<Rightarrow> 'w outcome option" where
  "reply resp w = Some (Done w resp)"

definition crash :: "'w \<Rightarrow> 'w outcome option" where
  "crash w = Some (Panicked w)"

definition on_res ::
  "('e, 'a) res \<Rightarrow> 'w \<Rightarrow> ('e \<Rightarrow> 'w outcome option) \<Rightarrow> ('a \<Rightarrow> 'w outcome option) \<Rightarrow> 'w outcome option" where
  "on_res r w err ok = (case r of Ok a \<Rightarrow> ok a | Err e \<Rightarrow> err e | Panic \<Rightarrow> crash w)"

definition on_client ::
  "('n, 'a) io \<Rightarrow> ('n, 'db, 'hdb) world \<Rightarrow>
   (client_error \<Rightarrow> ('n, 'db, 'hdb) world \<Rightarrow> ('n, 'db, 'hdb) world outcome option) \<Rightarrow>
   ('a \<Rightarrow> ('n, 'db, 'hdb) world \<Rightarrow> ('n, 'db, 'hdb) world outcome option) \<Rightarrow> ('n, 'db, 'hdb) world outcome option" where
  "on_client m w err ok =
     (case m (w_node w) of
        None \<Rightarrow> None
      | Some (n, r) \<Rightarrow>
          (let w = w\<lparr> w_node := n \<rparr> in on_res r w (\<lambda>e. err e w) (\<lambda>a. ok a w)))"

section \<open>Helpers\<close>

definition addressNormalise :: "('n, 'db, 'hdb) BackRpc \<Rightarrow> string \<Rightarrow> (address_error, string) res" where
  "addressNormalise r address =
     res_bind (DecodeAddressToBytes address) (\<lambda>addressBytes.
       case EncodeBytesToAddress (r_keccak r) addressBytes of
         Ok address \<Rightarrow> Ok address
       | Err _ \<Rightarrow> Ok []
       | Panic \<Rightarrow> Panic)"

definition isTokenKnown :: "('n, 'db, 'hdb) BackRpc \<Rightarrow> string \<Rightarrow> bool" where
  "isTokenKnown r symbol \<longleftrightarrow> r_knownTokens r symbol \<noteq> None"

fun contains :: "string list \<Rightarrow> string \<Rightarrow> bool" where
  "contains [] item \<longleftrightarrow> False"
| "contains (i # list) item \<longleftrightarrow> (if i = item then True else contains list item)"

text \<open>The amount as the response shows it: formatted with the decimals, or as it is. None is a panic.\<close>

definition format_text :: "string \<Rightarrow> int \<Rightarrow> string option" where
  "format_text str decimals =
     (if int (length str) > decimals then
        (if decimals < 0 then None
         else Some (take (length str - nat decimals) str @ ''.'' @ drop (length str - nat decimals) str))
      else Some (''0.'' @ replicate (nat decimals - length str) (CHR ''0'') @ str))"

definition format_amount :: "bool \<Rightarrow> int option \<Rightarrow> int \<Rightarrow> string option" where
  "format_amount formatted balance decimals =
     (if formatted then format_text (big_text balance) decimals else Some (big_text balance))"

text \<open>A \<open>[]byte\<close> in JSON: standard base64 with padding.\<close>

definition b64_char :: "nat \<Rightarrow> char" where
  "b64_char n = ''ABCDEFGHIJKLMNOPQRSTUVWXYZabcdefghijklmnopqrstuvwxyz0123456789+/'' ! (n mod 64)"

fun base64 :: "bytes \<Rightarrow> string" where
  "base64 [] = []"
| "base64 [a] =
     (let n = unat a * 65536 in [b64_char (n div 262144), b64_char (n div 4096), CHR ''='', CHR ''=''])"
| "base64 [a, b] =
     (let n = unat a * 65536 + unat b * 256
      in [b64_char (n div 262144), b64_char (n div 4096), b64_char (n div 64), CHR ''=''])"
| "base64 (a # b # c # bs) =
     (let n = unat a * 65536 + unat b * 256 + unat c
      in [b64_char (n div 262144), b64_char (n div 4096), b64_char (n div 64), b64_char n] @ base64 bs)"

definition jstrs :: "string list \<Rightarrow> json option" where
  "jstrs ss = Some (JArr (map JStr ss))"

text \<open>
  A field of type \<open>[]string\<close>: null makes it nil; the elements of an array are decoded into those the slice
  has, which a null keeps.
\<close>

fun unjson_elems :: "json list \<Rightarrow> string list \<Rightarrow> (json_error, string list) res" where
  "unjson_elems [] olds = Ok []"
| "unjson_elems (j # js) olds =
     res_bind (unjson_string j (case olds of [] \<Rightarrow> [] | s # _ \<Rightarrow> s)) (\<lambda>s.
       res_bind (unjson_elems js (drop 1 olds)) (\<lambda>ss. Ok (s # ss)))"

fun unjson_strs :: "json \<Rightarrow> string list option \<Rightarrow> (json_error, string list option) res" where
  "unjson_strs JNull old = Ok None"
| "unjson_strs (JArr js) old =
     res_bind (unjson_elems js (case old of None \<Rightarrow> [] | Some ss \<Rightarrow> ss)) (\<lambda>ss. Ok (Some ss))"
| "unjson_strs _ old = Err UnmarshalError"

definition list_of :: "string list option \<Rightarrow> string list" where
  "list_of ss = (case ss of None \<Rightarrow> [] | Some ss \<Rightarrow> ss)"

section \<open>Transfers\<close>

record transferAssetsRequest =
  ta_ServiceID :: int
  ta_PrivateKey :: string
  ta_From :: string
  ta_To :: string
  ta_Amount :: string
  ta_AmountFormated :: bool
  ta_Symbol :: string
  ta_Force :: bool
  ta_Signature :: string

definition decode_transferAssets :: "json \<Rightarrow> (json_error, transferAssetsRequest) res" where
  "decode_transferAssets j =
     res_bind (struct_field unjson_int ''serviceId'' 0 j) (\<lambda>serviceId.
     res_bind (struct_field unjson_string ''privateKey'' [] j) (\<lambda>privateKey.
     res_bind (struct_field unjson_string ''from'' [] j) (\<lambda>sender.
     res_bind (struct_field unjson_string ''to'' [] j) (\<lambda>recipient.
     res_bind (struct_field unjson_number ''amount'' [] j) (\<lambda>amount.
     res_bind (struct_field unjson_bool ''amountFormated'' False j) (\<lambda>amountFormated.
     res_bind (struct_field unjson_string ''symbol'' [] j) (\<lambda>symbol.
     res_bind (struct_field unjson_bool ''force'' False j) (\<lambda>force.
     res_bind (struct_field unjson_string ''signature'' [] j) (\<lambda>signature.
       Ok \<lparr> ta_ServiceID = serviceId, ta_PrivateKey = privateKey, ta_From = sender, ta_To = recipient,
            ta_Amount = amount, ta_AmountFormated = amountFormated, ta_Symbol = symbol, ta_Force = force,
            ta_Signature = signature \<rparr>)))))))))"

text \<open>The amount and the decimals it is formatted with; they stay 0 for a plain amount.\<close>

definition asset_decimals :: "('n, 'db, 'hdb) BackRpc \<Rightarrow> string \<Rightarrow> (string, int) res" where
  "asset_decimals r symbol =
     (if symbol = c_chainSymbol (r_chainClient r) then Ok (c_decimals (r_chainClient r))
      else case r_knownTokens r symbol of None \<Rightarrow> Panic | Some token \<Rightarrow> Ok (TokenDecimals token))"

definition request_amount ::
  "('n, 'db, 'hdb) BackRpc \<Rightarrow> bool \<Rightarrow> string \<Rightarrow> string \<Rightarrow> (string, int \<times> int) res" where
  "request_amount r formatted symbol text =
     (if formatted then
        res_bind (asset_decimals r symbol) (\<lambda>decimals.
        res_bind (res_map_err (\<lambda>_. ''invalid amount'') (parseAmountToBigInt text decimals)) (\<lambda>amount.
          Ok (amount, decimals)))
      else
        (case SetString10 text of
           None \<Rightarrow> Err ''invalid amount''
         | Some amount \<Rightarrow> Ok (amount, 0)))"

text \<open>
  The key that signs: the one of the request, when it belongs to the sender, or the one of the pool's
  record. An error is a code and a message. Both branches leave the sender that was copied before.
\<close>

definition given_key :: "('n, 'db, 'hdb) BackRpc \<Rightarrow> transferAssetsRequest \<Rightarrow> (int \<times> string, bytes) res" where
  "given_key r params =
     (case ParseHexBytes (ta_PrivateKey params) of
        Err _ \<Rightarrow> Err (- 32600, ''invalid private key'')
      | Panic \<Rightarrow> Panic
      | Ok pkBytes \<Rightarrow>
          (case PrivateKeyToAddress (r_keccak r) pkBytes of
             Err _ \<Rightarrow> Err (- 32600, ''invalid private key'')
           | Panic \<Rightarrow> Panic
           | Ok (fromCalculated, _) \<Rightarrow>
               (if fromCalculated \<noteq> ta_From params \<and> ta_From params \<noteq> [] then
                  Err (- 32600, ''from address and key mismatch'')
                else Ok pkBytes)))"

definition pool_key :: "'db Manager \<Rightarrow> transferAssetsRequest \<Rightarrow> (int \<times> string, bytes) res" where
  "pool_key pool params =
     (case IsAddressKnown pool (ta_From params) of
        Ok False \<Rightarrow> Err (- 32600, ''private key required'')
      | Ok True \<Rightarrow>
          (case GetAddress pool (ta_From params) of
             Err _ \<Rightarrow> Err (- 32000, ''server error'')
           | Ok (Some p) \<Rightarrow>
               (let addressInfo = am_heap pool ! p
                in if a_ServiceId addressInfo \<noteq> ta_ServiceID params then
                     Err (- 32600, ''address unknown or not owned by service'')
                   else if a_WatchOnly addressInfo \<and> \<not> ta_Force params \<or> length (a_PrivateKey addressInfo) = 0 then
                     Err (- 32600, ''address is watch only'')
                   else Ok (a_PrivateKey addressInfo))
           | _ \<Rightarrow> Panic)
      | _ \<Rightarrow> Panic)"

definition transfer_key ::
  "('n, 'db, 'hdb) BackRpc \<Rightarrow> 'db Manager \<Rightarrow> transferAssetsRequest \<Rightarrow> (int \<times> string, bytes) res" where
  "transfer_key r pool params =
     (if ta_PrivateKey params \<noteq> [] then given_key r params
      else if ta_From params = [] then Err (- 32600, ''from address or private key required'')
      else pool_key pool params)"

text \<open>Everything before the transfer: the parameters with normal addresses, the amount, its decimals, the key.\<close>

definition transfer_request ::
  "('n, 'db, 'hdb) BackRpc \<Rightarrow> 'db Manager \<Rightarrow> JsonRpcRequest \<Rightarrow>
   (int \<times> string, transferAssetsRequest \<times> int \<times> int \<times> bytes) res" where
  "transfer_request r pool request =
     (let invalid = (\<lambda>message. (- 32600, message)) in
      res_bind (res_map_err (\<lambda>_. (- 32700, ''Parse error'')) (ParseParams decode_transferAssets request)) (\<lambda>params.
      res_bind (res_map_err (\<lambda>_. invalid ''invalid from address'') (addressNormalise r (ta_From params))) (\<lambda>sender.
      res_bind (res_map_err (\<lambda>_. invalid ''invalid target address'') (addressNormalise r (ta_To params))) (\<lambda>recipient.
      let params = params\<lparr> ta_From := sender, ta_To := recipient \<rparr> in
      if ta_From params \<noteq> [] \<and> \<not> IsValid (ta_From params) then Err (invalid ''from address required'')
      else if ta_Symbol params = [] then Err (invalid ''asset symbol required'')
      else if ta_To params = [] then Err (invalid ''to address required'')
      else if \<not> IsValid (ta_To params) then Err (invalid ''invalid target address'')
      else if ta_Symbol params \<noteq> c_chainSymbol (r_chainClient r) \<and> \<not> isTokenKnown r (ta_Symbol params) then
        Err (invalid ''unknown asset symbol'')
      else
        res_bind (res_map_err invalid (request_amount r (ta_AmountFormated params) (ta_Symbol params) (ta_Amount params)))
          (\<lambda>(amountToTransfer, decimals).
          if amountToTransfer \<le> 0 then Err (invalid ''invalid amount'')
          else res_bind (transfer_key r pool params) (\<lambda>privateKeyBytes.
                 Ok (params, amountToTransfer, decimals, privateKeyBytes)))))))"

record transferAssetsResult =
  tr_TxID :: string
  tr_Success :: bool
  tr_NativeCoin :: bool
  tr_SmartContract :: bool
  tr_Symbol :: string
  tr_From :: string
  tr_To :: string
  tr_Amount :: string
  tr_Fee :: string
  tr_FeeSymbol :: string
  tr_Warning :: string
  tr_ChainSpecificData :: bytes

definition zero_transferAssetsResult :: transferAssetsResult where
  "zero_transferAssetsResult =
     \<lparr> tr_TxID = [], tr_Success = False, tr_NativeCoin = False, tr_SmartContract = False, tr_Symbol = [],
       tr_From = [], tr_To = [], tr_Amount = [], tr_Fee = [], tr_FeeSymbol = [], tr_Warning = [],
       tr_ChainSpecificData = [] \<rparr>"

definition result_fill :: "TransferInfo \<Rightarrow> transferAssetsResult \<Rightarrow> transferAssetsResult" where
  "result_fill tx s =
     s\<lparr> tr_TxID := TxID tx, tr_Success := Success tx, tr_NativeCoin := NativeCoin tx,
        tr_SmartContract := SmartContract tx, tr_Symbol := Symbol tx, tr_From := From tx, tr_To := To tx,
        tr_ChainSpecificData := ChainSpecificData tx \<rparr>"

definition marshal_transferAssetsResult :: "transferAssetsResult \<Rightarrow> json option" where
  "marshal_transferAssetsResult s =
     marshal_struct
       [(''tx_id'', False, jstr (tr_TxID s)), (''success'', False, jbool (tr_Success s)),
        (''nativeCoin'', \<not> tr_NativeCoin s, jbool (tr_NativeCoin s)),
        (''smartContract'', \<not> tr_SmartContract s, jbool (tr_SmartContract s)),
        (''symbol'', tr_Symbol s = [], jstr (tr_Symbol s)), (''from'', False, jstr (tr_From s)),
        (''to'', False, jstr (tr_To s)), (''amount'', False, amount_json (tr_Amount s)),
        (''fee'', False, amount_json (tr_Fee s)), (''feeSymbol'', tr_FeeSymbol s = [], jstr (tr_FeeSymbol s)),
        (''warning'', tr_Warning s = [], jstr (tr_Warning s)),
        (''chainSpecificData'', tr_ChainSpecificData s = [], jstr (base64 (tr_ChainSpecificData s)))]"

text \<open>The result of a transfer that was sent; None is a panic.\<close>

definition transfer_result ::
  "('n, 'db, 'hdb) BackRpc \<Rightarrow> transferAssetsRequest \<Rightarrow> int \<Rightarrow> int \<Rightarrow> TransferInfo \<Rightarrow> transferAssetsResult option" where
  "transfer_result r params amount decimals transferInfo =
     (let result = result_fill transferInfo zero_transferAssetsResult;
          result = (if SmartContract transferInfo then result\<lparr> tr_FeeSymbol := c_chainSymbol (r_chainClient r) \<rparr> else result)
      in case (format_amount (ta_AmountFormated params) (Some amount) decimals,
               format_amount (ta_AmountFormated params) (Fee transferInfo) decimals) of
           (Some a, Some f) \<Rightarrow> Some (result\<lparr> tr_Amount := a, tr_Fee := f \<rparr>)
         | _ \<Rightarrow> None)"

definition transfer_unseen :: "transferAssetsRequest \<Rightarrow> int \<Rightarrow> string \<Rightarrow> transferAssetsResult" where
  "transfer_unseen params amount txHash =
     zero_transferAssetsResult\<lparr> tr_TxID := txHash, tr_Success := False, tr_Symbol := ta_Symbol params,
       tr_From := ta_From params, tr_To := ta_To params, tr_Amount := big_string amount,
       tr_Warning := ''Can not get transfer info by hash'' \<rparr>"

definition send_transfer ::
  "('n, 'db, 'hdb) BackRpc \<Rightarrow> transferAssetsRequest \<Rightarrow> int \<Rightarrow> bytes \<Rightarrow> ('n, string) io" where
  "send_transfer r params amount privateKeyBytes =
     (if ta_Symbol params = c_chainSymbol (r_chainClient r) then
        TransferByPrivateKey (r_keccak r) (r_transport r) privateKeyBytes (ta_From params) (ta_To params) amount
      else
        TransferTokenByPrivateKey (r_transport r) privateKeyBytes (ta_From params) (ta_To params) amount (ta_Symbol params))"

definition rpcProcessTransferAssets :: "('n, 'db, 'hdb) BackRpc \<Rightarrow> ('n, 'db, 'hdb) world RpcProcessor" where
  "rpcProcessTransferAssets r ctx request resp w =
     on_res (transfer_request r (w_pool w) request) w (\<lambda>(code, message). reply (SetError code message resp) w)
       (\<lambda>(params, amount, decimals, privateKeyBytes).
       on_client (send_transfer r params amount privateKeyBytes) w
         (\<lambda>e w. reply (ERROR_SERVER (r_clientText r e) resp) w)
         (\<lambda>txHash w.
         on_client (TransferInfoByHash (r_keccak r) (r_now r) (r_chainClient r) (r_transport r) txHash) w
           (\<lambda>_ w. reply (SetResult (marshal_transferAssetsResult (transfer_unseen params amount txHash)) resp) w)
           (\<lambda>transferInfo w.
              case transfer_result r params amount decimals transferInfo of
                None \<Rightarrow> crash w
              | Some result \<Rightarrow> reply (SetResult (marshal_transferAssetsResult result) resp) w)))"

subsection \<open>Fees\<close>

record transferGetEstimatedFeeRequest =
  tf_From :: string
  tf_To :: string
  tf_Amount :: string
  tf_Symbol :: string
  tf_AmountFormated :: bool

definition decode_estimatedFee :: "json \<Rightarrow> (json_error, transferGetEstimatedFeeRequest) res" where
  "decode_estimatedFee j =
     res_bind (struct_field unjson_string ''from'' [] j) (\<lambda>sender.
     res_bind (struct_field unjson_string ''to'' [] j) (\<lambda>recipient.
     res_bind (struct_field unjson_number ''amount'' [] j) (\<lambda>amount.
     res_bind (struct_field unjson_string ''symbol'' [] j) (\<lambda>symbol.
     res_bind (struct_field unjson_bool ''amountFormated'' False j) (\<lambda>amountFormated.
       Ok \<lparr> tf_From = sender, tf_To = recipient, tf_Amount = amount, tf_Symbol = symbol,
            tf_AmountFormated = amountFormated \<rparr>)))))"

text \<open>Here the symbol is checked after the decimals of its token were read.\<close>

definition fee_request ::
  "('n, 'db, 'hdb) BackRpc \<Rightarrow> JsonRpcRequest \<Rightarrow> (int \<times> string, transferGetEstimatedFeeRequest \<times> int \<times> int) res" where
  "fee_request r request =
     (let invalid = (\<lambda>message. (- 32600, message)) in
      res_bind (res_map_err (\<lambda>_. (- 32700, ''Parse error'')) (ParseParams decode_estimatedFee request)) (\<lambda>params.
      res_bind (res_map_err (\<lambda>_. invalid ''invalid from address'') (addressNormalise r (tf_From params))) (\<lambda>sender.
      res_bind (res_map_err (\<lambda>_. invalid ''invalid target address'') (addressNormalise r (tf_To params))) (\<lambda>recipient.
      let params = params\<lparr> tf_From := sender, tf_To := recipient \<rparr> in
      res_bind (res_map_err invalid (request_amount r (tf_AmountFormated params) (tf_Symbol params) (tf_Amount params)))
        (\<lambda>(amountToTransfer, decimals).
        if \<not> isTokenKnown r (tf_Symbol params) \<and> tf_Symbol params \<noteq> c_chainSymbol (r_chainClient r) then
          Err (invalid ''unknown asset symbol'')
        else Ok (params, amountToTransfer, decimals))))))"

text \<open>A \<open>json.Number\<close> that is no number makes \<open>json.Marshal\<close> fail; an empty one is written as 0.\<close>

definition number_json :: "string \<Rightarrow> json option" where
  "number_json s = (if s = [] then Some (JNum ''0'') else if isValidNumber s then Some (JNum s) else None)"

definition rpcProcessTransferGetEstimatedFee :: "('n, 'db, 'hdb) BackRpc \<Rightarrow> ('n, 'db, 'hdb) world RpcProcessor" where
  "rpcProcessTransferGetEstimatedFee r ctx request resp w =
     on_res (fee_request r request) w (\<lambda>(code, message). reply (SetError code message resp) w)
       (\<lambda>(params, amount, decimals).
       on_client
         (if tf_Symbol params = c_chainSymbol (r_chainClient r) then
            TransferGetEstimatedFee (r_transport r) (tf_From params) (tf_To params) amount
          else
            TransferTokenGetEstimatedFee (r_transport r) (tf_From params) (tf_To params) amount (tf_Symbol params)) w
         (\<lambda>e w. reply (ERROR_SERVER (r_clientText r e) resp) w)
         (\<lambda>fee w.
            case format_amount (tf_AmountFormated params) (Some fee) decimals of
              None \<Rightarrow> crash w
            | Some feeResult \<Rightarrow> reply (SetResult (number_json feeResult) resp) w))"

section \<open>Addresses\<close>

record addressSubscribeRequest =
  as_Address :: string
  as_PrivateKey :: string
  as_Mnemonic :: "string list option"
  as_ServiceId :: int
  as_UserId :: int
  as_InvoiceId :: int
  as_WatchOnly :: bool

definition decode_addressSubscribe :: "json \<Rightarrow> (json_error, addressSubscribeRequest) res" where
  "decode_addressSubscribe j =
     res_bind (struct_field unjson_string ''address'' [] j) (\<lambda>address.
     res_bind (struct_field unjson_string ''privateKey'' [] j) (\<lambda>privateKey.
     res_bind (struct_field unjson_strs ''mnemonic'' None j) (\<lambda>mnemonic.
     res_bind (struct_field unjson_int ''serviceId'' 0 j) (\<lambda>serviceId.
     res_bind (struct_field unjson_int ''userId'' 0 j) (\<lambda>userId.
     res_bind (struct_field unjson_int ''invoiceId'' 0 j) (\<lambda>invoiceId.
     res_bind (struct_field unjson_bool ''watchOnly'' False j) (\<lambda>watchOnly.
       Ok \<lparr> as_Address = address, as_PrivateKey = privateKey, as_Mnemonic = mnemonic, as_ServiceId = serviceId,
            as_UserId = userId, as_InvoiceId = invoiceId, as_WatchOnly = watchOnly \<rparr>)))))))"

text \<open>
  The address and the key of the request, up to the lookup of the service. The key of a request without
  one is nil, the empty list.
\<close>

definition subscribe_key ::
  "('n, 'db, 'hdb) BackRpc \<Rightarrow> addressSubscribeRequest \<Rightarrow> (int \<times> string, addressSubscribeRequest \<times> bytes) res" where
  "subscribe_key r params =
     (let invalid = (\<lambda>message. (- 32600, message)) in
      if as_Address params \<noteq> [] \<and> \<not> IsValid (as_Address params) then Err (invalid ''Invalid address'')
      else if as_PrivateKey params \<noteq> [] then
        res_bind (res_map_err (\<lambda>_. invalid ''Invalid private key'') (ParseHexBytes (as_PrivateKey params))) (\<lambda>privateKey.
        res_bind (res_map_err (\<lambda>_. invalid ''Invalid private key'') (PrivateKeyToAddress (r_keccak r) privateKey))
          (\<lambda>(addressStr, _).
          if as_Address params \<noteq> [] \<and> addressStr \<noteq> as_Address params then
            Err (invalid ''Address and private key mismatch'')
          else Ok (params\<lparr> as_Address := addressStr \<rparr>, privateKey)))
      else if as_Address params = [] then Err (invalid ''Address or private key required'')
      else Ok (params, []))"

definition service_for :: "('n, 'db, 'hdb) BackRpc \<Rightarrow> subscribers \<Rightarrow> int \<Rightarrow> (int \<times> string, Subscription) res" where
  "service_for r subs serviceId =
     res_bind (res_map_err (\<lambda>e. (- 32000, r_subText r e)) (SubscriptionGet subs serviceId)) (\<lambda>subscription.
       if s_Internal subscription then Err (- 32000, ''unknown serviceId'') else Ok subscription)"

text \<open>The mnemonic has to lead to the address and, when there is one, to the key.\<close>

definition mnemonic_check ::
  "('n, 'db, 'hdb) BackRpc \<Rightarrow> pool_config \<Rightarrow> addressSubscribeRequest \<Rightarrow> bytes \<Rightarrow> (int \<times> string, unit) res" where
  "mnemonic_check r config params privateKey =
     (let invalid = (\<lambda>message. (- 32600, message)) in
      if length (list_of (as_Mnemonic params)) > 0 then
        res_bind (res_map_err (\<lambda>_. invalid ''Invalid mnemonic'')
            (RecoverBit44Address (r_addressEnv r) config (list_of (as_Mnemonic params)))) (\<lambda>ar.
          if as_Address params \<noteq> [] \<and> as_Address params \<noteq> a_Address ar then
            Err (invalid ''Address and mnemonic mismatch'')
          else if as_PrivateKey params \<noteq> [] \<and> privateKey \<noteq> a_PrivateKey ar then
            Err (invalid ''Private key and mnemonic mismatch'')
          else Ok ())
      else Ok ())"

definition subscribe_request ::
  "('n, 'db, 'hdb) BackRpc \<Rightarrow> ('n, 'db, 'hdb) world \<Rightarrow> JsonRpcRequest \<Rightarrow>
   (int \<times> string, addressSubscribeRequest \<times> bytes) res" where
  "subscribe_request r w request =
     res_bind (res_map_err (\<lambda>_. (- 32700, ''Parse error'')) (ParseParams decode_addressSubscribe request)) (\<lambda>params.
     if as_ServiceId params = 0 then Err (- 32600, ''Invalid service id'')
     else
       res_bind (res_map_err (\<lambda>e. (- 32600, r_codecText r e)) (addressNormalise r (as_Address params))) (\<lambda>address.
       res_bind (subscribe_key r (params\<lparr> as_Address := address \<rparr>)) (\<lambda>(params, privateKey).
       res_bind (service_for r (w_subs w) (as_ServiceId params)) (\<lambda>_.
       let params = (if as_PrivateKey params = [] then params\<lparr> as_WatchOnly := True \<rparr> else params)
       in res_bind (mnemonic_check r (am_config (w_pool w)) params privateKey) (\<lambda>_. Ok (params, privateKey))))))"

definition subscribe_fill :: "addressSubscribeRequest \<Rightarrow> bytes \<Rightarrow> Address \<Rightarrow> Address" where
  "subscribe_fill params privateKey a =
     (let a = a\<lparr> a_PrivateKey := privateKey, a_ServiceId := as_ServiceId params, a_UserId := as_UserId params,
                a_InvoiceId := as_InvoiceId params, a_WatchOnly := as_WatchOnly params, a_Subscribed := True \<rparr>
      in if length (list_of (as_Mnemonic params)) > 0
         then a\<lparr> a_Bip39Support := True, a_Bip39Mnemonic := list_of (as_Mnemonic params) \<rparr> else a)"

definition subscribe_response :: "string \<Rightarrow> json option" where
  "subscribe_response message =
     marshal_struct [(''success'', False, jbool True), (''message'', message = [], jstr message)]"

definition rpcProcessAddressSubscribe :: "('n, 'db, 'hdb) BackRpc \<Rightarrow> ('n, 'db, 'hdb) world RpcProcessor" where
  "rpcProcessAddressSubscribe r ctx request resp w =
     on_res (subscribe_request r w request) w (\<lambda>(code, message). reply (SetError code message resp) w)
       (\<lambda>(params, privateKey).
       case AddAddressFill (r_addressEnv r) (w_pool w) (as_Address params) (subscribe_fill params privateKey) of
         (pool, result) \<Rightarrow>
           (let w = w\<lparr> w_pool := pool \<rparr>
            in on_res result w
                 (\<lambda>e. if e = ErrAddressExists
                       then reply (SetResult (subscribe_response ''Address already known'') resp) w
                       else reply (ERROR_SERVER (r_poolText r e) resp) w)
                 (\<lambda>_. reply (SetResult (subscribe_response []) resp) w)))"

record addressGetNewRequest =
  gn_ServiceId :: int
  gn_UserId :: int
  gn_InvoiceId :: int
  gn_WatchOnly :: bool
  gn_FullInfo :: bool
  gn_Signature :: string

definition decode_addressGetNew :: "json \<Rightarrow> (json_error, addressGetNewRequest) res" where
  "decode_addressGetNew j =
     res_bind (struct_field unjson_int ''serviceId'' 0 j) (\<lambda>serviceId.
     res_bind (struct_field unjson_int ''userId'' 0 j) (\<lambda>userId.
     res_bind (struct_field unjson_int ''invoiceId'' 0 j) (\<lambda>invoiceId.
     res_bind (struct_field unjson_bool ''watchOnly'' False j) (\<lambda>watchOnly.
     res_bind (struct_field unjson_bool ''fullInfo'' False j) (\<lambda>fullInfo.
     res_bind (struct_field unjson_string ''signature'' [] j) (\<lambda>signature.
       Ok \<lparr> gn_ServiceId = serviceId, gn_UserId = userId, gn_InvoiceId = invoiceId, gn_WatchOnly = watchOnly,
            gn_FullInfo = fullInfo, gn_Signature = signature \<rparr>))))))"

text \<open>The fields of the full answer are left out when they are empty, so a short answer has none of them.\<close>

definition getNew_response :: "bool \<Rightarrow> Address \<Rightarrow> json option" where
  "getNew_response fullInfo newAddress =
     (let privateKey = BytesToHex (a_PrivateKey newAddress)
      in marshal_struct
        ([(''success'', False, jbool True), (''address'', False, jstr (a_Address newAddress))] @
         (if fullInfo then
            [(''privateKey'', privateKey = [], jstr privateKey),
             (''userId'', a_UserId newAddress = 0, jint (a_UserId newAddress)),
             (''invoiceId'', a_InvoiceId newAddress = 0, jint (a_InvoiceId newAddress)),
             (''watchOnly'', \<not> a_WatchOnly newAddress, jbool (a_WatchOnly newAddress)),
             (''bip39Support'', \<not> a_Bip39Support newAddress, jbool True),
             (''bip39Mnemonic'', \<not> a_Bip39Support newAddress \<or> a_Bip39Mnemonic newAddress = [],
                jstrs (a_Bip39Mnemonic newAddress))]
          else [])))"

definition getNew_request ::
  "('n, 'db, 'hdb) BackRpc \<Rightarrow> subscribers \<Rightarrow> JsonRpcRequest \<Rightarrow> (int \<times> string, addressGetNewRequest) res" where
  "getNew_request r subs request =
     res_bind (res_map_err (\<lambda>_. (- 32700, ''Parse error'')) (ParseParams decode_addressGetNew request)) (\<lambda>params.
     if gn_ServiceId params = 0 then Err (- 32600, ''Invalid service id'')
     else res_bind (service_for r subs (gn_ServiceId params)) (\<lambda>_. Ok params))"

definition rpcProcessAddressGetNew :: "('n, 'db, 'hdb) BackRpc \<Rightarrow> ('n, 'db, 'hdb) world RpcProcessor" where
  "rpcProcessAddressGetNew r ctx request resp w =
     on_res (getNew_request r (w_subs w) request) w (\<lambda>(code, message). reply (SetError code message resp) w)
       (\<lambda>params.
       case GetFreeAddressAndSubscribe (r_addressEnv r) (w_pool w) (r_free r (w_pool w)) (gn_ServiceId params)
              (gn_UserId params) (gn_InvoiceId params) (gn_WatchOnly params) of
         (pool, result) \<Rightarrow>
           (let w = w\<lparr> w_pool := pool \<rparr>
            in on_res result w
                 (\<lambda>e. reply (ERROR_SERVER (r_poolText r e) resp) w)
                 (\<lambda>p. reply (SetResult (getNew_response (gn_FullInfo params) (am_heap pool ! p)) resp) w)))"

definition decode_addressRecover :: "json \<Rightarrow> (json_error, string list option) res" where
  "decode_addressRecover = struct_field unjson_strs ''mnemonic'' None"

text \<open>The answer of the recovery and of the generation; a failure is a result with an error text.\<close>

definition recover_response :: "('n, 'db, 'hdb) BackRpc \<Rightarrow> (am_error, Address) res \<Rightarrow> json option" where
  "recover_response r record =
     (case record of
        Ok a \<Rightarrow>
          (let privateKey = BytesToHex (a_PrivateKey a)
           in marshal_struct
             [(''success'', False, jbool True), (''address'', a_Address a = [], jstr (a_Address a)),
              (''privateKey'', privateKey = [], jstr privateKey),
              (''bip39Mnemonic'', a_Bip39Mnemonic a = [], jstrs (a_Bip39Mnemonic a))])
      | Err e \<Rightarrow>
          marshal_struct [(''success'', False, jbool False), (''error'', r_poolText r e = [], jstr (r_poolText r e))]
      | Panic \<Rightarrow> None)"

definition rpcProcessAddressRecover :: "('n, 'db, 'hdb) BackRpc \<Rightarrow> ('n, 'db, 'hdb) world RpcProcessor" where
  "rpcProcessAddressRecover r ctx request resp w =
     on_res (ParseParams decode_addressRecover request) w (\<lambda>_. reply (ERROR_PARSE resp) w)
       (\<lambda>mnemonic.
       let addressRecord = RecoverBit44Address (r_addressEnv r) (am_config (w_pool w)) (list_of mnemonic)
       in on_res addressRecord w
            (\<lambda>e. reply (SetResult (recover_response r addressRecord) resp) w)
            (\<lambda>_. reply (SetResult (recover_response r addressRecord) resp) w))"

definition decode_addressGenerate :: "json \<Rightarrow> (json_error, int \<times> string) res" where
  "decode_addressGenerate j =
     res_bind (struct_field unjson_int ''mnemonicLen'' 12 j) (\<lambda>mnemonicLen.
     res_bind (struct_field unjson_string ''signature'' [] j) (\<lambda>signature. Ok (mnemonicLen, signature)))"

definition rpcProcessAddressGenerate :: "('n, 'db, 'hdb) BackRpc \<Rightarrow> ('n, 'db, 'hdb) world RpcProcessor" where
  "rpcProcessAddressGenerate r ctx request resp w =
     on_res (ParseParams decode_addressGenerate request) w (\<lambda>_. reply (ERROR_PARSE resp) w)
       (\<lambda>(mnemonicLen, _).
       let addressRecord = GenerateBit44AddressWithLen (r_addressEnv r) (am_config (w_pool w)) mnemonicLen (r_draw r)
       in on_res addressRecord w
            (\<lambda>e. reply (SetResult (recover_response r addressRecord) resp) w)
            (\<lambda>_. reply (SetResult (recover_response r addressRecord) resp) w))"

section \<open>Services\<close>

definition rpcProcessServiceRegister :: "('n, 'db, 'hdb) BackRpc \<Rightarrow> ('n, 'db, 'hdb) world RpcProcessor" where
  "rpcProcessServiceRegister r ctx request resp w = crash w"

record serviceConfigRequest =
  sc_ServiceId :: int
  sc_EndpointUrl :: string
  sc_ReportNewBlock :: bool
  sc_ReportIncomingTx :: bool
  sc_ReportOutgoingTx :: bool
  sc_ReportMainCoin :: bool
  sc_ReportTokens :: "string list option"
  sc_GatherToMaster :: bool
  sc_MasterList :: "string list option"
  sc_Signature :: string

definition decode_serviceConfig :: "json \<Rightarrow> (json_error, serviceConfigRequest) res" where
  "decode_serviceConfig j =
     res_bind (struct_field unjson_int ''serviceId'' 0 j) (\<lambda>serviceId.
     res_bind (struct_field unjson_string ''eventUrl'' [] j) (\<lambda>endpointUrl.
     res_bind (struct_field unjson_bool ''reportNewBlock'' False j) (\<lambda>reportNewBlock.
     res_bind (struct_field unjson_bool ''reportIncomingTx'' False j) (\<lambda>reportIncomingTx.
     res_bind (struct_field unjson_bool ''reportOutgoingTx'' False j) (\<lambda>reportOutgoingTx.
     res_bind (struct_field unjson_bool ''reportMainCoin'' True j) (\<lambda>reportMainCoin.
     res_bind (struct_field unjson_strs ''reportTokens'' None j) (\<lambda>reportTokens.
     res_bind (struct_field unjson_bool ''gatherToMaster'' False j) (\<lambda>gatherToMaster.
     res_bind (struct_field unjson_strs ''masterList'' None j) (\<lambda>masterList.
     res_bind (struct_field unjson_string ''signature'' [] j) (\<lambda>signature.
       Ok \<lparr> sc_ServiceId = serviceId, sc_EndpointUrl = endpointUrl, sc_ReportNewBlock = reportNewBlock,
            sc_ReportIncomingTx = reportIncomingTx, sc_ReportOutgoingTx = reportOutgoingTx,
            sc_ReportMainCoin = reportMainCoin, sc_ReportTokens = reportTokens, sc_GatherToMaster = gatherToMaster,
            sc_MasterList = masterList, sc_Signature = signature \<rparr>))))))))))"

definition report_tokens :: "TokenInfo list \<Rightarrow> string list \<Rightarrow> (string \<times> bool) list" where
  "report_tokens tokens wanted =
     fold (\<lambda>token m. al_upsert m token True) wanted (fold (\<lambda>token m. al_upsert m (TokenSym token) False) tokens [])"

definition config_edit :: "TokenInfo list \<Rightarrow> serviceConfigRequest \<Rightarrow> Subscription \<Rightarrow> Subscription" where
  "config_edit tokens params subscription =
     subscription\<lparr> s_EndpointUrl := sc_EndpointUrl params, s_ReportNewBlock := sc_ReportNewBlock params,
       s_ReportIncomingTx := sc_ReportIncomingTx params, s_ReportOutgoingTx := sc_ReportOutgoingTx params,
       s_ReportMainCoin := sc_ReportMainCoin params,
       s_ReportTokens := report_tokens tokens (list_of (sc_ReportTokens params)),
       s_GatherToMaster := sc_GatherToMaster params, s_MasterList := list_of (sc_MasterList params) \<rparr>"

definition jstrs_opt :: "string list option \<Rightarrow> json option" where
  "jstrs_opt ss = (case ss of None \<Rightarrow> Some JNull | Some ss \<Rightarrow> jstrs ss)"

definition marshal_serviceConfig :: "serviceConfigRequest \<Rightarrow> json option" where
  "marshal_serviceConfig p =
     marshal_struct
       [(''serviceId'', False, jint (sc_ServiceId p)), (''eventUrl'', False, jstr (sc_EndpointUrl p)),
        (''reportNewBlock'', False, jbool (sc_ReportNewBlock p)),
        (''reportIncomingTx'', False, jbool (sc_ReportIncomingTx p)),
        (''reportOutgoingTx'', False, jbool (sc_ReportOutgoingTx p)),
        (''reportMainCoin'', False, jbool (sc_ReportMainCoin p)),
        (''reportTokens'', False, jstrs_opt (sc_ReportTokens p)),
        (''gatherToMaster'', False, jbool (sc_GatherToMaster p)), (''masterList'', False, jstrs_opt (sc_MasterList p)),
        (''signature'', sc_Signature p = [], jstr (sc_Signature p))]"

definition rpcProcessServiceConfig :: "('n, 'db, 'hdb) BackRpc \<Rightarrow> ('n, 'db, 'hdb) world RpcProcessor" where
  "rpcProcessServiceConfig r ctx request resp w =
     on_res (ParseParams decode_serviceConfig request) w (\<lambda>_. reply (ERROR_PARSE resp) w)
       (\<lambda>params.
       on_res (service_for r (w_subs w) (sc_ServiceId params)) w (\<lambda>(code, message). reply (SetError code message resp) w)
         (\<lambda>_.
         case SubscriptionEdit (r_subscriptionsSave r) (w_subs w) (sc_ServiceId params)
                (config_edit (c_tokens (r_chainClient r)) params) of
           (subs, result) \<Rightarrow>
             (let w = w\<lparr> w_subs := subs \<rparr>
              in on_res result w
                   (\<lambda>e. reply (ERROR_SERVER (r_subText r e) resp) w)
                   (\<lambda>_. reply (SetResult (marshal_serviceConfig params) resp) w))))"

section \<open>Transaction queries\<close>

definition decode_transferInfo :: "string \<Rightarrow> json \<Rightarrow> (json_error, string \<times> bool) res" where
  "decode_transferInfo field j =
     res_bind (struct_field unjson_string field [] j) (\<lambda>key.
     res_bind (struct_field unjson_bool ''amountsFormatted'' True j) (\<lambda>amountsFormatted. Ok (key, amountsFormatted)))"

text \<open>A row of the answer; None is a panic, the inner option says whether it can be marshalled.\<close>

definition transfer_row :: "bool \<Rightarrow> TransferInfo \<Rightarrow> json option option" where
  "transfer_row formatted ti =
     (case (format_amount formatted (Amount ti) (Decimals ti), format_amount formatted (Fee ti) (Decimals ti)) of
        (Some a, Some f) \<Rightarrow>
          Some (marshal_struct
            [(''tx_id'', False, jstr (TxID ti)), (''timestamp'', False, jint (Timestamp ti)),
             (''blockNum'', False, jint (BlockNum ti)), (''success'', False, jbool (Success ti)),
             (''transfer'', False, jbool (Transfer ti)), (''nativeCoin'', \<not> NativeCoin ti, jbool (NativeCoin ti)),
             (''symbol'', Symbol ti = [], jstr (Symbol ti)), (''decimals'', False, jint (Decimals ti)),
             (''smartContract'', \<not> SmartContract ti, jbool (SmartContract ti)), (''from'', False, jstr (From ti)),
             (''to'', False, jstr (To ti)), (''amount'', False, amount_json a), (''token'', Token ti = [], jstr (Token ti)),
             (''tokenSymbol'', TokenSymbol ti = [], jstr (TokenSymbol ti)), (''fee'', False, amount_json f),
             (''inPool'', False, jbool (InPool ti)), (''confirmed'', False, jbool (Confirmed ti)),
             (''confirmations'', Confirmations ti = 0, jint (Confirmations ti)),
             (''chainSpecificData'', ChainSpecificData ti = [], jstr (base64 (ChainSpecificData ti)))])
      | _ \<Rightarrow> None)"

definition rpcProcessGetTransferInfo :: "('n, 'db, 'hdb) BackRpc \<Rightarrow> ('n, 'db, 'hdb) world RpcProcessor" where
  "rpcProcessGetTransferInfo r ctx request resp w =
     on_res (ParseParams (decode_transferInfo ''txId'') request) w (\<lambda>_. reply (ERROR_PARSE resp) w)
       (\<lambda>(txId, amountsFormatted).
       on_res (GetTransferInfo (r_txCache r) (w_cache w) txId) w
         (\<lambda>_. reply (ERROR_SERVER ''unknown or unsupported transaction'' resp) w)
         (\<lambda>transferInfo.
            case transfer_row amountsFormatted transferInfo of
              None \<Rightarrow> crash w
            | Some result \<Rightarrow> reply (SetResult result resp) w))"

text \<open>All rows; one that cannot be marshalled makes the whole list fail.\<close>

fun transfer_rows :: "bool \<Rightarrow> TransferInfo list \<Rightarrow> json list option option" where
  "transfer_rows formatted [] = Some (Some [])"
| "transfer_rows formatted (ti # tis) =
     (case (transfer_row formatted ti, transfer_rows formatted tis) of
        (Some (Some j), Some (Some js)) \<Rightarrow> Some (Some (j # js))
      | (Some _, Some _) \<Rightarrow> Some None
      | _ \<Rightarrow> None)"

definition rpcProcessGetTransfersForAddress :: "('n, 'db, 'hdb) BackRpc \<Rightarrow> ('n, 'db, 'hdb) world RpcProcessor" where
  "rpcProcessGetTransfersForAddress r ctx request resp w =
     on_res (ParseParams (decode_transferInfo ''address'') request) w (\<lambda>_. reply (ERROR_PARSE resp) w)
       (\<lambda>(addressParam, amountsFormatted).
       on_res (addressNormalise r addressParam) w (\<lambda>e. reply (ERROR_INVALID (r_codecText r e) resp) w)
         (\<lambda>address.
         on_res (GetTransfersByAddress (r_txCache r) (w_cache w) address) w
           (\<lambda>_. reply (ERROR_SERVER ''server error'' resp) w)
           (\<lambda>txList.
              case transfer_rows amountsFormatted txList of
                None \<Rightarrow> crash w
              | Some rows \<Rightarrow> reply (SetResult (map_option JArr rows) resp) w)))"

section \<open>Balances\<close>

record addressBalanceRequest =
  ab_Address :: string
  ab_Assets :: string
  ab_AllAssets :: bool
  ab_Formatted :: bool
  ab_Extended :: bool

definition decode_addressBalance :: "json \<Rightarrow> (json_error, addressBalanceRequest) res" where
  "decode_addressBalance j =
     res_bind (struct_field unjson_string ''address'' [] j) (\<lambda>address.
     res_bind (struct_field unjson_string ''assets'' [] j) (\<lambda>assets.
     res_bind (struct_field unjson_bool ''allAssets'' True j) (\<lambda>allAssets.
     res_bind (struct_field unjson_bool ''formatted'' True j) (\<lambda>formatted.
     res_bind (struct_field unjson_bool ''extended'' False j) (\<lambda>extended.
       Ok \<lparr> ab_Address = address, ab_Assets = assets, ab_AllAssets = allAssets, ab_Formatted = formatted,
            ab_Extended = extended \<rparr>)))))"

text \<open>\<open>strings.TrimSpace\<close> on ASCII text.\<close>

definition is_space :: "char \<Rightarrow> bool" where
  "is_space c \<longleftrightarrow> c \<in> {CHR '' '', CHR 0x09, CHR 0x0A, CHR 0x0B, CHR 0x0C, CHR 0x0D}"

definition TrimSpace :: "string \<Rightarrow> string" where
  "TrimSpace s = rev (dropWhile is_space (rev (dropWhile is_space s)))"

text \<open>
  The known assets, and the assets asked for. A lookup in \<open>tokenMap\<close> gives the last token with the symbol.
\<close>

definition known_assets :: "Client \<Rightarrow> string list" where
  "known_assets c = c_chainSymbol c # map TokenSym (filter (\<lambda>token. TokenSym token \<noteq> []) (c_tokens c))"

definition tokenMap :: "Client \<Rightarrow> string \<rightharpoonup> TokenInfo" where
  "tokenMap c = map_of (rev (map (\<lambda>token. (TokenSym token, token)) (filter (\<lambda>token. TokenSym token \<noteq> []) (c_tokens c))))"

definition asset_list :: "Client \<Rightarrow> addressBalanceRequest \<Rightarrow> (string, string list) res" where
  "asset_list c params =
     (if ab_AllAssets params then Ok (known_assets c)
      else if ab_Assets params \<noteq> [] then
        (let assetList = map TrimSpace (split_on CHR '','' (TrimSpace (to_upper (ab_Assets params))))
         in case find (\<lambda>asset. \<not> contains (known_assets c) asset) assetList of
              Some asset \<Rightarrow> Err (''Unknown asset: '' @ asset)
            | None \<Rightarrow> Ok assetList)
      else Ok [])"

text \<open>The answer is a map; \<open>json.Marshal\<close> writes its keys in order.\<close>

definition marshal_balances :: "(string \<times> string) list \<Rightarrow> json option" where
  "marshal_balances result =
     marshal_struct (map (\<lambda>(asset, a). (asset, False, amount_json a)) (sort_key fst result))"

fun balance_loop ::
  "('n, 'db, 'hdb) BackRpc \<Rightarrow> addressBalanceRequest \<Rightarrow> JsonRpcResponse \<Rightarrow> string list \<Rightarrow> (string \<times> string) list \<Rightarrow>
   ('n, 'db, 'hdb) world \<Rightarrow> ('n, 'db, 'hdb) world outcome option" where
  "balance_loop r params resp [] result w = reply (SetResult (marshal_balances result) resp) w"
| "balance_loop r params resp (asset # assets) result w =
     (let c = r_chainClient r;
          native = (asset = c_chainSymbol c);
          decimals = (if native then Some (c_decimals c) else map_option TokenDecimals (tokenMap c asset))
      in on_client
           (if native then BalanceOf (r_transport r) (ab_Address params)
            else TokensBalanceOf (r_keccak r) c (r_transport r) (ab_Address params) asset) w
           (\<lambda>_ w. if decimals = None then crash w else reply (ERROR_SERVER ''server error'' resp) w)
           (\<lambda>balance w.
              case decimals of
                None \<Rightarrow> crash w
              | Some d \<Rightarrow>
                  (case format_amount (ab_Formatted params) (Some balance) d of
                     None \<Rightarrow> crash w
                   | Some a \<Rightarrow> balance_loop r params resp assets (al_upsert result asset a) w)))"

definition rpcProcessGetBalance :: "('n, 'db, 'hdb) BackRpc \<Rightarrow> ('n, 'db, 'hdb) world RpcProcessor" where
  "rpcProcessGetBalance r ctx request resp w =
     on_res (ParseParams decode_addressBalance request) w (\<lambda>_. reply (ERROR_PARSE resp) w)
       (\<lambda>params.
       if \<not> IsValid (ab_Address params) then reply (ERROR_INVALID ''Invalid address'' resp) w
       else
         (let c = r_chainClient r;
              params = (if ab_Assets params \<noteq> [] then params\<lparr> ab_AllAssets := False \<rparr> else params)
          in if ab_Assets params = [] \<and> \<not> ab_AllAssets params then
               on_client (BalanceOf (r_transport r) (ab_Address params)) w
                 (\<lambda>e w. reply (ERROR_SERVER (r_clientText r e) resp) w)
                 (\<lambda>balance w.
                    case format_amount (ab_Formatted params) (Some balance) (c_decimals c) of
                      None \<Rightarrow> crash w
                    | Some a \<Rightarrow> reply (SetResult (marshal_balances [(c_chainSymbol c, a)]) resp) w)
             else
               on_res (asset_list c params) w (\<lambda>message. reply (ERROR_INVALID message resp) w)
                 (\<lambda>assetList. balance_loop r params resp assetList [] w)))"

section \<open>Information\<close>

definition rpcProcessPing :: "('n, 'db, 'hdb) BackRpc \<Rightarrow> ('n, 'db, 'hdb) world RpcProcessor" where
  "rpcProcessPing r ctx request resp w =
     reply (SetResult (marshal_struct
       [(''result'', False, jstr ''pong''), (''timestamp'', False, jint (r_unixNano r))]) resp) w"

definition marshal_TokenInfo :: "TokenInfo \<Rightarrow> json option" where
  "marshal_TokenInfo token =
     marshal_struct
       [(''contractAddress'', ContractAddress token = [], jstr (ContractAddress token)),
        (''name'', False, jstr (TokenName token)), (''symbol'', False, jstr (TokenSym token)),
        (''decimals'', False, jint (TokenDecimals token)), (''protocol'', Protocol token = [], jstr (Protocol token))]"

fun jarr :: "json option list \<Rightarrow> json option" where
  "jarr [] = Some (JArr [])"
| "jarr (v # vs) = (case (v, jarr vs) of (Some j, Some (JArr js)) \<Rightarrow> Some (JArr (j # js)) | _ \<Rightarrow> None)"

definition rpcProcessNodeInfo :: "('n, 'db, 'hdb) BackRpc \<Rightarrow> ('n, 'db, 'hdb) world RpcProcessor" where
  "rpcProcessNodeInfo r ctx request resp w =
     (let c = r_chainClient r
      in reply (SetResult (marshal_struct
           [(''blockchain'', False, jstr (c_chainName c)), (''id'', False, jstr (c_chainId c)),
            (''symbol'', False, jstr (c_chainSymbol c)), (''decimals'', False, jint (c_decimals c)),
            (''protocols'', TokenProtocols c = [], jstrs (TokenProtocols c)),
            (''tokens'', c_tokens c = [], jarr (map marshal_TokenInfo (c_tokens c)))]) resp) w)"

definition token_row :: "string \<Rightarrow> string \<Rightarrow> int \<Rightarrow> bool \<Rightarrow> string \<Rightarrow> json option" where
  "token_row name symbol decimals token contractAddress =
     marshal_struct
       [(''name'', False, jstr name), (''symbol'', False, jstr symbol), (''decimals'', False, jint decimals),
        (''token'', \<not> token, jbool token), (''contractAddress'', False, jstr contractAddress)]"

definition rpcProcessInfoGetTokenList :: "('n, 'db, 'hdb) BackRpc \<Rightarrow> ('n, 'db, 'hdb) world RpcProcessor" where
  "rpcProcessInfoGetTokenList r ctx request resp w =
     (let c = r_chainClient r
      in reply (SetResult (jarr
           (token_row (c_chainName c) (c_chainSymbol c) (c_decimals c) False [] #
            map (\<lambda>t. token_row (TokenName t) (TokenSym t) (TokenDecimals t) True (ContractAddress t)) (c_tokens c))) resp) w)"

section \<open>Registration\<close>

definition RegisterProcessor ::
  "string \<Rightarrow> ('n, 'db, 'hdb) world RpcProcessor \<Rightarrow> ('n, 'db, 'hdb) BackRpc \<Rightarrow> ('n, 'db, 'hdb) BackRpc" where
  "RegisterProcessor method processor r = r\<lparr> r_rpcProcessors := (r_rpcProcessors r)(method \<mapsto> processor) \<rparr>"

text \<open>
  The authorisation in front of a secured method. The map that should hold the raw parameters is created
  empty and never filled, so the branch for a key cannot find a signature.
\<close>

definition paramsPaw :: "string \<rightharpoonup> json" where
  "paramsPaw = Map.empty"

definition secured ::
  "('n, 'db, 'hdb) world RpcProcessor \<Rightarrow> ('n, 'db, 'hdb) world RpcProcessor" where
  "secured processor ctx request resp w =
     on_res (GetParamInt request ''serviceId'') w (\<lambda>_. reply (ERROR_INVALID ''invalid request'' resp) w)
       (\<lambda>serviceId.
       on_res (SubscriptionGet (w_subs w) serviceId) w (\<lambda>_. reply (ERROR_UNAUTHORIZED ''serviceId required'' resp) w)
         (\<lambda>subscriber.
         if s_ApiToken subscriber \<noteq> [] then
           on_res (GetApiToken ctx) w (\<lambda>_. reply (ERROR_UNAUTHORIZED ''api token required'' resp) w)
             (\<lambda>requestApiToken.
             if s_ApiToken subscriber \<noteq> requestApiToken then reply (ERROR_UNAUTHORIZED ''api token required'' resp) w
             else processor (Authorized True ctx) request resp w)
         else if s_ApiKey subscriber \<noteq> [] then
           (case paramsPaw ''signature'' of
              None \<Rightarrow> reply (ERROR_UNAUTHORIZED ''request signature required'' resp) w
            | Some _ \<Rightarrow> processor ctx request resp w)
         else processor ctx request resp w))"

definition RegisterSecuredProcessor ::
  "string \<Rightarrow> ('n, 'db, 'hdb) world RpcProcessor \<Rightarrow> ('n, 'db, 'hdb) BackRpc \<Rightarrow> ('n, 'db, 'hdb) BackRpc" where
  "RegisterSecuredProcessor method processor r =
     r\<lparr> r_rpcProcessors := (r_rpcProcessors r)(method \<mapsto> secured processor) \<rparr>"

text \<open>\<open>AddRpcProcessor\<close> panics when the method is taken.\<close>

definition AddRpcProcessor ::
  "string \<Rightarrow> ('n, 'db, 'hdb) world RpcProcessor \<Rightarrow> ('n, 'db, 'hdb) BackRpc \<Rightarrow> (unit, ('n, 'db, 'hdb) BackRpc) res" where
  "AddRpcProcessor method processor r =
     (if r_rpcProcessors r method \<noteq> None then Panic
      else Ok (r\<lparr> r_rpcProcessors := (r_rpcProcessors r)(method \<mapsto> processor) \<rparr>))"

text \<open>
  \<open>InitProcessors\<close>. The processors are methods of the handler whose client and tokens are filled in later;
  \<open>self\<close> is that handler.
\<close>

definition InitProcessors :: "('n, 'db, 'hdb) BackRpc \<Rightarrow> ('n, 'db, 'hdb) BackRpc \<Rightarrow> ('n, 'db, 'hdb) BackRpc" where
  "InitProcessors self r =
     fold (\<lambda>f. f)
       [RegisterProcessor ''ping'' (rpcProcessPing self),
        RegisterProcessor ''info'' (rpcProcessNodeInfo self),
        RegisterProcessor ''getNodeInfo'' (rpcProcessNodeInfo self),
        RegisterProcessor ''infoGetTokenList'' (rpcProcessInfoGetTokenList self),
        RegisterProcessor ''info.get.token.list'' (rpcProcessInfoGetTokenList self),
        RegisterProcessor ''address.balance'' (rpcProcessGetBalance self),
        RegisterProcessor ''addressGetBalance'' (rpcProcessGetBalance self),
        RegisterProcessor ''address.subscribe'' (rpcProcessAddressSubscribe self),
        RegisterProcessor ''addressSubscribe'' (rpcProcessAddressSubscribe self),
        RegisterSecuredProcessor ''address.get.new'' (rpcProcessAddressGetNew self),
        RegisterSecuredProcessor ''addressGetNew'' (rpcProcessAddressGetNew self),
        RegisterProcessor ''address.recover'' (rpcProcessAddressRecover self),
        RegisterProcessor ''addressRecover'' (rpcProcessAddressRecover self),
        RegisterSecuredProcessor ''address.generate'' (rpcProcessAddressGenerate self),
        RegisterSecuredProcessor ''addressGenerate'' (rpcProcessAddressGenerate self),
        RegisterProcessor ''service.register'' (rpcProcessServiceRegister self),
        RegisterProcessor ''serviceRegister'' (rpcProcessServiceRegister self),
        RegisterSecuredProcessor ''service.config'' (rpcProcessServiceConfig self),
        RegisterSecuredProcessor ''serviceConfig'' (rpcProcessServiceConfig self),
        RegisterProcessor ''transfer.info'' (rpcProcessGetTransferInfo self),
        RegisterProcessor ''transferInfo'' (rpcProcessGetTransferInfo self),
        RegisterSecuredProcessor ''transfer.info.for.address'' (rpcProcessGetTransfersForAddress self),
        RegisterSecuredProcessor ''transferInfoForAddress'' (rpcProcessGetTransfersForAddress self),
        RegisterSecuredProcessor ''transfer.assets'' (rpcProcessTransferAssets self),
        RegisterSecuredProcessor ''transferAssets'' (rpcProcessTransferAssets self),
        RegisterSecuredProcessor ''transfer.get.estimated.fee'' (rpcProcessTransferGetEstimatedFee self),
        RegisterSecuredProcessor ''transferGetEstimatedFee'' (rpcProcessTransferGetEstimatedFee self)] r"

datatype ('n, 'db, 'hdb) BackRpcOption =
    WithDebugMode bool
  | WithFallbackResponse "string \<times> int \<times> string option"
  | WithRpcProcessor string "('n, 'db, 'hdb) world RpcProcessor"
  | WithSecurityManager

fun apply_option ::
  "('n, 'db, 'hdb) BackRpcOption \<Rightarrow> ('n, 'db, 'hdb) BackRpc \<Rightarrow> (unit, ('n, 'db, 'hdb) BackRpc) res" where
  "apply_option (WithDebugMode _) r = Ok r"
| "apply_option (WithFallbackResponse response) r = Ok (r\<lparr> r_fallbackResponse := Some response \<rparr>)"
| "apply_option (WithRpcProcessor method processor) r = AddRpcProcessor method processor r"
| "apply_option WithSecurityManager r = Ok r"

fun apply_options ::
  "('n, 'db, 'hdb) BackRpcOption list \<Rightarrow> ('n, 'db, 'hdb) BackRpc \<Rightarrow> (unit, ('n, 'db, 'hdb) BackRpc) res" where
  "apply_options [] r = Ok r"
| "apply_options (opt # opts) r = res_bind (apply_option opt r) (apply_options opts)"

text \<open>\<open>NewBackRpc\<close>: \<open>deps\<close> has the components the handler is given; the last token with a symbol is known by it.\<close>

definition token_table :: "TokenInfo list \<Rightarrow> string \<rightharpoonup> TokenInfo" where
  "token_table tokens = fold (\<lambda>token m. m(TokenSym token \<mapsto> token)) tokens Map.empty"

definition NewBackRpc ::
  "('n, 'db, 'hdb) BackRpc \<Rightarrow> ('n, 'db, 'hdb) BackRpcOption list \<Rightarrow> (unit, ('n, 'db, 'hdb) BackRpc) res" where
  "NewBackRpc deps options =
     (let r = deps\<lparr> r_knownTokens := Map.empty, r_rpcProcessors := Map.empty, r_fallbackResponse := None \<rparr>
      in res_bind (apply_options options r) (\<lambda>r.
           let self = r\<lparr> r_knownTokens := token_table (c_tokens (r_chainClient r)) \<rparr>
           in Ok (InitProcessors self self)))"

section \<open>Routing\<close>

subsection \<open>Request identifiers\<close>

text \<open>\<open>RequestId.UnmarshalJSON\<close> keeps the digits of the text of the value, less leading zeros.\<close>

definition RequestId_UnmarshalJSON :: "string \<Rightarrow> string" where
  "RequestId_UnmarshalJSON data =
     (let dc = dropWhile (\<lambda>b. b = CHR ''0'') (filter is_digit data) in if dc = [] then ''0'' else dc)"

definition RequestId_MarshalJSON :: "string \<Rightarrow> json" where
  "RequestId_MarshalJSON i = (if i = [] then JNum ''0'' else JNum i)"

subsection \<open>The request\<close>

text \<open>
  The body is the JSON value it starts with, if there is one; \<open>raw\<close> gives the text in which a value is
  written there. The field \<open>auth\<close> is decoded and never used.
\<close>

fun unjson_auth :: "json \<Rightarrow> unit \<Rightarrow> (json_error, unit) res" where
  "unjson_auth JNull _ = Ok ()"
| "unjson_auth (JObj kvs) _ =
     res_bind (struct_field unjson_string ''clientId'' [] (JObj kvs)) (\<lambda>_.
     res_bind (struct_field unjson_int ''ts'' 0 (JObj kvs)) (\<lambda>_.
     res_bind (struct_field unjson_string ''nonce'' [] (JObj kvs)) (\<lambda>_.
     res_bind (struct_field unjson_string ''alg'' [] (JObj kvs)) (\<lambda>_.
     res_bind (struct_field unjson_string ''sig'' [] (JObj kvs)) (\<lambda>_. Ok ())))))"
| "unjson_auth _ _ = Err UnmarshalError"

definition decode_request :: "(json \<Rightarrow> string) \<Rightarrow> json \<Rightarrow> (json_error, JsonRpcRequest) res" where
  "decode_request raw j =
     res_bind (struct_field (\<lambda>j _. Ok (RequestId_UnmarshalJSON (raw j))) ''id'' [] j) (\<lambda>i.
     res_bind (struct_field unjson_string ''jsonrpc'' [] j) (\<lambda>jsonrpc.
     res_bind (struct_field unjson_string ''method'' [] j) (\<lambda>method.
     res_bind (struct_field (\<lambda>j _. Ok (Some j)) ''params'' None j) (\<lambda>params.
     res_bind (struct_field unjson_auth ''auth'' () j) (\<lambda>_.
       Ok \<lparr> jr_Id = i, jr_JsonRpc = jsonrpc, jr_Method = method, jr_Params = params \<rparr>)))))"

definition encode_response :: "JsonRpcResponse \<Rightarrow> json" where
  "encode_response resp =
     JObj ([(''id'', RequestId_MarshalJSON (jp_Id resp)), (''jsonrpc'', JStr ''2.0'')] @
       (case jp_Error resp of
          None \<Rightarrow> []
        | Some (code, message, data) \<Rightarrow>
            [(''error'', JObj [(''code'', JNum (big_string code)), (''message'', JStr message), (''data'', JStr data)])]) @
       (case jp_Result resp of None \<Rightarrow> [] | Some j \<Rightarrow> [(''result'', j)]))"

datatype route_error = ErrInternalRouteNotFound | ErrMethodNotAllowed | ErrParseError

text \<open>The state, what is written into the body, and the error; the panic of a handler is recovered here.\<close>

definition processRpcRequest ::
  "('n, 'db, 'hdb) BackRpc \<Rightarrow> (json \<Rightarrow> string) \<Rightarrow> RpcRequestContext \<Rightarrow> json option \<Rightarrow> ('n, 'db, 'hdb) world \<Rightarrow>
   (('n, 'db, 'hdb) world \<times> json option \<times> route_error option) option" where
  "processRpcRequest r raw ctx body w =
     (let rpcResponse = NewResponse;
          written = (\<lambda>w resp. Some (w, Some (encode_response resp), None))
      in case body of
           None \<Rightarrow> Some (w, None, Some ErrParseError)
         | Some JNull \<Rightarrow> written w (ERROR_SERVER ''server error'' rpcResponse)
         | Some j \<Rightarrow>
             (case decode_request raw j of
                Err _ \<Rightarrow> Some (w, None, Some ErrParseError)
              | Panic \<Rightarrow> written w (ERROR_SERVER ''server error'' rpcResponse)
              | Ok rpcRequest \<Rightarrow>
                  (if jr_Method rpcRequest = [] then written w (ERROR_INVALID ''invalid request'' rpcResponse)
                   else
                     (let rpcResponse = rpcResponse\<lparr> jp_Id := jr_Id rpcRequest \<rparr>
                      in case r_rpcProcessors r (jr_Method rpcRequest) of
                           None \<Rightarrow> written w (SetError (- 32601) ''method not found'' rpcResponse)
                         | Some processor \<Rightarrow>
                             (case processor ctx rpcRequest rpcResponse w of
                                None \<Rightarrow> None
                              | Some (Done w' resp) \<Rightarrow> written w' resp
                              | Some (Panicked w') \<Rightarrow> written w' (ERROR_SERVER ''server error'' rpcResponse))))))"

record http_request =
  h_Method :: string
  h_Path :: string
  h_RequestURI :: string
  h_RemoteAddr :: string
  h_ApiToken :: string
  h_Body :: "json option"

datatype http_body = NoBody | JsonBody json | TextBody string

text \<open>A status and a content type that are not set are those of the server.\<close>

record http_response =
  hr_StatusCode :: "int option"
  hr_ContentType :: "string option"
  hr_Body :: http_body

datatype token_error = ErrApiTokenNotProvided

definition peekApiToken :: "http_request \<Rightarrow> (token_error, string) res" where
  "peekApiToken h = (if h_ApiToken h = [] then Err ErrApiTokenNotProvided else Ok (h_ApiToken h))"

definition route_context :: "http_request \<Rightarrow> RpcRequestContext" where
  "route_context h =
     (let ctx = ctx_SetString ''uri'' (h_RequestURI h) (ctx_SetString ''path'' (h_Path h)
            (ctx_SetString ''method'' (h_Method h) (ctx_SetString ''remoteAddr'' (h_RemoteAddr h) NewRpcRequestContext)))
      in case peekApiToken h of Ok token \<Rightarrow> ctx\<lparr> x_apiToken := token \<rparr> | _ \<Rightarrow> ctx)"

definition HasPrefix :: "string \<Rightarrow> string \<Rightarrow> bool" where
  "HasPrefix s pre \<longleftrightarrow> take (length pre) s = pre"

definition RouteRpcRequest ::
  "('n, 'db, 'hdb) BackRpc \<Rightarrow> (json \<Rightarrow> string) \<Rightarrow> http_request \<Rightarrow> ('n, 'db, 'hdb) world \<Rightarrow>
   (('n, 'db, 'hdb) world \<times> json option \<times> route_error option) option" where
  "RouteRpcRequest r raw h w =
     (if HasPrefix (h_Path h) ''/api/v1/'' then Some (w, None, Some ErrInternalRouteNotFound)
      else if HasPrefix (h_Path h) ''/rpc'' then
        (if h_Method h \<noteq> ''POST'' then Some (w, None, Some ErrMethodNotAllowed)
         else processRpcRequest r raw (route_context h) (h_Body h) w)
      else Some (w, None, Some ErrInternalRouteNotFound))"

definition method_not_allowed :: http_response where
  "method_not_allowed =
     \<lparr> hr_StatusCode = Some 405, hr_ContentType = Some ''application/json'',
       hr_Body = JsonBody (JObj [(''error'', JObj [(''code'', JNum ''-32601''), (''message'', JStr ''method not found'')])]) \<rparr>"

text \<open>\<open>Handle\<close>: only the missing route gets an answer of its own; a panic here is not recovered.\<close>

definition Handle ::
  "('n, 'db, 'hdb) BackRpc \<Rightarrow> (json \<Rightarrow> string) \<Rightarrow> http_request \<Rightarrow> ('n, 'db, 'hdb) world \<Rightarrow>
   (('n, 'db, 'hdb) world \<times> (unit, http_response) res) option" where
  "Handle r raw h w =
     (case RouteRpcRequest r raw h w of
        None \<Rightarrow> None
      | Some (w', body, err) \<Rightarrow>
          if err = Some ErrInternalRouteNotFound then
            (if h_Method h = ''GET'' then
               (case r_fallbackResponse r of
                  None \<Rightarrow> Some (w', Ok method_not_allowed)
                | Some (contentType, statusCode, None) \<Rightarrow> Some (w', Panic)
                | Some (contentType, statusCode, Some text) \<Rightarrow>
                    Some (w', Ok \<lparr> hr_StatusCode = Some statusCode, hr_ContentType = Some contentType, hr_Body = TextBody text \<rparr>))
             else Some (w', Ok method_not_allowed))
          else Some (w', Ok \<lparr> hr_StatusCode = None, hr_ContentType = None,
                              hr_Body = (case body of None \<Rightarrow> NoBody | Some j \<Rightarrow> JsonBody j) \<rparr>))"

end
