(* ===== verification/EndpointCorrect.thy ===== *)
theory EndpointCorrect
  imports EndpointHandlers
begin

text \<open>
  Correctness of the endpoint: who may use the secured methods and how the check is bypassed, which
  transfers leave the node and with which key, what a request may change, and where answers get lost.
\<close>

section \<open>Ends of handlers\<close>

fun end_of :: "'w outcome \<Rightarrow> 'w" where
  "end_of (Done w _) = w"
| "end_of (Panicked w) = w"

lemma reply_crash_simps [simp]:
  "reply resp w = Some fin \<longleftrightarrow> fin = Done w resp"
  "crash w = Some fin \<longleftrightarrow> fin = Panicked w"
  by (auto simp: reply_def crash_def)

lemma on_res_Some:
  "on_res r w err ok = Some fin \<longleftrightarrow>
     (\<exists>a. r = Ok a \<and> ok a = Some fin) \<or> (\<exists>e. r = Err e \<and> err e = Some fin) \<or> r = Panic \<and> fin = Panicked w"
  by (cases r) (auto simp: on_res_def)

lemma on_res_simps [simp]:
  "on_res (Ok a) w err ok = ok a" "on_res (Err e) w err ok = err e" "on_res Panic w err ok = crash w"
  by (simp_all add: on_res_def)

lemma on_client_Some:
  "on_client m w err ok = Some fin \<longleftrightarrow>
     (\<exists>n r. m (w_node w) = Some (n, r) \<and>
        on_res r (w\<lparr> w_node := n \<rparr>) (\<lambda>e. err e (w\<lparr> w_node := n \<rparr>)) (\<lambda>a. ok a (w\<lparr> w_node := n \<rparr>)) = Some fin)"
  by (auto simp: on_client_def Let_def split: option.splits prod.splits)

section \<open>What requests keep\<close>

text \<open>
  A property of the state that every handler of the table keeps is kept by every HTTP request, and by
  every sequence of them. The handler table belongs to a \<open>BackRpc\<close>, which may differ from request to
  request in its clock and its random choices.
\<close>

inductive session ::
  "(('n, 'db, 'hdb) BackRpc \<Rightarrow> bool) \<Rightarrow> ('n, 'db, 'hdb) world \<Rightarrow> ('n, 'db, 'hdb) world \<Rightarrow> bool" for ok w where
  start: "session ok w w"
| request: "session ok w w1 \<Longrightarrow> ok r \<Longrightarrow> Handle r raw h w1 = Some (w2, resp) \<Longrightarrow> session ok w w2"

locale request_invariant =
  fixes ok :: "('n, 'db, 'hdb) BackRpc \<Rightarrow> bool"
    and holds :: "('n, 'db, 'hdb) world \<Rightarrow> bool"
  assumes handler_keeps:
    "ok r \<Longrightarrow> r_rpcProcessors r method = Some processor \<Longrightarrow> holds w \<Longrightarrow>
     processor ctx request resp w = Some fin \<Longrightarrow> holds (end_of fin)"
begin

lemma processRpcRequest_keeps:
  assumes "ok r" "holds w" "processRpcRequest r raw ctx body w = Some (w', written, err)"
  shows "holds w'"
  using assms handler_keeps [OF assms(1) _ assms(2)]
  by (fastforce simp: processRpcRequest_def Let_def
      split: option.splits json.splits res.splits if_splits outcome.splits)

lemma Handle_keeps:
  assumes "ok r" "holds w" "Handle r raw h w = Some (w', resp)"
  shows "holds w'"
  using assms processRpcRequest_keeps
  by (auto simp: Handle_def RouteRpcRequest_def split: option.splits prod.splits if_splits)

lemma session_keeps: "session ok w w' \<Longrightarrow> holds w \<Longrightarrow> holds w'"
  by (induction rule: session.induct) (auto intro: Handle_keeps)

end

section \<open>The table of methods\<close>

definition standard :: "('n, 'db, 'hdb) BackRpc \<Rightarrow> bool" where
  "standard r \<longleftrightarrow>
     (\<exists>deps options. NewBackRpc deps options = Ok r \<and> (\<forall>m p. WithRpcProcessor m p \<notin> set options))"

definition secured_methods :: "string list" where
  "secured_methods =
     [''address.get.new'', ''addressGetNew'', ''address.generate'', ''addressGenerate'', ''service.config'',
      ''serviceConfig'', ''transfer.info.for.address'', ''transferInfoForAddress'', ''transfer.assets'',
      ''transferAssets'', ''transfer.get.estimated.fee'', ''transferGetEstimatedFee'']"

lemma apply_options_processors:
  assumes "apply_options options r = Ok r'" "\<forall>m p. WithRpcProcessor m p \<notin> set options"
  shows "r_rpcProcessors r' = r_rpcProcessors r"
  using assms
proof (induction options arbitrary: r)
  case (Cons opt options)
  then show ?case by (cases opt) (auto simp: res_bind_Ok_iff dest: Cons.IH)
qed simp

lemma empty_table: "r_rpcProcessors r = Map.empty \<Longrightarrow> r\<lparr> r_rpcProcessors := Map.empty \<rparr> = r"
  by (cases r) simp

lemma standard_table:
  assumes "standard r"
  obtains self where "r_rpcProcessors r = r_rpcProcessors (InitProcessors self (self\<lparr> r_rpcProcessors := Map.empty \<rparr>))"
proof -
  from assms obtain deps options where new: "NewBackRpc deps options = Ok r"
    and plain: "\<forall>m p. WithRpcProcessor m p \<notin> set options"
    unfolding standard_def by blast
  from new obtain r0 where r0: "apply_options options (deps\<lparr> r_knownTokens := Map.empty, r_rpcProcessors := Map.empty, r_fallbackResponse := None \<rparr>) = Ok r0"
    and r: "InitProcessors (r0\<lparr> r_knownTokens := token_table (c_tokens (r_chainClient r0)) \<rparr>)
      (r0\<lparr> r_knownTokens := token_table (c_tokens (r_chainClient r0)) \<rparr>) = r"
    unfolding NewBackRpc_def Let_def res_bind_Ok_iff res.inject by blast
  let ?self = "r0\<lparr> r_knownTokens := token_table (c_tokens (r_chainClient r0)) \<rparr>"
  have "r_rpcProcessors ?self = Map.empty" using apply_options_processors [OF r0 plain] by simp
  then have "?self\<lparr> r_rpcProcessors := Map.empty \<rparr> = ?self"
    by (rule empty_table)
  then show ?thesis using that [of ?self] r by simp
qed

lemmas register_defs = RegisterProcessor_def RegisterSecuredProcessor_def

lemma method_cases:
  assumes "standard r" "r_rpcProcessors r method = Some processor"
  obtains (public) self where "method \<notin> set secured_methods"
      "processor \<in> {rpcProcessPing self, rpcProcessNodeInfo self, rpcProcessInfoGetTokenList self,
         rpcProcessGetBalance self, rpcProcessAddressSubscribe self, rpcProcessAddressRecover self,
         rpcProcessServiceRegister self, rpcProcessGetTransferInfo self}"
  | (protected) self inner where "method \<in> set secured_methods" "processor = secured inner"
      "inner \<in> {rpcProcessAddressGetNew self, rpcProcessAddressGenerate self, rpcProcessServiceConfig self,
         rpcProcessGetTransfersForAddress self, rpcProcessTransferAssets self, rpcProcessTransferGetEstimatedFee self}"
proof -
  obtain self where self: "r_rpcProcessors r = r_rpcProcessors (InitProcessors self (self\<lparr> r_rpcProcessors := Map.empty \<rparr>))"
    using assms(1) by (rule standard_table)
  have "processor \<in> {rpcProcessPing self, rpcProcessNodeInfo self, rpcProcessInfoGetTokenList self,
         rpcProcessGetBalance self, rpcProcessAddressSubscribe self, rpcProcessAddressRecover self,
         rpcProcessServiceRegister self, rpcProcessGetTransferInfo self} \<and> method \<notin> set secured_methods \<or>
      processor \<in> secured ` {rpcProcessAddressGetNew self, rpcProcessAddressGenerate self, rpcProcessServiceConfig self,
         rpcProcessGetTransfersForAddress self, rpcProcessTransferAssets self, rpcProcessTransferGetEstimatedFee self} \<and>
      method \<in> set secured_methods"
    using assms(2) unfolding self InitProcessors_def secured_methods_def
    by (simp add: register_defs split: if_splits)
  then show ?thesis using public protected by blast
qed

lemma secured_method:
  assumes "standard r" "method \<in> set secured_methods"
  obtains inner where "r_rpcProcessors r method = Some (secured inner)"
proof -
  obtain self where self: "r_rpcProcessors r = r_rpcProcessors (InitProcessors self (self\<lparr> r_rpcProcessors := Map.empty \<rparr>))"
    using assms(1) by (rule standard_table)
  have "r_rpcProcessors r method \<noteq> None"
    using assms(2) unfolding self secured_methods_def InitProcessors_def by (auto simp: register_defs)
  with assms that show ?thesis by (auto elim: method_cases)
qed

section \<open>Authorisation\<close>

text \<open>
  Who may use a secured method: the request names a service that has neither token nor key, or that has
  a token and the request presents it.
\<close>

definition authorised :: "subscribers \<Rightarrow> string \<Rightarrow> JsonRpcRequest \<Rightarrow> bool" where
  "authorised subs token request \<longleftrightarrow>
     (\<exists>serviceId s. GetParamInt request ''serviceId'' = Ok serviceId \<and> subs serviceId = Some s \<and>
        (if s_ApiToken s = [] then s_ApiKey s = [] else s_ApiToken s = token))"

lemma unjson_map_not_Panic: "unjson_map j \<noteq> Panic"
  by (cases j) auto

lemma GetParamInt_not_Panic: "GetParamInt request key \<noteq> Panic"
proof -
  have "param_int j \<noteq> Panic" for j
    by (cases j) (auto simp: parseStringToInt64_def Let_def split: option.splits)
  then show ?thesis
    using unjson_map_not_Panic
    by (auto simp: GetParamInt_def GetParamRaw_def parseParamsMap_def res_bind_Panic_iff split: option.splits if_splits res.splits)
qed

lemma secured_authorised:
  assumes "authorised (w_subs w) (x_apiToken ctx) request"
  shows "secured p ctx request resp w \<in> {p ctx request resp w, p (Authorized True ctx) request resp w}"
  using assms by (auto simp: authorised_def secured_def SubscriptionGet_def GetApiToken_def paramsPaw_def split: if_splits)

lemma secured_rejects:
  assumes "\<not> authorised (w_subs w) (x_apiToken ctx) request" "jp_Error resp = None"
  shows "\<exists>code message data. code \<in> {- 32600, - 32001} \<and>
    secured p ctx request resp w = reply (resp\<lparr> jp_Error := Some (code, message, data) \<rparr>) w"
  using assms GetParamInt_not_Panic [of request "''serviceId''"]
  by (auto simp: authorised_def secured_def SubscriptionGet_def GetApiToken_def paramsPaw_def ERROR_INVALID_def
      ERROR_UNAUTHORIZED_def SetError_def SetErrorWithData_def on_res_def split: res.splits option.splits)

text \<open>A request that reaches the processor of a method.\<close>

definition calls :: "(json \<Rightarrow> string) \<Rightarrow> http_request \<Rightarrow> JsonRpcRequest \<Rightarrow> bool" where
  "calls raw h request \<longleftrightarrow>
     h_Method h = ''POST'' \<and> HasPrefix (h_Path h) ''/rpc'' \<and> jr_Method request \<noteq> [] \<and>
     (\<exists>j. h_Body h = Some j \<and> j \<noteq> JNull \<and> decode_request raw j = Ok request)"

definition rpc_answer :: "JsonRpcResponse \<Rightarrow> http_response" where
  "rpc_answer resp = \<lparr> hr_StatusCode = None, hr_ContentType = None, hr_Body = JsonBody (encode_response resp) \<rparr>"

lemma not_api: "HasPrefix p ''/rpc'' \<Longrightarrow> \<not> HasPrefix p ''/api/v1/''"
  by (cases p; cases "tl p") (auto simp: HasPrefix_def)

lemma Handle_calls:
  assumes "calls raw h request" "r_rpcProcessors r (jr_Method request) = Some processor"
  shows "Handle r raw h w =
    (case processor (route_context h) request (NewResponse\<lparr> jp_Id := jr_Id request \<rparr>) w of
       None \<Rightarrow> None
     | Some (Done w' resp) \<Rightarrow> Some (w', Ok (rpc_answer resp))
     | Some (Panicked w') \<Rightarrow>
         Some (w', Ok (rpc_answer (ERROR_SERVER ''server error'' (NewResponse\<lparr> jp_Id := jr_Id request \<rparr>)))))"
proof -
  from assms(1) obtain j where j: "h_Body h = Some j" "j \<noteq> JNull" "decode_request raw j = Ok request"
    by (auto simp: calls_def)
  have "(case Some j of None \<Rightarrow> x | Some JNull \<Rightarrow> y | Some j \<Rightarrow> f j) = f j" for x y :: 'z and f
    using j(2) by (cases j) auto
  with assms j not_api show ?thesis
    by (auto simp: Handle_def RouteRpcRequest_def processRpcRequest_def calls_def Let_def rpc_answer_def
        split: option.splits outcome.splits json.splits)
qed

lemma route_context_token: "x_apiToken (route_context h) = h_ApiToken h"
  by (simp add: route_context_def peekApiToken_def NewRpcRequestContext_def ctx_SetString_def Let_def)


section \<open>What a request may change\<close>

text \<open>A condition on the state in which a computation ends, and the rules for the steps of handlers.\<close>

definition ends :: "('w \<Rightarrow> bool) \<Rightarrow> 'w outcome option \<Rightarrow> bool" where
  "ends P m \<longleftrightarrow> (\<forall>fin. m = Some fin \<longrightarrow> P (end_of fin))"

named_theorems ends_intros \<open>rules for the end of a handler\<close>

lemma ends_basic [ends_intros]:
  "P w \<Longrightarrow> ends P (reply resp w)"
  "P w \<Longrightarrow> ends P (crash w)"
  by (auto simp: ends_def)

lemma ends_on_res [ends_intros]:
  assumes "P w" "\<And>e. r = Err e \<Longrightarrow> ends P (err e)" "\<And>a. r = Ok a \<Longrightarrow> ends P (ok a)"
  shows "ends P (on_res r w err ok)"
  using assms by (cases r) (auto simp: ends_def)

lemma ends_on_client [ends_intros]:
  assumes "\<And>n. P (w\<lparr> w_node := n \<rparr>)" "\<And>n e. ends P (err e (w\<lparr> w_node := n \<rparr>))" "\<And>n a. ends P (ok a (w\<lparr> w_node := n \<rparr>))"
  shows "ends P (on_client m w err ok)"
  using assms by (auto simp: on_client_def Let_def ends_def on_res_Some split: option.splits prod.splits)

text \<open>Most processors leave the pool, the services and the cache alone.\<close>

definition same_data :: "('n, 'db, 'hdb) world \<Rightarrow> ('n, 'db, 'hdb) world \<Rightarrow> bool" where
  "same_data w w' \<longleftrightarrow> w_pool w' = w_pool w \<and> w_subs w' = w_subs w \<and> w_cache w' = w_cache w"

lemma same_data_simps [simp]: "same_data w w" "same_data w (w'\<lparr> w_node := n \<rparr>) = same_data w w'"
  by (simp_all add: same_data_def)

lemma balance_loop_data: "same_data w0 w \<Longrightarrow> ends (same_data w0) (balance_loop r params resp assets result w)"
proof (induction assets arbitrary: result w)
  case (Cons asset assets)
  then show ?case
    by (simp add: Let_def) (intro conjI impI ends_intros; auto intro!: ends_intros Cons.IH split: option.split)
qed (simp add: ends_intros)

lemma quiet_handlers:
  "ends (same_data w) (rpcProcessPing r ctx request resp w)"
  "ends (same_data w) (rpcProcessNodeInfo r ctx request resp w)"
  "ends (same_data w) (rpcProcessInfoGetTokenList r ctx request resp w)"
  "ends (same_data w) (rpcProcessServiceRegister r ctx request resp w)"
  "ends (same_data w) (rpcProcessAddressRecover r ctx request resp w)"
  "ends (same_data w) (rpcProcessAddressGenerate r ctx request resp w)"
  "ends (same_data w) (rpcProcessGetTransferInfo r ctx request resp w)"
  "ends (same_data w) (rpcProcessGetTransfersForAddress r ctx request resp w)"
  "ends (same_data w) (rpcProcessGetBalance r ctx request resp w)"
  "ends (same_data w) (rpcProcessTransferAssets r ctx request resp w)"
  "ends (same_data w) (rpcProcessTransferGetEstimatedFee r ctx request resp w)"
  unfolding rpcProcessPing_def rpcProcessNodeInfo_def rpcProcessInfoGetTokenList_def rpcProcessServiceRegister_def
    rpcProcessAddressRecover_def rpcProcessAddressGenerate_def rpcProcessGetTransferInfo_def
    rpcProcessGetTransfersForAddress_def rpcProcessGetBalance_def rpcProcessTransferAssets_def
    rpcProcessTransferGetEstimatedFee_def Let_def
  by (auto intro!: ends_intros balance_loop_data split: option.split)

text \<open>The three others change the pool by adding or handing out an address, or the settings of one service.\<close>

definition changes_data :: "('n, 'db, 'hdb) world \<Rightarrow> ('n, 'db, 'hdb) world \<Rightarrow> bool" where
  "changes_data w w' \<longleftrightarrow>
     same_data w w' \<or>
     (\<exists>E s fill. w' = w\<lparr> w_pool := fst (AddAddressFill E (w_pool w) s fill) \<rparr>) \<or>
     (\<exists>E ks sv u i wo. w' = w\<lparr> w_pool := fst (GetFreeAddressAndSubscribe E (w_pool w) ks sv u i wo) \<rparr>) \<or>
     (\<exists>sid s tokens params. w_subs w sid = Some s \<and> w' = w\<lparr> w_subs := (w_subs w)(sid \<mapsto> config_edit tokens params s) \<rparr>)"

lemma changes_dataI:
  "changes_data w w"
  "AddAddressFill E (w_pool w) s fill = (pool, x) \<Longrightarrow> changes_data w (w\<lparr> w_pool := pool \<rparr>)"
  "GetFreeAddressAndSubscribe E (w_pool w) ks sv u i wo = (pool, y) \<Longrightarrow> changes_data w (w\<lparr> w_pool := pool \<rparr>)"
  unfolding changes_data_def by (metis same_data_simps(1) fst_conv)+

lemma changes_data_edit:
  assumes "SubscriptionEdit save (w_subs w) sid (config_edit tokens params) = (subs, x)"
  shows "changes_data w (w\<lparr> w_subs := subs \<rparr>)"
proof (cases "w_subs w sid")
  case None
  with assms have "subs = w_subs w" by (simp add: SubscriptionEdit_def)
  then show ?thesis by (simp add: changes_data_def same_data_def)
next
  case (Some s)
  with assms have "subs = (w_subs w)(sid \<mapsto> config_edit tokens params s)" by (simp add: SubscriptionEdit_def Let_def)
  with Some show ?thesis unfolding changes_data_def by blast
qed

lemma busy_handlers:
  "ends (changes_data w) (rpcProcessAddressSubscribe r ctx request resp w)"
  "ends (changes_data w) (rpcProcessAddressGetNew r ctx request resp w)"
  "ends (changes_data w) (rpcProcessServiceConfig r ctx request resp w)"
  unfolding rpcProcessAddressSubscribe_def rpcProcessAddressGetNew_def rpcProcessServiceConfig_def Let_def
  by (auto intro!: ends_intros changes_dataI(1) split: prod.split if_split)
    (erule changes_dataI(2) changes_dataI(3) changes_data_edit)+

lemma ends_same_changes: "ends (same_data w) m \<Longrightarrow> ends (changes_data w) m"
  by (auto simp: ends_def changes_data_def)

lemma ends_secured:
  assumes "\<And>ctx. ends (changes_data w) (p ctx request resp w)"
  shows "ends (changes_data w) (secured p ctx request resp w)"
  using assms unfolding secured_def paramsPaw_def by (auto intro!: ends_intros changes_dataI(1))

lemma handler_changes:
  assumes "standard r" "r_rpcProcessors r method = Some processor"
  shows "ends (changes_data w) (processor ctx request resp w)"
proof -
  note all = quiet_handlers [THEN ends_same_changes] busy_handlers
  from assms show ?thesis
  proof (cases rule: method_cases)
    case (public self)
    then show ?thesis using all by auto
  next
    case (protected self inner)
    then show ?thesis using all by (auto intro!: ends_secured)
  qed
qed

subsection \<open>The pool\<close>

lemma AddAddressRecord_inv:
  "am_inv m \<Longrightarrow> p < length (am_heap m) \<Longrightarrow> am_inv (fst (AddAddressRecord E m p))"
  by (auto simp: AddAddressRecord_def intro: addAddressUnsafe_inv split: res.split bool.split)

lemma AddAddressFill_pool:
  "fst (AddAddressFill E m s fill) = m \<or>
   (\<exists>a. fst (AddAddressFill E m s fill) = fst (AddAddressRecord E (fst (new_record m a)) (length (am_heap m))))"
proof (cases "IsAddressKnown m s = Ok False \<and> (\<exists>a. NewAddressRecordFill E s fill = Ok a)")
  case True
  then obtain a where "IsAddressKnown m s = Ok False" "NewAddressRecordFill E s fill = Ok a" by blast
  then have "fst (AddAddressFill E m s fill) = fst (AddAddressRecord E (fst (new_record m a)) (length (am_heap m)))"
    by (auto simp: AddAddressFill_def new_record_def split: prod.split res.split)
  then show ?thesis by blast
next
  case False
  then have "fst (AddAddressFill E m s fill) = m"
    by (auto simp: AddAddressFill_def split: res.split bool.split)
  then show ?thesis ..
qed

lemma AddAddressFill_cases:
  obtains (same) "fst (AddAddressFill E m s fill) = m"
  | (added) a where "fst (AddAddressFill E m s fill) = fst (AddAddressRecord E (fst (new_record m a)) (length (am_heap m)))"
  using AddAddressFill_pool by blast

lemma AddAddressFill_inv:
  assumes "am_inv m"
  shows "am_inv (fst (AddAddressFill E m s fill))"
proof (cases rule: AddAddressFill_cases [of E m s fill])
  case (added a)
  then show ?thesis
    using AddAddressRecord_inv [OF am_inv_new_record [OF assms], of "length (am_heap m)" a E] by (simp add: new_record_def)
qed (use assms in simp)

text \<open>The records of the pool keep their address and their key.\<close>

definition same_key :: "Address \<Rightarrow> Address \<Rightarrow> bool" where
  "same_key a b \<longleftrightarrow> a_Address a = a_Address b \<and> a_AddressBytes a = a_AddressBytes b \<and> a_PrivateKey a = a_PrivateKey b"

definition keys_kept :: "'db Manager \<Rightarrow> 'db Manager \<Rightarrow> bool" where
  "keys_kept m m' \<longleftrightarrow> length (am_heap m) \<le> length (am_heap m') \<and>
     (\<forall>p < length (am_heap m). same_key (am_heap m ! p) (am_heap m' ! p))"

lemma keys_kept_same: "am_heap m' = am_heap m \<Longrightarrow> keys_kept m m'"
  by (simp add: keys_kept_def same_key_def)

lemma keys_kept_trans: "keys_kept m m1 \<Longrightarrow> keys_kept m1 m2 \<Longrightarrow> keys_kept m m2"
  by (fastforce simp: keys_kept_def same_key_def)

lemma db_save_heap [simp]: "am_heap (fst (db_save E m a)) = am_heap m"
  by (cases "db_save E m a") (simp add: db_save_keeps)

lemma AddAddressRecord_heap [simp]: "am_heap (fst (AddAddressRecord E m p)) = am_heap m"
  by (auto simp: AddAddressRecord_def addAddressUnsafe_def Let_def split: res.split bool.split)

lemma AddAddressFill_keys: "keys_kept m (fst (AddAddressFill E m s fill))"
  by (cases rule: AddAddressFill_cases [of E m s fill])
    (auto simp: keys_kept_def same_key_def new_record_def nth_append)

lemma update_keys:
  "keys_kept m (fst (updateAddressUnsafe E m s (\<lambda>a. (subscribe_fields sv u i w a, Ok ()))))"
proof -
  have "keys_kept m (m\<lparr> am_heap := (am_heap m)[p := subscribe_fields sv u i w (am_heap m ! p)], am_free := f \<rparr>)" for p f
    unfolding keys_kept_def
  proof (intro conjI allI impI)
    fix q assume "q < length (am_heap m)"
    then show "same_key (am_heap m ! q)
        (am_heap (m\<lparr> am_heap := (am_heap m)[p := subscribe_fields sv u i w (am_heap m ! p)], am_free := f \<rparr>) ! q)"
      by (cases "q = p") (auto simp: same_key_def subscribe_fields_def)
  qed simp
  then have "keys_kept m (fst (db_save E
      (m\<lparr> am_heap := (am_heap m)[p := subscribe_fields sv u i w (am_heap m ! p)], am_free := f \<rparr>) a))" for p f a
    by (simp add: keys_kept_def)
  then show ?thesis
    by (auto simp: updateAddressUnsafe_def keys_kept_same split: option.split)
qed

lemma GetFree_keys: "keys_kept m (fst (GetFreeAddressAndSubscribe E m ks sv u i w))"
proof -
  have checks: "keys_kept m m' \<Longrightarrow> keys_kept m (m'\<lparr> am_checks := n \<rparr>)" for m' n by (simp add: keys_kept_def)
  show ?thesis
    using update_keys [of m E _ sv u i w]
    by (auto simp: GetFreeAddressAndSubscribe_def Let_def keys_kept_same getFreeAddressUnsafe_def
        split: prod.splits res.splits list.splits intro!: checks)
      (metis fst_conv)+
qed

subsection \<open>The services\<close>

definition credentials :: "subscribers \<Rightarrow> int \<Rightarrow> (int \<times> bool \<times> string \<times> string) option" where
  "credentials subs sid = map_option (\<lambda>s. (s_ServiceId s, s_Internal s, s_ApiToken s, s_ApiKey s)) (subs sid)"

lemma credentials_edit:
  "subs sid = Some s \<Longrightarrow> credentials (subs(sid \<mapsto> config_edit tokens params s)) = credentials subs"
  by (rule ext) (simp add: credentials_def config_edit_def)

subsection \<open>Sequences of requests\<close>

lemma changes_keep:
  assumes "changes_data w w'"
  shows "am_inv (w_pool w) \<Longrightarrow> am_inv (w_pool w')" "keys_kept (w_pool w) (w_pool w')"
    "credentials (w_subs w') = credentials (w_subs w)" "w_cache w' = w_cache w"
  using assms
  by (auto simp: changes_data_def same_data_def keys_kept_same AddAddressFill_inv GetFree_inv
      AddAddressFill_keys GetFree_keys credentials_edit)

interpretation kept: request_invariant standard
  "\<lambda>w. am_inv (w_pool w) \<and> keys_kept pool (w_pool w) \<and> credentials (w_subs w) = services \<and> w_cache w = cache"
  for pool :: "'db Manager" and services and cache :: 'hdb
proof (unfold_locales, goal_cases)
  case (1 r name processor w ctx request resp fin)
  then have "changes_data w (end_of fin)"
    using handler_changes [of r name processor w ctx request resp] by (auto simp: ends_def)
  from changes_keep [OF this] 1(3) show ?case by (auto intro: keys_kept_trans)
qed


section \<open>Transfers\<close>

text \<open>
  The key with which a request may spend: the one it brings, if it is the key of the sender, or the one of
  the pool's record of the sender, if the record belongs to the service and may be spent from.
\<close>

definition may_spend :: "(bytes \<Rightarrow> bytes) \<Rightarrow> 'db Manager \<Rightarrow> transferAssetsRequest \<Rightarrow> bytes \<Rightarrow> bool" where
  "may_spend keccak pool params key \<longleftrightarrow>
     (if ta_PrivateKey params \<noteq> [] then
        ParseHexBytes (ta_PrivateKey params) = Ok key \<and> (\<exists>b. PrivateKeyToAddress keccak key = Ok (ta_From params, b))
      else
        (\<exists>p. is_record pool (ta_From params) p \<and> a_ServiceId (am_heap pool ! p) = ta_ServiceID params \<and>
           (a_WatchOnly (am_heap pool ! p) \<longrightarrow> ta_Force params) \<and> key = a_PrivateKey (am_heap pool ! p) \<and> key \<noteq> []))"

lemma GetAddress_record: "am_inv pool \<Longrightarrow> GetAddress pool s = Ok (Some p) \<Longrightarrow> is_record pool s p"
  using am_invD(5) [of pool s p] by (auto simp: GetAddress_def index_at_def split: option.splits prod.splits if_splits)

lemma pool_key_spend:
  assumes "am_inv pool" "pool_key pool params = Ok key" "ta_PrivateKey params = []"
  shows "may_spend keccak pool params key"
  using assms(2,3) GetAddress_record [OF assms(1)]
  by (auto simp: pool_key_def may_spend_def Let_def split: res.splits bool.splits option.splits if_splits)

lemma given_key_spend:
  assumes "given_key r params = Ok key" "ta_PrivateKey params \<noteq> []" "ta_From params \<noteq> []"
  shows "may_spend (r_keccak r) pool params key"
  using assms by (auto simp: given_key_def may_spend_def split: res.splits prod.splits if_splits)

text \<open>\<open>addressNormalise\<close> turns a hexadecimal text of another length into the empty address.\<close>

lemma addressNormalise_iff:
  assumes "\<forall>x. length (r_keccak r x) = 32"
  shows "addressNormalise r s = Ok a \<longleftrightarrow>
    (\<exists>b. DecodeAddressToBytes s = Ok b \<and> (if length b = 20 then EncodeBytesToAddress (r_keccak r) b = Ok a else a = []))"
proof (cases "DecodeAddressToBytes s")
  case (Ok b)
  show ?thesis
  proof (cases "length b = 20")
    case True
    with Encode_total [OF assms, of b] obtain x where "EncodeBytesToAddress (r_keccak r) b = Ok x" by blast
    with Ok True show ?thesis by (simp add: addressNormalise_def)
  next
    case False
    then have "EncodeBytesToAddress (r_keccak r) b = Err address_error.ErrInvalidAddressBytes" by (simp add: EncodeBytesToAddress_def)
    with Ok False show ?thesis by (auto simp: addressNormalise_def)
  qed
qed (simp_all add: addressNormalise_def)

lemma PrivateKeyToAddress_not_empty:
  assumes "\<forall>x. length (keccak x) = 32" "PrivateKeyToAddress keccak key = Ok (a, b)"
  shows "a \<noteq> []"
proof -
  obtain priv pub where priv: "ECDSAKeysFromPrivateKeyBytes key = Ok priv"
    and pub: "ECDSAPublicKeyToBytes (Some (priv_X priv, priv_Y priv)) = Ok pub"
    using assms(2) by (auto simp: PrivateKeyToAddress_def Let_def split: res.splits)
  let ?b = "drop 12 (Keccak256 keccak [tl pub])"
  have "length ?b = 20" using assms(1) by (simp add: Keccak256_def)
  with Encode_total [OF assms(1), of ?b] obtain x where "EncodeBytesToAddress keccak ?b = Ok x" "x \<noteq> []" by blast
  with assms(2) priv pub show ?thesis by (simp add: PrivateKeyToAddress_def Let_def)
qed

lemma transfer_request_Ok:
  assumes "am_inv pool" "transfer_request r pool request = Ok (params, amount, decimals, key)"
  shows "0 < amount \<and> (ta_From params \<noteq> [] \<longrightarrow> may_spend (r_keccak r) pool params key) \<and>
    (\<exists>given. ParseParams decode_transferAssets request = Ok given \<and> addressNormalise r (ta_From given) = Ok (ta_From params) \<and>
       addressNormalise r (ta_To given) = Ok (ta_To params) \<and>
       params = given\<lparr> ta_From := ta_From params, ta_To := ta_To params \<rparr> \<and>
       request_amount r (ta_AmountFormated given) (ta_Symbol given) (ta_Amount given) = Ok (amount, decimals))"
proof -
  from assms(2) obtain given a b where given: "ParseParams decode_transferAssets request = Ok given"
    and norm: "addressNormalise r (ta_From given) = Ok a" "addressNormalise r (ta_To given) = Ok b"
    and rest: "params = given\<lparr> ta_From := a, ta_To := b \<rparr>" "0 < amount" "transfer_key r pool params = Ok key"
      "request_amount r (ta_AmountFormated given) (ta_Symbol given) (ta_Amount given) = Ok (amount, decimals)"
    by (auto simp: transfer_request_def Let_def res_bind_Ok_iff not_le split: if_splits)
  from rest(3) have "may_spend (r_keccak r) pool params key" if "ta_From params \<noteq> []"
    using that by (auto simp: transfer_key_def intro: pool_key_spend [OF assms(1)] given_key_spend split: if_splits)
  with given norm rest show ?thesis by (intro conjI exI [of _ given]) simp_all
qed

lemma transfer_sends_from:
  assumes "\<forall>x. length (keccak x) = 32"
    and "TransferByPrivateKey keccak (logged T) key sender recipient amount (n, []) = Some ((n', log), res)"
  shows "broadcasts log = [] \<or> sender \<noteq> [] \<and> (\<exists>gasPrice gas raw. signed_transfer keccak key recipient amount gasPrice gas raw \<and>
     broadcasts log = [\<lparr> rq_Method = ''eth_sendRawTransaction'', rq_Params = [JStr raw] \<rparr>])"
  using transfer_sends [OF assms(2)] PrivateKeyToAddress_not_empty [OF assms(1)] by (fastforce simp: to_upper_def)

lemma quiet_end:
  assumes "on_client m w err ok = Some fin" "quiet m" "w_node w = (n, log)"
    and "\<And>e w. err e w = Some fin \<Longrightarrow> w_node (end_of fin) = w_node w" "\<And>a w. ok a w = Some fin \<Longrightarrow> w_node (end_of fin) = w_node w"
  shows "broadcasts (snd (w_node (end_of fin))) = broadcasts log"
proof -
  from assms(1) obtain n' res where run: "m (w_node w) = Some (n', res)" and "w_node (end_of fin) = n'"
    by (auto simp: on_client_Some on_res_Some dest: assms(4,5))
  with assms(3) quietD [OF assms(2), of n log "fst n'" "snd n'" res] show ?thesis by simp
qed

text \<open>
  C3. A transfer request makes the node broadcast at most one transaction. If there is one, its amount is
  the positive amount of the request and it goes to the address of the request, and it is signed with a key
  the request may use: its own, which is then the key of the sender, or the key the pool keeps for the
  sender, provided that this address belongs to the service the parameters name and is not watch-only (or
  the request insists).
\<close>
theorem TransferAssets_spends:
  assumes "\<forall>x. length (r_keccak r x) = 32" "r_transport r = logged T" "am_inv (w_pool w)" "w_node w = (n, [])"
    and "rpcProcessTransferAssets r ctx request resp w = Some fin"
  shows "broadcasts (snd (w_node (end_of fin))) = [] \<or>
    (\<exists>given params amount decimals key gasPrice gas raw.
       ParseParams decode_transferAssets request = Ok given \<and> addressNormalise r (ta_From given) = Ok (ta_From params) \<and>
       addressNormalise r (ta_To given) = Ok (ta_To params) \<and>
       params = given\<lparr> ta_From := ta_From params, ta_To := ta_To params \<rparr> \<and>
       request_amount r (ta_AmountFormated given) (ta_Symbol given) (ta_Amount given) = Ok (amount, decimals) \<and> 0 < amount \<and>
       may_spend (r_keccak r) (w_pool w) params key \<and>
       signed_transfer (r_keccak r) key (ta_To params) amount gasPrice gas raw \<and>
       broadcasts (snd (w_node (end_of fin))) = [\<lparr> rq_Method = ''eth_sendRawTransaction'', rq_Params = [JStr raw] \<rparr>])"
proof (cases "transfer_request r (w_pool w) request")
  case (Ok t)
  then obtain params amount decimals key where t: "transfer_request r (w_pool w) request = Ok (params, amount, decimals, key)"
    by (cases t) auto
  from assms(5) t obtain n1 log1 res where send: "send_transfer r params amount key (n, []) = Some ((n1, log1), res)"
    and fin: "on_res res (w\<lparr> w_node := (n1, log1) \<rparr>) (\<lambda>e. reply (ERROR_SERVER (r_clientText r e) resp) (w\<lparr> w_node := (n1, log1) \<rparr>))
      (\<lambda>txHash. on_client (TransferInfoByHash (r_keccak r) (r_now r) (r_chainClient r) (logged T) txHash) (w\<lparr> w_node := (n1, log1) \<rparr>)
        (\<lambda>_ w. reply (SetResult (marshal_transferAssetsResult (transfer_unseen params amount txHash)) resp) w)
        (\<lambda>transferInfo w. case transfer_result r params amount decimals transferInfo of
             None \<Rightarrow> crash w
           | Some result \<Rightarrow> reply (SetResult (marshal_transferAssetsResult result) resp) w)) = Some fin"
    using assms(2,4) by (auto simp: rpcProcessTransferAssets_def on_client_Some)
  have log: "broadcasts (snd (w_node (end_of fin))) = broadcasts log1"
  proof (cases res)
    case (Ok txHash)
    with fin show ?thesis by (auto elim!: quiet_end intro: quiet_info split: option.splits)
  qed (use fin in auto)
  from send have "broadcasts log1 = [] \<or> ta_From params \<noteq> [] \<and> (\<exists>gasPrice gas raw. signed_transfer (r_keccak r) key (ta_To params) amount gasPrice gas raw \<and>
     broadcasts log1 = [\<lparr> rq_Method = ''eth_sendRawTransaction'', rq_Params = [JStr raw] \<rparr>])"
    using transfer_sends_from [OF assms(1), of T key "ta_From params" "ta_To params" amount n n1 log1 res]
    by (auto simp: send_transfer_def assms(2) TransferTokenByPrivateKey_def broadcasts_def split: if_splits)
  with transfer_request_Ok [OF assms(3) t] log show ?thesis by metis
qed (use assms(4,5) in \<open>auto simp: rpcProcessTransferAssets_def broadcasts_def\<close>)

section \<open>The two readings of a request\<close>

text \<open>Whole numbers below \<open>2 ^ 53\<close> survive the detour through \<open>float64\<close>.\<close>

lemma float_trunc_whole:
  assumes "n < 2 ^ 53"
  shows "float_trunc n 1 = n"
proof (cases "n = 0")
  case False
  have whole: "half_even m (Suc 0) = m" for m by (simp add: half_even_def Let_def)
  have "BitLen n \<le> 53" using assms BitLen_le_iff by blast
  moreover have "BitLen 1 = 1" by code_simp
  ultimately show ?thesis
    using False by (auto simp: float_trunc_def Let_def whole)
qed (simp add: float_trunc_def)

lemma nat_string_all: "takeWhile is_digit (nat_string n) = nat_string n" "dropWhile is_digit (nat_string n) = []"
  using nat_string_digits(1) [of n] by (simp_all add: digit_string_def is_digit_def takeWhile_eq_all_conv dropWhile_eq_Nil_conv)

lemma nat_string_no_minus: "hd (nat_string n) \<noteq> CHR ''-''" "hd (nat_string n) \<noteq> CHR ''+''"
proof -
  have "dec_val (hd (nat_string n)) \<noteq> None"
    using nat_string_digits [of n] by (simp add: digit_string_def)
  moreover have "dec_val CHR ''-'' = None" "dec_val CHR ''+'' = None" by (simp_all add: dec_val_def)
  ultimately show "hd (nat_string n) \<noteq> CHR ''-''" "hd (nat_string n) \<noteq> CHR ''+''" by metis+
qed

lemma number_whole:
  assumes "n < 2 ^ 53"
  shows "number_to_int64 (nat_string n) = int n" "floats_ok (JNum (nat_string n))" "unjson_int (JNum (nat_string n)) old = Ok (int n)"
proof -
  have lit: "literal_value (nat_string n) = (False, n)"
    using nat_string_digits [of n] nat_string_no_minus [of n] float_trunc_whole [OF assms]
    by (simp add: literal_value_def literal_parts_def nat_string_all digits_of_def)
  have "int n < 2 ^ 63" using assms by simp
  then show "number_to_int64 (nat_string n) = int n" by (simp add: number_to_int64_def lit)
  have "(2 :: nat) ^ 53 \<le> 2 ^ 1024" by (rule power_increasing) simp_all
  with assms show "floats_ok (JNum (nat_string n))" by (simp add: lit)
  show "unjson_int (JNum (nat_string n)) old = Ok (int n)"
    using nat_string_digits [of n] nat_string_no_minus [of n] \<open>int n < 2 ^ 63\<close>
    by (simp add: parse_int10_def SetString10_digits)
qed

lemma field_names:
  "field_matches ''serviceId'' ''SERVICEID''" "field_matches ''serviceId'' ''serviceId''"
  "list_all (\<lambda>n. \<not> field_matches n ''SERVICEID'' \<and> \<not> field_matches n ''serviceId'')
     [''privateKey'', ''from'', ''to'', ''amount'', ''amountFormated'', ''symbol'', ''force'', ''signature'']"
  by code_simp+

text \<open>
  C6. The check reads another service than the handler: a request that names its own service, which has no
  credentials, under \<open>serviceId\<close>, and any other service under the same name in capitals after it, passes
  the authorisation and is then carried out exactly as a transfer of the other service, whatever token that
  service has.
\<close>
theorem service_confusion:
  assumes "a < 2 ^ 53" "b < 2 ^ 53" "floats_ok (JObj rest)" "\<forall>(k, j) \<in> set rest. \<not> field_matches ''serviceId'' k"
    and "w_subs w (int a) = Some s" "s_ApiToken s = []" "s_ApiKey s = []"
    and "jr_Params request = Some (JObj ((''serviceId'', JNum (nat_string a)) # (''SERVICEID'', JNum (nat_string b)) # rest))"
  shows "secured (rpcProcessTransferAssets r) ctx request resp w =
    rpcProcessTransferAssets r ctx (request\<lparr> jr_Params := Some (JObj ((''serviceId'', JNum (nat_string b)) # rest)) \<rparr>) resp w"
proof -
  have "''serviceId'' \<notin> fst ` set rest" using assms(4) by (auto simp: field_matches_def)
  then have "map_of (rev rest) ''serviceId'' = None" by (simp add: map_of_eq_None_iff)
  then have "GetParamInt request ''serviceId'' = Ok (int a)"
    using assms(3) number_whole [OF assms(1)] number_whole [OF assms(2)]
    by (simp add: GetParamInt_def GetParamRaw_def parseParamsMap_def assms(8) map_add_def)
  then have "authorised (w_subs w) (x_apiToken ctx) request" using assms(5-7) by (auto simp: authorised_def)
  moreover have "decode_transferAssets (JObj ((''serviceId'', JNum (nat_string a)) # (''SERVICEID'', JNum (nat_string b)) # rest)) =
      decode_transferAssets (JObj ((''serviceId'', JNum (nat_string b)) # rest))"
    using number_whole [OF assms(1)] number_whole [OF assms(2)] field_names
    by (simp add: decode_transferAssets_def del: unjson_int.simps)
  ultimately show ?thesis
    using secured_authorised [of w ctx request "rpcProcessTransferAssets r" resp]
    by (auto simp: rpcProcessTransferAssets_def transfer_request_def ParseParams_def assms(8))
qed

section \<open>Answers\<close>

lemma marshal_struct_None:
  "(k, False, None) \<in> set fs \<Longrightarrow> marshal_struct fs = None"
proof (induction fs)
  case (Cons f fs)
  then show ?case by (cases f) (auto split: option.splits json.splits)
qed simp


text \<open>Digits as JSON numbers.\<close>

lemma nat_string_hd: "n \<noteq> 0 \<Longrightarrow> hd (nat_string n) \<noteq> CHR ''0''"
proof -
  assume "n \<noteq> 0"
  then have "pos_digits 10 n \<noteq> []" "hd (pos_digits 10 n) \<noteq> 0" "hd (pos_digits 10 n) < 10"
    using dec10.hd_digits_pos [of n] dec10.digits_less [of "hd (pos_digits 10 n)" n] by simp_all
  then show ?thesis
    using \<open>n \<noteq> 0\<close> dec_val_dec_char [of "hd (pos_digits 10 n)"] dec_val_0
    by (auto simp: nat_string_def hd_map)
qed

lemma number_with_fraction:
  assumes "digit_string whole" "whole \<noteq> []" "hd whole \<noteq> CHR ''0'' \<or> whole = ''0''" "digit_string frac"
  shows "isValidNumber (whole @ ''.'' @ frac) \<longleftrightarrow> frac \<noteq> []"
proof -
  have digits: "\<forall>c \<in> set whole. is_digit c" "\<forall>c \<in> set frac. is_digit c" "\<not> is_digit CHR ''.''"
    using assms(1,4) by (auto simp: digit_string_def is_digit_def dec_val_def)
  have "(if hd (whole @ ''.'' @ frac) = CHR ''0'' then tl (whole @ ''.'' @ frac) else dropWhile is_digit (whole @ ''.'' @ frac)) = ''.'' @ frac"
    using assms(2,3) digits by (cases whole) (auto simp: dropWhile_append2)
  moreover have "hd whole \<noteq> CHR ''-''" using digits(1) assms(2) by (cases whole) (auto simp: is_digit_def dec_val_def)
  moreover have "drop_exponent (drop_fraction (''.'' @ frac)) = Some [] \<longleftrightarrow> frac \<noteq> []"
    using digits(2) by (cases frac) (auto simp: drop_fraction_def drop_exponent_def dropWhile_eq_Nil_conv)
  ultimately show ?thesis
    using assms(2) digits(1) by (cases whole) (auto simp: isValidNumber_def Let_def)
qed



section \<open>A concrete node\<close>

type_synonym demo_world = "(unit \<times> Request list, (bytes \<times> bytes) list, (string \<times> TransferInfoCachedRecord) list) world"

definition demo_deps :: "(unit \<times> Request list, (bytes \<times> bytes) list, (string \<times> TransferInfoCachedRecord) list) BackRpc" where
  "demo_deps =
     \<lparr> r_keccak = demo_hash, r_transport = logged (demo_node ''0x5''), r_chainClient = demo_client,
       r_knownTokens = Map.empty, r_addressEnv = demo_env, r_subscriptionsSave = (\<lambda>_. Ok ()), r_txCache = al_hold,
       r_rpcProcessors = Map.empty, r_fallbackResponse = None, r_free = (\<lambda>_. []),
       r_draw = \<lparr> draw_key = Err (), draw_entropy = (\<lambda>_. Err ()) \<rparr>, r_unixNano = 7, r_now = 3,
       r_clientText = (\<lambda>_. []), r_poolText = (\<lambda>_. []), r_subText = (\<lambda>_. []), r_codecText = (\<lambda>_. []) \<rparr>"

definition demo_back :: "(unit \<times> Request list, (bytes \<times> bytes) list, (string \<times> TransferInfoCachedRecord) list) BackRpc" where
  "demo_back = (case NewBackRpc demo_deps [] of Ok r \<Rightarrow> r | _ \<Rightarrow> demo_deps)"

text \<open>Service 1 has a token, service 2 has no credentials.\<close>

definition demo_services :: subscribers where
  "demo_services = [1 \<mapsto> zero_subscription\<lparr> s_ServiceId := 1, s_ApiToken := ''secret'' \<rparr>, 2 \<mapsto> zero_subscription\<lparr> s_ServiceId := 2 \<rparr>]"

definition demo_state :: demo_world where
  "demo_state = \<lparr> w_node = ((), []), w_pool = new_manager (Some []) demo_config, w_subs = demo_services, w_cache = [] \<rparr>"

definition demo_post :: "string \<Rightarrow> string \<Rightarrow> json \<Rightarrow> http_request" where
  "demo_post token m params =
     \<lparr> h_Method = ''POST'', h_Path = ''/rpc'', h_RequestURI = ''/rpc'', h_RemoteAddr = [], h_ApiToken = token,
       h_Body = Some (JObj [(''id'', JNum ''1''), (''method'', JStr m), (''params'', params)]) \<rparr>"

definition demo_call :: "string \<Rightarrow> json \<Rightarrow> JsonRpcRequest" where
  "demo_call m params = \<lparr> jr_Id = ''1'', jr_JsonRpc = [], jr_Method = m, jr_Params = Some params \<rparr>"

lemma demo_back_new: "NewBackRpc demo_deps [] = Ok demo_back"
  by (simp add: demo_back_def NewBackRpc_def Let_def)

lemma demo_standard: "standard demo_back"
  unfolding standard_def using demo_back_new by (intro exI [of _ demo_deps] exI [of _ "[]"]) simp

lemma request_fields:
  "field_matches ''id'' ''id''" "\<not> field_matches ''id'' ''method''" "\<not> field_matches ''id'' ''params''"
  "\<not> field_matches ''jsonrpc'' ''id''" "\<not> field_matches ''jsonrpc'' ''method''" "\<not> field_matches ''jsonrpc'' ''params''"
  "\<not> field_matches ''method'' ''id''" "field_matches ''method'' ''method''" "\<not> field_matches ''method'' ''params''"
  "\<not> field_matches ''params'' ''id''" "\<not> field_matches ''params'' ''method''" "field_matches ''params'' ''params''"
  "\<not> field_matches ''auth'' ''id''" "\<not> field_matches ''auth'' ''method''" "\<not> field_matches ''auth'' ''params''"
  by code_simp+

lemma demo_calls: "m \<noteq> [] \<Longrightarrow> calls (\<lambda>_. ''1'') (demo_post token m params) (demo_call m params)"
  by (simp add: calls_def demo_post_def demo_call_def HasPrefix_def decode_request_def request_fields
      RequestId_UnmarshalJSON_def is_digit_def dec_val_def)

lemma demo_service: "GetParamInt (demo_call m (JObj [(''serviceId'', JNum (nat_string n))])) ''serviceId'' = Ok (int n)" if "n < 2 ^ 53"
  using number_whole [OF that] by (simp add: GetParamInt_def GetParamRaw_def parseParamsMap_def demo_call_def)



definition demo_transfer_params :: json where
  "demo_transfer_params = JObj [(''privateKey'', JStr ''0x''), (''from'', JStr demo_sender), (''to'', JStr demo_sender),
     (''amount'', JNum ''10''), (''symbol'', JStr ''ETH'')]"

definition demo_transfer_request :: transferAssetsRequest where
  "demo_transfer_request = \<lparr> ta_ServiceID = 0, ta_PrivateKey = ''0x'', ta_From = demo_sender, ta_To = demo_sender,
     ta_Amount = ''10'', ta_AmountFormated = False, ta_Symbol = ''ETH'', ta_Force = False, ta_Signature = [] \<rparr>"

lemma demo_back_fields [simp]: "r_keccak demo_back = demo_hash" "r_chainClient demo_back = demo_client"
  "r_transport demo_back = logged (demo_node ''0x5'')"
  by (simp_all add: demo_back_def NewBackRpc_def Let_def InitProcessors_def register_defs demo_deps_def)

lemma demo_addresses_ok: "DecodeAddressToBytes demo_sender = Ok (replicate 20 0)"
  "EncodeBytesToAddress demo_hash (replicate 20 0) = Ok demo_sender"
  "PrivateKeyToAddress demo_hash [] = Ok (demo_sender, replicate 20 0)" "ParseHexBytes ''0x'' = Ok []"
  by code_simp+

lemma transfer_names:
  "foldName ''serviceId'' = ''SERVICEID''" "foldName ''privateKey'' = ''PRIVATEKEY''" "foldName ''from'' = ''FROM''"
  "foldName ''to'' = ''TO''" "foldName ''amount'' = ''AMOUNT''" "foldName ''amountFormated'' = ''AMOUNTFORMATED''"
  "foldName ''symbol'' = ''SYMBOL''" "foldName ''force'' = ''FORCE''" "foldName ''signature'' = ''SIGNATURE''"
  by code_simp+

lemma demo_transfer_decoded: "decode_transferAssets demo_transfer_params = Ok demo_transfer_request"
  by (simp add: decode_transferAssets_def demo_transfer_params_def demo_transfer_request_def field_matches_def
      transfer_names del: foldName.simps)

lemma demo_transfer_accepted:
  "transfer_request demo_back (w_pool demo_state) (demo_call ''transferAssets'' demo_transfer_params) =
     Ok (demo_transfer_request, 10, 0, [])"
proof -
  have "SetString10 ''10'' = Some 10" by code_simp
  moreover have "addressNormalise demo_back demo_sender = Ok demo_sender"
    by (simp add: addressNormalise_def demo_addresses_ok)
  moreover have "c_chainSymbol demo_client = ''ETH''" by (simp add: demo_client_def NewClient_def)
  moreover have "demo_sender \<noteq> []" by (simp add: demo_sender_def)
  moreover have "IsValid demo_sender" by (simp add: IsValid_def demo_addresses_ok)
  ultimately show ?thesis
    by (simp add: transfer_request_def ParseParams_def demo_call_def demo_transfer_decoded request_amount_def Let_def
        transfer_key_def given_key_def demo_addresses_ok demo_transfer_request_def)
qed

theorem TransferAssets_spends_witness:
  "\<exists>fin. rpcProcessTransferAssets demo_back NewRpcRequestContext (demo_call ''transferAssets'' demo_transfer_params)
       NewResponse demo_state = Some fin \<and> length (broadcasts (snd (w_node (end_of fin)))) \<le> 1 \<and>
     transfer_request demo_back (w_pool demo_state) (demo_call ''transferAssets'' demo_transfer_params) =
       Ok (demo_transfer_request, 10, 0, [])"
proof -
  let ?run = "rpcProcessTransferAssets demo_back NewRpcRequestContext (demo_call ''transferAssets'' demo_transfer_params)
    NewResponse demo_state"
  have checks: "transfer_checks demo_hash [] demo_sender demo_sender = Ok demo_sender"
    by (simp add: transfer_checks_def demo_addresses_ok)
  have sym: "c_chainSymbol demo_client = ''ETH''" by (simp add: demo_client_def NewClient_def)
  have node: "w_node demo_state = ((), [])" by (simp add: demo_state_def)
  have "\<exists>log. send_transfer demo_back demo_transfer_request 10 [] ((), []) = Some (((), log), Err ErrInsufficientFunds)"
    by (simp add: send_transfer_def demo_transfer_request_def sym TransferByPrivateKey_def demo_run checks)
  then obtain fin where fin: "?run = Some fin"
    by (auto simp: rpcProcessTransferAssets_def demo_transfer_accepted on_client_def node Let_def reply_def)
  have "\<forall>x. length (r_keccak demo_back x) = 32" by (simp add: demo_hash_def)
  moreover have "am_inv (w_pool demo_state)" by (simp add: demo_state_def am_inv_new_manager)
  ultimately have "broadcasts (snd (w_node (end_of fin))) = [] \<or> (\<exists>raw. broadcasts (snd (w_node (end_of fin))) =
      [\<lparr> rq_Method = ''eth_sendRawTransaction'', rq_Params = [JStr raw] \<rparr>])"
    using TransferAssets_spends [of demo_back "demo_node ''0x5''" demo_state "()"] fin node
    by (metis demo_back_fields(3))
  then show ?thesis using fin demo_transfer_accepted by auto
qed

theorem service_confusion_witness:
  "secured (rpcProcessTransferAssets demo_back) NewRpcRequestContext
     (demo_call ''transferAssets'' (JObj [(''serviceId'', JNum (nat_string 2)), (''SERVICEID'', JNum (nat_string 1)), (''symbol'', JStr ''ETH'')]))
     NewResponse demo_state =
   rpcProcessTransferAssets demo_back NewRpcRequestContext
     (demo_call ''transferAssets'' (JObj [(''serviceId'', JNum (nat_string 1)), (''symbol'', JStr ''ETH'')])) NewResponse demo_state"
proof -
  have "\<not> field_matches ''serviceId'' ''symbol''" by code_simp
  then show ?thesis
    using service_confusion [of 2 1 "[(''symbol'', JStr ''ETH'')]" demo_state "zero_subscription\<lparr> s_ServiceId := 2 \<rparr>"
        "demo_call ''transferAssets'' (JObj [(''serviceId'', JNum (nat_string 2)), (''SERVICEID'', JNum (nat_string 1)), (''symbol'', JStr ''ETH'')])"
        demo_back NewRpcRequestContext NewResponse]
    by (simp add: demo_state_def demo_services_def demo_call_def zero_subscription_def)
qed

end
