(* ===== verification/Sha512.thy ===== *)
theory Sha512
  imports Hashes
begin

text \<open>
  SHA-512 of Go's standard library (\<open>crypto/sha512\<close>, FIPS 180-4), which the derivation of keys and the
  request signatures use: 64-bit words, blocks of 128 bytes, eighty rounds.
\<close>

unbundle bit_operations_syntax

type_synonym word64 = "64 word"

definition rotr64 :: "nat \<Rightarrow> word64 \<Rightarrow> word64" where
  "rotr64 n x = drop_bit n x OR push_bit (64 - n) x"

definition choose64 :: "word64 \<Rightarrow> word64 \<Rightarrow> word64 \<Rightarrow> word64" where
  "choose64 e f g = (e AND f) XOR (NOT e AND g)"

definition majority64 :: "word64 \<Rightarrow> word64 \<Rightarrow> word64 \<Rightarrow> word64" where
  "majority64 a b c = (a AND b) XOR (a AND c) XOR (b AND c)"

definition big_sigma0 :: "word64 \<Rightarrow> word64" where
  "big_sigma0 x = rotr64 28 x XOR rotr64 34 x XOR rotr64 39 x"

definition big_sigma1 :: "word64 \<Rightarrow> word64" where
  "big_sigma1 x = rotr64 14 x XOR rotr64 18 x XOR rotr64 41 x"

definition small_sigma0 :: "word64 \<Rightarrow> word64" where
  "small_sigma0 x = rotr64 1 x XOR rotr64 8 x XOR drop_bit 7 x"

definition small_sigma1 :: "word64 \<Rightarrow> word64" where
  "small_sigma1 x = rotr64 19 x XOR rotr64 61 x XOR drop_bit 6 x"

text \<open>The tables have four words to a row, most significant word first.\<close>

definition row64 :: "256 word \<Rightarrow> word64 list" where
  "row64 r = map (\<lambda>i. ucast (drop_bit (64 * (3 - i)) r)) [0..<4]"

definition round_constants :: "word64 list" where
  "round_constants = concat (map row64
    [0x428a2f98d728ae227137449123ef65cdb5c0fbcfec4d3b2fe9b5dba58189dbbc,
     0x3956c25bf348b53859f111f1b605d019923f82a4af194f9bab1c5ed5da6d8118,
     0xd807aa98a303024212835b0145706fbe243185be4ee4b28c550c7dc3d5ffb4e2,
     0x72be5d74f27b896f80deb1fe3b1696b19bdc06a725c71235c19bf174cf692694,
     0xe49b69c19ef14ad2efbe4786384f25e30fc19dc68b8cd5b5240ca1cc77ac9c65,
     0x2de92c6f592b02754a7484aa6ea6e4835cb0a9dcbd41fbd476f988da831153b5,
     0x983e5152ee66dfaba831c66d2db43210b00327c898fb213fbf597fc7beef0ee4,
     0xc6e00bf33da88fc2d5a79147930aa72506ca6351e003826f142929670a0e6e70,
     0x27b70a8546d22ffc2e1b21385c26c9264d2c6dfc5ac42aed53380d139d95b3df,
     0x650a73548baf63de766a0abb3c77b2a881c2c92e47edaee692722c851482353b,
     0xa2bfe8a14cf10364a81a664bbc423001c24b8b70d0f89791c76c51a30654be30,
     0xd192e819d6ef5218d69906245565a910f40e35855771202a106aa07032bbd1b8,
     0x19a4c116b8d2d0c81e376c085141ab532748774cdf8eeb9934b0bcb5e19b48a8,
     0x391c0cb3c5c95a634ed8aa4ae3418acb5b9cca4f7763e373682e6ff3d6b2b8a3,
     0x748f82ee5defb2fc78a5636f43172f6084c87814a1f0ab728cc702081a6439ec,
     0x90befffa23631e28a4506cebde82bde9bef9a3f7b2c67915c67178f2e372532b,
     0xca273eceea26619cd186b8c721c0c207eada7dd6cde0eb1ef57d4f7fee6ed178,
     0x06f067aa72176fba0a637dc5a2c898a6113f9804bef90dae1b710b35131c471b,
     0x28db77f523047d8432caab7b40c724933c9ebe0a15c9bebc431d67c49c100d4c,
     0x4cc5d4becb3e42b6597f299cfc657e2a5fcb6fab3ad6faec6c44198c4a475817])"

definition initial_state :: "word64 list" where
  "initial_state =
     row64 0x6a09e667f3bcc908bb67ae8584caa73b3c6ef372fe94f82ba54ff53a5f1d36f1 @
     row64 0x510e527fade682d19b05688c2b3e6c1f1f83d9abfb41bd6b5be0cd19137e2179"

fun schedule64 :: "nat \<Rightarrow> word64 list \<Rightarrow> word64 list" where
  "schedule64 0 w = w"
| "schedule64 (Suc n) w =
     schedule64 n ((small_sigma1 (w ! 1) + w ! 6 + small_sigma0 (w ! 14) + w ! 15) # w)"

definition round64 :: "word64 list \<Rightarrow> word64 \<times> word64 \<Rightarrow> word64 list" where
  "round64 st kw =
     (let t1 = st ! 7 + big_sigma1 (st ! 4) + choose64 (st ! 4) (st ! 5) (st ! 6) + fst kw + snd kw;
          t2 = big_sigma0 (st ! 0) + majority64 (st ! 0) (st ! 1) (st ! 2)
      in [t1 + t2, st ! 0, st ! 1, st ! 2, st ! 3 + t1, st ! 4, st ! 5, st ! 6])"

definition word64_of_bytes :: "bytes \<Rightarrow> word64" where
  "word64_of_bytes bs = word_of_nat (be_value bs)"

definition bytes_of_word64 :: "word64 \<Rightarrow> bytes" where
  "bytes_of_word64 w = map (\<lambda>i. ucast (drop_bit (8 * (7 - i)) w)) [0..<8]"

definition block64 :: "word64 list \<Rightarrow> bytes \<Rightarrow> word64 list" where
  "block64 h blk =
     (let w = rev (schedule64 64 (rev (map word64_of_bytes (chunks 16 8 blk))))
      in map2 (+) h (foldl round64 h (zip round_constants w)))"

definition pad512 :: "bytes \<Rightarrow> bytes" where
  "pad512 m =
     (let bits = be_bytes (8 * length m mod 2 ^ 128)
      in m @ [0x80] @ replicate ((239 - length m mod 128) mod 128) 0 @ replicate (16 - length bits) 0 @ bits)"

definition sha512_sum :: "bytes \<Rightarrow> bytes" where
  "sha512_sum m =
     (let p = pad512 m
      in concat (map bytes_of_word64 (foldl block64 initial_state (chunks (length p div 128) 128 p))))"

definition sha512 :: hash_alg where
  "sha512 = \<lparr> hash_size = 64, hash_block = 128, hash_sum = sha512_sum \<rparr>"

section \<open>Lengths\<close>

lemma length_foldl_round64: "length st = 8 \<Longrightarrow> length (foldl round64 st kws) = 8"
  by (induction kws arbitrary: st) (simp_all add: round64_def Let_def)

lemma length_foldl_block64: "length h = 8 \<Longrightarrow> length (foldl block64 h blks) = 8"
  by (induction blks arbitrary: h) (simp_all add: block64_def Let_def length_foldl_round64)

lemma length_sha512_sum [simp]: "length (sha512_sum m) = 64"
proof -
  have "length (foldl block64 initial_state blks) = 8" for blks
    by (rule length_foldl_block64) (simp add: initial_state_def row64_def)
  then show ?thesis
    by (simp add: sha512_sum_def Let_def length_concat bytes_of_word64_def comp_def sum_list_triv)
qed

lemma sha512_ok: "hash_alg_ok sha512"
  by (simp add: hash_alg_ok_def sha512_def)

end
