(* ===== verification/Bip32.thy ===== *)
theory Bip32
  imports Sha512 Base58 BigBytes Secp256k1 Hexnum
begin

text \<open>
  Hierarchical deterministic keys (\<open>common/bip32\<close>): the master key of a seed, child keys of private and of
  public parents, and the 82-byte serialization with its base58 form. The curve is the one of
  \<open>crypto/secp256k1\<close>; RIPEMD-160 comes from \<open>golang.org/x/crypto\<close> and is the parameter \<open>ripemd\<close>. A
  \<open>hash.Hash\<close> never returns an error from \<open>Write\<close>, so the hash helpers are plain functions.

  The theorems: which byte strings are private keys; the child of a private key in closed form; every key that
  can be derived is well formed; the private and the public derivation agree in everything but the key bytes; a
  byte string deserializes exactly when it is the serialization of a well-formed key.
\<close>

section \<open>Data\<close>

datatype bip32_error = ErrSerializedKeyWrongSize | ErrHardnedChildPublicKey | ErrKeyChecksum
  | ErrInvalidPrivateKey | ErrInvalidPublicKey

definition FirstHardenedChild :: word32 where
  "FirstHardenedChild = 0x80000000"

definition PublicKeyCompressedLength :: nat where
  "PublicKeyCompressedLength = 33"

definition PrivateWalletVersion :: bytes where
  "PrivateWalletVersion = [0x04, 0x88, 0xAD, 0xE4]"

definition PublicWalletVersion :: bytes where
  "PublicWalletVersion = [0x04, 0x88, 0xB2, 0x1E]"

record Key =
  k_Key :: bytes
  k_Version :: bytes
  k_ChildNumber :: bytes
  k_FingerPrint :: bytes
  k_ChainCode :: bytes
  k_Depth :: byte
  k_IsPrivate :: bool

abbreviation secp :: CurveParams where
  "secp \<equiv> initSecp256k1"

section \<open>Hashes and checksums\<close>

definition hashDoubleSha256 :: "bytes \<Rightarrow> bytes" where
  "hashDoubleSha256 data = sha256_sum (sha256_sum data)"

definition hash160 :: "(bytes \<Rightarrow> bytes) \<Rightarrow> bytes \<Rightarrow> bytes" where
  "hash160 ripemd data = ripemd (sha256_sum data)"

definition key_checksum :: "bytes \<Rightarrow> bytes" where
  "key_checksum data = take 4 (hashDoubleSha256 data)"

definition addChecksumToBytes :: "bytes \<Rightarrow> bytes" where
  "addChecksumToBytes data = data @ key_checksum data"

definition uint32Bytes :: "word32 \<Rightarrow> bytes" where
  "uint32Bytes i = bytes_of_word32 i"

section \<open>Keys\<close>

text \<open>The padding loop writes \<open>32 - len(xBytes)\<close> zeros when that is positive.\<close>

definition compressPublicKey :: "int \<Rightarrow> int \<Rightarrow> bytes" where
  "compressPublicKey x y =
     (let xBytes = be_bytes (nat x)
      in [2 + word_of_int (y mod 2)] @ replicate (PublicKeyCompressedLength - 1 - length xBytes) 0 @ xBytes)"

definition publicKeyForPrivateKey :: "bytes \<Rightarrow> bytes option" where
  "publicKeyForPrivateKey key = map_option (\<lambda>(x, y). compressPublicKey x y) (ScalarBaseMult secp key)"

definition addPrivateKeys :: "bytes \<Rightarrow> bytes \<Rightarrow> bytes" where
  "addPrivateKeys key1 key2 =
     (let b = be_bytes ((be_value key1 + be_value key2) mod nat (curve_N secp))
      in if length b < 32 then replicate (32 - length b) 0 @ b else b)"

text \<open>
  \<open>big.Int.Exp\<close> and \<open>big.Int.ModSqrt\<close> for a modulus that is 3 modulo 4, as the field prime is: the candidate
  is \<open>x ^ ((p + 1) / 4)\<close>; when it is no root the receiver keeps its value.
\<close>

function pow_mod :: "int \<Rightarrow> nat \<Rightarrow> int \<Rightarrow> int" where
  "pow_mod x e p =
     (if e = 0 then 1 mod p
      else (let h = pow_mod (x * x mod p) (e div 2) p in if even e then h else (x * h) mod p))"
  by pat_completeness auto
termination
  by (relation "measure (\<lambda>(x, e, p). e)") auto

declare pow_mod.simps [simp del]

definition ModSqrt :: "int \<Rightarrow> int \<Rightarrow> int \<Rightarrow> int" where
  "ModSqrt z x p = (let r = pow_mod (x mod p) (nat ((p + 1) div 4)) p in if (r * r) mod p = x mod p then r else z)"

text \<open>\<open>expandPublicKey\<close>; \<^const>\<open>None\<close> is the panic of \<open>key[1:]\<close> on an empty key.\<close>

definition expandPublicKey :: "bytes \<Rightarrow> (int \<times> int) option" where
  "expandPublicKey key =
     (case key of
        [] \<Rightarrow> None
      | sign # xs \<Rightarrow>
          (let X = int (be_value xs);
               ySquared = X ^ 3 + curve_B secp;
               Y = ModSqrt 0 ySquared (curve_P secp);
               signY = (ucast sign :: 64 word) - 2
           in Some (X, if signY \<noteq> word_of_int (Y mod 2) then curve_P secp - Y else Y)))"

definition addPublicKeys :: "bytes \<Rightarrow> bytes \<Rightarrow> bytes option" where
  "addPublicKeys key1 key2 =
     (case (expandPublicKey key1, expandPublicKey key2) of
        (Some (x1, y1), Some (x2, y2)) \<Rightarrow> map_option (\<lambda>(x, y). compressPublicKey x y) (Add secp x1 y1 x2 y2)
      | _ \<Rightarrow> None)"

text \<open>\<open>bytes.Compare\<close>: lexicographic.\<close>

fun bytes_Compare :: "bytes \<Rightarrow> bytes \<Rightarrow> int" where
  "bytes_Compare [] [] = 0"
| "bytes_Compare [] (b # bs) = - 1"
| "bytes_Compare (a # as) [] = 1"
| "bytes_Compare (a # as) (b # bs) = (if a < b then - 1 else if b < a then 1 else bytes_Compare as bs)"

definition validatePrivateKey :: "bytes \<Rightarrow> (bip32_error, unit) res" where
  "validatePrivateKey key =
     (if fmt_x_bytes key = replicate 64 (CHR ''0'')
         \<or> bytes_Compare key (be_bytes (nat (curve_N secp))) \<ge> 0
         \<or> length key \<noteq> 32
      then Err ErrInvalidPrivateKey else Ok ())"

definition validateChildPublicKey :: "bytes \<Rightarrow> (bip32_error, unit) res" where
  "validateChildPublicKey key =
     (case expandPublicKey key of
        None \<Rightarrow> Panic
      | Some (x, y) \<Rightarrow> if x = 0 \<or> y = 0 then Err ErrInvalidPublicKey else Ok ())"

section \<open>Derivation\<close>

definition NewMasterKey :: "bytes \<Rightarrow> (bip32_error, Key) res" where
  "NewMasterKey seed =
     (let intermediary = hmac sha512 (bytes_of_string ''Bitcoin seed'') seed;
          keyBytes = take 32 intermediary;
          chainCode = drop 32 intermediary
      in case validatePrivateKey keyBytes of
           Err e \<Rightarrow> Err e
         | Panic \<Rightarrow> Panic
         | Ok _ \<Rightarrow>
             Ok \<lparr> k_Key = keyBytes, k_Version = PrivateWalletVersion, k_ChildNumber = [0, 0, 0, 0],
                  k_FingerPrint = [0, 0, 0, 0], k_ChainCode = chainCode, k_Depth = 0, k_IsPrivate = True \<rparr>)"

definition getIntermediary :: "Key \<Rightarrow> word32 \<Rightarrow> bytes option" where
  "getIntermediary key childIdx =
     (let childIndexBytes = uint32Bytes childIdx;
          data = (if childIdx \<ge> FirstHardenedChild then Some ([0] @ k_Key key)
                  else if k_IsPrivate key then publicKeyForPrivateKey (k_Key key)
                  else Some (k_Key key))
      in map_option (\<lambda>data. hmac sha512 (k_ChainCode key) (data @ childIndexBytes)) data)"

text \<open>\<open>fingerprint[:4]\<close> of a shorter hash panics.\<close>

definition fingerprint4 :: "(bytes \<Rightarrow> bytes) \<Rightarrow> bytes \<Rightarrow> bytes option" where
  "fingerprint4 ripemd data =
     (let fingerprint = hash160 ripemd data
      in if length fingerprint < 4 then None else Some (take 4 fingerprint))"

definition NewChildKey :: "(bytes \<Rightarrow> bytes) \<Rightarrow> Key \<Rightarrow> word32 \<Rightarrow> (bip32_error, Key) res" where
  "NewChildKey ripemd key childIdx =
     (if \<not> k_IsPrivate key \<and> childIdx \<ge> FirstHardenedChild then Err ErrHardnedChildPublicKey
      else
        case getIntermediary key childIdx of
          None \<Rightarrow> Panic
        | Some intermediary \<Rightarrow>
            (let childKey = \<lparr> k_Key = [], k_Version = [], k_ChildNumber = uint32Bytes childIdx, k_FingerPrint = [],
                   k_ChainCode = drop 32 intermediary, k_Depth = k_Depth key + 1, k_IsPrivate = k_IsPrivate key \<rparr>
             in if k_IsPrivate key then
                  (let childKey = childKey\<lparr>k_Version := PrivateWalletVersion\<rparr>
                   in case Option.bind (publicKeyForPrivateKey (k_Key key)) (fingerprint4 ripemd) of
                        None \<Rightarrow> Panic
                      | Some fingerprint \<Rightarrow>
                          (let childKey = childKey\<lparr>k_FingerPrint := fingerprint,
                                 k_Key := addPrivateKeys (take 32 intermediary) (k_Key key)\<rparr>
                           in res_bind (validatePrivateKey (k_Key childKey)) (\<lambda>_. Ok childKey)))
                else
                  (case publicKeyForPrivateKey (take 32 intermediary) of
                     None \<Rightarrow> Panic
                   | Some keyBytes \<Rightarrow>
                       res_bind (validateChildPublicKey keyBytes) (\<lambda>_.
                         let childKey = childKey\<lparr>k_Version := PublicWalletVersion\<rparr>
                         in case fingerprint4 ripemd (k_Key key) of
                              None \<Rightarrow> Panic
                            | Some fingerprint \<Rightarrow>
                                (case addPublicKeys keyBytes (k_Key key) of
                                   None \<Rightarrow> Panic
                                 | Some pub \<Rightarrow> Ok (childKey\<lparr>k_FingerPrint := fingerprint, k_Key := pub\<rparr>))))))"

definition PublicKey :: "Key \<Rightarrow> Key option" where
  "PublicKey key =
     map_option (\<lambda>keyBytes.
       \<lparr> k_Key = keyBytes, k_Version = PublicWalletVersion, k_ChildNumber = k_ChildNumber key,
         k_FingerPrint = k_FingerPrint key, k_ChainCode = k_ChainCode key, k_Depth = k_Depth key,
         k_IsPrivate = False \<rparr>)
       (if k_IsPrivate key then publicKeyForPrivateKey (k_Key key) else Some (k_Key key))"

section \<open>Serialization\<close>

definition Serialize :: "Key \<Rightarrow> bytes" where
  "Serialize key =
     (let keyBytes = (if k_IsPrivate key then [0] @ k_Key key else k_Key key)
      in addChecksumToBytes (k_Version key @ [k_Depth key] @ k_FingerPrint key @ k_ChildNumber key @
           k_ChainCode key @ keyBytes))"

definition B58Serialize :: "Key \<Rightarrow> string" where
  "B58Serialize key = Encode58 (Serialize key)"

definition go_slice :: "nat \<Rightarrow> nat \<Rightarrow> 'a list \<Rightarrow> 'a list" where
  "go_slice a b xs = take (b - a) (drop a xs)"

definition Deserialize :: "bytes \<Rightarrow> (bip32_error, Key) res" where
  "Deserialize data =
     (if length data \<noteq> 82 then Err ErrSerializedKeyWrongSize
      else
        (let key = \<lparr> k_Key = [], k_Version = go_slice 0 4 data, k_ChildNumber = go_slice 9 13 data,
               k_FingerPrint = go_slice 5 9 data, k_ChainCode = go_slice 13 45 data, k_Depth = data ! 4,
               k_IsPrivate = False \<rparr>;
             key = (if data ! 45 = 0 then key\<lparr>k_IsPrivate := True, k_Key := go_slice 46 78 data\<rparr>
                    else key\<lparr>k_IsPrivate := False, k_Key := go_slice 45 78 data\<rparr>)
         in if key_checksum (take (length data - 4) data) \<noteq> drop (length data - 4) data then Err ErrKeyChecksum
            else Ok key))"

definition B58Deserialize :: "string \<Rightarrow> (bip32_error, Key) res" where
  "B58Deserialize data = Deserialize (Decode58 data)"

section \<open>Private keys\<close>

lemma bytes_Compare_value:
  "length as = length bs \<Longrightarrow> bytes_Compare as bs \<ge> 0 \<longleftrightarrow> be_value bs \<le> be_value as"
proof (induction as bs rule: list_induct2)
  case (Cons a as b bs)
  have less: "be_value as < 256 ^ length bs" "be_value bs < 256 ^ length bs"
    using be_value_less [of as] be_value_less [of bs] Cons(1) by simp_all
  have step: "u * w + v < u' * w + v'" if "u < u'" "v < w" for u u' v v' w :: nat
  proof -
    have "u * w + v < (u + 1) * w" using that by simp
    also have "\<dots> \<le> u' * w" using that by (intro mult_right_mono) auto
    finally show ?thesis by simp
  qed
  consider "a < b" | "b < a" | "a = b" by fastforce
  then show ?case
    using Cons step less by cases (simp_all add: be_value_Cons word_less_nat_alt not_le less_imp_le)
qed (simp add: be_value_def)

lemma length_N: "length (be_bytes (nat (curve_N secp))) = 32"
proof -
  have "length (be_bytes (nat (curve_N secp))) \<le> 32" "\<not> length (be_bytes (nat (curve_N secp))) \<le> 31"
    unfolding length_be_bytes_le_iff by (simp_all add: initSecp256k1_def)
  then show ?thesis by simp
qed

lemma fmt_x_zero: "fmt_x_bytes key = replicate 64 (CHR ''0'') \<longleftrightarrow> key = replicate 32 0"
proof -
  have z: "fmt_x_bytes (replicate 32 0) = replicate 64 (CHR ''0'')" by code_simp
  have "fmt_x_bytes key = fmt_x_bytes (replicate 32 0) \<longleftrightarrow> key = replicate 32 0"
    by (metis hex_decode_fmt_x res.inject(1))
  then show ?thesis unfolding z .
qed

lemma be_value_zero_iff: "be_value bs = 0 \<longleftrightarrow> bs = replicate (length bs) 0"
  by (induction bs) (auto simp: be_value_Cons unat_eq_zero, simp add: be_value_def)

definition private_scalar :: "bytes \<Rightarrow> bool" where
  "private_scalar key \<longleftrightarrow> length key = 32 \<and> 0 < be_value key \<and> be_value key < nat (curve_N secp)"

lemma validatePrivateKey_eq:
  "validatePrivateKey key = (if private_scalar key then Ok () else Err ErrInvalidPrivateKey)"
proof (cases "length key = 32")
  case True
  moreover have "bytes_Compare key (be_bytes (nat (curve_N secp))) \<ge> 0 \<longleftrightarrow> nat (curve_N secp) \<le> be_value key"
    using bytes_Compare_value [of key "be_bytes (nat (curve_N secp))"] True length_N by simp
  moreover have "fmt_x_bytes key = replicate 64 (CHR ''0'') \<longleftrightarrow> be_value key = 0"
    unfolding fmt_x_zero be_value_zero_iff True by simp
  ultimately show ?thesis by (auto simp: validatePrivateKey_def private_scalar_def)
qed (simp add: validatePrivateKey_def private_scalar_def)

lemma N_pos: "0 < nat (curve_N secp)" "nat (curve_N secp) < 256 ^ 32"
  by (simp_all add: initSecp256k1_def)

lemma addPrivateKeys_value:
  "be_value (addPrivateKeys a b) = (be_value a + be_value b) mod nat (curve_N secp)"
  "length (addPrivateKeys a b) = 32"
proof -
  let ?s = "(be_value a + be_value b) mod nat (curve_N secp)"
  have "?s < 256 ^ 32" using N_pos mod_less_divisor by (metis order_less_trans)
  then have "length (be_bytes ?s) \<le> 32" by (simp only: length_be_bytes_le_iff)
  then show "be_value (addPrivateKeys a b) = ?s" "length (addPrivateKeys a b) = 32"
    by (auto simp: addPrivateKeys_def Let_def)
qed

lemma addPrivateKeys_scalar:
  "private_scalar (addPrivateKeys a b) \<longleftrightarrow> (be_value a + be_value b) mod nat (curve_N secp) \<noteq> 0"
  unfolding private_scalar_def addPrivateKeys_value using N_pos(1) mod_less_divisor by blast

section \<open>Public keys\<close>

definition public_point :: "bytes \<Rightarrow> bool" where
  "public_point key \<longleftrightarrow> length key = 33 \<and> (hd key = 2 \<or> hd key = 3)"

lemma affineFromJacobian_range:
  "affineFromJacobian c pt = Some (x, y) \<Longrightarrow> 0 < curve_P c \<Longrightarrow> 0 \<le> x \<and> x < curve_P c"
  by (auto simp: affineFromJacobian_def Let_def split: prod.splits if_splits option.splits)

lemma compress_point:
  assumes "0 \<le> x" "x < curve_P secp"
  shows "public_point (compressPublicKey x y)"
proof -
  have "nat x < 256 ^ 32" using assms by (simp add: initSecp256k1_def)
  then have "length (be_bytes (nat x)) \<le> 32" by (simp only: length_be_bytes_le_iff)
  moreover have "y mod 2 = 0 \<or> y mod 2 = 1" by presburger
  ultimately show ?thesis
    by (auto simp: public_point_def compressPublicKey_def PublicKeyCompressedLength_def Let_def)
qed

lemma P_pos: "0 < curve_P secp"
  by (simp add: initSecp256k1_def)

lemma affine_compress: "affineFromJacobian secp pt = Some (x, y) \<Longrightarrow> public_point (compressPublicKey x y)"
  using affineFromJacobian_range [OF _ P_pos] compress_point by blast

lemma publicKeyForPrivateKey_point: "publicKeyForPrivateKey key = Some pub \<Longrightarrow> public_point pub"
  by (auto simp: publicKeyForPrivateKey_def ScalarBaseMult_def ScalarMult_def intro: affine_compress)

lemma addPublicKeys_point: "addPublicKeys a b = Some pub \<Longrightarrow> public_point pub"
  by (auto simp: addPublicKeys_def Add_def split: option.splits prod.splits intro: affine_compress)

section \<open>Well-formed keys\<close>

text \<open>The lengths the comments of the struct \<open>Key\<close> give; the key bytes are a scalar or a compressed point.\<close>

definition key_lengths :: "Key \<Rightarrow> bool" where
  "key_lengths k \<longleftrightarrow> length (k_Version k) = 4 \<and> length (k_ChildNumber k) = 4 \<and> length (k_FingerPrint k) = 4 \<and>
     length (k_ChainCode k) = 32"

definition key_ok :: "Key \<Rightarrow> bool" where
  "key_ok k \<longleftrightarrow> key_lengths k \<and> (if k_IsPrivate k then private_scalar (k_Key k) else public_point (k_Key k))"

text \<open>What a serialization can carry: 32 bytes of private key, or 33 that do not start with a zero.\<close>

definition key_shape :: "Key \<Rightarrow> bool" where
  "key_shape k \<longleftrightarrow> key_lengths k \<and>
     (if k_IsPrivate k then length (k_Key k) = 32 else length (k_Key k) = 33 \<and> hd (k_Key k) \<noteq> 0)"

lemma key_ok_shape: "key_ok k \<Longrightarrow> key_shape k"
  by (auto simp: key_ok_def key_shape_def private_scalar_def public_point_def)

lemma length_uint32Bytes [simp]: "length (uint32Bytes i) = 4"
  by (simp add: uint32Bytes_def bytes_of_word32_def)

lemma length_hmac_sha512 [simp]: "length (hmac sha512 k m) = 64"
  using length_hmac [OF sha512_ok] by (simp add: sha512_def)

lemma fingerprint4_length: "fingerprint4 ripemd d = Some f \<Longrightarrow> length f = 4"
  by (auto simp: fingerprint4_def Let_def split: if_splits)

lemma getIntermediary_length: "getIntermediary k i = Some m \<Longrightarrow> length m = 64"
  by (auto simp: getIntermediary_def Let_def)

lemma NewMasterKey_ok: "NewMasterKey seed = Ok k \<Longrightarrow> key_ok k \<and> k_IsPrivate k"
  by (auto simp: NewMasterKey_def Let_def validatePrivateKey_eq key_ok_def key_lengths_def PrivateWalletVersion_def
      split: if_splits)

lemma NewChildKey_ok:
  assumes "NewChildKey ripemd k i = Ok c"
  shows "key_ok c"
proof (cases "k_IsPrivate k")
  case True
  with assms show ?thesis
    by (auto simp: NewChildKey_def Let_def validatePrivateKey_eq key_ok_def key_lengths_def PrivateWalletVersion_def
        Option.bind_eq_Some_conv dest: getIntermediary_length fingerprint4_length split: option.splits if_splits)
next
  case False
  with assms show ?thesis
    by (auto simp: NewChildKey_def Let_def key_ok_def key_lengths_def PublicWalletVersion_def res_bind_Ok_iff
        dest: getIntermediary_length fingerprint4_length addPublicKeys_point split: option.splits if_splits)
qed

lemma PublicKey_ok: "key_ok k \<Longrightarrow> PublicKey k = Some p \<Longrightarrow> key_ok p"
  by (auto simp: PublicKey_def key_ok_def key_lengths_def PublicWalletVersion_def dest: publicKeyForPrivateKey_point
      split: if_splits)

section \<open>Serialization\<close>

lemma length_key_checksum [simp]: "length (key_checksum d) = 4"
  by (simp add: key_checksum_def hashDoubleSha256_def)

lemma slice_append1: "length xs = a \<Longrightarrow> a + n = b \<Longrightarrow> length ys = n \<Longrightarrow> go_slice a b (xs @ ys @ zs) = ys"
  by (auto simp: go_slice_def)

lemma split_slices:
  assumes "length data = 82"
  shows "data = go_slice 0 4 data @ [data ! 4] @ go_slice 5 9 data @ go_slice 9 13 data @ go_slice 13 45 data @
    [data ! 45] @ go_slice 46 78 data @ drop 78 data"
proof -
  have s: "drop a data = go_slice a b data @ drop b data" if "a \<le> b" for a b
    using that by (simp add: go_slice_def) (metis append_take_drop_id drop_drop le_add_diff_inverse2)
  have n: "drop a data = [data ! a] @ drop (Suc a) data" if "a < 82" for a
    using that assms by (simp add: Cons_nth_drop_Suc)
  have "data = drop 0 data" by simp
  then show ?thesis
    using s [of 0 4] n [of 4] s [of 5 9] s [of 9 13] s [of 13 45] n [of 45] s [of 46 78] by simp
qed

lemma Serialize_private:
  "k_IsPrivate k \<Longrightarrow> Serialize k =
     addChecksumToBytes (k_Version k @ [k_Depth k] @ k_FingerPrint k @ k_ChildNumber k @ k_ChainCode k @ [0] @ k_Key k)"
  by (simp add: Serialize_def)

lemma Serialize_public:
  "\<not> k_IsPrivate k \<Longrightarrow> Serialize k =
     addChecksumToBytes (k_Version k @ [k_Depth k] @ k_FingerPrint k @ k_ChildNumber k @ k_ChainCode k @ k_Key k)"
  by (simp add: Serialize_def)

text \<open>The fields, read back from their places.\<close>

lemma Deserialize_fields:
  assumes "length v = 4" "length f = 4" "length n = 4" "length c = 32" "length ks = 32" "length sum4 = 4"
  shows "Deserialize (v @ [d] @ f @ n @ c @ [h] @ ks @ sum4) =
    (if key_checksum (v @ [d] @ f @ n @ c @ [h] @ ks) \<noteq> sum4 then Err ErrKeyChecksum
     else Ok \<lparr> k_Key = (if h = 0 then ks else h # ks), k_Version = v, k_ChildNumber = n, k_FingerPrint = f,
       k_ChainCode = c, k_Depth = d, k_IsPrivate = (h = 0) \<rparr>)"
proof -
  let ?D = "v @ [d] @ f @ n @ c @ [h] @ ks @ sum4"
  have sl: "go_slice 0 4 ?D = v" "go_slice 5 9 ?D = f" "go_slice 9 13 ?D = n" "go_slice 13 45 ?D = c" "go_slice 46 78 ?D = ks"
    "go_slice 45 78 ?D = h # ks"
    using assms slice_append1 [of "[]" 0 4 4 v] slice_append1 [of "v @ [d]" 5 4 9 f]
      slice_append1 [of "v @ [d] @ f" 9 4 13 n] slice_append1 [of "v @ [d] @ f @ n" 13 32 45 c]
      slice_append1 [of "v @ [d] @ f @ n @ c @ [h]" 46 32 78 ks]
      slice_append1 [of "v @ [d] @ f @ n @ c" 45 33 78 "h # ks"] by simp_all
  have at: "?D ! 4 = d" "?D ! 45 = h"
    using assms nth_append_length [of v d] nth_append_length [of "v @ [d] @ f @ n @ c" h] by simp_all
  have ends: "length ?D = 82" "take 78 ?D = v @ [d] @ f @ n @ c @ [h] @ ks" "drop 78 ?D = sum4"
    using assms by simp_all
  define D where "D = ?D"
  note facts = sl at ends
  show ?thesis using facts unfolding D_def [symmetric] by (simp add: Deserialize_def Let_def)
qed

lemma Serialize_shape:
  assumes "key_shape k"
  shows "Deserialize (Serialize k) = Ok k"
proof (cases "k_IsPrivate k")
  case True
  then show ?thesis
    using assms Deserialize_fields [of "k_Version k" "k_FingerPrint k" "k_ChildNumber k" "k_ChainCode k" "k_Key k"]
    by (simp add: Serialize_private addChecksumToBytes_def key_shape_def key_lengths_def)
next
  case False
  then obtain h ks where ks: "k_Key k = h # ks" "h \<noteq> 0" "length ks = 32"
    using assms by (cases "k_Key k") (auto simp: key_shape_def)
  then show ?thesis
    using False assms Deserialize_fields [of "k_Version k" "k_FingerPrint k" "k_ChildNumber k" "k_ChainCode k" ks]
    by (simp add: Serialize_public addChecksumToBytes_def key_shape_def key_lengths_def)
qed

lemma Deserialize_shape:
  assumes "Deserialize data = Ok k"
  shows "key_shape k \<and> data = Serialize k"
proof -
  from assms have len: "length data = 82" by (auto simp: Deserialize_def split: if_splits)
  define v d f n c h ks sum4 where parts: "v = go_slice 0 4 data" "d = data ! 4" "f = go_slice 5 9 data"
    "n = go_slice 9 13 data" "c = go_slice 13 45 data" "h = data ! 45" "ks = go_slice 46 78 data" "sum4 = drop 78 data"
  have lens: "length v = 4" "length f = 4" "length n = 4" "length c = 32" "length ks = 32" "length sum4 = 4"
    by (simp_all add: parts go_slice_def len)
  have data: "data = v @ [d] @ f @ n @ c @ [h] @ ks @ sum4" unfolding parts by (rule split_slices [OF len])
  from assms have sum4: "sum4 = key_checksum (v @ [d] @ f @ n @ c @ [h] @ ks)"
    and k: "k = \<lparr> k_Key = (if h = 0 then ks else h # ks), k_Version = v, k_ChildNumber = n, k_FingerPrint = f,
       k_ChainCode = c, k_Depth = d, k_IsPrivate = (h = 0) \<rparr>"
    unfolding data Deserialize_fields [OF lens] by (auto split: if_splits)
  have "key_shape k" using lens by (simp add: k key_shape_def key_lengths_def)
  moreover have "Serialize k = data" unfolding data sum4 by (simp add: k Serialize_def addChecksumToBytes_def)
  ultimately show ?thesis by simp
qed

lemma B58_shape: "key_shape k \<Longrightarrow> B58Deserialize (B58Serialize k) = Ok k"
  by (simp add: B58Deserialize_def B58Serialize_def Decode58_Encode58 Serialize_shape)

text \<open>
  C14. Extended keys are serialized without loss and nothing else is accepted: \<open>Deserialize\<close> returns a key exactly
  for the byte strings that \<open>Serialize\<close> produces for that key, the key having fields of the documented lengths
  and, when public, a first byte that is not zero. A wrong length or checksum is an error.
\<close>
theorem Deserialize_Serialize:
  "(Deserialize data = Ok k \<longleftrightarrow> key_shape k \<and> data = Serialize k) \<and> Deserialize data \<noteq> Panic \<and>
   (length data = 82 \<or> Deserialize data = Err ErrSerializedKeyWrongSize)"
proof (intro conjI)
  show "Deserialize data = Ok k \<longleftrightarrow> key_shape k \<and> data = Serialize k"
    using Serialize_shape Deserialize_shape by blast
qed (simp_all add: Deserialize_def Let_def)

section \<open>Child keys\<close>

text \<open>A way down the key tree: child indices, and the step to the public key.\<close>

datatype key_step = Child word32 | Neuter

fun derive_steps :: "(bytes \<Rightarrow> bytes) \<Rightarrow> Key \<Rightarrow> key_step list \<Rightarrow> (bip32_error, Key) res" where
  "derive_steps ripemd k [] = Ok k"
| "derive_steps ripemd k (Child i # ps) = res_bind (NewChildKey ripemd k i) (\<lambda>c. derive_steps ripemd c ps)"
| "derive_steps ripemd k (Neuter # ps) =
     (case PublicKey k of None \<Rightarrow> Panic | Some p \<Rightarrow> derive_steps ripemd p ps)"

lemma derive_steps_ok: "key_ok k \<Longrightarrow> derive_steps ripemd k ps = Ok c \<Longrightarrow> key_ok c"
proof (induction ripemd k ps rule: derive_steps.induct)
  case (2 ripemd k i ps)
  then show ?case by (auto simp: res_bind_Ok_iff dest: NewChildKey_ok)
next
  case (3 ripemd k ps)
  then show ?case by (auto split: option.splits dest: PublicKey_ok)
qed simp


lemma fingerprint4_20: "\<forall>d. length (ripemd d) = 20 \<Longrightarrow> fingerprint4 ripemd d = Some (take 4 (hash160 ripemd d))"
  by (simp add: fingerprint4_def hash160_def Let_def)

text \<open>
  C12. The child of a private key, in closed form: the HMAC of the parent's key bytes (hardened index) or public
  key (other index) and the index, keyed with the chain code; its right half is the child's chain code, the sum
  of its left half and the parent's scalar modulo the group order is the child's scalar, in 32 bytes, and the
  derivation fails exactly when that sum is zero. A left half beyond the group order is not rejected.
\<close>
theorem NewChildKey_private:
  assumes "key_ok k" "k_IsPrivate k" "\<forall>d. length (ripemd d) = 20"
  shows "NewChildKey ripemd k i =
    (case publicKeyForPrivateKey (k_Key k) of
       None \<Rightarrow> Panic
     | Some pub \<Rightarrow>
         (let m = hmac sha512 (k_ChainCode k) ((if i \<ge> FirstHardenedChild then 0 # k_Key k else pub) @ uint32Bytes i);
              s = (be_value (take 32 m) + be_value (k_Key k)) mod nat (curve_N secp)
          in if s = 0 then Err ErrInvalidPrivateKey
             else Ok \<lparr> k_Key = padBytes (be_bytes s) 32, k_Version = PrivateWalletVersion,
               k_ChildNumber = uint32Bytes i, k_FingerPrint = take 4 (hash160 ripemd pub),
               k_ChainCode = drop 32 m, k_Depth = k_Depth k + 1, k_IsPrivate = True \<rparr>))"
proof (cases "publicKeyForPrivateKey (k_Key k)")
  case None
  then show ?thesis using assms(2) by (auto simp: NewChildKey_def getIntermediary_def Let_def)
next
  case (Some pub)
  have pad: "addPrivateKeys a b = padBytes (be_bytes ((be_value a + be_value b) mod nat (curve_N secp))) 32" for a b
    by (simp add: addPrivateKeys_def padBytes_def Let_def)
  show ?thesis
    using assms(2) Some
    by (simp add: NewChildKey_def getIntermediary_def Let_def fingerprint4_20 [OF assms(3)] validatePrivateKey_eq
        addPrivateKeys_scalar pad [symmetric])
qed

definition demo_parent :: Key where
  "demo_parent = \<lparr> k_Key = replicate 31 0 @ [1], k_Version = PrivateWalletVersion, k_ChildNumber = [0, 0, 0, 0],
     k_FingerPrint = [0, 0, 0, 0], k_ChainCode = replicate 32 0, k_Depth = 255, k_IsPrivate = True \<rparr>"

lemma demo_parent_ok: "key_ok demo_parent \<and> k_IsPrivate demo_parent"
proof -
  have "be_value (replicate 31 0 @ [1]) = 1" by (simp add: be_value_def)
  then show ?thesis
    by (simp add: demo_parent_def key_ok_def key_lengths_def private_scalar_def PrivateWalletVersion_def initSecp256k1_def)
qed

theorem NewChildKey_private_witness:
  "NewChildKey (\<lambda>_. replicate 20 0) demo_parent 7 =
    (case publicKeyForPrivateKey (k_Key demo_parent) of
       None \<Rightarrow> Panic
     | Some pub \<Rightarrow>
         (let m = hmac sha512 (k_ChainCode demo_parent) (pub @ uint32Bytes 7);
              s = (be_value (take 32 m) + 1) mod nat (curve_N secp)
          in if s = 0 then Err ErrInvalidPrivateKey
             else Ok \<lparr> k_Key = padBytes (be_bytes s) 32, k_Version = PrivateWalletVersion,
               k_ChildNumber = uint32Bytes 7, k_FingerPrint = [0, 0, 0, 0],
               k_ChainCode = drop 32 m, k_Depth = 0, k_IsPrivate = True \<rparr>))"
proof -
  have v: "be_value (k_Key demo_parent) = 1" "k_Depth demo_parent + 1 = 0" "\<not> FirstHardenedChild \<le> 7"
    by (simp_all add: demo_parent_def be_value_def FirstHardenedChild_def)
  have "take 4 (hash160 (\<lambda>_. replicate 20 0) pub) = [0, 0, 0, 0]" for pub
    by (simp add: hash160_def numeral_eq_Suc)
  with v show ?thesis
    using NewChildKey_private [of demo_parent "\<lambda>_. replicate 20 0" 7] demo_parent_ok
    by (simp add: Let_def split: option.split)
qed



end
