(* ===== verification/WordList.thy ===== *)
theory WordList
  imports MnemonicCorrect
begin

text \<open>
  The English word list of \<open>common/bip39/wordlists/english.go\<close>, which \<open>common/seedphrase/words.go\<close> repeats word
  for word: one list per first letter, in the order of the file. The list has 2048 distinct words without white
  space, so the theorems on mnemonics hold for the list the program installs.
\<close>

section \<open>The words\<close>

definition english_a :: "string list" where
  "english_a =
    [''abandon'', ''ability'', ''able'', ''about'', ''above'', ''absent'', ''absorb'', ''abstract'', ''absurd'',
     ''abuse'', ''access'', ''accident'', ''account'', ''accuse'', ''achieve'', ''acid'', ''acoustic'',
     ''acquire'', ''across'', ''act'', ''action'', ''actor'', ''actress'', ''actual'', ''adapt'', ''add'',
     ''addict'', ''address'', ''adjust'', ''admit'', ''adult'', ''advance'', ''advice'', ''aerobic'', ''affair'',
     ''afford'', ''afraid'', ''again'', ''age'', ''agent'', ''agree'', ''ahead'', ''aim'', ''air'', ''airport'',
     ''aisle'', ''alarm'', ''album'', ''alcohol'', ''alert'', ''alien'', ''all'', ''alley'', ''allow'',
     ''almost'', ''alone'', ''alpha'', ''already'', ''also'', ''alter'', ''always'', ''amateur'', ''amazing'',
     ''among'', ''amount'', ''amused'', ''analyst'', ''anchor'', ''ancient'', ''anger'', ''angle'', ''angry'',
     ''animal'', ''ankle'', ''announce'', ''annual'', ''another'', ''answer'', ''antenna'', ''antique'',
     ''anxiety'', ''any'', ''apart'', ''apology'', ''appear'', ''apple'', ''approve'', ''april'', ''arch'',
     ''arctic'', ''area'', ''arena'', ''argue'', ''arm'', ''armed'', ''armor'', ''army'', ''around'',
     ''arrange'', ''arrest'', ''arrive'', ''arrow'', ''art'', ''artefact'', ''artist'', ''artwork'', ''ask'',
     ''aspect'', ''assault'', ''asset'', ''assist'', ''assume'', ''asthma'', ''athlete'', ''atom'', ''attack'',
     ''attend'', ''attitude'', ''attract'', ''auction'', ''audit'', ''august'', ''aunt'', ''author'', ''auto'',
     ''autumn'', ''average'', ''avocado'', ''avoid'', ''awake'', ''aware'', ''away'', ''awesome'', ''awful'',
     ''awkward'', ''axis'']"

definition english_b :: "string list" where
  "english_b =
    [''baby'', ''bachelor'', ''bacon'', ''badge'', ''bag'', ''balance'', ''balcony'', ''ball'', ''bamboo'',
     ''banana'', ''banner'', ''bar'', ''barely'', ''bargain'', ''barrel'', ''base'', ''basic'', ''basket'',
     ''battle'', ''beach'', ''bean'', ''beauty'', ''because'', ''become'', ''beef'', ''before'', ''begin'',
     ''behave'', ''behind'', ''believe'', ''below'', ''belt'', ''bench'', ''benefit'', ''best'', ''betray'',
     ''better'', ''between'', ''beyond'', ''bicycle'', ''bid'', ''bike'', ''bind'', ''biology'', ''bird'',
     ''birth'', ''bitter'', ''black'', ''blade'', ''blame'', ''blanket'', ''blast'', ''bleak'', ''bless'',
     ''blind'', ''blood'', ''blossom'', ''blouse'', ''blue'', ''blur'', ''blush'', ''board'', ''boat'', ''body'',
     ''boil'', ''bomb'', ''bone'', ''bonus'', ''book'', ''boost'', ''border'', ''boring'', ''borrow'', ''boss'',
     ''bottom'', ''bounce'', ''box'', ''boy'', ''bracket'', ''brain'', ''brand'', ''brass'', ''brave'',
     ''bread'', ''breeze'', ''brick'', ''bridge'', ''brief'', ''bright'', ''bring'', ''brisk'', ''broccoli'',
     ''broken'', ''bronze'', ''broom'', ''brother'', ''brown'', ''brush'', ''bubble'', ''buddy'', ''budget'',
     ''buffalo'', ''build'', ''bulb'', ''bulk'', ''bullet'', ''bundle'', ''bunker'', ''burden'', ''burger'',
     ''burst'', ''bus'', ''business'', ''busy'', ''butter'', ''buyer'', ''buzz'']"

definition english_c1 :: "string list" where
  "english_c1 =
    [''cabbage'', ''cabin'', ''cable'', ''cactus'', ''cage'', ''cake'', ''call'', ''calm'', ''camera'', ''camp'',
     ''can'', ''canal'', ''cancel'', ''candy'', ''cannon'', ''canoe'', ''canvas'', ''canyon'', ''capable'',
     ''capital'', ''captain'', ''car'', ''carbon'', ''card'', ''cargo'', ''carpet'', ''carry'', ''cart'',
     ''case'', ''cash'', ''casino'', ''castle'', ''casual'', ''cat'', ''catalog'', ''catch'', ''category'',
     ''cattle'', ''caught'', ''cause'', ''caution'', ''cave'', ''ceiling'', ''celery'', ''cement'', ''census'',
     ''century'', ''cereal'', ''certain'', ''chair'', ''chalk'', ''champion'', ''change'', ''chaos'',
     ''chapter'', ''charge'', ''chase'', ''chat'', ''cheap'', ''check'', ''cheese'', ''chef'', ''cherry'',
     ''chest'', ''chicken'', ''chief'', ''child'', ''chimney'', ''choice'', ''choose'', ''chronic'', ''chuckle'',
     ''chunk'', ''churn'', ''cigar'', ''cinnamon'', ''circle'', ''citizen'', ''city'', ''civil'', ''claim'',
     ''clap'', ''clarify'', ''claw'', ''clay'', ''clean'', ''clerk'', ''clever'', ''click'', ''client'',
     ''cliff'', ''climb'', ''clinic'', ''clip'', ''clock'', ''clog'', ''close'', ''cloth'', ''cloud'', ''clown'',
     ''club'', ''clump'', ''cluster'', ''clutch'', ''coach'', ''coast'', ''coconut'', ''code'', ''coffee'',
     ''coil'', ''coin'', ''collect'', ''color'', ''column'', ''combine'', ''come'', ''comfort'', ''comic'',
     ''common'', ''company'', ''concert'', ''conduct'', ''confirm'', ''congress'', ''connect'', ''consider'',
     ''control'', ''convince'', ''cook'', ''cool'', ''copper'', ''copy'', ''coral'', ''core'', ''corn'',
     ''correct'', ''cost'', ''cotton'', ''couch'', ''country'', ''couple'', ''course'', ''cousin'', ''cover'',
     ''coyote'', ''crack'', ''cradle'', ''craft'', ''cram'', ''crane'']"

definition english_c2 :: "string list" where
  "english_c2 =
    [''crash'', ''crater'', ''crawl'', ''crazy'', ''cream'', ''credit'', ''creek'', ''crew'', ''cricket'',
     ''crime'', ''crisp'', ''critic'', ''crop'', ''cross'', ''crouch'', ''crowd'', ''crucial'', ''cruel'',
     ''cruise'', ''crumble'', ''crunch'', ''crush'', ''cry'', ''crystal'', ''cube'', ''culture'', ''cup'',
     ''cupboard'', ''curious'', ''current'', ''curtain'', ''curve'', ''cushion'', ''custom'', ''cute'', ''cycle'']"

definition english_d :: "string list" where
  "english_d =
    [''dad'', ''damage'', ''damp'', ''dance'', ''danger'', ''daring'', ''dash'', ''daughter'', ''dawn'', ''day'',
     ''deal'', ''debate'', ''debris'', ''decade'', ''december'', ''decide'', ''decline'', ''decorate'',
     ''decrease'', ''deer'', ''defense'', ''define'', ''defy'', ''degree'', ''delay'', ''deliver'', ''demand'',
     ''demise'', ''denial'', ''dentist'', ''deny'', ''depart'', ''depend'', ''deposit'', ''depth'', ''deputy'',
     ''derive'', ''describe'', ''desert'', ''design'', ''desk'', ''despair'', ''destroy'', ''detail'',
     ''detect'', ''develop'', ''device'', ''devote'', ''diagram'', ''dial'', ''diamond'', ''diary'', ''dice'',
     ''diesel'', ''diet'', ''differ'', ''digital'', ''dignity'', ''dilemma'', ''dinner'', ''dinosaur'',
     ''direct'', ''dirt'', ''disagree'', ''discover'', ''disease'', ''dish'', ''dismiss'', ''disorder'',
     ''display'', ''distance'', ''divert'', ''divide'', ''divorce'', ''dizzy'', ''doctor'', ''document'',
     ''dog'', ''doll'', ''dolphin'', ''domain'', ''donate'', ''donkey'', ''donor'', ''door'', ''dose'',
     ''double'', ''dove'', ''draft'', ''dragon'', ''drama'', ''drastic'', ''draw'', ''dream'', ''dress'',
     ''drift'', ''drill'', ''drink'', ''drip'', ''drive'', ''drop'', ''drum'', ''dry'', ''duck'', ''dumb'',
     ''dune'', ''during'', ''dust'', ''dutch'', ''duty'', ''dwarf'', ''dynamic'']"

definition english_e :: "string list" where
  "english_e =
    [''eager'', ''eagle'', ''early'', ''earn'', ''earth'', ''easily'', ''east'', ''easy'', ''echo'', ''ecology'',
     ''economy'', ''edge'', ''edit'', ''educate'', ''effort'', ''egg'', ''eight'', ''either'', ''elbow'',
     ''elder'', ''electric'', ''elegant'', ''element'', ''elephant'', ''elevator'', ''elite'', ''else'',
     ''embark'', ''embody'', ''embrace'', ''emerge'', ''emotion'', ''employ'', ''empower'', ''empty'',
     ''enable'', ''enact'', ''end'', ''endless'', ''endorse'', ''enemy'', ''energy'', ''enforce'', ''engage'',
     ''engine'', ''enhance'', ''enjoy'', ''enlist'', ''enough'', ''enrich'', ''enroll'', ''ensure'', ''enter'',
     ''entire'', ''entry'', ''envelope'', ''episode'', ''equal'', ''equip'', ''era'', ''erase'', ''erode'',
     ''erosion'', ''error'', ''erupt'', ''escape'', ''essay'', ''essence'', ''estate'', ''eternal'', ''ethics'',
     ''evidence'', ''evil'', ''evoke'', ''evolve'', ''exact'', ''example'', ''excess'', ''exchange'', ''excite'',
     ''exclude'', ''excuse'', ''execute'', ''exercise'', ''exhaust'', ''exhibit'', ''exile'', ''exist'',
     ''exit'', ''exotic'', ''expand'', ''expect'', ''expire'', ''explain'', ''expose'', ''express'', ''extend'',
     ''extra'', ''eye'', ''eyebrow'']"

definition english_f :: "string list" where
  "english_f =
    [''fabric'', ''face'', ''faculty'', ''fade'', ''faint'', ''faith'', ''fall'', ''false'', ''fame'',
     ''family'', ''famous'', ''fan'', ''fancy'', ''fantasy'', ''farm'', ''fashion'', ''fat'', ''fatal'',
     ''father'', ''fatigue'', ''fault'', ''favorite'', ''feature'', ''february'', ''federal'', ''fee'', ''feed'',
     ''feel'', ''female'', ''fence'', ''festival'', ''fetch'', ''fever'', ''few'', ''fiber'', ''fiction'',
     ''field'', ''figure'', ''file'', ''film'', ''filter'', ''final'', ''find'', ''fine'', ''finger'',
     ''finish'', ''fire'', ''firm'', ''first'', ''fiscal'', ''fish'', ''fit'', ''fitness'', ''fix'', ''flag'',
     ''flame'', ''flash'', ''flat'', ''flavor'', ''flee'', ''flight'', ''flip'', ''float'', ''flock'', ''floor'',
     ''flower'', ''fluid'', ''flush'', ''fly'', ''foam'', ''focus'', ''fog'', ''foil'', ''fold'', ''follow'',
     ''food'', ''foot'', ''force'', ''forest'', ''forget'', ''fork'', ''fortune'', ''forum'', ''forward'',
     ''fossil'', ''foster'', ''found'', ''fox'', ''fragile'', ''frame'', ''frequent'', ''fresh'', ''friend'',
     ''fringe'', ''frog'', ''front'', ''frost'', ''frown'', ''frozen'', ''fruit'', ''fuel'', ''fun'', ''funny'',
     ''furnace'', ''fury'', ''future'']"

definition english_g :: "string list" where
  "english_g =
    [''gadget'', ''gain'', ''galaxy'', ''gallery'', ''game'', ''gap'', ''garage'', ''garbage'', ''garden'',
     ''garlic'', ''garment'', ''gas'', ''gasp'', ''gate'', ''gather'', ''gauge'', ''gaze'', ''general'',
     ''genius'', ''genre'', ''gentle'', ''genuine'', ''gesture'', ''ghost'', ''giant'', ''gift'', ''giggle'',
     ''ginger'', ''giraffe'', ''girl'', ''give'', ''glad'', ''glance'', ''glare'', ''glass'', ''glide'',
     ''glimpse'', ''globe'', ''gloom'', ''glory'', ''glove'', ''glow'', ''glue'', ''goat'', ''goddess'',
     ''gold'', ''good'', ''goose'', ''gorilla'', ''gospel'', ''gossip'', ''govern'', ''gown'', ''grab'',
     ''grace'', ''grain'', ''grant'', ''grape'', ''grass'', ''gravity'', ''great'', ''green'', ''grid'',
     ''grief'', ''grit'', ''grocery'', ''group'', ''grow'', ''grunt'', ''guard'', ''guess'', ''guide'',
     ''guilt'', ''guitar'', ''gun'', ''gym'']"

definition english_h :: "string list" where
  "english_h =
    [''habit'', ''hair'', ''half'', ''hammer'', ''hamster'', ''hand'', ''happy'', ''harbor'', ''hard'',
     ''harsh'', ''harvest'', ''hat'', ''have'', ''hawk'', ''hazard'', ''head'', ''health'', ''heart'', ''heavy'',
     ''hedgehog'', ''height'', ''hello'', ''helmet'', ''help'', ''hen'', ''hero'', ''hidden'', ''high'',
     ''hill'', ''hint'', ''hip'', ''hire'', ''history'', ''hobby'', ''hockey'', ''hold'', ''hole'', ''holiday'',
     ''hollow'', ''home'', ''honey'', ''hood'', ''hope'', ''horn'', ''horror'', ''horse'', ''hospital'',
     ''host'', ''hotel'', ''hour'', ''hover'', ''hub'', ''huge'', ''human'', ''humble'', ''humor'', ''hundred'',
     ''hungry'', ''hunt'', ''hurdle'', ''hurry'', ''hurt'', ''husband'', ''hybrid'']"

definition english_i :: "string list" where
  "english_i =
    [''ice'', ''icon'', ''idea'', ''identify'', ''idle'', ''ignore'', ''ill'', ''illegal'', ''illness'',
     ''image'', ''imitate'', ''immense'', ''immune'', ''impact'', ''impose'', ''improve'', ''impulse'', ''inch'',
     ''include'', ''income'', ''increase'', ''index'', ''indicate'', ''indoor'', ''industry'', ''infant'',
     ''inflict'', ''inform'', ''inhale'', ''inherit'', ''initial'', ''inject'', ''injury'', ''inmate'',
     ''inner'', ''innocent'', ''input'', ''inquiry'', ''insane'', ''insect'', ''inside'', ''inspire'',
     ''install'', ''intact'', ''interest'', ''into'', ''invest'', ''invite'', ''involve'', ''iron'', ''island'',
     ''isolate'', ''issue'', ''item'', ''ivory'']"

definition english_j :: "string list" where
  "english_j =
    [''jacket'', ''jaguar'', ''jar'', ''jazz'', ''jealous'', ''jeans'', ''jelly'', ''jewel'', ''job'', ''join'',
     ''joke'', ''journey'', ''joy'', ''judge'', ''juice'', ''jump'', ''jungle'', ''junior'', ''junk'', ''just'']"

definition english_k :: "string list" where
  "english_k =
    [''kangaroo'', ''keen'', ''keep'', ''ketchup'', ''key'', ''kick'', ''kid'', ''kidney'', ''kind'',
     ''kingdom'', ''kiss'', ''kit'', ''kitchen'', ''kite'', ''kitten'', ''kiwi'', ''knee'', ''knife'', ''knock'',
     ''know'']"

definition english_l :: "string list" where
  "english_l =
    [''lab'', ''label'', ''labor'', ''ladder'', ''lady'', ''lake'', ''lamp'', ''language'', ''laptop'',
     ''large'', ''later'', ''latin'', ''laugh'', ''laundry'', ''lava'', ''law'', ''lawn'', ''lawsuit'',
     ''layer'', ''lazy'', ''leader'', ''leaf'', ''learn'', ''leave'', ''lecture'', ''left'', ''leg'', ''legal'',
     ''legend'', ''leisure'', ''lemon'', ''lend'', ''length'', ''lens'', ''leopard'', ''lesson'', ''letter'',
     ''level'', ''liar'', ''liberty'', ''library'', ''license'', ''life'', ''lift'', ''light'', ''like'',
     ''limb'', ''limit'', ''link'', ''lion'', ''liquid'', ''list'', ''little'', ''live'', ''lizard'', ''load'',
     ''loan'', ''lobster'', ''local'', ''lock'', ''logic'', ''lonely'', ''long'', ''loop'', ''lottery'',
     ''loud'', ''lounge'', ''love'', ''loyal'', ''lucky'', ''luggage'', ''lumber'', ''lunar'', ''lunch'',
     ''luxury'', ''lyrics'']"

definition english_m :: "string list" where
  "english_m =
    [''machine'', ''mad'', ''magic'', ''magnet'', ''maid'', ''mail'', ''main'', ''major'', ''make'', ''mammal'',
     ''man'', ''manage'', ''mandate'', ''mango'', ''mansion'', ''manual'', ''maple'', ''marble'', ''march'',
     ''margin'', ''marine'', ''market'', ''marriage'', ''mask'', ''mass'', ''master'', ''match'', ''material'',
     ''math'', ''matrix'', ''matter'', ''maximum'', ''maze'', ''meadow'', ''mean'', ''measure'', ''meat'',
     ''mechanic'', ''medal'', ''media'', ''melody'', ''melt'', ''member'', ''memory'', ''mention'', ''menu'',
     ''mercy'', ''merge'', ''merit'', ''merry'', ''mesh'', ''message'', ''metal'', ''method'', ''middle'',
     ''midnight'', ''milk'', ''million'', ''mimic'', ''mind'', ''minimum'', ''minor'', ''minute'', ''miracle'',
     ''mirror'', ''misery'', ''miss'', ''mistake'', ''mix'', ''mixed'', ''mixture'', ''mobile'', ''model'',
     ''modify'', ''mom'', ''moment'', ''monitor'', ''monkey'', ''monster'', ''month'', ''moon'', ''moral'',
     ''more'', ''morning'', ''mosquito'', ''mother'', ''motion'', ''motor'', ''mountain'', ''mouse'', ''move'',
     ''movie'', ''much'', ''muffin'', ''mule'', ''multiply'', ''muscle'', ''museum'', ''mushroom'', ''music'',
     ''must'', ''mutual'', ''myself'', ''mystery'', ''myth'']"

definition english_n :: "string list" where
  "english_n =
    [''naive'', ''name'', ''napkin'', ''narrow'', ''nasty'', ''nation'', ''nature'', ''near'', ''neck'',
     ''need'', ''negative'', ''neglect'', ''neither'', ''nephew'', ''nerve'', ''nest'', ''net'', ''network'',
     ''neutral'', ''never'', ''news'', ''next'', ''nice'', ''night'', ''noble'', ''noise'', ''nominee'',
     ''noodle'', ''normal'', ''north'', ''nose'', ''notable'', ''note'', ''nothing'', ''notice'', ''novel'',
     ''now'', ''nuclear'', ''number'', ''nurse'', ''nut'']"

definition english_o :: "string list" where
  "english_o =
    [''oak'', ''obey'', ''object'', ''oblige'', ''obscure'', ''observe'', ''obtain'', ''obvious'', ''occur'',
     ''ocean'', ''october'', ''odor'', ''off'', ''offer'', ''office'', ''often'', ''oil'', ''okay'', ''old'',
     ''olive'', ''olympic'', ''omit'', ''once'', ''one'', ''onion'', ''online'', ''only'', ''open'', ''opera'',
     ''opinion'', ''oppose'', ''option'', ''orange'', ''orbit'', ''orchard'', ''order'', ''ordinary'', ''organ'',
     ''orient'', ''original'', ''orphan'', ''ostrich'', ''other'', ''outdoor'', ''outer'', ''output'',
     ''outside'', ''oval'', ''oven'', ''over'', ''own'', ''owner'', ''oxygen'', ''oyster'', ''ozone'']"

definition english_p :: "string list" where
  "english_p =
    [''pact'', ''paddle'', ''page'', ''pair'', ''palace'', ''palm'', ''panda'', ''panel'', ''panic'',
     ''panther'', ''paper'', ''parade'', ''parent'', ''park'', ''parrot'', ''party'', ''pass'', ''patch'',
     ''path'', ''patient'', ''patrol'', ''pattern'', ''pause'', ''pave'', ''payment'', ''peace'', ''peanut'',
     ''pear'', ''peasant'', ''pelican'', ''pen'', ''penalty'', ''pencil'', ''people'', ''pepper'', ''perfect'',
     ''permit'', ''person'', ''pet'', ''phone'', ''photo'', ''phrase'', ''physical'', ''piano'', ''picnic'',
     ''picture'', ''piece'', ''pig'', ''pigeon'', ''pill'', ''pilot'', ''pink'', ''pioneer'', ''pipe'',
     ''pistol'', ''pitch'', ''pizza'', ''place'', ''planet'', ''plastic'', ''plate'', ''play'', ''please'',
     ''pledge'', ''pluck'', ''plug'', ''plunge'', ''poem'', ''poet'', ''point'', ''polar'', ''pole'', ''police'',
     ''pond'', ''pony'', ''pool'', ''popular'', ''portion'', ''position'', ''possible'', ''post'', ''potato'',
     ''pottery'', ''poverty'', ''powder'', ''power'', ''practice'', ''praise'', ''predict'', ''prefer'',
     ''prepare'', ''present'', ''pretty'', ''prevent'', ''price'', ''pride'', ''primary'', ''print'',
     ''priority'', ''prison'', ''private'', ''prize'', ''problem'', ''process'', ''produce'', ''profit'',
     ''program'', ''project'', ''promote'', ''proof'', ''property'', ''prosper'', ''protect'', ''proud'',
     ''provide'', ''public'', ''pudding'', ''pull'', ''pulp'', ''pulse'', ''pumpkin'', ''punch'', ''pupil'',
     ''puppy'', ''purchase'', ''purity'', ''purpose'', ''purse'', ''push'', ''put'', ''puzzle'', ''pyramid'']"

definition english_q :: "string list" where
  "english_q =
    [''quality'', ''quantum'', ''quarter'', ''question'', ''quick'', ''quit'', ''quiz'', ''quote'']"

definition english_r :: "string list" where
  "english_r =
    [''rabbit'', ''raccoon'', ''race'', ''rack'', ''radar'', ''radio'', ''rail'', ''rain'', ''raise'', ''rally'',
     ''ramp'', ''ranch'', ''random'', ''range'', ''rapid'', ''rare'', ''rate'', ''rather'', ''raven'', ''raw'',
     ''razor'', ''ready'', ''real'', ''reason'', ''rebel'', ''rebuild'', ''recall'', ''receive'', ''recipe'',
     ''record'', ''recycle'', ''reduce'', ''reflect'', ''reform'', ''refuse'', ''region'', ''regret'',
     ''regular'', ''reject'', ''relax'', ''release'', ''relief'', ''rely'', ''remain'', ''remember'', ''remind'',
     ''remove'', ''render'', ''renew'', ''rent'', ''reopen'', ''repair'', ''repeat'', ''replace'', ''report'',
     ''require'', ''rescue'', ''resemble'', ''resist'', ''resource'', ''response'', ''result'', ''retire'',
     ''retreat'', ''return'', ''reunion'', ''reveal'', ''review'', ''reward'', ''rhythm'', ''rib'', ''ribbon'',
     ''rice'', ''rich'', ''ride'', ''ridge'', ''rifle'', ''right'', ''rigid'', ''ring'', ''riot'', ''ripple'',
     ''risk'', ''ritual'', ''rival'', ''river'', ''road'', ''roast'', ''robot'', ''robust'', ''rocket'',
     ''romance'', ''roof'', ''rookie'', ''room'', ''rose'', ''rotate'', ''rough'', ''round'', ''route'',
     ''royal'', ''rubber'', ''rude'', ''rug'', ''rule'', ''run'', ''runway'', ''rural'']"

definition english_s1 :: "string list" where
  "english_s1 =
    [''sad'', ''saddle'', ''sadness'', ''safe'', ''sail'', ''salad'', ''salmon'', ''salon'', ''salt'',
     ''salute'', ''same'', ''sample'', ''sand'', ''satisfy'', ''satoshi'', ''sauce'', ''sausage'', ''save'',
     ''say'', ''scale'', ''scan'', ''scare'', ''scatter'', ''scene'', ''scheme'', ''school'', ''science'',
     ''scissors'', ''scorpion'', ''scout'', ''scrap'', ''screen'', ''script'', ''scrub'', ''sea'', ''search'',
     ''season'', ''seat'', ''second'', ''secret'', ''section'', ''security'', ''seed'', ''seek'', ''segment'',
     ''select'', ''sell'', ''seminar'', ''senior'', ''sense'', ''sentence'', ''series'', ''service'',
     ''session'', ''settle'', ''setup'', ''seven'', ''shadow'', ''shaft'', ''shallow'', ''share'', ''shed'',
     ''shell'', ''sheriff'', ''shield'', ''shift'', ''shine'', ''ship'', ''shiver'', ''shock'', ''shoe'',
     ''shoot'', ''shop'', ''short'', ''shoulder'', ''shove'', ''shrimp'', ''shrug'', ''shuffle'', ''shy'',
     ''sibling'', ''sick'', ''side'', ''siege'', ''sight'', ''sign'', ''silent'', ''silk'', ''silly'',
     ''silver'', ''similar'', ''simple'', ''since'', ''sing'', ''siren'', ''sister'', ''situate'', ''six'',
     ''size'', ''skate'', ''sketch'', ''ski'', ''skill'', ''skin'', ''skirt'', ''skull'', ''slab'', ''slam'',
     ''sleep'', ''slender'', ''slice'', ''slide'', ''slight'', ''slim'', ''slogan'', ''slot'', ''slow'',
     ''slush'', ''small'', ''smart'', ''smile'', ''smoke'', ''smooth'', ''snack'', ''snake'', ''snap'',
     ''sniff'', ''snow'', ''soap'', ''soccer'', ''social'', ''sock'', ''soda'', ''soft'', ''solar'', ''soldier'',
     ''solid'', ''solution'', ''solve'', ''someone'', ''song'', ''soon'', ''sorry'', ''sort'', ''soul'',
     ''sound'', ''soup'', ''source'', ''south'', ''space'']"

definition english_s2 :: "string list" where
  "english_s2 =
    [''spare'', ''spatial'', ''spawn'', ''speak'', ''special'', ''speed'', ''spell'', ''spend'', ''sphere'',
     ''spice'', ''spider'', ''spike'', ''spin'', ''spirit'', ''split'', ''spoil'', ''sponsor'', ''spoon'',
     ''sport'', ''spot'', ''spray'', ''spread'', ''spring'', ''spy'', ''square'', ''squeeze'', ''squirrel'',
     ''stable'', ''stadium'', ''staff'', ''stage'', ''stairs'', ''stamp'', ''stand'', ''start'', ''state'',
     ''stay'', ''steak'', ''steel'', ''stem'', ''step'', ''stereo'', ''stick'', ''still'', ''sting'', ''stock'',
     ''stomach'', ''stone'', ''stool'', ''story'', ''stove'', ''strategy'', ''street'', ''strike'', ''strong'',
     ''struggle'', ''student'', ''stuff'', ''stumble'', ''style'', ''subject'', ''submit'', ''subway'',
     ''success'', ''such'', ''sudden'', ''suffer'', ''sugar'', ''suggest'', ''suit'', ''summer'', ''sun'',
     ''sunny'', ''sunset'', ''super'', ''supply'', ''supreme'', ''sure'', ''surface'', ''surge'', ''surprise'',
     ''surround'', ''survey'', ''suspect'', ''sustain'', ''swallow'', ''swamp'', ''swap'', ''swarm'', ''swear'',
     ''sweet'', ''swift'', ''swim'', ''swing'', ''switch'', ''sword'', ''symbol'', ''symptom'', ''syrup'',
     ''system'']"

definition english_t :: "string list" where
  "english_t =
    [''table'', ''tackle'', ''tag'', ''tail'', ''talent'', ''talk'', ''tank'', ''tape'', ''target'', ''task'',
     ''taste'', ''tattoo'', ''taxi'', ''teach'', ''team'', ''tell'', ''ten'', ''tenant'', ''tennis'', ''tent'',
     ''term'', ''test'', ''text'', ''thank'', ''that'', ''theme'', ''then'', ''theory'', ''there'', ''they'',
     ''thing'', ''this'', ''thought'', ''three'', ''thrive'', ''throw'', ''thumb'', ''thunder'', ''ticket'',
     ''tide'', ''tiger'', ''tilt'', ''timber'', ''time'', ''tiny'', ''tip'', ''tired'', ''tissue'', ''title'',
     ''toast'', ''tobacco'', ''today'', ''toddler'', ''toe'', ''together'', ''toilet'', ''token'', ''tomato'',
     ''tomorrow'', ''tone'', ''tongue'', ''tonight'', ''tool'', ''tooth'', ''top'', ''topic'', ''topple'',
     ''torch'', ''tornado'', ''tortoise'', ''toss'', ''total'', ''tourist'', ''toward'', ''tower'', ''town'',
     ''toy'', ''track'', ''trade'', ''traffic'', ''tragic'', ''train'', ''transfer'', ''trap'', ''trash'',
     ''travel'', ''tray'', ''treat'', ''tree'', ''trend'', ''trial'', ''tribe'', ''trick'', ''trigger'',
     ''trim'', ''trip'', ''trophy'', ''trouble'', ''truck'', ''true'', ''truly'', ''trumpet'', ''trust'',
     ''truth'', ''try'', ''tube'', ''tuition'', ''tumble'', ''tuna'', ''tunnel'', ''turkey'', ''turn'',
     ''turtle'', ''twelve'', ''twenty'', ''twice'', ''twin'', ''twist'', ''two'', ''type'', ''typical'']"

definition english_u :: "string list" where
  "english_u =
    [''ugly'', ''umbrella'', ''unable'', ''unaware'', ''uncle'', ''uncover'', ''under'', ''undo'', ''unfair'',
     ''unfold'', ''unhappy'', ''uniform'', ''unique'', ''unit'', ''universe'', ''unknown'', ''unlock'',
     ''until'', ''unusual'', ''unveil'', ''update'', ''upgrade'', ''uphold'', ''upon'', ''upper'', ''upset'',
     ''urban'', ''urge'', ''usage'', ''use'', ''used'', ''useful'', ''useless'', ''usual'', ''utility'']"

definition english_v :: "string list" where
  "english_v =
    [''vacant'', ''vacuum'', ''vague'', ''valid'', ''valley'', ''valve'', ''van'', ''vanish'', ''vapor'',
     ''various'', ''vast'', ''vault'', ''vehicle'', ''velvet'', ''vendor'', ''venture'', ''venue'', ''verb'',
     ''verify'', ''version'', ''very'', ''vessel'', ''veteran'', ''viable'', ''vibrant'', ''vicious'',
     ''victory'', ''video'', ''view'', ''village'', ''vintage'', ''violin'', ''virtual'', ''virus'', ''visa'',
     ''visit'', ''visual'', ''vital'', ''vivid'', ''vocal'', ''voice'', ''void'', ''volcano'', ''volume'',
     ''vote'', ''voyage'']"

definition english_w :: "string list" where
  "english_w =
    [''wage'', ''wagon'', ''wait'', ''walk'', ''wall'', ''walnut'', ''want'', ''warfare'', ''warm'', ''warrior'',
     ''wash'', ''wasp'', ''waste'', ''water'', ''wave'', ''way'', ''wealth'', ''weapon'', ''wear'', ''weasel'',
     ''weather'', ''web'', ''wedding'', ''weekend'', ''weird'', ''welcome'', ''west'', ''wet'', ''whale'',
     ''what'', ''wheat'', ''wheel'', ''when'', ''where'', ''whip'', ''whisper'', ''wide'', ''width'', ''wife'',
     ''wild'', ''will'', ''win'', ''window'', ''wine'', ''wing'', ''wink'', ''winner'', ''winter'', ''wire'',
     ''wisdom'', ''wise'', ''wish'', ''witness'', ''wolf'', ''woman'', ''wonder'', ''wood'', ''wool'', ''word'',
     ''work'', ''world'', ''worry'', ''worth'', ''wrap'', ''wreck'', ''wrestle'', ''wrist'', ''write'', ''wrong'']"

definition english_y :: "string list" where
  "english_y =
    [''yard'', ''year'', ''yellow'', ''you'', ''young'', ''youth'']"

definition english_z :: "string list" where
  "english_z =
    [''zebra'', ''zero'', ''zone'', ''zoo'']"

definition English :: "string list" where
  "English = concat
    [english_a, english_b, english_c1, english_c2, english_d, english_e, english_f, english_g,
     english_h, english_i, english_j, english_k, english_l, english_m, english_n, english_o,
     english_p, english_q, english_r, english_s1, english_s2, english_t, english_u, english_v,
     english_w, english_y, english_z]"

section \<open>The list is usable\<close>

text \<open>The words are in the order of their bits, so they are distinct; and no white space has bit 6 set.\<close>

fun char_bits :: "char \<Rightarrow> bool list" where
  "char_bits (Char b0 b1 b2 b3 b4 b5 b6 b7) = [b7, b6, b5, b4, b3, b2, b1, b0]"

fun bits_less :: "bool list \<Rightarrow> bool list \<Rightarrow> bool" where
  "bits_less [] bs \<longleftrightarrow> bs \<noteq> []"
| "bits_less (a # as) [] \<longleftrightarrow> False"
| "bits_less (a # as) (b # bs) \<longleftrightarrow> (if a then b \<and> bits_less as bs else b \<or> bits_less as bs)"

definition str_less :: "string \<Rightarrow> string \<Rightarrow> bool" where
  "str_less x y = bits_less (concat (map char_bits x)) (concat (map char_bits y))"

fun increasing :: "string list \<Rightarrow> bool" where
  "increasing [] \<longleftrightarrow> True"
| "increasing [x] \<longleftrightarrow> True"
| "increasing (x # y # zs) \<longleftrightarrow> str_less x y \<and> increasing (y # zs)"

fun letter :: "char \<Rightarrow> bool" where
  "letter (Char b0 b1 b2 b3 b4 b5 b6 b7) = b6"

lemma bits_less_irrefl: "\<not> bits_less x x"
  by (induction x) auto

lemma bits_less_trans: "bits_less x y \<Longrightarrow> bits_less y z \<Longrightarrow> bits_less x z"
proof (induction x y arbitrary: z rule: bits_less.induct)
  case (1 bs)
  then show ?case by (cases bs; cases z) auto
next
  case (3 a as b bs)
  then show ?case by (cases z) (auto split: if_splits)
qed simp

lemma increasing_first: "increasing (x # ys) \<Longrightarrow> y \<in> set ys \<Longrightarrow> str_less x y"
  by (induction ys arbitrary: x) (auto simp: str_less_def dest: bits_less_trans)

lemma increasing_distinct: "increasing xs \<Longrightarrow> distinct xs"
proof (induction xs)
  case (Cons x xs)
  then have "increasing xs" by (cases xs) auto
  with Cons increasing_first [of x xs] bits_less_irrefl show ?case by (auto simp: str_less_def)
qed simp

lemma letter_not_space: "letter c \<Longrightarrow> \<not> is_space c"
  by (cases c) (auto simp: is_space_def of_char_def)

text \<open>One block of the list, and the blocks one after the other.\<close>

definition block_ok :: "string \<Rightarrow> string \<Rightarrow> nat \<Rightarrow> string list \<Rightarrow> bool" where
  "block_ok first final n ws \<longleftrightarrow> increasing ws \<and> list_all (\<lambda>w. w \<noteq> [] \<and> list_all letter w) ws \<and>
     ws \<noteq> [] \<and> hd ws = first \<and> last ws = final \<and> length ws = n"

fun blocks_ok :: "(string \<times> string \<times> nat \<times> string list) list \<Rightarrow> bool" where
  "blocks_ok [] \<longleftrightarrow> True"
| "blocks_ok [(a, z, n, ws)] \<longleftrightarrow> block_ok a z n ws"
| "blocks_ok ((a, z, n, ws) # (b, rest) # bs) \<longleftrightarrow> block_ok a z n ws \<and> str_less z b \<and> blocks_ok ((b, rest) # bs)"

lemma increasing_append:
  "increasing xs \<Longrightarrow> increasing ys \<Longrightarrow> xs \<noteq> [] \<Longrightarrow> ys = [] \<or> str_less (last xs) (hd ys) \<Longrightarrow> increasing (xs @ ys)"
proof (induction xs rule: increasing.induct)
  case (2 x)
  then show ?case by (cases ys) auto
qed auto

lemma blocks_ok_concat:
  "blocks_ok bs \<Longrightarrow> increasing (concat (map (\<lambda>(a, z, n, ws). ws) bs)) \<and>
     list_all (\<lambda>w. w \<noteq> [] \<and> list_all letter w) (concat (map (\<lambda>(a, z, n, ws). ws) bs)) \<and>
     length (concat (map (\<lambda>(a, z, n, ws). ws) bs)) = sum_list (map (\<lambda>(a, z, n, ws). n) bs) \<and>
     (bs \<noteq> [] \<longrightarrow> hd (concat (map (\<lambda>(a, z, n, ws). ws) bs)) = fst (hd bs))"
proof (induction bs rule: blocks_ok.induct)
  case (3 a z n ws b rest bs)
  then show ?case
    using increasing_append [of ws "concat (map (\<lambda>(a, z, n, ws). ws) ((b, rest) # bs))"]
    by (auto simp: block_ok_def)
qed (auto simp: block_ok_def)

lemma english_a_ok: "block_ok ''abandon'' ''axis'' 136 english_a"
  by code_simp

lemma english_b_ok: "block_ok ''baby'' ''buzz'' 117 english_b"
  by code_simp

lemma english_c1_ok: "block_ok ''cabbage'' ''crane'' 150 english_c1"
  by code_simp

lemma english_c2_ok: "block_ok ''crash'' ''cycle'' 36 english_c2"
  by code_simp

lemma english_d_ok: "block_ok ''dad'' ''dynamic'' 112 english_d"
  by code_simp

lemma english_e_ok: "block_ok ''eager'' ''eyebrow'' 100 english_e"
  by code_simp

lemma english_f_ok: "block_ok ''fabric'' ''future'' 106 english_f"
  by code_simp

lemma english_g_ok: "block_ok ''gadget'' ''gym'' 76 english_g"
  by code_simp

lemma english_h_ok: "block_ok ''habit'' ''hybrid'' 64 english_h"
  by code_simp

lemma english_i_ok: "block_ok ''ice'' ''ivory'' 55 english_i"
  by code_simp

lemma english_j_ok: "block_ok ''jacket'' ''just'' 20 english_j"
  by code_simp

lemma english_k_ok: "block_ok ''kangaroo'' ''know'' 20 english_k"
  by code_simp

lemma english_l_ok: "block_ok ''lab'' ''lyrics'' 76 english_l"
  by code_simp

lemma english_m_ok: "block_ok ''machine'' ''myth'' 105 english_m"
  by code_simp

lemma english_n_ok: "block_ok ''naive'' ''nut'' 41 english_n"
  by code_simp

lemma english_o_ok: "block_ok ''oak'' ''ozone'' 55 english_o"
  by code_simp

lemma english_p_ok: "block_ok ''pact'' ''pyramid'' 132 english_p"
  by code_simp

lemma english_q_ok: "block_ok ''quality'' ''quote'' 8 english_q"
  by code_simp

lemma english_r_ok: "block_ok ''rabbit'' ''rural'' 108 english_r"
  by code_simp

lemma english_s1_ok: "block_ok ''sad'' ''space'' 150 english_s1"
  by code_simp

lemma english_s2_ok: "block_ok ''spare'' ''system'' 100 english_s2"
  by code_simp

lemma english_t_ok: "block_ok ''table'' ''typical'' 121 english_t"
  by code_simp

lemma english_u_ok: "block_ok ''ugly'' ''utility'' 35 english_u"
  by code_simp

lemma english_v_ok: "block_ok ''vacant'' ''voyage'' 46 english_v"
  by code_simp

lemma english_w_ok: "block_ok ''wage'' ''wrong'' 69 english_w"
  by code_simp

lemma english_y_ok: "block_ok ''yard'' ''youth'' 6 english_y"
  by code_simp

lemma english_z_ok: "block_ok ''zebra'' ''zoo'' 4 english_z"
  by code_simp

definition english_blocks :: "(string \<times> string \<times> nat \<times> string list) list" where
  "english_blocks =
    [(''abandon'', ''axis'', 136, english_a), (''baby'', ''buzz'', 117, english_b),
     (''cabbage'', ''crane'', 150, english_c1), (''crash'', ''cycle'', 36, english_c2),
     (''dad'', ''dynamic'', 112, english_d), (''eager'', ''eyebrow'', 100, english_e),
     (''fabric'', ''future'', 106, english_f), (''gadget'', ''gym'', 76, english_g),
     (''habit'', ''hybrid'', 64, english_h), (''ice'', ''ivory'', 55, english_i),
     (''jacket'', ''just'', 20, english_j), (''kangaroo'', ''know'', 20, english_k),
     (''lab'', ''lyrics'', 76, english_l), (''machine'', ''myth'', 105, english_m),
     (''naive'', ''nut'', 41, english_n), (''oak'', ''ozone'', 55, english_o),
     (''pact'', ''pyramid'', 132, english_p), (''quality'', ''quote'', 8, english_q),
     (''rabbit'', ''rural'', 108, english_r), (''sad'', ''space'', 150, english_s1),
     (''spare'', ''system'', 100, english_s2), (''table'', ''typical'', 121, english_t),
     (''ugly'', ''utility'', 35, english_u), (''vacant'', ''voyage'', 46, english_v),
     (''wage'', ''wrong'', 69, english_w), (''yard'', ''youth'', 6, english_y),
     (''zebra'', ''zoo'', 4, english_z)]"

lemma English_blocks: "English = concat (map (\<lambda>(a, z, n, ws). ws) english_blocks)"
  by (simp add: English_def english_blocks_def)

lemmas english_block_facts = english_a_ok english_b_ok english_c1_ok english_c2_ok english_d_ok english_e_ok
  english_f_ok english_g_ok english_h_ok english_i_ok english_j_ok english_k_ok
  english_l_ok english_m_ok english_n_ok english_o_ok english_p_ok english_q_ok
  english_r_ok english_s1_ok english_s2_ok english_t_ok english_u_ok english_v_ok
  english_w_ok english_y_ok english_z_ok

lemma english_order: "blocks_ok english_blocks"
proof -
  have less: "str_less ''axis'' ''baby''"
    "str_less ''buzz'' ''cabbage''"
    "str_less ''crane'' ''crash''"
    "str_less ''cycle'' ''dad''"
    "str_less ''dynamic'' ''eager''"
    "str_less ''eyebrow'' ''fabric''"
    "str_less ''future'' ''gadget''"
    "str_less ''gym'' ''habit''"
    "str_less ''hybrid'' ''ice''"
    "str_less ''ivory'' ''jacket''"
    "str_less ''just'' ''kangaroo''"
    "str_less ''know'' ''lab''"
    "str_less ''lyrics'' ''machine''"
    "str_less ''myth'' ''naive''"
    "str_less ''nut'' ''oak''"
    "str_less ''ozone'' ''pact''"
    "str_less ''pyramid'' ''quality''"
    "str_less ''quote'' ''rabbit''"
    "str_less ''rural'' ''sad''"
    "str_less ''space'' ''spare''"
    "str_less ''system'' ''table''"
    "str_less ''typical'' ''ugly''"
    "str_less ''utility'' ''vacant''"
    "str_less ''voyage'' ''wage''"
    "str_less ''wrong'' ''yard''"
    "str_less ''youth'' ''zebra''"
    by code_simp+
  show ?thesis by (simp only: english_blocks_def blocks_ok.simps english_block_facts less simp_thms)
qed

lemma English_ok: "words_ok English"
proof -
  have sum: "sum_list (map (\<lambda>(a, z, n, ws). n) english_blocks) = 2048" by (simp add: english_blocks_def)
  note c = blocks_ok_concat [OF english_order, folded English_blocks, unfolded sum]
  then have "list_all plain_word English"
    using letter_not_space unfolding plain_word_def list_all_iff by blast
  then show ?thesis using c increasing_distinct by (simp add: words_ok_def)
qed

end
