(* ===== verification/Bip44.thy ===== *)
theory Bip44
  imports Bip32 WordList AddressPoolCorrect
begin

text \<open>
  The account tree of BIP-44 (\<open>common/bip44\<close>), the seed and the entropy of a mnemonic (\<open>common/bip39\<close>), and the
  wallet operations the address manager builds from them (\<open>address/bip44support.go\<close>). PBKDF2 comes from
  \<open>golang.org/x/crypto\<close> and is the parameter \<open>pbkdf2\<close>; the random source is the parameter \<open>rand\<close>.

  The manager sees mnemonics through the interface \<open>seed_phrases\<close>: a phrase it generates reads back as its
  entropy. The English word list satisfies it, and an address generated with a phrase is recovered from it.
\<close>

section \<open>Coin types\<close>

definition Purpose :: word32 where
  "Purpose = 0x8000002C"

definition TypeEther :: word32 where
  "TypeEther = 0x8000003c"

definition coinTypes :: "(string \<times> word32) list" where
  "coinTypes =
    [(''Bitcoin'', 0x80000000), (''Testnet'', 0x80000001), (''Litecoin'', 0x80000002),
     (''Dogecoin'', 0x80000003), (''Reddcoin'', 0x80000004), (''Dash'', 0x80000005),
     (''Peercoin'', 0x80000006), (''Namecoin'', 0x80000007), (''Feathercoin'', 0x80000008),
     (''Counterparty'', 0x80000009), (''Blackcoin'', 0x8000000a), (''NuShares'', 0x8000000b),
     (''NuBits'', 0x8000000c), (''Mazacoin'', 0x8000000d), (''Viacoin'', 0x8000000e),
     (''ClearingHouse'', 0x8000000f), (''Rubycoin'', 0x80000010), (''Groestlcoin'', 0x80000011),
     (''Digitalcoin'', 0x80000012), (''Cannacoin'', 0x80000013), (''DigiByte'', 0x80000014),
     (''OpenAssets'', 0x80000015), (''Monacoin'', 0x80000016), (''Clams'', 0x80000017),
     (''Primecoin'', 0x80000018), (''Neoscoin'', 0x80000019), (''Jumbucks'', 0x8000001a),
     (''ziftrCOIN'', 0x8000001b), (''Vertcoin'', 0x8000001c), (''NXT'', 0x8000001d), (''Burst'', 0x8000001e),
     (''MonetaryUnit'', 0x8000001f), (''Zoom'', 0x80000020), (''Vpncoin'', 0x80000021),
     (''CanadaeCoin'', 0x80000022), (''ShadowCash'', 0x80000023), (''ParkByte'', 0x80000024),
     (''Pandacoin'', 0x80000025), (''StartCOIN'', 0x80000026), (''MOIN'', 0x80000027),
     (''Argentum'', 0x8000002D), (''GlobalCurrencyReserve'', 0x80000031), (''Novacoin'', 0x80000032),
     (''Asiacoin'', 0x80000033), (''Bitcoindark'', 0x80000034), (''Dopecoin'', 0x80000035),
     (''Templecoin'', 0x80000036), (''AIB'', 0x80000037), (''EDRCoin'', 0x80000038), (''Syscoin'', 0x80000039),
     (''Solarcoin'', 0x8000003a), (''Smileycoin'', 0x8000003b), (''Ether'', 0x8000003c),
     (''EtherClassic'', 0x8000003d), (''OpenChain'', 0x80000040), (''OKCash'', 0x80000045),
     (''DogecoinDark'', 0x8000004d), (''ElectronicGulden'', 0x8000004e), (''ClubCoin'', 0x8000004f),
     (''RichCoin'', 0x80000050), (''Potcoin'', 0x80000051), (''Quarkcoin'', 0x80000052),
     (''Terracoin'', 0x80000053), (''Gridcoin'', 0x80000054), (''Auroracoin'', 0x80000055),
     (''IXCoin'', 0x80000056), (''Gulden'', 0x80000057), (''BitBean'', 0x80000058), (''Bata'', 0x80000059),
     (''Myriadcoin'', 0x8000005a), (''BitSend'', 0x8000005b), (''Unobtanium'', 0x8000005c),
     (''MasterTrader'', 0x8000005d), (''GoldBlocks'', 0x8000005e), (''Saham'', 0x8000005f),
     (''Chronos'', 0x80000060), (''Ubiquoin'', 0x80000061), (''Evotion'', 0x80000062),
     (''SaveTheOcean'', 0x80000063), (''BigUp'', 0x80000064), (''GameCredits'', 0x80000065),
     (''Dollarcoins'', 0x80000066), (''Zayedcoin'', 0x80000067), (''Dubaicoin'', 0x80000068),
     (''Stratis'', 0x80000069), (''Shilling'', 0x8000006a), (''PiggyCoin'', 0x80000076),
     (''Monero'', 0x80000080), (''NavCoin'', 0x80000082), (''Zcash'', 0x80000085), (''Lisk'', 0x80000086)]"

definition CoinType :: "string \<Rightarrow> word32" where
  "CoinType coin = (case map_of coinTypes coin of Some coinType \<Rightarrow> coinType | None \<Rightarrow> TypeEther)"

section \<open>Seeds\<close>

type_synonym pbkdf2_fun = "bytes \<Rightarrow> bytes \<Rightarrow> nat \<Rightarrow> nat \<Rightarrow> hash_alg \<Rightarrow> bytes"

definition NewSeed :: "pbkdf2_fun \<Rightarrow> string \<Rightarrow> string \<Rightarrow> bytes" where
  "NewSeed pbkdf2 mnemonic password =
     pbkdf2 (bytes_of_string mnemonic) (bytes_of_string (''mnemonic'' @ password)) 2048 64 sha512"

definition NewSeedWithErrorChecking ::
  "pbkdf2_fun \<Rightarrow> string list \<Rightarrow> string \<Rightarrow> string \<Rightarrow> (bip39_error, bytes) res" where
  "NewSeedWithErrorChecking pbkdf2 wordList mnemonic password =
     res_bind (MnemonicToByteArray wordList mnemonic False) (\<lambda>_. Ok (NewSeed pbkdf2 mnemonic password))"

definition NewEntropy :: "(nat \<Rightarrow> bytes) \<Rightarrow> nat \<Rightarrow> (bip39_error, bytes) res" where
  "NewEntropy rand bitSize = res_bind (validateEntropyBitSize bitSize) (\<lambda>_. Ok (rand (bitSize div 8)))"

section \<open>Accounts\<close>

datatype bip44_error = Bip39Err bip39_error | Bip32Err bip32_error

definition NewKeyFromMasterKey ::
  "(bytes \<Rightarrow> bytes) \<Rightarrow> Key \<Rightarrow> word32 \<Rightarrow> word32 \<Rightarrow> word32 \<Rightarrow> word32 \<Rightarrow> (bip32_error, Key) res" where
  "NewKeyFromMasterKey ripemd masterKey coin account chain address =
     res_bind (NewChildKey ripemd masterKey Purpose) (\<lambda>child.
     res_bind (NewChildKey ripemd child coin) (\<lambda>child.
     res_bind (NewChildKey ripemd child account) (\<lambda>child.
     res_bind (NewChildKey ripemd child chain) (\<lambda>child.
     res_bind (NewChildKey ripemd child address) (\<lambda>child. Ok child)))))"

definition NewKeyFromMnemonic ::
  "(bytes \<Rightarrow> bytes) \<Rightarrow> pbkdf2_fun \<Rightarrow> string list \<Rightarrow> string \<Rightarrow> word32 \<Rightarrow> word32 \<Rightarrow> word32 \<Rightarrow> word32 \<Rightarrow>
   (bip44_error, Key) res" where
  "NewKeyFromMnemonic ripemd pbkdf2 wordList mnemonic coin account chain address =
     res_bind (res_map_err Bip39Err (NewSeedWithErrorChecking pbkdf2 wordList mnemonic [])) (\<lambda>seed.
     res_bind (res_map_err Bip32Err (NewMasterKey seed)) (\<lambda>masterKey.
     res_map_err Bip32Err (NewKeyFromMasterKey ripemd masterKey coin account chain address)))"

text \<open>
  The operations the address manager takes from these packages: \<open>bip39.NewMnemonic\<close> split at the spaces,
  \<open>bip39.EntropyFromMnemonic\<close> of the joined words, and the key at \<open>m/44'/coin'/0'/0/0\<close> of the unprotected seed.
\<close>

definition derive_account :: "(bytes \<Rightarrow> bytes) \<Rightarrow> pbkdf2_fun \<Rightarrow> string \<Rightarrow> word32 \<Rightarrow> (bip32_error, bytes) res" where
  "derive_account ripemd pbkdf2 mnemonicStr coinType =
     res_bind (NewMasterKey (NewSeed pbkdf2 mnemonicStr [])) (\<lambda>masterKey.
     res_bind (NewKeyFromMasterKey ripemd masterKey coinType 0x80000000 0 0) (\<lambda>key. Ok (k_Key key)))"

definition go_bip :: "(bytes \<Rightarrow> bytes) \<Rightarrow> pbkdf2_fun \<Rightarrow> bip_ops" where
  "go_bip ripemd pbkdf2 =
     \<lparr> bip_NewMnemonic = (\<lambda>entropy. res_map_err (\<lambda>_. ())
         (res_bind (NewMnemonic English entropy) (\<lambda>s. Ok (split_on (CHR '' '') s)))),
       bip_EntropyFromMnemonic = (\<lambda>mnemonic. res_map_err (\<lambda>_. ())
         (EntropyFromMnemonic English (strings_Join '' '' mnemonic))),
       bip_derive = (\<lambda>mnemonic coin. res_map_err (\<lambda>_. ())
         (derive_account ripemd pbkdf2 (strings_Join '' '' mnemonic) (CoinType coin))) \<rparr>"

section \<open>Words and phrases\<close>

lemma split_on_ne: "split_on c s \<noteq> []"
  by (cases s) (auto split: list.splits)

lemma split_on_word: "c \<notin> set w \<Longrightarrow> split_on c (w @ c # s) = w # split_on c s"
  by (induction w) auto

lemma split_on_last: "c \<notin> set w \<Longrightarrow> split_on c w = [w]"
  by (induction w) auto

lemma split_Join: "ws \<noteq> [] \<Longrightarrow> \<forall>w \<in> set ws. c \<notin> set w \<Longrightarrow> split_on c (strings_Join [c] ws) = ws"
  by (induction "[c]" ws rule: strings_Join.induct) (auto simp: split_on_last split_on_word)

lemma plain_word_no_space: "plain_word w \<Longrightarrow> CHR '' '' \<notin> set w"
  by (auto simp: plain_word_def list_all_iff is_space_def)

lemma split_sentence:
  assumes "words_ok ws" "entropy_ok c e"
  shows "split_on (CHR '' '') (strings_Join '' '' (sentence ws c e)) = sentence ws c e"
proof (rule split_Join)
  show "sentence ws c e \<noteq> []" using assms(2) by (simp add: sentence_def entropy_ok_def flip: length_greater_0_conv)
  show "\<forall>w \<in> set (sentence ws c e). CHR '' '' \<notin> set w"
    using plain_words [OF assms(1)] plain_word_no_space by (auto simp: list_all_iff)
qed

section \<open>The interface of the address manager\<close>

locale seed_phrases =
  fixes ops :: bip_ops and fits :: "bytes \<Rightarrow> bool"
  assumes phrase_read_back:
    "fits e \<Longrightarrow> \<exists>m. bip_NewMnemonic ops e = Ok m \<and> bip_EntropyFromMnemonic ops m = Ok e"
begin

lemma recover_phrase:
  assumes "env_bip E = ops" "fits e" "bip_NewMnemonic ops e = Ok m"
  shows "recoverBIP44AddressFromMnemonic E m coin = bip44EntropyToAddressRecord E e coin"
  using phrase_read_back [OF assms(2)] assms by (auto simp: recoverBIP44AddressFromMnemonic_def)

lemma record_phrase:
  assumes "env_bip E = ops" "fits e" "bip44EntropyToAddressRecord E e coin = Ok a"
  shows "bip_NewMnemonic ops e = Ok (a_Bip39Mnemonic a) \<and> bip_derive ops (a_Bip39Mnemonic a) coin = Ok (a_PrivateKey a)"
  using assms by (auto simp: bip44EntropyToAddressRecord_def split: res.splits)

end

lemma entropy_sizes: "length e = 16 \<or> length e = 32 \<Longrightarrow> \<exists>c. entropy_ok c e \<and> 3 * c = 3 * length e div 4"
  by (rule exI [of _ "length e div 4"]) (auto simp: entropy_ok_def)

lemma go_phrase:
  assumes "entropy_ok c e"
  shows "bip_NewMnemonic (go_bip ripemd pbkdf2) e = Ok (sentence English c e)"
    "bip_EntropyFromMnemonic (go_bip ripemd pbkdf2) (sentence English c e) = Ok e"
  by (simp_all add: go_bip_def NewMnemonic_sentence [OF English_ok assms] split_sentence [OF English_ok assms]
      EntropyFromMnemonic_sentence [OF English_ok assms])

interpretation go_phrases: seed_phrases "go_bip ripemd pbkdf2" "\<lambda>e. length e = 16 \<or> length e = 32"
  for ripemd pbkdf2
proof (unfold_locales)
  fix e :: bytes assume "length e = 16 \<or> length e = 32"
  then obtain c where "entropy_ok c e" using entropy_sizes by blast
  then show "\<exists>m. bip_NewMnemonic (go_bip ripemd pbkdf2) e = Ok m \<and>
      bip_EntropyFromMnemonic (go_bip ripemd pbkdf2) m = Ok e"
    using go_phrase by blast
qed

section \<open>Wallet addresses\<close>

lemma NewChildKey_private_iff: "NewChildKey ripemd k i = Ok c \<Longrightarrow> k_IsPrivate c = k_IsPrivate k"
  by (auto simp: NewChildKey_def Let_def res_bind_Ok_iff split: if_splits option.splits)

lemma derive_account_scalar:
  assumes "derive_account ripemd pbkdf2 s coin = Ok key"
  shows "private_scalar key"
proof -
  from assms obtain k c where k: "NewMasterKey (NewSeed pbkdf2 s []) = Ok k" and key: "key = k_Key c"
    and c: "NewKeyFromMasterKey ripemd k coin 0x80000000 0 0 = Ok c"
    by (auto simp: derive_account_def res_bind_Ok_iff)
  have "key_ok c" using c by (auto simp: NewKeyFromMasterKey_def res_bind_Ok_iff dest: NewChildKey_ok)
  moreover have "k_IsPrivate c = k_IsPrivate k"
    using c unfolding NewKeyFromMasterKey_def res_bind_Ok_iff by (metis NewChildKey_private_iff res.inject(1))
  ultimately show ?thesis using NewMasterKey_ok [OF k] key by (simp add: key_ok_def)
qed

text \<open>
  C7. A wallet address can be recovered from its phrase: generating an address with 12 or 24 words and recovering
  from the words of that address give the same outcome (the same record, or the same error), the words are as
  many as asked for and come from the English list, and the key of a generated record is a scalar between 1 and
  the group order.
\<close>
theorem bip44_address_recovered:
  assumes "env_bip E = go_bip ripemd pbkdf2" "mnemonicLen = 12 \<or> mnemonicLen = 24"
    "draw_entropy d = (\<lambda>bits. res_map_err (\<lambda>_. ()) (NewEntropy rand bits))" "\<forall>n. length (rand n) = n"
  shows "\<exists>m. int (length m) = mnemonicLen \<and> set m \<subseteq> set English \<and>
    RecoverBit44Address E c m = GenerateBit44AddressWithLen E c mnemonicLen d \<and>
    (case GenerateBit44AddressWithLen E c mnemonicLen d of
       Ok a \<Rightarrow> a_Bip39Mnemonic a = m \<and> private_scalar (a_PrivateKey a)
     | _ \<Rightarrow> True)"
proof -
  define e where "e = rand (if mnemonicLen = 12 then 16 else 32)"
  have len: "length e = 16 \<or> length e = 32" "mnemonicLen = 3 * int (length e) div 4"
    using assms(2,4) by (auto simp: e_def)
  then obtain k where k: "entropy_ok k e" "3 * k = 3 * length e div 4" using entropy_sizes by blast
  let ?m = "sentence English k e"
  have draw: "draw_entropy d (if mnemonicLen = 12 then 128 else 256) = Ok e"
    unfolding assms(3) e_def by (simp add: NewEntropy_def validateEntropyBitSize_def)
  have gen: "GenerateBit44AddressWithLen E c mnemonicLen d = bip44EntropyToAddressRecord E e (pc_Bip44CoinType c)"
    using assms(2) draw by (auto simp: GenerateBit44AddressWithLen_def createNewBIP44Address_def)
  have "RecoverBit44Address E c ?m = GenerateBit44AddressWithLen E c mnemonicLen d"
    unfolding RecoverBit44Address_def gen
    by (rule go_phrases.recover_phrase [OF assms(1) len(1) go_phrase(1) [OF k(1)]])
  moreover have "length ?m = 3 * k" "set ?m \<subseteq> set English"
    using English_ok base2048.fixed_less by (auto simp: sentence_def words_ok_def)
  moreover have "case bip44EntropyToAddressRecord E e (pc_Bip44CoinType c) of
      Ok a \<Rightarrow> a_Bip39Mnemonic a = ?m \<and> private_scalar (a_PrivateKey a) | _ \<Rightarrow> True"
    using go_phrases.record_phrase [OF assms(1) len(1)] go_phrase(1) [OF k(1), of ripemd pbkdf2]
    by (auto simp: go_bip_def split: res.split dest: derive_account_scalar)
  moreover have "int (3 * k) = mnemonicLen" using k(2) len(2) by (simp add: zdiv_int)
  ultimately show ?thesis unfolding gen by (intro exI [of _ ?m]) auto
qed

definition wallet_env :: "(bytes \<times> bytes) list am_env" where
  "wallet_env = demo_env\<lparr>env_bip := go_bip (\<lambda>_. replicate 20 0) (\<lambda>_ _ _ n _. replicate n 0)\<rparr>"

definition wallet_draw :: draw where
  "wallet_draw = \<lparr> draw_key = Panic, draw_entropy = (\<lambda>bits. res_map_err (\<lambda>_. ()) (NewEntropy (\<lambda>n. replicate n 0) bits)) \<rparr>"

theorem bip44_address_recovered_witness:
  "\<exists>m. length m = 12 \<and>
     RecoverBit44Address wallet_env demo_config m = GenerateBit44AddressWithLen wallet_env demo_config 12 wallet_draw"
proof -
  have "env_bip wallet_env = go_bip (\<lambda>_. replicate 20 0) (\<lambda>_ _ _ n _. replicate n 0)"
    "draw_entropy wallet_draw = (\<lambda>bits. res_map_err (\<lambda>_. ()) (NewEntropy (\<lambda>n. replicate n 0) bits))"
    by (simp_all add: wallet_env_def wallet_draw_def)
  from bip44_address_recovered [OF this(1) _ this(2), of 12 demo_config] show ?thesis by auto
qed

end
