(* ===== verification/UniclientCorrect.thy ===== *)
theory UniclientCorrect
  imports Uniclient
begin

text \<open>
  The client library in front of the endpoint. A struct that is marshalled and decoded field by field comes back
  as it was; the theorems follow the requests and the answers through both programs.
\<close>

section \<open>Structs there and back\<close>

text \<open>Names that no two fields share, up to the folding that decoding allows.\<close>

definition names_ok :: "string list \<Rightarrow> bool" where
  "names_ok ns \<longleftrightarrow> distinct (map foldName ns)"

lemma names_ok_matches: "names_ok ns \<Longrightarrow> k \<in> set ns \<Longrightarrow> n \<in> set ns \<Longrightarrow> field_matches n k \<longleftrightarrow> k = n"
  unfolding names_ok_def distinct_map field_matches_def by (metis inj_on_def)

lemma marshal_struct_shape: "marshal_struct fs = Some j \<Longrightarrow> \<exists>kvs. j = JObj kvs \<and> fst ` set kvs \<subseteq> fst ` set fs"
proof (induction fs arbitrary: j)
  case (Cons f fs)
  obtain k omit v where f: "f = (k, omit, v)" by (metis prod_cases3)
  show ?case
  proof (cases omit)
    case True
    then show ?thesis using Cons.IH [of j] Cons.prems by (auto simp: f)
  next
    case False
    then obtain kvs z where m: "marshal_struct fs = Some (JObj kvs)" and j: "j = JObj ((k, z) # kvs)"
      using Cons.prems by (auto simp: f split: option.splits json.splits)
    from Cons.IH [OF m] show ?thesis by (auto simp: f j)
  qed
qed simp

lemma fields_fold_skip: "(\<And>k. k \<in> fst ` set kvs \<Longrightarrow> \<not> field_matches n k) \<Longrightarrow> fields_fold f n kvs v = Ok v"
  by (induction kvs arbitrary: v) auto

lemma struct_field_marshalled:
  assumes "marshal_struct fs = Some j" "names_ok (map fst fs)" "(n, omit, x) \<in> set fs"
  shows "struct_field f n v j = (if omit then Ok v else f (the x) v)"
  using assms
proof (induction fs arbitrary: j v)
  case (Cons g fs)
  obtain k o' y where g: "g = (k, o', y)" by (metis prod_cases3)
  have ok: "names_ok (map fst fs)" using Cons.prems(2) by (simp add: names_ok_def)
  have other: "\<not> field_matches k k'" if "k' \<in> fst ` set fs" for k'
  proof -
    have "k' \<noteq> k" using that Cons.prems(2) by (auto simp: g names_ok_def)
    moreover have "field_matches k k' \<longleftrightarrow> k' = k"
      using names_ok_matches [OF Cons.prems(2)] that by (auto simp: g)
    ultimately show ?thesis by simp
  qed
  show ?case
  proof (cases o')
    case True
    then have m: "marshal_struct fs = Some j" using Cons.prems(1) by (simp add: g)
    from marshal_struct_shape [OF this] obtain kvs where kvs: "j = JObj kvs" "fst ` set kvs \<subseteq> fst ` set fs" by blast
    show ?thesis
    proof (cases "n = k \<and> (n, omit, x) \<notin> set fs")
      case False
      then have "(n, omit, x) \<in> set fs" using Cons.prems(3) by (auto simp: g)
      from Cons.IH [OF m ok this] show ?thesis .
    next
      case n: True
      then have "omit" using True Cons.prems(3) by (auto simp: g)
      moreover have "struct_field f n v j = Ok v"
        using kvs other n by (auto intro!: fields_fold_skip)
      ultimately show ?thesis by simp
    qed
  next
    case False
    then obtain kvs z where m: "marshal_struct fs = Some (JObj kvs)" and z: "y = Some z" and j: "j = JObj ((k, z) # kvs)"
      using Cons.prems(1) by (auto simp: g split: option.splits json.splits)
    from marshal_struct_shape [OF m] have sub: "fst ` set kvs \<subseteq> fst ` set fs" by auto
    show ?thesis
    proof (cases "n = k")
      case True
      then have "(n, omit, x) = (k, o', y)" using Cons.prems(2,3) by (force simp: g names_ok_def)
      moreover have "fields_fold f k kvs v' = Ok v'" for v' using sub other by (intro fields_fold_skip) auto
      ultimately show ?thesis using False z by (auto simp: j field_matches_def split: res.split)
    next
      case nk: False
      then have mem: "(n, omit, x) \<in> set fs" using Cons.prems(3) by (auto simp: g)
      have "\<not> field_matches n k"
        using names_ok_matches [OF Cons.prems(2), of k n] mem nk by (force simp: g)
      with Cons.IH [OF m ok mem] show ?thesis by (simp add: j)
    qed
  qed
qed simp

lemma struct_field_absent:
  assumes "marshal_struct fs = Some j" "\<And>k. k \<in> fst ` set fs \<Longrightarrow> \<not> field_matches n k"
  shows "struct_field f n v j = Ok v"
proof -
  from marshal_struct_shape [OF assms(1)] obtain kvs where kvs: "j = JObj kvs" "fst ` set kvs \<subseteq> fst ` set fs" by blast
  have "fields_fold f n kvs v = Ok v" using kvs(2) assms(2) by (intro fields_fold_skip) blast
  then show ?thesis by (simp add: kvs(1))
qed

lemma marshal_struct_Some: "(\<And>k omit v. (k, omit, v) \<in> set fs \<Longrightarrow> omit \<or> v \<noteq> None) \<Longrightarrow> \<exists>kvs. marshal_struct fs = Some (JObj kvs)"
proof (induction fs)
  case (Cons f fs)
  obtain k omit v where f: "f = (k, omit, v)" by (metis prod_cases3)
  from Cons obtain kvs where "marshal_struct fs = Some (JObj kvs)" by (metis list.set_intros(2))
  moreover have "omit \<or> v \<noteq> None" using Cons.prems [of k omit v] f by simp
  ultimately show ?case by (auto simp: f)
qed simp

section \<open>Numbers there and back\<close>

definition int64 :: "int \<Rightarrow> bool" where
  "int64 i \<longleftrightarrow> - (2 ^ 63) \<le> i \<and> i < 2 ^ 63"

lemma SetString10_big_string: "SetString10 (big_string i) = Some i"
proof -
  have nat: "SetString10 (nat_string n) = Some (int n)" for n
    using nat_string_digits [of n] by (simp add: SetString10_digits)
  then have "digits_value (nat_string n) = Some n" for n
    using nat_string_no_minus [of n] nat [of n] by (simp add: SetString10_def)
  then show ?thesis
    by (cases "i < 0") (simp add: big_string_def SetString10_def, simp add: big_string_def nat)
qed

lemma unjson_big_string: "int64 i \<Longrightarrow> unjson_int (JNum (big_string i)) old = Ok i"
proof -
  assume "int64 i"
  moreover have "hd (big_string i) \<noteq> CHR ''+''" using nat_string_no_minus [of "nat i"] by (simp add: big_string_def)
  ultimately show ?thesis by (simp add: parse_int10_def SetString10_big_string int64_def)
qed

section \<open>The client in front of the endpoint\<close>

definition endpoint_post ::
  "('n, 'db, 'hdb) BackRpc \<Rightarrow> (json \<Rightarrow> string) \<Rightarrow> string \<Rightarrow> (string \<rightharpoonup> string) \<Rightarrow> ('n, 'db, 'hdb) world post" where
  "endpoint_post r raw path headers body w =
     (case Handle r raw \<lparr> h_Method = ''POST'', h_Path = path, h_RequestURI = path, h_RemoteAddr = [],
             h_ApiToken = (case headers ''X-Api-Token'' of None \<Rightarrow> [] | Some t \<Rightarrow> t), h_Body = Some body \<rparr> w of
        None \<Rightarrow> None
      | Some (w, Ok resp) \<Rightarrow>
          Some (w, Reply (case hr_StatusCode resp of None \<Rightarrow> 200 | Some s \<Rightarrow> s)
                     (case hr_Body resp of JsonBody j \<Rightarrow> Some j | _ \<Rightarrow> None))
      | Some (w, _) \<Rightarrow> Some (w, NoReply))"

text \<open>A client that posts to the RPC path of a standard endpoint, presenting \<open>token\<close>.\<close>

definition connected :: "('n, 'db, 'hdb) world uni_Client \<Rightarrow> ('n, 'db, 'hdb) BackRpc \<Rightarrow> string \<Rightarrow> bool" where
  "connected c r token \<longleftrightarrow> standard r \<and> t_urlValid (u_rpcClient c) \<and>
     token = (case t_additionalHeaders (u_rpcClient c) ''X-Api-Token'' of None \<Rightarrow> [] | Some t \<Rightarrow> t) \<and>
     (\<exists>raw path. HasPrefix path ''/rpc'' \<and> t_post (u_rpcClient c) = endpoint_post r raw path)"

definition uni_answer :: "(json \<Rightarrow> (json_error, 'a) res) \<Rightarrow> JsonRpcResponse \<Rightarrow> (uni_error, 'a) res" where
  "uni_answer decode resp =
     (case jp_Error resp of
        Some (code, message, data) \<Rightarrow> Err (RpcFailure code message)
      | None \<Rightarrow>
          (case jp_Result resp of None \<Rightarrow> Err DecodeError | Some j \<Rightarrow> res_map_err (\<lambda>_. DecodeError) (decode j)))"

definition error_code_ok :: "JsonRpcResponse \<Rightarrow> bool" where
  "error_code_ok resp \<longleftrightarrow> (case jp_Error resp of None \<Rightarrow> True | Some (code, _, _) \<Rightarrow> int64 code)"

lemma envelope_names:
  "foldName ''id'' = ''ID''" "foldName ''jsonrpc'' = ''JSONRPC''" "foldName ''method'' = ''METHOD''"
  "foldName ''params'' = ''PARAMS''" "foldName ''auth'' = ''AUTH''" "foldName ''error'' = ''ERROR''"
  "foldName ''result'' = ''RESULT''" "foldName ''code'' = ''CODE''" "foldName ''message'' = ''MESSAGE''"
  "foldName ''data'' = ''DATA''"
  by code_simp+

lemmas envelope_simps = field_matches_def envelope_names

lemma decode_encoded_response:
  assumes "error_code_ok resp"
  shows "\<exists>i. decode_uni_response raw uni_NewResponse (encode_response resp) =
    Ok \<lparr> p_Id = i, p_JsonRpc = ''2.0'', p_Error = map_option (\<lambda>(code, message, data). (code, message)) (jp_Error resp),
         p_Result = jp_Result resp \<rparr>"
  using assms
  by (cases "jp_Error resp"; cases "jp_Result resp")
    (auto simp: decode_uni_response_def encode_response_def uni_NewResponse_def envelope_simps error_code_ok_def
      unjson_big_string Let_def simp del: foldName.simps unjson_int.simps)

lemma encode_NewRequest:
  "encode_uni_request (uni_NewRequest m (Some None)) = None"
  "encode_uni_request (uni_NewRequest m (Some (Some j))) =
     Some (JObj [(''id'', JNum ''1''), (''jsonrpc'', JStr ''2.0''), (''method'', JStr m), (''params'', j)])"
  "encode_uni_request (uni_NewRequest m None) =
     Some (JObj [(''id'', JNum ''1''), (''jsonrpc'', JStr ''2.0''), (''method'', JStr m)])"
proof -
  have "amount_json ''1'' = Some (JNum ''1'')" by code_simp
  then show "encode_uni_request (uni_NewRequest m (Some None)) = None"
    "encode_uni_request (uni_NewRequest m (Some (Some j))) =
     Some (JObj [(''id'', JNum ''1''), (''jsonrpc'', JStr ''2.0''), (''method'', JStr m), (''params'', j)])"
    "encode_uni_request (uni_NewRequest m None) =
     Some (JObj [(''id'', JNum ''1''), (''jsonrpc'', JStr ''2.0''), (''method'', JStr m)])"
    by (simp_all add: encode_uni_request_def uni_NewRequest_def uni_RequestId_MarshalJSON_def jstr_def)
qed

lemma server_answer:
  "uni_answer decode (ERROR_SERVER ''server error'' (NewResponse\<lparr> jp_Id := i \<rparr>)) = Err (RpcFailure (- 32000) ''server error'')"
  by (simp add: uni_answer_def ERROR_SERVER_def SetError_def)

lemma rpcCall_endpoint:
  assumes "connected c r token" "r_rpcProcessors r m = Some processor" "m \<noteq> []"
    "params = None \<and> j = None \<or> params = Some (Some x) \<and> j = Some x"
  obtains ctx i where "x_apiToken ctx = token"
    "\<And>decode. (\<And>w' resp. processor ctx \<lparr> jr_Id = i, jr_JsonRpc = ''2.0'', jr_Method = m, jr_Params = j \<rparr>
        (NewResponse\<lparr> jp_Id := i \<rparr>) w = Some (Done w' resp) \<Longrightarrow> error_code_ok resp) \<Longrightarrow>
     uni_rpcCall c (uni_NewRequest m params) decode w =
       (case processor ctx \<lparr> jr_Id = i, jr_JsonRpc = ''2.0'', jr_Method = m, jr_Params = j \<rparr>
               (NewResponse\<lparr> jp_Id := i \<rparr>) w of
          None \<Rightarrow> None
        | Some (Done w' resp) \<Rightarrow> Some (w', uni_answer decode resp)
        | Some (Panicked w') \<Rightarrow> Some (w', Err (RpcFailure (- 32000) ''server error'')))"
proof -
  from assms(1) obtain raw path where path: "HasPrefix path ''/rpc''"
    and post: "t_post (u_rpcClient c) = endpoint_post r raw path" and url: "t_urlValid (u_rpcClient c)"
    and token: "token = (case t_additionalHeaders (u_rpcClient c) ''X-Api-Token'' of None \<Rightarrow> [] | Some t \<Rightarrow> t)"
    unfolding connected_def by blast
  obtain body where body: "encode_uni_request (uni_NewRequest m params) = Some body"
    and body_def: "body = JObj ([(''id'', JNum ''1''), (''jsonrpc'', JStr ''2.0''), (''method'', JStr m)] @
      (case j of None \<Rightarrow> [] | Some x \<Rightarrow> [(''params'', x)]))"
    using assms(4) encode_NewRequest by auto
  let ?h = "\<lparr> h_Method = ''POST'', h_Path = path, h_RequestURI = path, h_RemoteAddr = [], h_ApiToken = token, h_Body = Some body \<rparr>"
  define i where "i = RequestId_UnmarshalJSON (raw (JNum ''1''))"
  let ?q = "\<lparr> jr_Id = i, jr_JsonRpc = ''2.0'', jr_Method = m, jr_Params = j \<rparr>"
  have "decode_request raw body = Ok ?q"
    by (cases j) (simp_all add: decode_request_def body_def i_def envelope_simps del: foldName.simps)
  then have calls: "calls raw ?h ?q" using path assms(3) by (simp add: calls_def body_def)
  have proc: "r_rpcProcessors r (jr_Method ?q) = Some processor" using assms(2) by simp
  note handle = Handle_calls [OF calls proc, of w]
  have server: "error_code_ok (ERROR_SERVER ''server error'' (NewResponse\<lparr> jp_Id := i \<rparr>))"
    by (simp add: error_code_ok_def ERROR_SERVER_def SetError_def int64_def)
  have ctx: "x_apiToken (route_context ?h) = token" using route_context_token [of ?h] by simp
  have reply: "uni_rpcCall c (uni_NewRequest m params) decode w =
      (case Handle r raw ?h w of
         Some (w', Ok a) \<Rightarrow> Some (w', case hr_Body a of
             JsonBody j \<Rightarrow> (case decode_uni_response (t_raw (u_rpcClient c)) uni_NewResponse j of
                 Ok rsp \<Rightarrow> (case p_Error rsp of Some (code, message) \<Rightarrow> Err (RpcFailure code message)
                   | None \<Rightarrow> res_map_err (\<lambda>_. DecodeError) (ParseResult decode rsp))
               | Err _ \<Rightarrow> Err DecodeError | Panic \<Rightarrow> Panic)
           | _ \<Rightarrow> Err DecodeError)
       | Some (w', _) \<Rightarrow> Some (w', Err NetworkError)
       | None \<Rightarrow> None)" for decode
    by (simp add: uni_rpcCall_def transport_Call_def body url post endpoint_post_def token
        split: option.split res.split http_body.split prod.split)
  have answered: "(case decode_uni_response (t_raw (u_rpcClient c)) uni_NewResponse (encode_response resp) of
       Ok rsp \<Rightarrow> (case p_Error rsp of Some (code, message) \<Rightarrow> Err (RpcFailure code message)
         | None \<Rightarrow> res_map_err (\<lambda>_. DecodeError) (ParseResult decode rsp))
     | Err _ \<Rightarrow> Err DecodeError | Panic \<Rightarrow> Panic) = uni_answer decode resp" if "error_code_ok resp" for decode resp
    using decode_encoded_response [OF that, of "t_raw (u_rpcClient c)"]
    by (auto simp: uni_answer_def ParseResult_def split: option.split)
  show ?thesis
    by (rule that [OF ctx, of i])
      (auto simp: reply handle rpc_answer_def answered server server_answer split: option.split outcome.split)
qed

section \<open>Calls the endpoint cannot accept\<close>

lemma secured_without_service:
  assumes "jr_Params request = Some (JObj kvs)" "''serviceId'' \<notin> fst ` set kvs"
  shows "secured p ctx request resp w = reply (ERROR_INVALID ''invalid request'' resp) w"
proof -
  have "map_of (rev kvs) ''serviceId'' = None" using assms(2) by (simp add: map_of_eq_None_iff)
  then obtain e where "GetParamInt request ''serviceId'' = Err e"
    using assms(1) by (cases "floats_ok (JObj kvs)") (auto simp: GetParamInt_def GetParamRaw_def parseParamsMap_def)
  then show ?thesis by (simp add: secured_def)
qed

lemma call_without_service:
  assumes "connected c r token" "m \<in> set secured_methods" "''serviceId'' \<notin> fst ` set kvs"
  shows "uni_rpcCall c (uni_NewRequest m (Some (Some (JObj kvs)))) decode w =
    Some (w, Err (RpcFailure (- 32600) ''invalid request''))"
proof -
  obtain inner where inner: "r_rpcProcessors r m = Some (secured inner)"
    using assms(1,2) secured_method unfolding connected_def by blast
  have "m \<noteq> []" using assms(2) by (auto simp: secured_methods_def)
  obtain ctx i where call: "uni_rpcCall c (uni_NewRequest m (Some (Some (JObj kvs)))) decode w =
      Some (w, uni_answer decode (ERROR_INVALID ''invalid request'' (NewResponse\<lparr> jp_Id := i \<rparr>)))"
    by (rule rpcCall_endpoint [OF assms(1) inner \<open>m \<noteq> []\<close>, of "Some (Some (JObj kvs))" "Some (JObj kvs)" "JObj kvs" w])
      (auto simp: secured_without_service [OF _ assms(3)] reply_def error_code_ok_def ERROR_INVALID_def SetError_def int64_def)
  then show ?thesis by (simp add: uni_answer_def ERROR_INVALID_def SetError_def)
qed

lemma transfer_params_shape:
  "uni_transfer_params addressFrom addressTo amount symbol formated = None \<longleftrightarrow> number_json amount = None"
  "uni_transfer_params addressFrom addressTo amount symbol formated = Some j \<Longrightarrow> \<exists>kvs. j = JObj kvs \<and> ''serviceId'' \<notin> fst ` set kvs"
  by (auto simp: uni_transfer_params_def Let_def jstr_def jbool_def split: option.splits if_splits)

definition transfer_rejection :: "string \<Rightarrow> uni_error" where
  "transfer_rejection amount = (if number_json amount = None then EncodeError else RpcFailure (- 32600) ''invalid request'')"

lemma transfer_call_rejected:
  assumes "connected c r token" "m \<in> set secured_methods"
  shows "uni_rpcCall c (uni_NewRequest m (Some (uni_transfer_params addressFrom addressTo amount symbol formated))) decode w =
    Some (w, Err (transfer_rejection amount))"
proof (cases "uni_transfer_params addressFrom addressTo amount symbol formated")
  case None
  then have "number_json amount = None" using transfer_params_shape(1) by blast
  then show ?thesis
    by (simp add: None uni_rpcCall_def transport_Call_def encode_NewRequest transfer_rejection_def)
next
  case (Some j)
  then have "number_json amount \<noteq> None" using transfer_params_shape(1) by (metis option.distinct(1))
  moreover obtain kvs where "j = JObj kvs" "''serviceId'' \<notin> fst ` set kvs" using transfer_params_shape(2) [OF Some] by blast
  ultimately show ?thesis
    using call_without_service [OF assms, of kvs decode] Some by (simp add: transfer_rejection_def)
qed

text \<open>
  C9. The library cannot move or trace money through this endpoint: its transfer, fee and transfer list calls never
  name a service, so a standard endpoint answers each of them with an invalid request, whatever service and token
  the client is configured with, and the state of the node stays as it is. An amount that is no number is not even sent.
\<close>
theorem client_transfers_rejected:
  assumes "connected c r token"
  shows "TransferAsset c addressFrom addressTo amount symbol formated w = Some (w, Err (transfer_rejection amount)) \<and>
    uni_TransferGetEstimatedFee c addressFrom addressTo amount symbol formated w = Some (w, Err (transfer_rejection amount)) \<and>
    TransfersByAddress c address w = Some (w, Err (RpcFailure (- 32600) ''invalid request''))"
  unfolding TransferAsset_def uni_TransferGetEstimatedFee_def TransfersByAddress_def
  by (intro conjI transfer_call_rejected [OF assms] call_without_service [OF assms]) (auto simp: secured_methods_def)

definition demo_uni :: "demo_world uni_Client" where
  "demo_uni = \<lparr> u_serviceId = 1, u_rpcClient =
     \<lparr> t_raw = (\<lambda>_. ''1''), t_urlValid = True, t_additionalHeaders = [''X-Api-Token'' \<mapsto> ''secret''],
       t_post = endpoint_post demo_back (\<lambda>_. ''1'') ''/rpc'' \<rparr> \<rparr>"

lemma demo_uni_connected: "connected demo_uni demo_back ''secret''"
proof -
  have "HasPrefix ''/rpc'' ''/rpc''" by (simp add: HasPrefix_def)
  then show ?thesis unfolding connected_def demo_uni_def using demo_standard by auto
qed

theorem client_transfers_rejected_witness:
  "connected demo_uni demo_back ''secret'' \<and> w_subs demo_state 1 \<noteq> None \<and>
   TransferAsset demo_uni demo_sender demo_sender ''10'' ''ETH'' False demo_state =
     Some (demo_state, Err (RpcFailure (- 32600) ''invalid request''))"
proof -
  have "number_json ''10'' \<noteq> None" by code_simp
  then show ?thesis
    using client_transfers_rejected [OF demo_uni_connected, of demo_sender demo_sender "''10''" "''ETH''" False demo_state "[]"]
      demo_uni_connected
    by (simp add: transfer_rejection_def demo_state_def demo_services_def)
qed

section \<open>A new address\<close>

lemma standard_getNew:
  assumes "standard r"
  shows "r_rpcProcessors r ''addressGetNew'' = Some (secured (rpcProcessAddressGetNew r))"
proof -
  from assms obtain deps options where new: "NewBackRpc deps options = Ok r" unfolding standard_def by blast
  then obtain self where r: "r = InitProcessors self self" by (auto simp: NewBackRpc_def Let_def res_bind_Ok_iff)
  have "service_for (self\<lparr> r_rpcProcessors := t \<rparr>) = service_for self" for t
    by (intro ext) (simp add: service_for_def)
  then have "rpcProcessAddressGetNew (self\<lparr> r_rpcProcessors := t \<rparr>) = rpcProcessAddressGetNew self" for t
    by (intro ext) (simp only: rpcProcessAddressGetNew_def getNew_request_def, simp)
  moreover have "\<exists>t. r = self\<lparr> r_rpcProcessors := t \<rparr>" unfolding r InitProcessors_def by (auto simp: register_defs)
  ultimately have "rpcProcessAddressGetNew r = rpcProcessAddressGetNew self" by auto
  moreover have "r_rpcProcessors r ''addressGetNew'' = Some (secured (rpcProcessAddressGetNew self))"
    unfolding r InitProcessors_def by (simp add: register_defs)
  ultimately show ?thesis by simp
qed

lemma unjson_elems_map: "unjson_elems (map JStr ss) olds = Ok ss"
  by (induction ss arbitrary: olds) auto

lemma getNew_names:
  "names_ok [''success'', ''address'', ''privateKey'', ''userId'', ''invoiceId'', ''watchOnly'', ''bip39Support'', ''bip39Mnemonic'']"
  by code_simp

text \<open>The full answer of the endpoint, read by the library.\<close>

lemma decode_getNew_response:
  assumes "int64 (a_UserId a)" "int64 (a_InvoiceId a)"
  shows "\<exists>j. getNew_response True a = Some j \<and> decode_AddressInfo j =
    Ok \<lparr> ai_Address = a_Address a, ai_PrivateKey = BytesToHex (a_PrivateKey a), ai_UserId = a_UserId a,
         ai_InvoiceId = a_InvoiceId a, ai_WatchOnly = a_WatchOnly a, ai_Bip39Support = a_Bip39Support a,
         ai_Bip39Mnemonic = (if a_Bip39Support a \<and> a_Bip39Mnemonic a \<noteq> [] then Some (a_Bip39Mnemonic a) else None) \<rparr>"
proof -
  define fs where "fs =
    [(''success'', False, jbool True), (''address'', False, jstr (a_Address a)),
     (''privateKey'', BytesToHex (a_PrivateKey a) = [], jstr (BytesToHex (a_PrivateKey a))),
     (''userId'', a_UserId a = 0, jint (a_UserId a)), (''invoiceId'', a_InvoiceId a = 0, jint (a_InvoiceId a)),
     (''watchOnly'', \<not> a_WatchOnly a, jbool (a_WatchOnly a)), (''bip39Support'', \<not> a_Bip39Support a, jbool True),
     (''bip39Mnemonic'', \<not> a_Bip39Support a \<or> a_Bip39Mnemonic a = [], jstrs (a_Bip39Mnemonic a))]"
  have fs: "getNew_response True a = marshal_struct fs" by (simp add: getNew_response_def Let_def fs_def)
  have "\<exists>kvs. marshal_struct fs = Some (JObj kvs)"
    by (rule marshal_struct_Some) (auto simp: fs_def jbool_def jstr_def jint_def jstrs_def)
  then obtain j where j: "marshal_struct fs = Some j" by blast
  have names: "names_ok (map fst fs)" using getNew_names by (simp add: fs_def)
  note field = struct_field_marshalled [OF j names]
  have mem: "(''address'', False, jstr (a_Address a)) \<in> set fs"
    "(''privateKey'', BytesToHex (a_PrivateKey a) = [], jstr (BytesToHex (a_PrivateKey a))) \<in> set fs"
    "(''userId'', a_UserId a = 0, jint (a_UserId a)) \<in> set fs"
    "(''invoiceId'', a_InvoiceId a = 0, jint (a_InvoiceId a)) \<in> set fs"
    "(''watchOnly'', \<not> a_WatchOnly a, jbool (a_WatchOnly a)) \<in> set fs"
    "(''bip39Support'', \<not> a_Bip39Support a, jbool True) \<in> set fs"
    "(''bip39Mnemonic'', \<not> a_Bip39Support a \<or> a_Bip39Mnemonic a = [], jstrs (a_Bip39Mnemonic a)) \<in> set fs"
    by (simp_all add: fs_def)
  have "decode_AddressInfo j =
    Ok \<lparr> ai_Address = a_Address a, ai_PrivateKey = BytesToHex (a_PrivateKey a), ai_UserId = a_UserId a,
         ai_InvoiceId = a_InvoiceId a, ai_WatchOnly = a_WatchOnly a, ai_Bip39Support = a_Bip39Support a,
         ai_Bip39Mnemonic = (if a_Bip39Support a \<and> a_Bip39Mnemonic a \<noteq> [] then Some (a_Bip39Mnemonic a) else None) \<rparr>"
    unfolding decode_AddressInfo_def mem [THEN field]
    using assms by (auto simp: jstr_def jint_def jbool_def jstrs_def unjson_big_string unjson_elems_map simp del: unjson_int.simps)
  with fs j show ?thesis by simp
qed

lemma big_string_nat: "big_string (int n) = nat_string n"
  by (simp add: big_string_def)

lemma getNew_params_eq:
  "uni_getNew_params serviceId userId invoiceId watchOnly fullInfo =
     Some (JObj [(''serviceId'', JNum (big_string serviceId)), (''userId'', JNum (big_string userId)),
       (''invoiceId'', JNum (big_string invoiceId)), (''watchOnly'', JBool watchOnly), (''fullInfo'', JBool fullInfo)])"
  by (simp add: uni_getNew_params_def jint_def jbool_def)

lemma getNew_fields:
  "foldName ''serviceId'' = ''SERVICEID''" "foldName ''userId'' = ''USERID''" "foldName ''invoiceId'' = ''INVOICEID''"
  "foldName ''watchOnly'' = ''WATCHONLY''" "foldName ''fullInfo'' = ''FULLINFO''" "foldName ''signature'' = ''SIGNATURE''"
  by code_simp+

lemma decode_getNew_params:
  assumes "uni_getNew_params serviceId userId invoiceId watchOnly fullInfo = Some j" "int64 serviceId" "int64 userId" "int64 invoiceId"
  shows "decode_addressGetNew j = Ok \<lparr> gn_ServiceId = serviceId, gn_UserId = userId, gn_InvoiceId = invoiceId,
    gn_WatchOnly = watchOnly, gn_FullInfo = fullInfo, gn_Signature = [] \<rparr>"
  using assms unfolding getNew_params_eq
  by (auto simp: decode_addressGetNew_def field_matches_def getNew_fields unjson_big_string simp del: foldName.simps unjson_int.simps)

text \<open>Identifiers below \<open>2 ^ 53\<close> pass through the floating point numbers of the authorisation unchanged.\<close>

lemma getNew_service:
  assumes "uni_getNew_params (int sid) (int u) (int v) watchOnly fullInfo = Some j"
    "sid < 2 ^ 53" "u < 2 ^ 53" "v < 2 ^ 53" "jr_Params request = Some j"
  shows "GetParamInt request ''serviceId'' = Ok (int sid)"
proof -
  note nums = number_whole [OF assms(2)] number_whole [OF assms(3)] number_whole [OF assms(4)]
  have j: "j = JObj [(''serviceId'', JNum (nat_string sid)), (''userId'', JNum (nat_string u)),
       (''invoiceId'', JNum (nat_string v)), (''watchOnly'', JBool watchOnly), (''fullInfo'', JBool fullInfo)]"
    using assms(1) by (simp add: getNew_params_eq big_string_nat)
  have "floats_ok j" unfolding j using nums(2,5,8) by simp
  moreover have "unjson_map j = Ok (map_of [(''fullInfo'', JBool fullInfo), (''watchOnly'', JBool watchOnly),
      (''invoiceId'', JNum (nat_string v)), (''userId'', JNum (nat_string u)), (''serviceId'', JNum (nat_string sid))])"
    by (simp add: j)
  ultimately show ?thesis
    by (simp add: GetParamInt_def GetParamRaw_def parseParamsMap_def assms(5) nums(1))
qed

lemma int64_small: "n < 2 ^ 53 \<Longrightarrow> int64 (int n)"
  by (simp add: int64_def)

text \<open>A secured call that is authorised and ends with a result.\<close>

lemma secured_call:
  assumes "connected c r token" "r_rpcProcessors r m = Some (secured inner)" "m \<noteq> []"
    "\<And>i. authorised (w_subs w) token \<lparr> jr_Id = i, jr_JsonRpc = ''2.0'', jr_Method = m, jr_Params = Some j \<rparr>"
    "\<And>ctx resp i. inner ctx \<lparr> jr_Id = i, jr_JsonRpc = ''2.0'', jr_Method = m, jr_Params = Some j \<rparr> resp w =
       Some (Done w' (SetResult (Some result) resp))"
  shows "uni_rpcCall c (uni_NewRequest m (Some (Some j))) decode w = Some (w', res_map_err (\<lambda>_. DecodeError) (decode result))"
proof -
  have sec: "secured inner ctx \<lparr> jr_Id = i, jr_JsonRpc = ''2.0'', jr_Method = m, jr_Params = Some j \<rparr> resp w =
      Some (Done w' (SetResult (Some result) resp))" if "x_apiToken ctx = token" for ctx resp i
    using secured_authorised [of w ctx "\<lparr> jr_Id = i, jr_JsonRpc = ''2.0'', jr_Method = m, jr_Params = Some j \<rparr>" inner resp]
      assms(4) that by (auto simp: assms(5))
  show ?thesis
    by (rule rpcCall_endpoint [OF assms(1-3), of "Some (Some j)" "Some j" j w])
      (auto simp: sec error_code_ok_def uni_answer_def SetResult_def NewResponse_def)
qed

text \<open>What the endpoint does with the request of the library, in a synchronised pool with a free address.\<close>

lemma endpoint_hands_out:
  assumes "uni_getNew_params (int sid) (int u) (int v) watchOnly True = Some j" "jr_Params request = Some j"
    "0 < sid" "sid < 2 ^ 53" "u < 2 ^ 53" "v < 2 ^ 53"
    and "w_subs w (int sid) = Some s" "\<not> s_Internal s"
    and "pool_synced (w_pool w)" "storage_ready (r_addressEnv r) (w_pool w)"
    and "r_free r (w_pool w) = k # ks" "am_free (w_pool w) k = Some p"
  defines "a \<equiv> subscribe_fields (int sid) (int u) (int v) watchOnly (am_heap (w_pool w) ! p)"
  shows "\<exists>pool'. handed_out (w_pool w) k p a pool' \<and>
    (\<forall>ctx resp. rpcProcessAddressGetNew r ctx request resp w =
      Some (Done (w\<lparr> w_pool := pool' \<rparr>) (SetResult (getNew_response True a) resp)))"
proof -
  obtain pool' where pool': "GetFreeAddressAndSubscribe (r_addressEnv r) (w_pool w) (k # ks) (int sid) (int u) (int v) watchOnly = (pool', Ok p)"
    "am_all (w_pool w) k = Some p" "handed_out (w_pool w) k p a pool'"
    using GetFree_handed_out [OF assms(9,10,12)] unfolding a_def by blast
  have "is_record (w_pool w) k p" using pool'(2) assms(9) am_invD(3) by (auto simp: pool_synced_def)
  then have "am_heap pool' ! p = a" using pool'(3) by (simp add: handed_out_def is_record_def)
  moreover have "getNew_request r (w_subs w) request = Ok \<lparr> gn_ServiceId = int sid, gn_UserId = int u, gn_InvoiceId = int v,
      gn_WatchOnly = watchOnly, gn_FullInfo = True, gn_Signature = [] \<rparr>"
    using decode_getNew_params [OF assms(1) assms(4-6) [THEN int64_small]] assms(2,3,7,8)
    by (simp add: getNew_request_def ParseParams_def service_for_def SubscriptionGet_def)
  ultimately have "rpcProcessAddressGetNew r ctx request resp w =
      Some (Done (w\<lparr> w_pool := pool' \<rparr>) (SetResult (getNew_response True a) resp))" for ctx resp
    using pool'(1) assms(11) by (simp add: rpcProcessAddressGetNew_def reply_def Let_def)
  with pool'(3) show ?thesis by blast
qed


text \<open>A node whose pool holds the two addresses of the example database, and a client of service 1.\<close>

definition serving_back :: "(unit \<times> Request list, (bytes \<times> bytes) list, (string \<times> TransferInfoCachedRecord) list) BackRpc" where
  "serving_back = (case NewBackRpc (demo_deps\<lparr> r_free := (\<lambda>_. [''0xa'']) \<rparr>) [] of Ok r \<Rightarrow> r | _ \<Rightarrow> demo_deps)"

lemma serving_back_new: "NewBackRpc (demo_deps\<lparr> r_free := (\<lambda>_. [''0xa'']) \<rparr>) [] = Ok serving_back"
  by (simp add: serving_back_def NewBackRpc_def Let_def)

lemma serving_back_fields: "r_free serving_back = (\<lambda>_. [''0xa''])" "r_addressEnv serving_back = demo_env"
  by (simp_all add: serving_back_def NewBackRpc_def Let_def InitProcessors_def register_defs demo_deps_def)

definition serving_client :: "demo_world uni_Client" where
  "serving_client = \<lparr> u_serviceId = 1, u_rpcClient =
     \<lparr> t_raw = (\<lambda>_. ''1''), t_urlValid = True, t_additionalHeaders = [''X-Api-Token'' \<mapsto> ''secret''],
       t_post = endpoint_post serving_back (\<lambda>_. ''1'') ''/rpc'' \<rparr> \<rparr>"

lemma serving_connected: "connected serving_client serving_back ''secret''"
proof -
  have "standard serving_back"
    unfolding standard_def using serving_back_new by (intro exI [of _ "demo_deps\<lparr> r_free := (\<lambda>_. [''0xa'']) \<rparr>"] exI [of _ "[]"]) simp
  moreover have "HasPrefix ''/rpc'' ''/rpc''" by (simp add: HasPrefix_def)
  ultimately show ?thesis unfolding connected_def serving_client_def by auto
qed


end
