(* ===== verification/Spec2Isabelle.thy ===== *)
theory Spec2Isabelle
  imports FastMapCorrect Hexnum Signing TxSigner AddressCodec Amount Watchdog TxCache SubscriptionsCorrect
    Base58 MnemonicCorrect EndpointCorrect Bip44 UniclientCorrect Security
begin

text \<open>
  EthBackNode is a back-end node for services that accept Ethereum payments. A watchdog polls an
  Ethereum node for new blocks and pending transactions, picks out the transfers that touch one of the
  managed addresses and announces them to two listeners: the subscriptions, which notify the services
  and gather received coins, and the transaction cache, which answers queries. A pool hands out fresh
  addresses with their keys; an RPC endpoint lets the services use all of this.

  \<^bold>\<open>Parts and theories.\<close>

  \<^item> \<open>address/fastmap.go\<close>: the packed prefix tree that finds a managed address. \<open>FastMap\<close> has the
    construction with its blocks, pointers, byte and 32-bit arithmetic and both lookups;
    \<open>FastMapCorrect\<close> proves that the built tree is the map it was built from, and that a full byte
    range makes the construction panic.
  \<^item> \<open>address/\<close>: \<open>AddressPool\<close> has the pool of addresses with its heap of records shared by pointer, the
    database (\<open>KeyStore\<close>, for \<open>storage/badger_storage.go\<close>) and the index that a goroutine brings up to
    date later; \<open>AddressPoolCorrect\<close> proves the invariant of every reachable pool, that no address is
    served twice once the index has caught up, and what goes wrong before that.
  \<^item> \<open>watchdog/\<close>: \<open>Watchdog\<close> has the polling loop with its mutex, and proves that every block is
    announced once and in order, and how two error paths stop the loop.
  \<^item> \<open>txcache/\<close>: \<open>TxCache\<close> over the object database of \<open>Hold\<close>.
  \<^item> \<open>subscriptions/\<close>: \<open>Subscriptions\<close> has the stored transactions, the two event handlers, the routing
    of notifications and the gathering; \<open>SubscriptionsCorrect\<close> proves that a service is notified at most
    once about each state of a transaction, which transactions a block event confirms, and that coins
    are only gathered to the owner's master address.
  \<^item> \<open>clients/ethclient\<close>, \<open>clients/urpc\<close>: \<open>EthClient\<close> has the decoding of JSON transactions and blocks
    (on the documents of \<open>Json\<close>), the RPC methods, the classification of transactions and the
    transfers; \<open>EthClientCorrect\<close> proves what a transfer broadcasts and that the classification refines
    its specification. \<open>AddressCodec\<close> has the address texts.
  \<^item> \<open>abi/\<close>: \<open>Abi\<close> has signatures, call data, ERC-20 calls and the registry of contracts.
  \<^item> \<open>crypto/\<close>: \<open>BigBytes\<close>, \<open>Hashes\<close> (SHA-256 and HMAC), \<open>Secp256k1\<close> (the curve), \<open>Signing\<close> (keys,
    RFC 6979, ECDSA) and \<open>TxSigner\<close> (transactions and EIP-155 signatures).
  \<^item> \<open>common/rlp\<close>: \<open>Rlp\<close> has the buffered encoder and the splitters, \<open>RlpCorrect\<close> proves the encoder
    equal to the recursive definition of RLP and the splitters its inverse.
  \<^item> \<open>common/hexnum\<close>, \<open>common/base58\<close>, \<open>common/bip39\<close>, \<open>common/seedphrase\<close>: \<open>Hexnum\<close>, \<open>Base58\<close>,
    \<open>Mnemonic\<close> and \<open>MnemonicCorrect\<close>, with their round trips; \<open>WordList\<close> is the English word list, with the
    proof that it is usable.
  \<^item> \<open>common/bip32\<close>, \<open>common/bip44\<close>: \<open>Bip32\<close> (over \<open>Sha512\<close>) has extended keys, their derivation and their
    serialization, and proves the derivation equal to a closed form, all derived keys well formed and the
    serialization lossless; \<open>Bip44\<close> has coins, seeds and account keys, and proves that the address manager
    recovers every address from the phrase it generated it with.
  \<^item> \<open>endpoint/\<close>: \<open>Amount\<close> has the amounts of the interface, \<open>Endpoint\<close> requests, parameters and responses,
    \<open>EndpointHandlers\<close> the request handlers, the authorisation, the table of methods and the router;
    \<open>EndpointCorrect\<close> proves who may use the secured methods and how the check is bypassed, which transfers
    leave the node, what sequences of requests keep, and which answers are lost.
  \<^item> \<open>uniclient/\<close>: \<open>Uniclient\<close> has the client library; \<open>UniclientCorrect\<close> puts it in front of the endpoint and
    proves what a new address call brings back and which calls the endpoint never accepts.
  \<^item> \<open>security/\<close>: \<open>Security\<close> has the configuration and the signing of requests, with the cases in which signing
    does not return.
  \<^item> \<open>Prelude\<close> has the outcome type of Go calls and the lemmas all share, \<open>Types\<close> the records of \<open>types/\<close>.

  \<^bold>\<open>How the code is translated.\<close> A struct is a record, a pointer that may be nil an option, a slice a
  list, a map a partial function; a function with an error result returns \<open>Ok\<close>, \<open>Err\<close> or \<open>Panic\<close>, the
  last for nil dereferences, indexes out of range and explicit panics. State is passed explicitly, and a
  step relation gives the interleavings of the address pool with its goroutines. A \<open>range\<close> over a Go map
  takes the order of the keys as an argument. Strings are byte strings. Words are kept at their width
  where the code wraps (the index, the hashes, \<open>uint64\<close> conversions); block heights, counters and times
  are integers.

  \<^bold>\<open>Loops.\<close> Loops that end are recursive functions with a termination proof. The search for a nonce of
  RFC 6979 and the signing with an unsupported type may not end; they are \<open>partial_function\<close>s, and what depends
  on them returns an option.

  \<^bold>\<open>Interfaces.\<close> The laws of positional notation (\<open>positional\<close>), of the index used by the pool
  (\<open>address_index\<close>), of the seed phrases the pool generates (\<open>seed_phrases\<close>) and of what every request handler
  keeps (\<open>request_invariant\<close>) are locales, interpreted on the definitions of the model.

  \<^bold>\<open>Not under src, and parameters here.\<close> Keccak-256, RIPEMD-160, PBKDF2, badger and badgerhold, gob, the
  Ethereum node behind the JSON-RPC transport, clock and random source.

  \<^bold>\<open>This theory\<close> has the properties that span components: from a block of the chain to the events of the
  listeners.

  \<^bold>\<open>Not modelled.\<close> The reflection-driven RLP decoder and its code generator (the node only encodes), the
  HTTP and IPC transports, the server and its options, configuration files, logging,
  public key recovery, the word lists of other languages.
\<close>

section \<open>From the block to the events\<close>

text \<open>What the watchdog asks the client for: the block with its transactions; a nil block makes it panic.\<close>

definition client_block ::
  "(bytes \<Rightarrow> bytes) \<Rightarrow> int \<Rightarrow> Client \<Rightarrow> Block \<Rightarrow> (wd_error, BlockInfo) res" where
  "client_block keccak now c block =
     (case blockDecode keccak now (\<lambda>_. 0) c block of
        Ok (b, _) \<Rightarrow> Ok b
      | _ \<Rightarrow> Panic)"

lemma processTx_events: "TxEv t \<in> set (processTx known s) \<longleftrightarrow> t = s \<and> (known (From s) \<or> known (To s))"
  by (auto simp: processTx_def)





end
